(* ===== verification/Prelude.thy ===== *)
theory Prelude
  imports Main "HOL-Library.Word" "HOL-Library.State_Monad"
begin

text \<open>
  Shared vocabulary of the development: the machine integer types of the C sources, the
  named collections of rules, a weakest-precondition reading of the state monad in which the
  stateful components are written, and the two generic contracts (a relation kept by every
  state change, an invariant kept by every step) that the components instantiate.
\<close>

unbundle bit_operations_syntax

section \<open>Machine integers\<close>

type_synonym u8 = "8 word"
type_synonym u16 = "16 word"
type_synonym u32 = "32 word"
type_synonym u64 = "64 word"

text \<open>\<open>int16_t\<close> is kept by its bit pattern; only its cast from and to \<open>uint16_t\<close> and its
  comparison with constants occur in the code.\<close>

type_synonym i16 = "16 word"

abbreviation UINT32_MAX :: u32 where
  "UINT32_MAX \<equiv> - 1"

text \<open>\<open>UINT32_MAX - old < units ? UINT32_MAX : old + units\<close>, the saturating addition of the
  credit counters.\<close>

definition sat_add :: "u32 \<Rightarrow> u32 \<Rightarrow> u32" where
  "sat_add old units = (if UINT32_MAX - old < units then UINT32_MAX else old + units)"

lemma unat_max_u32 [simp]: "unat UINT32_MAX = 4294967295"
  by (simp add: unsigned_minus_1_eq_mask mask_eq_exp_minus_1)

lemma unat_u8_less [simp]: "unat (w :: u8) < 256"
  using unsigned_less [of w, where ?'a = nat] by simp

lemma unat_u16_less [simp]: "unat (w :: u16) < 65536"
  using unsigned_less [of w, where ?'a = nat] by simp

lemma unat_u32_less [simp]: "unat (w :: u32) < 4294967296"
  using unsigned_less [of w, where ?'a = nat] by simp

lemma unat_u16_le: "unat (w :: u16) \<le> 65535"
  using unat_u16_less [of w] by linarith

lemma unat_u32_le: "unat (w :: u32) \<le> 4294967295"
  using unat_u32_less [of w] by linarith

lemma unat_ucast_u32_u64: "unat (ucast (w :: u32) :: u64) = unat w"
  proof -
  have "unat w < 2 ^ 64" using unat_u32_less [of w] by (rule less_trans) simp
  then show ?thesis by (simp add: unsigned_ucast_eq take_bit_nat_eq_self del: unat_u32_less)
qed

lemma unat_sat_add: "unat (sat_add a b) = min 4294967295 (unat a + unat b)"
proof -
  have le: "a \<le> UINT32_MAX" by simp
  have sub: "unat (UINT32_MAX - a) = 4294967295 - unat a"
    using unat_sub [OF le] by simp
  have bound: "unat a \<le> 4294967295" "unat b \<le> 4294967295"
    by (rule unat_u32_le)+
  show ?thesis
  proof (cases "UINT32_MAX - a < b")
    case True
    then have "4294967295 - unat a < unat b"
      using sub by (simp add: word_less_nat_alt)
    with True bound show ?thesis by (simp add: sat_add_def)
  next
    case False
    then have le2: "unat a + unat b \<le> 4294967295"
      using sub bound by (simp add: word_less_nat_alt)
    then have "unat (a + b) = unat a + unat b"
      by (simp add: unat_word_ariths)
    with False le2 show ?thesis by (simp add: sat_add_def)
  qed
qed

lemma sat_add_ge: "a \<le> sat_add a b"
  using unat_u32_le [of a] by (simp add: word_le_nat_alt unat_sat_add)

section \<open>Rule collections\<close>

named_theorems wp_simps \<open>weakest preconditions of the monadic operators\<close>
named_theorems wire_consts \<open>constants of the wire format\<close>
named_theorems id_consts \<open>channel, service, method and status numbers\<close>

section \<open>Weakest preconditions for the state monad\<close>

definition wp :: "('s, 'a) state \<Rightarrow> ('a \<Rightarrow> 's \<Rightarrow> bool) \<Rightarrow> 's \<Rightarrow> bool" where
  "wp m Q s = (case run_state m s of (a, t) \<Rightarrow> Q a t)"

lemma wp_return [wp_simps]: "wp (State_Monad.return a) Q s = Q a s"
  by (simp add: wp_def)

lemma wp_bind [wp_simps]: "wp (State_Monad.bind m f) Q s = wp m (\<lambda>a. wp (f a) Q) s"
  by (simp add: wp_def split: prod.splits)

lemma wp_get [wp_simps]: "wp State_Monad.get Q s = Q s s"
  by (simp add: wp_def)

lemma wp_set [wp_simps]: "wp (State_Monad.set t) Q s = Q () t"
  by (simp add: wp_def)

lemma wp_update [wp_simps]: "wp (State_Monad.update f) Q s = Q () (f s)"
  by (simp add: wp_def State_Monad.update_def)

lemma wp_if [wp_simps]: "wp (if b then m else n) Q s = (if b then wp m Q s else wp n Q s)"
  by simp

lemma wp_option [wp_simps]:
  "wp (case x of None \<Rightarrow> m | Some a \<Rightarrow> f a) Q s =
    (case x of None \<Rightarrow> wp m Q s | Some a \<Rightarrow> wp (f a) Q s)"
  by (cases x) auto

lemma wp_prod [wp_simps]: "wp (case p of (a, b) \<Rightarrow> f a b) Q s = (case p of (a, b) \<Rightarrow> wp (f a b) Q s)"
  by (cases p) auto

lemma wp_mono: "wp m Q s \<Longrightarrow> (\<And>a t. Q a t \<Longrightarrow> Q' a t) \<Longrightarrow> wp m Q' s"
  by (auto simp: wp_def split: prod.splits)

lemma wp_conj: "wp m (\<lambda>a t. P a t \<and> Q a t) s \<longleftrightarrow> wp m P s \<and> wp m Q s"
  by (auto simp: wp_def split: prod.splits)

lemma wp_run: "run_state m s = (a, t) \<Longrightarrow> wp m Q s \<Longrightarrow> Q a t"
  by (simp add: wp_def)

lemma wp_snd: "wp m (\<lambda>_. P) s = P (snd (run_state m s))"
  by (simp add: wp_def split: prod.splits)

section \<open>A relation every state change obeys\<close>

text \<open>
  \<open>state_io_rel R m\<close> says that running \<open>m\<close> relates the state before to the state after.
  For a preorder \<open>R\<close> this passes from the parts of a program to the whole: a frame condition
  or an invariant of a component is proved once per primitive and lifted by these rules.
\<close>

locale state_rel =
  fixes R :: "'s \<Rightarrow> 's \<Rightarrow> bool"
  assumes R_refl: "R s s"
    and R_trans: "R s t \<Longrightarrow> R t u \<Longrightarrow> R s u"
begin

lemma rel_return [intro]: "state_io_rel R (State_Monad.return a)"
  by (simp add: state_io_rel_def R_refl)

lemma rel_get [intro]: "state_io_rel R State_Monad.get"
  by (simp add: state_io_rel_def R_refl)

lemma rel_bind:
  assumes "state_io_rel R m" and "\<And>a. state_io_rel R (f a)"
  shows "state_io_rel R (State_Monad.bind m f)"
  using assms unfolding state_io_rel_def
  by (metis (no_types, lifting) R_trans case_prod_beta' run_state_bind)

lemma rel_get_bind:
  assumes "\<And>s. R s (snd (run_state (f s) s))"
  shows "state_io_rel R (State_Monad.bind State_Monad.get f)"
  using assms by (simp add: state_io_rel_def)

lemma rel_update:
  assumes "\<And>s. R s (f s)"
  shows "state_io_rel R (State_Monad.update f)"
  using assms by (simp add: state_io_rel_def State_Monad.update_def)

lemma rel_if:
  assumes "b \<Longrightarrow> state_io_rel R m" and "\<not> b \<Longrightarrow> state_io_rel R n"
  shows "state_io_rel R (if b then m else n)"
  using assms by simp

lemma rel_option:
  assumes "state_io_rel R m" and "\<And>a. state_io_rel R (f a)"
  shows "state_io_rel R (case x of None \<Rightarrow> m | Some a \<Rightarrow> f a)"
  using assms by (cases x) auto

lemma rel_prod:
  assumes "\<And>a b. state_io_rel R (f a b)"
  shows "state_io_rel R (case p of (a, b) \<Rightarrow> f a b)"
  using assms by (cases p) auto

lemma rel_let: "(\<And>a. state_io_rel R (f a)) \<Longrightarrow> state_io_rel R (let a = x in f a)"
  by simp

lemmas rel_intros = rel_return rel_get rel_bind rel_if rel_option rel_prod rel_let

end

section \<open>Reachable states\<close>

inductive reachable :: "('s \<Rightarrow> bool) \<Rightarrow> ('s \<Rightarrow> 's \<Rightarrow> bool) \<Rightarrow> 's \<Rightarrow> bool"
  for init :: "'s \<Rightarrow> bool" and step :: "'s \<Rightarrow> 's \<Rightarrow> bool" where
  reach_init: "init s \<Longrightarrow> reachable init step s"
| reach_step: "reachable init step s \<Longrightarrow> step s t \<Longrightarrow> reachable init step t"

locale step_invariant =
  fixes init :: "'s \<Rightarrow> bool" and step :: "'s \<Rightarrow> 's \<Rightarrow> bool" and I :: "'s \<Rightarrow> bool"
  assumes init_I: "init s \<Longrightarrow> I s"
    and step_I: "step s t \<Longrightarrow> I s \<Longrightarrow> I t"
begin

lemma reachable_I: "reachable init step s \<Longrightarrow> I s"
  by (induction rule: reachable.induct) (auto intro: init_I step_I)

end

end
