(* ===== verification/Memory.thy ===== *)
theory Memory
  imports Prelude
begin

text \<open>
  The byte memory the codec functions work on. A pointer is an address or NULL (\<open>None\<close>);
  a pointer parameter through which the C code returns one value is a cell, \<open>None\<close> for NULL.
  \<open>memmove\<close> is the C library function, correct for overlapping regions.
\<close>

type_synonym mem = "nat \<Rightarrow> u8"
type_synonym ptr = "nat option"

primrec mem_write :: "mem \<Rightarrow> nat \<Rightarrow> u8 list \<Rightarrow> mem" where
  "mem_write m p [] = m"
| "mem_write m p (x # xs) = mem_write (m(p := x)) (p + 1) xs"

definition mem_bytes :: "mem \<Rightarrow> nat \<Rightarrow> nat \<Rightarrow> u8 list" where
  "mem_bytes m p n = map (\<lambda>i. m (p + i)) [0..<n]"

definition memmove :: "mem \<Rightarrow> nat \<Rightarrow> nat \<Rightarrow> nat \<Rightarrow> mem" where
  "memmove m dst src n = (\<lambda>a. if dst \<le> a \<and> a < dst + n then m (src + (a - dst)) else m a)"

text \<open>A buffer of its own: the bytes at address 0, nothing behind them.\<close>

definition buf_mem :: "u8 list \<Rightarrow> mem" where
  "buf_mem bs a = (if a < length bs then bs ! a else 0)"

lemma mem_write_apply:
  "mem_write m p xs a = (if p \<le> a \<and> a < p + length xs then xs ! (a - p) else m a)"
proof (induction xs arbitrary: m p)
  case Nil
  then show ?case by auto
next
  case (Cons x xs)
  have "a - p = Suc (a - Suc p)" if "Suc p \<le> a" using that by simp
  with Cons show ?case by (auto simp: nth_Cons split: nat.splits)
qed

lemma mem_write_append: "mem_write m p (xs @ ys) = mem_write (mem_write m p xs) (p + length xs) ys"
  by (induction xs arbitrary: m p) auto

lemma mem_write_outside: "a < p \<or> p + length xs \<le> a \<Longrightarrow> mem_write m p xs a = m a"
  by (auto simp: mem_write_apply)

lemma length_mem_bytes [simp]: "length (mem_bytes m p n) = n"
  by (simp add: mem_bytes_def)

lemma mem_bytes_Nil_iff [simp]: "mem_bytes m p n = [] \<longleftrightarrow> n = 0"
  by (simp add: mem_bytes_def)

lemma nth_mem_bytes [simp]: "i < n \<Longrightarrow> mem_bytes m p n ! i = m (p + i)"
  by (simp add: mem_bytes_def)

lemma mem_bytes_0 [simp]: "mem_bytes m p 0 = []"
  by (simp add: mem_bytes_def)

lemma mem_bytes_eqI: "(\<And>i. i < n \<Longrightarrow> m (p + i) = m' (p' + i)) \<Longrightarrow> mem_bytes m p n = mem_bytes m' p' n"
  by (simp add: mem_bytes_def)

lemma mem_bytes_add: "mem_bytes m p (n + k) = mem_bytes m p n @ mem_bytes m (p + n) k"
  by (rule nth_equalityI) (auto simp: nth_append)

lemma mem_bytes_Suc: "mem_bytes m p (Suc n) = m p # mem_bytes m (p + 1) n"
  by (rule nth_equalityI) (auto simp: nth_Cons split: nat.splits)

lemma mem_bytes_write [simp]: "n = length xs \<Longrightarrow> mem_bytes (mem_write m p xs) p n = xs"
  by (rule nth_equalityI) (auto simp: mem_write_apply)

lemma mem_bytes_write_disjoint:
  "p + n \<le> q \<or> q + length xs \<le> p \<Longrightarrow> mem_bytes (mem_write m q xs) p n = mem_bytes m p n"
  by (rule nth_equalityI) (auto simp: mem_write_apply)

lemma memmove_write: "memmove m dst src n = mem_write m dst (mem_bytes m src n)"
  by (rule ext) (auto simp: memmove_def mem_write_apply)

lemma take_mem_bytes: "k \<le> n \<Longrightarrow> take k (mem_bytes m p n) = mem_bytes m p k"
  by (rule nth_equalityI) auto

lemma drop_mem_bytes: "drop k (mem_bytes m p n) = mem_bytes m (p + k) (n - k)"
  by (rule nth_equalityI) (auto simp: add.assoc)

lemma mem_bytes_buf_mem: "p + n \<le> length bs \<Longrightarrow> mem_bytes (buf_mem bs) p n = take n (drop p bs)"
  by (rule nth_equalityI) (auto simp: buf_mem_def)

lemma mem_bytes_buf [simp]: "mem_bytes (buf_mem bs) 0 (length bs) = bs"
  by (simp add: mem_bytes_buf_mem)

lemma buf_mem_nth [simp]: "i < length bs \<Longrightarrow> buf_mem bs i = bs ! i"
  by (simp add: buf_mem_def)

lemma mem_write_same: "xs = mem_bytes m p (length xs) \<Longrightarrow> mem_write m p xs = m"
  by (rule ext) (metis add_diff_inverse_nat linorder_not_less mem_write_apply nat_add_left_cancel_less
      nth_mem_bytes)

lemma mem_bytes_nthD: "mem_bytes m p n = bs \<Longrightarrow> i < n \<Longrightarrow> m (p + i) = bs ! i"
  by auto

end
