(* ===== verification/Endian.thy ===== *)
theory Endian
  imports Memory
begin

text \<open>
  The fixed-width little-endian accessors of protocol/src/wire.c and
  protocol/include/wlh/protocol/endian.h: the unchecked readers and writers the codecs use,
  and the public functions that check the supplied span first.
\<close>

section \<open>Unchecked accessors\<close>

definition read_u16_le_unchecked :: "mem \<Rightarrow> nat \<Rightarrow> u16" where
  "read_u16_le_unchecked m p = ucast (m p) OR push_bit 8 (ucast (m (p + 1)))"

definition read_i16_le_unchecked :: "mem \<Rightarrow> nat \<Rightarrow> i16" where
  "read_i16_le_unchecked m p = read_u16_le_unchecked m p"

definition read_u32_le_unchecked :: "mem \<Rightarrow> nat \<Rightarrow> u32" where
  "read_u32_le_unchecked m p =
    ucast (m p) OR push_bit 8 (ucast (m (p + 1))) OR push_bit 16 (ucast (m (p + 2))) OR
    push_bit 24 (ucast (m (p + 3)))"

definition write_u16_le_unchecked :: "mem \<Rightarrow> nat \<Rightarrow> u16 \<Rightarrow> mem" where
  "write_u16_le_unchecked m p v = (m(p := ucast v))(p + 1 := ucast (drop_bit 8 v))"

definition write_i16_le_unchecked :: "mem \<Rightarrow> nat \<Rightarrow> i16 \<Rightarrow> mem" where
  "write_i16_le_unchecked m p v = write_u16_le_unchecked m p v"

definition write_u32_le_unchecked :: "mem \<Rightarrow> nat \<Rightarrow> u32 \<Rightarrow> mem" where
  "write_u32_le_unchecked m p v =
    (((m(p := ucast v))(p + 1 := ucast (drop_bit 8 v)))(p + 2 := ucast (drop_bit 16 v)))
      (p + 3 := ucast (drop_bit 24 v))"

section \<open>Checked accessors\<close>

text \<open>The result is the return code and the output cell, untouched on failure.\<close>

definition wlh_read_u16_le :: "mem \<Rightarrow> ptr \<Rightarrow> nat \<Rightarrow> u16 option \<Rightarrow> int \<times> u16 option" where
  "wlh_read_u16_le m input input_size value = (case input of
      None \<Rightarrow> (-1, value)
    | Some p \<Rightarrow> if value = None \<or> input_size < 2 then (-1, value)
        else (0, Some (read_u16_le_unchecked m p)))"

definition wlh_read_i16_le :: "mem \<Rightarrow> ptr \<Rightarrow> nat \<Rightarrow> i16 option \<Rightarrow> int \<times> i16 option" where
  "wlh_read_i16_le m input input_size value = (case input of
      None \<Rightarrow> (-1, value)
    | Some p \<Rightarrow> if value = None \<or> input_size < 2 then (-1, value)
        else (0, Some (read_i16_le_unchecked m p)))"

definition wlh_read_u32_le :: "mem \<Rightarrow> ptr \<Rightarrow> nat \<Rightarrow> u32 option \<Rightarrow> int \<times> u32 option" where
  "wlh_read_u32_le m input input_size value = (case input of
      None \<Rightarrow> (-1, value)
    | Some p \<Rightarrow> if value = None \<or> input_size < 4 then (-1, value)
        else (0, Some (read_u32_le_unchecked m p)))"

definition wlh_write_u16_le :: "mem \<Rightarrow> ptr \<Rightarrow> nat \<Rightarrow> u16 \<Rightarrow> int \<times> mem" where
  "wlh_write_u16_le m output output_size value = (case output of
      None \<Rightarrow> (-1, m)
    | Some p \<Rightarrow> if output_size < 2 then (-1, m) else (0, write_u16_le_unchecked m p value))"

definition wlh_write_i16_le :: "mem \<Rightarrow> ptr \<Rightarrow> nat \<Rightarrow> i16 \<Rightarrow> int \<times> mem" where
  "wlh_write_i16_le m output output_size value = (case output of
      None \<Rightarrow> (-1, m)
    | Some p \<Rightarrow> if output_size < 2 then (-1, m) else (0, write_i16_le_unchecked m p value))"

definition wlh_write_u32_le :: "mem \<Rightarrow> ptr \<Rightarrow> nat \<Rightarrow> u32 \<Rightarrow> int \<times> mem" where
  "wlh_write_u32_le m output output_size value = (case output of
      None \<Rightarrow> (-1, m)
    | Some p \<Rightarrow> if output_size < 4 then (-1, m) else (0, write_u32_le_unchecked m p value))"

section \<open>The contract of an accessor pair\<close>

text \<open>
  What the codecs rely on: a width, the byte form of a value, a writer that stores exactly
  that form and a reader that inverts it.
\<close>

locale le_codec =
  fixes rd :: "mem \<Rightarrow> nat \<Rightarrow> 'v" and wr :: "mem \<Rightarrow> nat \<Rightarrow> 'v \<Rightarrow> mem"
    and enc :: "'v \<Rightarrow> u8 list" and dec :: "u8 list \<Rightarrow> 'v" and width :: nat
  assumes wr_bytes: "wr m p v = mem_write m p (enc v)"
    and rd_bytes: "rd m p = dec (mem_bytes m p width)"
    and enc_length: "length (enc v) = width"
    and dec_enc: "dec (enc v) = v"
    and enc_dec: "length bs = width \<Longrightarrow> enc (dec bs) = bs"
begin

lemma rd_wr: "rd (wr m p v) p = v"
  by (simp add: wr_bytes rd_bytes enc_length dec_enc)

lemma rd_wr_disjoint: "p + width \<le> q \<or> q + width \<le> p \<Longrightarrow> rd (wr m q v) p = rd m p"
  by (simp add: wr_bytes rd_bytes enc_length mem_bytes_write_disjoint)

lemma wr_frame: "a < p \<or> p + width \<le> a \<Longrightarrow> wr m p v a = m a"
  by (simp add: wr_bytes enc_length mem_write_outside)

lemma enc_rd: "enc (rd m p) = mem_bytes m p width"
  by (simp add: rd_bytes enc_dec)

lemma wr_rd: "wr m p (rd m p) = m"
  by (simp add: wr_bytes enc_rd mem_write_same)

lemma rd_local: "mem_bytes m p width = mem_bytes m' p' width \<Longrightarrow> rd m p = rd m' p'"
  by (simp add: rd_bytes)

lemma rd_enc: "mem_bytes m p width = enc v \<Longrightarrow> rd m p = v"
  by (simp add: rd_bytes dec_enc)

lemma enc_inj: "enc v = enc w \<Longrightarrow> v = w"
  by (metis dec_enc)

end

section \<open>Byte forms\<close>

definition u16_bytes :: "u16 \<Rightarrow> u8 list" where
  "u16_bytes v = [ucast v, ucast (drop_bit 8 v)]"

definition u32_bytes :: "u32 \<Rightarrow> u8 list" where
  "u32_bytes v =
    [ucast v, ucast (drop_bit 8 v), ucast (drop_bit 16 v), ucast (drop_bit 24 v)]"

fun bytes_u16 :: "u8 list \<Rightarrow> u16" where
  "bytes_u16 [a, b] = ucast a OR push_bit 8 (ucast b)"
| "bytes_u16 _ = 0"

fun bytes_u32 :: "u8 list \<Rightarrow> u32" where
  "bytes_u32 [a, b, c, d] =
    ucast a OR push_bit 8 (ucast b) OR push_bit 16 (ucast c) OR push_bit 24 (ucast d)"
| "bytes_u32 _ = 0"

lemma length_u16_bytes [simp]: "length (u16_bytes v) = 2"
  by (simp add: u16_bytes_def)

lemma length_u32_bytes [simp]: "length (u32_bytes v) = 4"
  by (simp add: u32_bytes_def)

lemma length_2E: "length xs = 2 \<Longrightarrow> \<exists>a b. xs = [a, b]"
  by (auto simp: numeral_2_eq_2 length_Suc_conv)

lemma length_4E: "length xs = 4 \<Longrightarrow> \<exists>a b c d. xs = [a, b, c, d]"
  by (auto simp: eval_nat_numeral length_Suc_conv)

lemma bit_u8_le: "8 \<le> n \<Longrightarrow> \<not> bit (b :: u8) n"
  using bit_imp_le_length [of b n] by auto

lemma bytes_u16_u16_bytes [simp]: "bytes_u16 (u16_bytes v) = v"
proof (rule bit_word_eqI)
  fix n
  assume "n < LENGTH(16)"
  then show "bit (bytes_u16 (u16_bytes v)) n = bit v n"
    by (cases "8 \<le> n") (auto simp: u16_bytes_def bit_simps bit_u8_le)
qed

lemma bytes_u32_u32_bytes [simp]: "bytes_u32 (u32_bytes v) = v"
proof (rule bit_word_eqI)
  fix n
  assume "n < LENGTH(32)"
  then show "bit (bytes_u32 (u32_bytes v)) n = bit v n"
    by (cases "8 \<le> n"; cases "16 \<le> n"; cases "24 \<le> n")
      (auto simp: u32_bytes_def bit_simps bit_u8_le)
qed

lemma u16_bytes_bytes_u16: "length bs = 2 \<Longrightarrow> u16_bytes (bytes_u16 bs) = bs"
  by (drule length_2E) (auto simp: u16_bytes_def bit_simps bit_u8_le intro!: bit_word_eqI)

lemma u32_bytes_bytes_u32: "length bs = 4 \<Longrightarrow> u32_bytes (bytes_u32 bs) = bs"
  by (drule length_4E) (auto simp: u32_bytes_def bit_simps bit_u8_le intro!: bit_word_eqI)

lemma mem_bytes_2: "mem_bytes m p 2 = [m p, m (p + 1)]"
  by (simp add: numeral_2_eq_2 mem_bytes_Suc)

lemma mem_bytes_4: "mem_bytes m p 4 = [m p, m (p + 1), m (p + 2), m (p + 3)]"
  by (simp add: eval_nat_numeral mem_bytes_Suc)

lemma write_u16_bytes: "write_u16_le_unchecked m p v = mem_write m p (u16_bytes v)"
  by (simp add: write_u16_le_unchecked_def u16_bytes_def)

lemma read_u16_bytes: "read_u16_le_unchecked m p = bytes_u16 (mem_bytes m p 2)"
  by (simp add: read_u16_le_unchecked_def mem_bytes_2)

lemma write_u32_bytes: "write_u32_le_unchecked m p v = mem_write m p (u32_bytes v)"
  by (simp add: write_u32_le_unchecked_def u32_bytes_def numeral_3_eq_3)

lemma read_u32_bytes: "read_u32_le_unchecked m p = bytes_u32 (mem_bytes m p 4)"
  by (simp add: read_u32_le_unchecked_def mem_bytes_4)

interpretation le16: le_codec read_u16_le_unchecked write_u16_le_unchecked u16_bytes bytes_u16 2
  by unfold_locales (simp_all add: write_u16_bytes read_u16_bytes u16_bytes_bytes_u16)

interpretation lei16: le_codec read_i16_le_unchecked write_i16_le_unchecked u16_bytes bytes_u16 2
  by unfold_locales
    (simp_all add: read_i16_le_unchecked_def write_i16_le_unchecked_def write_u16_bytes
      read_u16_bytes u16_bytes_bytes_u16)

interpretation le32: le_codec read_u32_le_unchecked write_u32_le_unchecked u32_bytes bytes_u32 4
  by unfold_locales (simp_all add: write_u32_bytes read_u32_bytes u32_bytes_bytes_u32)

end
