(* ===== verification/Checksum.thy ===== *)
theory Checksum
  imports Endian
begin

text \<open>
  The two payload checksums of protocol/src/wire.c, SUM32 and CRC-32C, as the loops of the code
  over the memory, their list forms, and the contract the frame codec relies on: a checksum
  changes whenever one byte changes.
\<close>

section \<open>SUM32\<close>

text \<open>
  \<open>wlh_sum32\<close>: the first loop adds whole little-endian words (the portable branch of the
  conditional compilation; the little-endian branch loads the same value with \<open>memcpy\<close>), the
  second collects the remaining bytes into one word.
\<close>

function sum32_words :: "mem \<Rightarrow> nat \<Rightarrow> nat \<Rightarrow> nat \<Rightarrow> u32 \<Rightarrow> nat \<times> u32" where
  "sum32_words m data n i acc =
    (if 4 \<le> n - i
     then sum32_words m data n (i + 4)
       (acc + (ucast (m (data + i)) OR push_bit 8 (ucast (m (data + i + 1))) OR
         push_bit 16 (ucast (m (data + i + 2))) OR push_bit 24 (ucast (m (data + i + 3)))))
     else (i, acc))"
  by pat_completeness auto
termination
  by (relation "measure (\<lambda>(m, data, n, i, acc). n - i)") auto

function sum32_tail :: "mem \<Rightarrow> nat \<Rightarrow> nat \<Rightarrow> nat \<Rightarrow> nat \<Rightarrow> u32 \<Rightarrow> u32" where
  "sum32_tail m data n i shift tail =
    (if i < n
     then sum32_tail m data n (i + 1) (shift + 8) (tail OR push_bit shift (ucast (m (data + i))))
     else tail)"
  by pat_completeness auto
termination
  by (relation "measure (\<lambda>(m, data, n, i, shift, tail). n - i)") auto

declare sum32_words.simps [simp del] sum32_tail.simps [simp del]

definition wlh_sum32 :: "mem \<Rightarrow> ptr \<Rightarrow> nat \<Rightarrow> u32" where
  "wlh_sum32 m data n = (case data of
      None \<Rightarrow> 0
    | Some p \<Rightarrow> (case sum32_words m p n 0 0 of (i, acc) \<Rightarrow>
        if i < n then acc + sum32_tail m p n i 0 0 else acc))"

section \<open>CRC-32C\<close>

definition crc32c_bit :: "u32 \<Rightarrow> u32" where
  "crc32c_bit crc = (let mask = - (crc AND 1) in drop_bit 1 crc XOR (0x82f63b78 AND mask))"

definition crc32c_byte :: "u32 \<Rightarrow> u8 \<Rightarrow> u32" where
  "crc32c_byte crc b = (crc32c_bit ^^ 8) (crc XOR ucast b)"

function crc32c_loop :: "mem \<Rightarrow> nat \<Rightarrow> nat \<Rightarrow> nat \<Rightarrow> u32 \<Rightarrow> u32" where
  "crc32c_loop m data n i crc =
    (if i < n then crc32c_loop m data n (i + 1) (crc32c_byte crc (m (data + i))) else crc)"
  by pat_completeness auto
termination
  by (relation "measure (\<lambda>(m, data, n, i, crc). n - i)") auto

declare crc32c_loop.simps [simp del]

definition wlh_crc32c :: "mem \<Rightarrow> ptr \<Rightarrow> nat \<Rightarrow> u32" where
  "wlh_crc32c m data n = (case data of
      None \<Rightarrow> if n \<noteq> 0 then 0 else NOT 0xffffffff
    | Some p \<Rightarrow> NOT (crc32c_loop m p n 0 0xffffffff))"

section \<open>List forms\<close>

fun sum32_bytes :: "u8 list \<Rightarrow> u32" where
  "sum32_bytes (a # b # c # d # xs) = bytes_u32 [a, b, c, d] + sum32_bytes xs"
| "sum32_bytes [a, b, c] = bytes_u32 [a, b, c, 0]"
| "sum32_bytes [a, b] = bytes_u32 [a, b, 0, 0]"
| "sum32_bytes [a] = bytes_u32 [a, 0, 0, 0]"
| "sum32_bytes [] = 0"

definition crc32c_bytes :: "u8 list \<Rightarrow> u32" where
  "crc32c_bytes bs = NOT (foldl crc32c_byte 0xffffffff bs)"

lemma crc32c_loop_foldl:
  "crc32c_loop m p n i crc = foldl crc32c_byte crc (mem_bytes m (p + i) (n - i))"
proof (induction m p n i crc rule: crc32c_loop.induct)
  case (1 m p n i crc)
  show ?case
  proof (cases "i < n")
    case True
    then have "n - i = Suc (n - Suc i)" by simp
    with True 1 show ?thesis
      by (subst crc32c_loop.simps) (simp add: mem_bytes_Suc)
  next
    case False
    then show ?thesis by (subst crc32c_loop.simps) simp
  qed
qed

lemma wlh_crc32c_bytes: "wlh_crc32c m (Some p) n = crc32c_bytes (mem_bytes m p n)"
  by (simp add: wlh_crc32c_def crc32c_bytes_def crc32c_loop_foldl)

lemma sum32_words_step:
  "i + 4 \<le> n \<Longrightarrow> sum32_words m p n i s =
    sum32_words m p n (i + 4) (s + bytes_u32 (mem_bytes m (p + i) 4))"
proof -
  assume "i + 4 \<le> n"
  then have "4 \<le> n - i" by arith
  then show ?thesis by (subst sum32_words.simps) (simp add: mem_bytes_4 add.assoc)
qed

lemma sum32_words_stop: "\<not> i + 4 \<le> n \<Longrightarrow> sum32_words m p n i s = (i, s)"
proof -
  assume "\<not> i + 4 \<le> n"
  then have "\<not> 4 \<le> n - i" by arith
  then show ?thesis by (subst sum32_words.simps) simp
qed

lemma sum32_tail_step:
  "i < n \<Longrightarrow> sum32_tail m p n i sh t =
    sum32_tail m p n (i + 1) (sh + 8) (t OR push_bit sh (ucast (m (p + i))))"
  by (subst sum32_tail.simps) simp

lemma sum32_tail_stop: "sum32_tail m p n n sh t = t"
  by (subst sum32_tail.simps) simp

lemma sum32_tail_bytes:
  assumes "i < n" and "n < i + 4"
  shows "sum32_tail m p n i 0 0 = sum32_bytes (mem_bytes m (p + i) (n - i))"
proof -
  from assms consider "n = i + 1" | "n = i + 2" | "n = i + 3" by linarith
  then show ?thesis
    by cases (simp_all add: sum32_tail_step sum32_tail_stop mem_bytes_Suc numeral_2_eq_2
        numeral_3_eq_3 or.assoc)
qed

lemma sum32_words_bytes:
  "sum32_words m p n i s = (j, t) \<Longrightarrow> i \<le> n \<Longrightarrow>
    (if j < n then t + sum32_tail m p n j 0 0 else t) =
    s + sum32_bytes (mem_bytes m (p + i) (n - i))"
proof (induction "n - i" arbitrary: i s rule: less_induct)
  case less
  show ?case
  proof (cases "i + 4 \<le> n")
    case True
    then have split: "n - i = 4 + (n - (i + 4))" by simp
    have "mem_bytes m (p + i) (n - i) =
      m (p + i) # m (p + i + 1) # m (p + i + 2) # m (p + i + 3) #
      mem_bytes m (p + (i + 4)) (n - (i + 4))"
      unfolding split mem_bytes_add mem_bytes_4 by (simp add: add.assoc)
    moreover have "sum32_words m p n (i + 4) (s + bytes_u32 (mem_bytes m (p + i) 4)) = (j, t)"
      using less.prems(1) sum32_words_step [OF True] by simp
    ultimately show ?thesis
      using less.hyps [of "i + 4"] True by (simp add: mem_bytes_4 add.assoc)
  next
    case False
    then have "j = i" "t = s" using less.prems(1) sum32_words_stop [OF False] by auto
    with False less.prems show ?thesis by (auto simp: sum32_tail_bytes)
  qed
qed

lemma wlh_sum32_bytes: "wlh_sum32 m (Some p) n = sum32_bytes (mem_bytes m p n)"
  using sum32_words_bytes [of m p n 0 0]
  by (simp add: wlh_sum32_def split: prod.split)

section \<open>SUM32 as an arithmetic sum\<close>

text \<open>
  The documented checksum: the data read as little-endian 32-bit words, the last one padded with
  zero bytes, added modulo \<open>2 ^ 32\<close>; byte \<open>i\<close> has weight \<open>256 ^ (i mod 4)\<close>.
\<close>

definition sum32_spec :: "u8 list \<Rightarrow> nat" where
  "sum32_spec bs = (\<Sum>i<length bs. unat (bs ! i) * 256 ^ (i mod 4))"

lemma bytes_u32_of_nat:
  "bytes_u32 [a, b, c, d] =
    of_nat (unat a + unat b * 256 + unat c * 65536 + unat d * 16777216)"
proof -
  let ?a = "ucast a :: u32" and ?b = "push_bit 8 (ucast b) :: u32"
    and ?c = "push_bit 16 (ucast c) :: u32" and ?d = "push_bit 24 (ucast d) :: u32"
  have "?a OR (?b OR (?c OR ?d)) = ?a + (?b OR (?c OR ?d))"
    by (rule disjunctive_add [symmetric]) (auto simp: bit_simps bit_u8_le)
  moreover have "?b OR (?c OR ?d) = ?b + (?c OR ?d)"
    by (rule disjunctive_add [symmetric]) (auto simp: bit_simps bit_u8_le)
  moreover have "?c OR ?d = ?c + ?d"
    by (rule disjunctive_add [symmetric]) (auto simp: bit_simps bit_u8_le)
  ultimately have "bytes_u32 [a, b, c, d] = ?a + (?b + (?c + ?d))"
    by (simp only: bytes_u32.simps or.assoc)
  then show ?thesis by (simp add: push_bit_eq_mult)
qed

lemma mod4_shift: "Suc (Suc (Suc (Suc i))) mod 4 = i mod 4"
  by presburger

lemma sum32_spec_Cons4:
  "sum32_spec (a # b # c # d # xs) =
    unat a + unat b * 256 + unat c * 65536 + unat d * 16777216 + sum32_spec xs"
  by (simp add: sum32_spec_def sum.lessThan_Suc_shift mod4_shift del: sum.lessThan_Suc)

lemma sum32_bytes_spec: "sum32_bytes bs = of_nat (sum32_spec bs)"
  by (induction bs rule: sum32_bytes.induct)
    (simp_all only: sum32_bytes.simps bytes_u32_of_nat sum32_spec_Cons4 of_nat_add,
      simp_all add: sum32_spec_def sum.lessThan_Suc_shift)

section \<open>CRC-32C bit by bit\<close>

text \<open>
  The textbook serial CRC: a reflected shift register that takes the message one bit at a time,
  least significant bit of each byte first, and is reduced by the Castagnoli polynomial whenever
  the bit shifted out differs from the message bit.
\<close>

definition crc_shift :: "u32 \<Rightarrow> bool \<Rightarrow> u32" where
  "crc_shift s b = drop_bit 1 s XOR (if bit s 0 \<noteq> b then 0x82f63b78 else 0)"

definition bits_of_byte :: "u8 \<Rightarrow> bool list" where
  "bits_of_byte b = map (bit b) [0..<8]"

definition crc32c_spec :: "u8 list \<Rightarrow> u32" where
  "crc32c_spec bs = NOT (foldl crc_shift 0xffffffff (concat (map bits_of_byte bs)))"

lemma crc32c_bit_shift: "crc32c_bit s = crc_shift s False"
proof (cases "bit s 0")
  case True
  then have "s AND 1 = 1" by (simp add: and_one_eq bit_0 odd_iff_mod_2_eq_one)
  with True show ?thesis by (simp add: crc32c_bit_def crc_shift_def)
next
  case False
  then have "s AND 1 = 0" by (simp add: and_one_eq bit_0 even_iff_mod_2_eq_zero)
  with False show ?thesis by (simp add: crc32c_bit_def crc_shift_def)
qed

lemma crc_shift_xor: "crc_shift (s XOR t) False = crc_shift s (bit t 0) XOR drop_bit 1 t"
  by (rule bit_word_eqI) (auto simp: crc_shift_def bit_simps)

text \<open>XORing a byte in and shifting eight times is feeding its eight bits.\<close>

lemma crc_shift_power:
  "(crc32c_bit ^^ k) (s XOR t) =
    foldl crc_shift s (map (bit t) [0..<k]) XOR drop_bit k t"
proof (induction k)
  case 0
  then show ?case by simp
next
  case (Suc k)
  have "(crc32c_bit ^^ Suc k) (s XOR t) =
    crc_shift (foldl crc_shift s (map (bit t) [0..<k]) XOR drop_bit k t) False"
    unfolding funpow.simps o_apply Suc.IH by (rule crc32c_bit_shift)
  also have "\<dots> = crc_shift (foldl crc_shift s (map (bit t) [0..<k])) (bit t k) XOR drop_bit (Suc k) t"
    by (simp add: crc_shift_xor bit_drop_bit_eq drop_bit_Suc drop_bit_half)
  finally show ?case by simp
qed

lemma crc32c_byte_bits: "crc32c_byte s b = foldl crc_shift s (bits_of_byte b)"
proof -
  have "drop_bit 8 (ucast b :: u32) = 0"
    by (rule bit_word_eqI) (simp add: bit_simps bit_u8_le)
  moreover have "map (bit (ucast b :: u32)) [0..<8] = map (bit b) [0..<8]"
    by (simp add: bit_simps)
  ultimately show ?thesis
    using crc_shift_power [of 8 s "ucast b"]
    by (simp only: crc32c_byte_def bits_of_byte_def xor.right_neutral)
qed

lemma crc32c_bytes_spec: "crc32c_bytes bs = crc32c_spec bs"
proof -
  have "foldl crc32c_byte s bs = foldl crc_shift s (concat (map bits_of_byte bs))" for s
    by (induction bs arbitrary: s) (simp_all add: crc32c_byte_bits)
  then show ?thesis by (simp add: crc32c_bytes_def crc32c_spec_def)
qed

section \<open>A checksum notices a changed byte\<close>

locale byte_sensitive =
  fixes csum :: "u8 list \<Rightarrow> u32"
  assumes detects: "i < length bs \<Longrightarrow> x \<noteq> bs ! i \<Longrightarrow> csum (bs[i := x]) \<noteq> csum bs"
begin

lemma one_change:
  assumes len: "length bs = length cs" and diff: "\<And>j. j < length bs \<Longrightarrow> j \<noteq> i \<Longrightarrow> bs ! j = cs ! j"
    and eq: "csum bs = csum cs"
  shows "bs = cs"
proof (cases "i < length bs")
  case True
  have cs: "cs = bs[i := cs ! i]"
  proof (rule nth_equalityI)
    show "cs ! j = bs[i := cs ! i] ! j" if "j < length cs" for j
      using that len diff [of j] by (cases "j = i") auto
  qed (simp add: len)
  with True eq have "cs ! i = bs ! i" using detects by metis
  with cs show ?thesis by simp
next
  case False
  then show ?thesis using len diff by (auto intro: nth_equalityI)
qed

end

lemma sum32_spec_update:
  assumes "i < length bs"
  shows "sum32_spec (bs[i := x]) + unat (bs ! i) * 256 ^ (i mod 4) =
    sum32_spec bs + unat x * 256 ^ (i mod 4)"
proof -
  have split: "sum32_spec cs = unat (cs ! i) * 256 ^ (i mod 4) +
      (\<Sum>j \<in> {..<length bs} - {i}. unat (cs ! j) * 256 ^ (j mod 4))"
    if "length cs = length bs" for cs
    using assms that unfolding sum32_spec_def
    by (simp add: sum.remove [of "{..<length bs}" i])
  have "(\<Sum>j \<in> {..<length bs} - {i}. unat (bs[i := x] ! j) * 256 ^ (j mod 4)) =
      (\<Sum>j \<in> {..<length bs} - {i}. unat (bs ! j) * 256 ^ (j mod 4))"
    by (rule sum.cong) auto
  then show ?thesis using assms split [of bs] split [of "bs[i := x]"] by simp
qed

lemma weight_mod_cancel:
  fixes p q k c :: nat
  assumes "p < 256" and "q < 256" and "k < 4"
    and "(of_nat (s + p * 256 ^ k) :: u32) = of_nat (s + q * 256 ^ k)"
  shows "p = q"
proof -
  have "(of_nat (p * 256 ^ k) :: u32) = of_nat (q * 256 ^ k)"
    using assms(4) by simp
  then have eq: "(p * 256 ^ k) mod 4294967296 = (q * 256 ^ k) mod 4294967296"
    by (simp add: word_of_nat_eq_iff take_bit_eq_mod del: of_nat_mult of_nat_power)
  have le: "(256 :: nat) ^ k \<le> 256 ^ 3"
    using assms(3) by (intro power_increasing) auto
  have "n * 256 ^ k < 4294967296" if "n < 256" for n :: nat
  proof -
    have "n * 256 ^ k \<le> 255 * 256 ^ 3" using that le by (intro mult_mono) auto
    then show ?thesis by simp
  qed
  with eq assms(1,2) show ?thesis by simp
qed

interpretation sum32: byte_sensitive sum32_bytes
proof
  fix i x and bs :: "u8 list"
  assume i: "i < length bs" and x: "x \<noteq> bs ! i"
  show "sum32_bytes (bs[i := x]) \<noteq> sum32_bytes bs"
  proof
    assume "sum32_bytes (bs[i := x]) = sum32_bytes bs"
    then have "(of_nat (sum32_spec (bs[i := x]) + unat (bs ! i) * 256 ^ (i mod 4)) :: u32) =
      of_nat (sum32_spec bs + unat (bs ! i) * 256 ^ (i mod 4))"
      by (simp add: sum32_bytes_spec)
    then have "unat x = unat (bs ! i)"
      unfolding sum32_spec_update [OF i] by (rule weight_mod_cancel [rotated 3]) auto
    with x show False by (simp add: word_unat_eq_iff)
  qed
qed

lemma crc_shift_inj:
  assumes "crc_shift s b = crc_shift t b"
  shows "s = t"
proof -
  have top: "bit (crc_shift u b) 31 \<longleftrightarrow> bit u 0 \<noteq> b" for u
    using bit_imp_le_length [of u 32] by (auto simp: crc_shift_def bit_simps)
  have low: "bit s 0 = bit t 0" using assms top by metis
  let ?k = "if bit s 0 \<noteq> b then 0x82f63b78 else 0 :: u32"
  have "drop_bit 1 s = crc_shift s b XOR ?k" by (simp add: crc_shift_def xor.assoc)
  also have "\<dots> = drop_bit 1 t" using assms low by (simp add: crc_shift_def xor.assoc)
  finally have high: "bit s (Suc n) = bit t (Suc n)" for n
    by (metis bit_drop_bit_eq add.commute o_apply plus_1_eq_Suc)
  show ?thesis
  proof (rule bit_word_eqI)
    show "bit s n = bit t n" for n using low high by (cases n) auto
  qed
qed

lemma crc_shift_bit_inj: "crc_shift s b = crc_shift s c \<Longrightarrow> b = c"
proof -
  assume eq: "crc_shift s b = crc_shift s c"
  have top: "bit (crc_shift s b) 31 \<longleftrightarrow> bit s 0 \<noteq> b" for b
    using bit_imp_le_length [of s 32] by (auto simp: crc_shift_def bit_simps)
  from eq top [of b] top [of c] show ?thesis by auto
qed

lemma crc32c_bit_power_inj: "(crc32c_bit ^^ k) s = (crc32c_bit ^^ k) t \<Longrightarrow> s = t"
  by (induction k) (auto simp: crc32c_bit_shift dest: crc_shift_inj)

lemma xor_right_cancel: "(x :: u32) XOR y = x XOR z \<longleftrightarrow> y = z"
  by (metis xor.assoc xor.left_neutral xor_self_eq)

lemma crc32c_byte_inj: "crc32c_byte s b = crc32c_byte t b \<Longrightarrow> s = t"
  unfolding crc32c_byte_def
  by (drule crc32c_bit_power_inj) (metis xor.commute xor_right_cancel)

lemma ucast_u8_inj: "(ucast (b :: u8) :: u32) = ucast c \<Longrightarrow> b = c"
proof (rule bit_word_eqI)
  fix n
  assume eq: "(ucast b :: u32) = ucast c" and "n < LENGTH(8)"
  then have "bit (ucast b :: u32) n = bit (ucast c :: u32) n" by simp
  with \<open>n < LENGTH(8)\<close> show "bit b n = bit c n" by (simp add: bit_simps)
qed

lemma crc32c_byte_inj_byte: "crc32c_byte s b = crc32c_byte s c \<Longrightarrow> b = c"
  unfolding crc32c_byte_def
  by (drule crc32c_bit_power_inj) (auto simp: xor_right_cancel dest: ucast_u8_inj)

lemma foldl_crc32c_inj: "foldl crc32c_byte s bs = foldl crc32c_byte t bs \<Longrightarrow> s = t"
  by (induction bs arbitrary: s t) (auto dest: crc32c_byte_inj)

interpretation crc32c: byte_sensitive crc32c_bytes
proof
  fix i x and bs :: "u8 list"
  assume i: "i < length bs" and x: "x \<noteq> bs ! i"
  show "crc32c_bytes (bs[i := x]) \<noteq> crc32c_bytes bs"
  proof
    let ?s = "foldl crc32c_byte 0xffffffff (take i bs)"
    assume "crc32c_bytes (bs[i := x]) = crc32c_bytes bs"
    then have "foldl crc32c_byte 0xffffffff (take i bs @ x # drop (Suc i) bs) =
        foldl crc32c_byte 0xffffffff (take i bs @ bs ! i # drop (Suc i) bs)"
      using i by (simp add: crc32c_bytes_def upd_conv_take_nth_drop id_take_nth_drop [symmetric])
    then have "crc32c_byte ?s x = crc32c_byte ?s (bs ! i)"
      by (auto dest: foldl_crc32c_inj)
    with x show False by (auto dest: crc32c_byte_inj_byte)
  qed
qed

end
