(* ===== verification/Frame_Codec.thy ===== *)
theory Frame_Codec
  imports Checksum
begin

text \<open>
  The link frame of protocol/src/wire.c: header validation, encoding into and decoding from a
  memory, and the byte string a frame stands for. The codec keeps the order of the code's
  checks and memory accesses, so what happens when the payload overlaps the output buffer is a
  theorem and not an assumption.
\<close>

section \<open>Constants and data\<close>

datatype wire_result =
    WLH_WIRE_END
  | WLH_WIRE_OK
  | WLH_WIRE_INVALID_ARGUMENT
  | WLH_WIRE_BUFFER_TOO_SMALL
  | WLH_WIRE_TRUNCATED
  | WLH_WIRE_INVALID_MAGIC
  | WLH_WIRE_UNSUPPORTED_VERSION
  | WLH_WIRE_INVALID_HEADER_SIZE
  | WLH_WIRE_INVALID_FLAGS
  | WLH_WIRE_INVALID_LENGTH
  | WLH_WIRE_CHECKSUM_MISMATCH
  | WLH_WIRE_INVALID_RPC

definition WLH_FRAME_MAGIC :: u16 where [wire_consts]: "WLH_FRAME_MAGIC = 0x4c57"
definition WLH_PROTOCOL_MAJOR :: u8 where [wire_consts]: "WLH_PROTOCOL_MAJOR = 1"
definition WLH_FRAME_HEADER_SIZE :: nat where [wire_consts]: "WLH_FRAME_HEADER_SIZE = 24"
definition WLH_FRAME_MAX_PAYLOAD :: nat where [wire_consts]: "WLH_FRAME_MAX_PAYLOAD = 65535"
definition WLH_FRAME_MAX_SIZE :: nat where [wire_consts]: "WLH_FRAME_MAX_SIZE = 65559"
definition WLH_FRAME_FLAG_CRC32C_PRESENT :: u8 where
  [wire_consts]: "WLH_FRAME_FLAG_CRC32C_PRESENT = 1"
definition WLH_FRAME_FLAG_AGGREGATED :: u8 where [wire_consts]: "WLH_FRAME_FLAG_AGGREGATED = 2"
definition WLH_FRAME_FLAGS_MASK :: u8 where [wire_consts]: "WLH_FRAME_FLAGS_MASK = 3"

record frame_header =
  fh_magic :: u16
  fh_protocol_major :: u8
  fh_header_size :: u8
  fh_channel :: u8
  fh_flags :: u8
  fh_payload_size :: u16
  fh_session_id :: u32
  fh_sequence :: u32
  fh_header_checksum :: u32
  fh_payload_checksum :: u32

section \<open>The code\<close>

definition frame_checksum :: "mem \<Rightarrow> ptr \<Rightarrow> nat \<Rightarrow> u8 \<Rightarrow> u32" where
  "frame_checksum m data n flags =
    (if flags AND WLH_FRAME_FLAG_CRC32C_PRESENT \<noteq> 0 then wlh_crc32c m data n
     else wlh_sum32 m data n)"

definition wlh_frame_header_validate :: "frame_header option \<Rightarrow> wire_result" where
  "wlh_frame_header_validate header = (case header of
      None \<Rightarrow> WLH_WIRE_INVALID_ARGUMENT
    | Some h \<Rightarrow>
        if fh_magic h \<noteq> WLH_FRAME_MAGIC then WLH_WIRE_INVALID_MAGIC
        else if fh_protocol_major h \<noteq> WLH_PROTOCOL_MAJOR then WLH_WIRE_UNSUPPORTED_VERSION
        else if unat (fh_header_size h) \<noteq> WLH_FRAME_HEADER_SIZE then WLH_WIRE_INVALID_HEADER_SIZE
        else if fh_flags h AND NOT WLH_FRAME_FLAGS_MASK \<noteq> 0 then WLH_WIRE_INVALID_FLAGS
        else WLH_WIRE_OK)"

text \<open>\<open>wlh_frame_header_init\<close>: the cleared header with the fixed fields set (the NULL
  case has no effect).\<close>

definition wlh_frame_header_init :: "u8 \<Rightarrow> frame_header" where
  "wlh_frame_header_init channel =
    \<lparr>fh_magic = WLH_FRAME_MAGIC, fh_protocol_major = WLH_PROTOCOL_MAJOR,
     fh_header_size = of_nat WLH_FRAME_HEADER_SIZE, fh_channel = channel, fh_flags = 0,
     fh_payload_size = 0, fh_session_id = 0, fh_sequence = 0, fh_header_checksum = 0,
     fh_payload_checksum = 0\<rparr>"

definition wlh_frame_encode ::
  "mem \<Rightarrow> ptr \<Rightarrow> nat \<Rightarrow> nat option \<Rightarrow> frame_header option \<Rightarrow> ptr \<Rightarrow> nat \<Rightarrow>
    wire_result \<times> nat option \<times> mem" where
  "wlh_frame_encode m output output_capacity output_size header payload payload_size =
    (case (output, output_size, header) of
      (Some out, Some _, Some h) \<Rightarrow>
        if payload = None \<and> payload_size \<noteq> 0
        then (WLH_WIRE_INVALID_ARGUMENT, output_size, m)
        else
          let result = wlh_frame_header_validate (Some h) in
          if result \<noteq> WLH_WIRE_OK then (result, Some 0, m)
          else if payload_size > WLH_FRAME_MAX_PAYLOAD then (WLH_WIRE_INVALID_LENGTH, Some 0, m)
          else
            let encoded_size = WLH_FRAME_HEADER_SIZE + payload_size in
            if output_capacity < encoded_size then (WLH_WIRE_BUFFER_TOO_SMALL, Some 0, m)
            else
              let payload_checksum = frame_checksum m payload payload_size (fh_flags h);
                  m = (case payload of
                        None \<Rightarrow> m
                      | Some src \<Rightarrow> if payload_size \<noteq> 0
                          then memmove m (out + WLH_FRAME_HEADER_SIZE) src payload_size else m);
                  m = write_u16_le_unchecked m (out + 0) (fh_magic h);
                  m = m(out + 2 := fh_protocol_major h);
                  m = m(out + 3 := fh_header_size h);
                  m = m(out + 4 := fh_channel h);
                  m = m(out + 5 := fh_flags h);
                  m = write_u16_le_unchecked m (out + 6) (of_nat payload_size);
                  m = write_u32_le_unchecked m (out + 8) (fh_session_id h);
                  m = write_u32_le_unchecked m (out + 12) (fh_sequence h);
                  m = write_u32_le_unchecked m (out + 16) 0;
                  m = write_u32_le_unchecked m (out + 20) payload_checksum;
                  header_checksum = frame_checksum m (Some out) WLH_FRAME_HEADER_SIZE (fh_flags h);
                  m = write_u32_le_unchecked m (out + 16) header_checksum
              in (WLH_WIRE_OK, Some encoded_size, m)
    | _ \<Rightarrow> (WLH_WIRE_INVALID_ARGUMENT, output_size, m))"

definition read_frame_header :: "mem \<Rightarrow> nat \<Rightarrow> frame_header" where
  "read_frame_header m frame =
    \<lparr>fh_magic = read_u16_le_unchecked m (frame + 0), fh_protocol_major = m (frame + 2),
     fh_header_size = m (frame + 3), fh_channel = m (frame + 4), fh_flags = m (frame + 5),
     fh_payload_size = read_u16_le_unchecked m (frame + 6),
     fh_session_id = read_u32_le_unchecked m (frame + 8),
     fh_sequence = read_u32_le_unchecked m (frame + 12),
     fh_header_checksum = read_u32_le_unchecked m (frame + 16),
     fh_payload_checksum = read_u32_le_unchecked m (frame + 20)\<rparr>"

text \<open>The stack copy \<open>checksum_header\<close> with the checksum field cleared, as a buffer of its own.\<close>

definition checksum_header :: "mem \<Rightarrow> nat \<Rightarrow> mem" where
  "checksum_header m frame =
    mem_write (buf_mem (mem_bytes m frame WLH_FRAME_HEADER_SIZE)) 16 [0, 0, 0, 0]"

definition wlh_frame_decode ::
  "mem \<Rightarrow> frame_header option \<Rightarrow> ptr option \<Rightarrow> nat option \<Rightarrow> ptr \<Rightarrow> nat \<Rightarrow> nat \<Rightarrow>
    wire_result \<times> frame_header option \<times> ptr option \<times> nat option" where
  "wlh_frame_decode m header payload payload_size frame frame_size negotiated =
    (case (header, payload, payload_size, frame) of
      (Some _, Some _, Some _, Some f) \<Rightarrow>
        if negotiated < WLH_FRAME_HEADER_SIZE \<or> negotiated > WLH_FRAME_MAX_SIZE
        then (WLH_WIRE_INVALID_ARGUMENT, header, Some None, Some 0)
        else if frame_size < WLH_FRAME_HEADER_SIZE
        then (WLH_WIRE_TRUNCATED, header, Some None, Some 0)
        else if frame_size > negotiated then (WLH_WIRE_INVALID_LENGTH, header, Some None, Some 0)
        else
          let h = read_frame_header m f;
              fail = (\<lambda>r. (r, Some h, Some None, Some 0));
              result = wlh_frame_header_validate (Some h);
              expected_size = WLH_FRAME_HEADER_SIZE + unat (fh_payload_size h)
          in
          if result \<noteq> WLH_WIRE_OK then fail result
          else if expected_size > negotiated then fail WLH_WIRE_INVALID_LENGTH
          else if frame_size < expected_size then fail WLH_WIRE_TRUNCATED
          else if frame_size \<noteq> expected_size then fail WLH_WIRE_INVALID_LENGTH
          else if fh_header_checksum h \<noteq>
              frame_checksum (checksum_header m f) (Some 0) WLH_FRAME_HEADER_SIZE (fh_flags h)
          then fail WLH_WIRE_CHECKSUM_MISMATCH
          else if fh_payload_checksum h \<noteq>
              frame_checksum m (Some (f + WLH_FRAME_HEADER_SIZE)) (unat (fh_payload_size h))
                (fh_flags h)
          then fail WLH_WIRE_CHECKSUM_MISMATCH
          else (WLH_WIRE_OK, Some h, Some (Some (f + WLH_FRAME_HEADER_SIZE)),
            Some (unat (fh_payload_size h)))
    | _ \<Rightarrow> (WLH_WIRE_INVALID_ARGUMENT, header, payload, payload_size))"

text \<open>The local variables of \<open>wlh_frame_validate\<close> are uninitialised; their values are never
  read before \<open>wlh_frame_decode\<close> stores them.\<close>

definition wlh_frame_validate :: "mem \<Rightarrow> ptr \<Rightarrow> nat \<Rightarrow> nat \<Rightarrow> wire_result" where
  "wlh_frame_validate m frame frame_size negotiated =
    fst (wlh_frame_decode m (Some (wlh_frame_header_init 0)) (Some None) (Some 0) frame frame_size
      negotiated)"

section \<open>The byte string of a frame\<close>

definition frame_csum :: "u8 \<Rightarrow> u8 list \<Rightarrow> u32" where
  "frame_csum flags = (if bit flags 0 then crc32c_bytes else sum32_bytes)"

definition header_bytes :: "frame_header \<Rightarrow> u16 \<Rightarrow> u32 \<Rightarrow> u32 \<Rightarrow> u8 list" where
  "header_bytes h len hc pc =
    u16_bytes (fh_magic h) @ [fh_protocol_major h, fh_header_size h, fh_channel h, fh_flags h] @
    u16_bytes len @ u32_bytes (fh_session_id h) @ u32_bytes (fh_sequence h) @ u32_bytes hc @
    u32_bytes pc"

definition frame_bytes :: "frame_header \<Rightarrow> u8 list \<Rightarrow> u8 list" where
  "frame_bytes h payload =
    (let len = of_nat (length payload); pc = frame_csum (fh_flags h) payload;
         hc = frame_csum (fh_flags h) (header_bytes h len 0 pc)
     in header_bytes h len hc pc @ payload)"

definition header_valid :: "frame_header \<Rightarrow> bool" where
  "header_valid h \<longleftrightarrow> fh_magic h = 0x4c57 \<and> fh_protocol_major h = 1 \<and> fh_header_size h = 24 \<and>
    fh_flags h AND NOT 3 = 0"

lemma header_validate_ok: "wlh_frame_header_validate (Some h) = WLH_WIRE_OK \<longleftrightarrow> header_valid h"
proof -
  have "unat (fh_header_size h) = 24 \<longleftrightarrow> fh_header_size h = 24"
    by (simp add: word_unat_eq_iff)
  then show ?thesis
    by (auto simp: wlh_frame_header_validate_def header_valid_def wire_consts)
qed

lemma header_init_valid: "header_valid (wlh_frame_header_init ch)"
  by (simp add: header_valid_def wlh_frame_header_init_def wire_consts)

lemma length_header_bytes [simp]: "length (header_bytes h len hc pc) = 24"
  by (simp add: header_bytes_def)

lemma length_frame_bytes [simp]: "length (frame_bytes h p) = 24 + length p"
  by (simp add: frame_bytes_def Let_def)

definition ptr_bytes :: "mem \<Rightarrow> ptr \<Rightarrow> nat \<Rightarrow> u8 list" where
  "ptr_bytes m p n = (case p of None \<Rightarrow> [] | Some a \<Rightarrow> mem_bytes m a n)"

lemma length_ptr_bytes: "\<not> (p = None \<and> n \<noteq> 0) \<Longrightarrow> length (ptr_bytes m p n) = n"
  by (cases p) (auto simp: ptr_bytes_def)

lemma crc_flag_bit: "flags AND WLH_FRAME_FLAG_CRC32C_PRESENT \<noteq> 0 \<longleftrightarrow> bit flags 0"
  for flags :: u8
  by (simp add: wire_consts and_one_eq bit_0 odd_iff_mod_2_eq_one)

lemma frame_checksum_Some: "frame_checksum m (Some a) n flags = frame_csum flags (mem_bytes m a n)"
  unfolding frame_checksum_def frame_csum_def crc_flag_bit
  by (simp add: wlh_crc32c_bytes wlh_sum32_bytes)

lemma frame_checksum_None: "frame_checksum m None 0 flags = frame_csum flags []"
  unfolding frame_checksum_def frame_csum_def crc_flag_bit
  by (simp add: wlh_crc32c_def wlh_sum32_def crc32c_bytes_def)

lemma frame_checksum_bytes:
  "\<not> (p = None \<and> n \<noteq> 0) \<Longrightarrow> frame_checksum m p n flags = frame_csum flags (ptr_bytes m p n)"
  by (cases p) (auto simp: ptr_bytes_def frame_checksum_Some frame_checksum_None)

lemma frame_csum_one_change:
  assumes "length bs = length cs" and "\<And>j. j < length bs \<Longrightarrow> j \<noteq> i \<Longrightarrow> bs ! j = cs ! j"
    and "frame_csum f bs = frame_csum f cs"
  shows "bs = cs"
proof (cases "bit f 0")
  case True
  with assms show ?thesis
    by (intro crc32c.one_change [of bs cs i]) (simp_all add: frame_csum_def)
next
  case False
  with assms show ?thesis
    by (intro sum32.one_change [of bs cs i]) (simp_all add: frame_csum_def)
qed

section \<open>Encoding writes exactly the frame\<close>

lemma mem_write_write:
  "q = p + length xs \<Longrightarrow> mem_write (mem_write m p xs) q ys = mem_write m p (xs @ ys)"
  by (simp add: mem_write_append)

lemma mem_upd_write: "m(p := x) = mem_write m p [x]"
  by simp

lemma mem_write_overwrite:
  "length zs = length ys \<Longrightarrow> q = p + length xs \<Longrightarrow>
    mem_write (mem_write m p (xs @ zs @ ws)) q ys = mem_write m p (xs @ ys @ ws)"
  by (rule ext) (auto simp: mem_write_apply nth_append)

lemma mem_write_behind:
  "q = p + length xs \<Longrightarrow> mem_write (mem_write m q ys) p xs = mem_write m p (xs @ ys)"
  by (rule ext) (auto simp: mem_write_apply nth_append)

lemma encode_header_writes:
  fixes m :: mem
  shows "write_u32_le_unchecked (write_u32_le_unchecked (write_u32_le_unchecked
      (write_u32_le_unchecked (write_u16_le_unchecked ((((write_u16_le_unchecked m (out + 0)
        (fh_magic h))(out + 2 := fh_protocol_major h))(out + 3 := fh_header_size h))
        (out + 4 := fh_channel h, out + 5 := fh_flags h)) (out + 6) len) (out + 8)
        (fh_session_id h)) (out + 12) (fh_sequence h)) (out + 16) 0) (out + 20) pc =
    mem_write m out (header_bytes h len 0 pc)"
  unfolding write_u16_bytes write_u32_bytes mem_upd_write header_bytes_def
  by (simp add: mem_write_write add.assoc del: mem_write.simps)

lemma header_bytes_set_checksum:
  "mem_write (mem_write m p (header_bytes h len 0 pc @ xs)) (p + 16) (u32_bytes hc) =
    mem_write m p (header_bytes h len hc pc @ xs)"
proof -
  let ?pre = "u16_bytes (fh_magic h) @
    [fh_protocol_major h, fh_header_size h, fh_channel h, fh_flags h] @ u16_bytes len @
    u32_bytes (fh_session_id h) @ u32_bytes (fh_sequence h)"
  have "mem_write (mem_write m p (?pre @ u32_bytes 0 @ u32_bytes pc @ xs)) (p + 16) (u32_bytes hc) =
      mem_write m p (?pre @ u32_bytes hc @ u32_bytes pc @ xs)"
    by (rule mem_write_overwrite) simp_all
  then show ?thesis by (simp add: header_bytes_def)
qed

lemma mem_bytes_write_prefix:
  "n = length xs \<Longrightarrow> mem_bytes (mem_write m p (xs @ ys)) p n = xs"
  by (rule nth_equalityI) (auto simp: mem_write_apply nth_append)

lemma frame_encode_writes:
  assumes h: "header_valid h" and n: "n \<le> 65535" and cap: "24 + n \<le> cap"
    and p: "\<not> (payload = None \<and> n \<noteq> 0)"
  shows "wlh_frame_encode m (Some out) cap (Some sz) (Some h) payload n =
    (WLH_WIRE_OK, Some (24 + n), mem_write m out (frame_bytes h (ptr_bytes m payload n)))"
proof -
  let ?pl = "ptr_bytes m payload n" and ?len = "of_nat n :: u16"
  let ?pc = "frame_csum (fh_flags h) ?pl"
  let ?hc = "frame_csum (fh_flags h) (header_bytes h ?len 0 ?pc)"
  have len: "length ?pl = n" by (rule length_ptr_bytes [OF p])
  have moved: "(case payload of None \<Rightarrow> m
      | Some src \<Rightarrow> if n \<noteq> 0 then memmove m (out + 24) src n else m) = mem_write m (out + 24) ?pl"
    using p by (auto simp: ptr_bytes_def memmove_write split: option.split)
  have hdr: "mem_write (mem_write m (out + 24) ?pl) out (header_bytes h ?len 0 ?pc) =
      mem_write m out (header_bytes h ?len 0 ?pc @ ?pl)"
    by (rule mem_write_behind) simp
  have hc: "frame_checksum (mem_write m out (header_bytes h ?len 0 ?pc @ ?pl)) (Some out) 24
      (fh_flags h) = ?hc"
    by (simp add: frame_checksum_Some mem_bytes_write_prefix)
  have bytes: "frame_bytes h ?pl = header_bytes h ?len ?hc ?pc @ ?pl"
    by (simp add: frame_bytes_def len Let_def)
  have ok: "wlh_frame_header_validate (Some h) = WLH_WIRE_OK"
    using h by (simp add: header_validate_ok)
  have size: "WLH_FRAME_HEADER_SIZE = 24" "WLH_FRAME_MAX_PAYLOAD = 65535"
    by (simp_all add: wire_consts)
  show ?thesis
    unfolding wlh_frame_encode_def Let_def option.case prod.case ok size encode_header_writes
      moved frame_checksum_bytes [OF p] hdr hc bytes
    using n cap p by (simp add: write_u32_bytes header_bytes_set_checksum)
qed

lemma frame_encode_fails:
  assumes "wlh_frame_encode m out cap sz h p n = (r, sz', m')" and "r \<noteq> WLH_WIRE_OK"
  shows "m' = m"
  using assms by (auto simp: wlh_frame_encode_def Let_def split: option.splits if_splits)

section \<open>Decoding accepts exactly the frames\<close>

definition sub_bytes :: "u8 list \<Rightarrow> nat \<Rightarrow> nat \<Rightarrow> u8 list" where
  "sub_bytes bs k n = take n (drop k bs)"

lemma mem_bytes_sub: "mem_bytes m p n = bs \<Longrightarrow> k + j \<le> n \<Longrightarrow> mem_bytes m (p + k) j = sub_bytes bs k j"
  by (auto simp: sub_bytes_def drop_mem_bytes take_mem_bytes)

lemma sub_bytes_update:
  "k + n \<le> length bs \<Longrightarrow> i < k \<or> k + n \<le> i \<Longrightarrow> sub_bytes (bs[i := x]) k n = sub_bytes bs k n"
  by (rule nth_equalityI) (auto simp: sub_bytes_def)

definition parse_header :: "u8 list \<Rightarrow> frame_header" where
  "parse_header bs =
    \<lparr>fh_magic = bytes_u16 (sub_bytes bs 0 2), fh_protocol_major = bs ! 2,
     fh_header_size = bs ! 3, fh_channel = bs ! 4, fh_flags = bs ! 5,
     fh_payload_size = bytes_u16 (sub_bytes bs 6 2),
     fh_session_id = bytes_u32 (sub_bytes bs 8 4), fh_sequence = bytes_u32 (sub_bytes bs 12 4),
     fh_header_checksum = bytes_u32 (sub_bytes bs 16 4),
     fh_payload_checksum = bytes_u32 (sub_bytes bs 20 4)\<rparr>"

definition cleared_header :: "u8 list \<Rightarrow> u8 list" where
  "cleared_header bs = take 16 bs @ [0, 0, 0, 0] @ sub_bytes bs 20 4"

text \<open>The acceptance condition of the decoder over the bytes of the frame.\<close>

definition frame_ok :: "nat \<Rightarrow> u8 list \<Rightarrow> bool" where
  "frame_ok negotiated bs \<longleftrightarrow> (let h = parse_header bs in
    24 \<le> negotiated \<and> negotiated \<le> 65559 \<and> length bs \<le> negotiated \<and> 24 \<le> length bs \<and>
    header_valid h \<and> length bs = 24 + unat (fh_payload_size h) \<and>
    fh_header_checksum h = frame_csum (fh_flags h) (cleared_header bs) \<and>
    fh_payload_checksum h = frame_csum (fh_flags h) (drop 24 bs))"

lemma read_frame_header_parse:
  assumes "mem_bytes m f n = bs" and "24 \<le> n"
  shows "read_frame_header m f = parse_header bs"
proof -
  have sub: "k + j \<le> 24 \<Longrightarrow> mem_bytes m (f + k) j = sub_bytes bs k j" for k j
    using assms(2) by (intro mem_bytes_sub [OF assms(1)]) simp
  have at: "k < 24 \<Longrightarrow> m (f + k) = bs ! k" for k
    using assms by (intro mem_bytes_nthD [of m f n]) auto
  show ?thesis
    using sub [of 0 2] sub [of 6 2] at [of 2] at [of 3]
    by (simp add: read_frame_header_def parse_header_def read_u16_bytes read_u32_bytes sub at)
qed

lemma checksum_header_bytes:
  assumes "mem_bytes m f n = bs" and "24 \<le> n"
  shows "mem_bytes (checksum_header m f) 0 24 = cleared_header bs"
proof (rule nth_equalityI)
  show "length (mem_bytes (checksum_header m f) 0 24) = length (cleared_header bs)"
    using assms by (auto simp: cleared_header_def sub_bytes_def)
  fix i
  assume "i < length (mem_bytes (checksum_header m f) 0 24)"
  then have i: "i < 24" by simp
  have len: "length bs = n" using assms(1) by auto
  have at: "m (f + i) = bs ! i" using assms i by (intro mem_bytes_nthD [of m f n]) auto
  consider "i < 16" | "16 \<le> i \<and> i < 20" | "20 \<le> i" by linarith
  then show "mem_bytes (checksum_header m f) 0 24 ! i = cleared_header bs ! i"
  proof cases
    case 1
    with i at len assms(2) show ?thesis
      by (simp add: checksum_header_def mem_write_apply wire_consts cleared_header_def nth_append
          del: mem_write.simps)
  next
    case 2
    then have "i - 16 < 4" by arith
    then have "[0, 0, 0, 0 :: u8] ! (i - 16) = 0"
      by (auto simp: nth_Cons split: nat.splits)
    with 2 len assms(2) show ?thesis
      by (simp add: checksum_header_def mem_write_apply wire_consts cleared_header_def nth_append
          nth_Cons split: nat.splits del: mem_write.simps)
  next
    case 3
    with i at len assms(2) show ?thesis
      by (simp add: checksum_header_def mem_write_apply wire_consts cleared_header_def nth_append
          sub_bytes_def del: mem_write.simps)
  qed
qed

lemma frame_decode_ok_iff:
  "wlh_frame_decode m (Some h0) (Some p0) (Some s0) (Some f) n neg = (WLH_WIRE_OK, h, p, s) \<longleftrightarrow>
    frame_ok neg (mem_bytes m f n) \<and> h = Some (parse_header (mem_bytes m f n)) \<and>
    p = Some (Some (f + 24)) \<and> s = Some (n - 24)"
  (is "?dec \<longleftrightarrow> ?ok \<and> ?out")
proof (cases "24 \<le> neg \<and> neg \<le> 65559 \<and> 24 \<le> n \<and> n \<le> neg")
  case False
  then show ?thesis
    by (auto simp: wlh_frame_decode_def frame_ok_def wire_consts Let_def)
next
  case True
  let ?bs = "mem_bytes m f n" and ?h = "read_frame_header m f"
  have h: "read_frame_header m f = parse_header ?bs"
    by (rule read_frame_header_parse [OF refl]) (use True in simp)
  have hc: "frame_checksum (checksum_header m f) (Some 0) 24 (fh_flags ?h) =
      frame_csum (fh_flags ?h) (cleared_header ?bs)"
    using True by (simp add: frame_checksum_Some checksum_header_bytes [of m f n ?bs])
  have pc: "n = 24 + k \<Longrightarrow> frame_checksum m (Some (f + 24)) k (fh_flags ?h) =
      frame_csum (fh_flags ?h) (drop 24 ?bs)" for k
    by (simp add: frame_checksum_Some drop_mem_bytes)
  have big: "\<not> (neg < 24 \<or> 65559 < neg)" "\<not> n < 24" "\<not> neg < n" using True by auto
  show ?thesis
    unfolding wlh_frame_decode_def Let_def option.case prod.case
      WLH_FRAME_HEADER_SIZE_def WLH_FRAME_MAX_SIZE_def
    using True hc pc [of "unat (fh_payload_size ?h)"] big
    by (auto simp: header_validate_ok frame_ok_def Let_def h [symmetric])
qed

lemma parse_header_bytes:
  "parse_header (header_bytes h len hc pc @ p) =
    h\<lparr>fh_payload_size := len, fh_header_checksum := hc, fh_payload_checksum := pc\<rparr>"
proof -
  have u2: "take (Suc (Suc 0)) (u16_bytes v @ xs) = u16_bytes v" for v xs by simp
  have w: "length (u16_bytes v) = Suc (Suc 0)" for v by simp
  show ?thesis
    by (simp add: parse_header_def header_bytes_def sub_bytes_def nth_append w)
qed

lemma header_bytes_parse:
  assumes "length bs = 24"
  shows "header_bytes (parse_header bs) (bytes_u16 (sub_bytes bs 6 2)) hc
      (bytes_u32 (sub_bytes bs 20 4)) =
    take 16 bs @ u32_bytes hc @ sub_bytes bs 20 4"
proof -
  have len: "k + n \<le> 24 \<Longrightarrow> length (sub_bytes bs k n) = n" for k n
    using assms by (simp add: sub_bytes_def)
  have cut: "take 16 bs = sub_bytes bs 0 2 @ [bs ! 2, bs ! 3, bs ! 4, bs ! 5] @
      sub_bytes bs 6 2 @ sub_bytes bs 8 4 @ sub_bytes bs 12 4"
  proof (rule nth_equalityI)
    fix i
    assume "i < length (take 16 bs)"
    then consider "i < 2" | "i = 2" | "i = 3" | "i = 4" | "i = 5" | "6 \<le> i \<and> i < 8"
      | "8 \<le> i \<and> i < 12" | "12 \<le> i \<and> i < 16" using assms by fastforce
    then show "take 16 bs ! i = (sub_bytes bs 0 2 @ [bs ! 2, bs ! 3, bs ! 4, bs ! 5] @
        sub_bytes bs 6 2 @ sub_bytes bs 8 4 @ sub_bytes bs 12 4) ! i"
      by cases (auto simp: sub_bytes_def nth_append assms nth_Cons')
  qed (simp add: assms sub_bytes_def)
  show ?thesis
    unfolding cut by (simp add: header_bytes_def parse_header_def len u16_bytes_bytes_u16
        u32_bytes_bytes_u32)
qed

lemma sub_bytes_append: "k + n \<le> length xs \<Longrightarrow> sub_bytes (xs @ ys) k n = sub_bytes xs k n"
  by (simp add: sub_bytes_def)

lemma parse_header_append: "24 \<le> length xs \<Longrightarrow> parse_header (xs @ ys) = parse_header xs"
  by (simp add: parse_header_def sub_bytes_append nth_append)

lemma cleared_header_append: "24 \<le> length xs \<Longrightarrow> cleared_header (xs @ ys) = cleared_header xs"
  by (simp add: cleared_header_def sub_bytes_append)

lemma header_valid_update [simp]:
  "header_valid (h\<lparr>fh_payload_size := len, fh_header_checksum := hc, fh_payload_checksum := pc\<rparr>) =
    header_valid h"
  by (simp add: header_valid_def)

lemma cleared_header_bytes: "cleared_header (header_bytes h len hc pc) = header_bytes h len 0 pc"
  by (simp add: cleared_header_def header_bytes_def sub_bytes_def) (simp add: u32_bytes_def)

text \<open>What the decoder accepts is exactly the encodings of valid headers.\<close>

lemma frame_bytes_ok:
  assumes "header_valid h" and "24 + length p \<le> neg" and "neg \<le> 65559"
  shows "frame_ok neg (frame_bytes h p)"
proof -
  have "unat (of_nat (length p) :: u16) = length p"
    using assms by (simp add: unsigned_of_nat take_bit_nat_eq_self)
  then show ?thesis
    using assms by (simp add: frame_ok_def frame_bytes_def Let_def parse_header_bytes
        cleared_header_append cleared_header_bytes)
qed

lemma parse_frame_bytes:
  "parse_header (frame_bytes h p) = h\<lparr>fh_payload_size := of_nat (length p),
    fh_header_checksum := frame_csum (fh_flags h) (header_bytes h (of_nat (length p)) 0
      (frame_csum (fh_flags h) p)),
    fh_payload_checksum := frame_csum (fh_flags h) p\<rparr>"
  by (simp add: frame_bytes_def Let_def parse_header_bytes)

lemma frame_ok_bytes:
  assumes "frame_ok neg bs"
  shows "bs = frame_bytes (parse_header bs) (drop 24 bs)"
proof -
  let ?h = "parse_header bs" and ?t = "take 24 bs"
  have ok: "24 \<le> length bs" "length bs = 24 + unat (fh_payload_size ?h)"
    "fh_header_checksum ?h = frame_csum (fh_flags ?h) (cleared_header bs)"
    "fh_payload_checksum ?h = frame_csum (fh_flags ?h) (drop 24 bs)"
    using assms by (auto simp: frame_ok_def Let_def)
  have h: "?h = parse_header ?t" "cleared_header bs = cleared_header ?t"
    using parse_header_append [of ?t "drop 24 bs"] cleared_header_append [of ?t "drop 24 bs"] ok(1)
    by auto
  have "of_nat (length (drop 24 bs)) = fh_payload_size ?h" using ok(2) by simp
  then have len: "of_nat (length (drop 24 bs)) = bytes_u16 (sub_bytes ?t 6 2)"
    unfolding h by (simp add: parse_header_def)
  have pc: "frame_csum (fh_flags ?h) (drop 24 bs) = bytes_u32 (sub_bytes ?t 20 4)"
    using ok(4) unfolding h by (simp add: parse_header_def)
  have hb: "header_bytes ?h (bytes_u16 (sub_bytes ?t 6 2)) hc (bytes_u32 (sub_bytes ?t 20 4)) =
      take 16 ?t @ u32_bytes hc @ sub_bytes ?t 20 4" for hc
    unfolding h by (rule header_bytes_parse) (use ok(1) in simp)
  have zero: "u32_bytes 0 = [0, 0, 0, 0]" by (simp add: u32_bytes_def)
  have "frame_csum (fh_flags ?h) (take 16 ?t @ u32_bytes 0 @ sub_bytes ?t 20 4) =
      bytes_u32 (sub_bytes ?t 16 4)"
    using ok(3) unfolding h by (simp add: parse_header_def cleared_header_def zero)
  then have "frame_bytes ?h (drop 24 bs) =
      take 16 ?t @ u32_bytes (bytes_u32 (sub_bytes ?t 16 4)) @ sub_bytes ?t 20 4 @ drop 24 bs"
    unfolding frame_bytes_def Let_def len pc hb by (simp only: append.assoc)
  also have "\<dots> = take 16 ?t @ sub_bytes ?t 16 4 @ sub_bytes ?t 20 4 @ drop 24 bs"
    using ok(1) by (simp add: u32_bytes_bytes_u32 sub_bytes_def)
  also have "take 16 ?t @ sub_bytes ?t 16 4 @ sub_bytes ?t 20 4 = ?t"
    by (rule nth_equalityI) (use ok(1) in \<open>auto simp: sub_bytes_def nth_append\<close>)
  then have "take 16 ?t @ sub_bytes ?t 16 4 @ sub_bytes ?t 20 4 @ drop 24 bs = bs"
    by (metis append.assoc append_take_drop_id)
  finally show ?thesis by simp
qed

section \<open>A changed byte is noticed\<close>

lemma sub_bytes_u32_inj:
  assumes "k + 4 \<le> length bs" and "k + 4 \<le> length cs"
    and "bytes_u32 (sub_bytes bs k 4) = bytes_u32 (sub_bytes cs k 4)"
  shows "sub_bytes bs k 4 = sub_bytes cs k 4"
proof -
  have "length (sub_bytes bs k 4) = 4" "length (sub_bytes cs k 4) = 4"
    using assms(1,2) by (simp_all add: sub_bytes_def)
  with assms(3) show ?thesis by (metis u32_bytes_bytes_u32)
qed

lemma take_24_split: "24 \<le> length bs \<Longrightarrow> take 24 bs = take 16 bs @ sub_bytes bs 16 4 @ sub_bytes bs 20 4"
  by (rule nth_equalityI) (auto simp: sub_bytes_def nth_append)

lemma frame_ok_change:
  assumes ok: "frame_ok neg bs" "frame_ok neg (bs[i := x])"
    and i: "i < length bs" and flag: "i \<noteq> 5 \<or> bit x 0 = bit (bs ! i) 0"
  shows "x = bs ! i"
proof -
  let ?cs = "bs[i := x]"
  let ?f = "fh_flags (parse_header bs)" and ?g = "fh_flags (parse_header ?cs)"
  have len: "24 \<le> length bs" using ok(1) by (simp add: frame_ok_def Let_def)
  have csum: "frame_csum ?g = frame_csum ?f"
    using flag len i by (cases "i = 5") (auto simp: frame_csum_def parse_header_def)
  have sums: "bytes_u32 (sub_bytes bs 16 4) = frame_csum ?f (cleared_header bs)"
    "bytes_u32 (sub_bytes ?cs 16 4) = frame_csum ?f (cleared_header ?cs)"
    "bytes_u32 (sub_bytes bs 20 4) = frame_csum ?f (drop 24 bs)"
    "bytes_u32 (sub_bytes ?cs 20 4) = frame_csum ?f (drop 24 ?cs)"
    using ok unfolding frame_ok_def Let_def csum by (simp_all add: parse_header_def)
  have "bs = ?cs"
  proof (cases "24 \<le> i")
    case True
    then have "sub_bytes ?cs 20 4 = sub_bytes bs 20 4"
      using len by (simp add: sub_bytes_update)
    with sums have "frame_csum ?f (drop 24 bs) = frame_csum ?f (drop 24 ?cs)" by simp
    then have "drop 24 bs = drop 24 ?cs"
      by (rule frame_csum_one_change [of _ _ "i - 24", rotated 2])
        (use True len in \<open>auto simp: nth_list_update\<close>)
    moreover have "take 24 bs = take 24 ?cs" using True by simp
    ultimately show ?thesis by (metis append_take_drop_id)
  next
    case False
    then have same: "drop 24 bs = drop 24 ?cs" by simp
    with sums have pc: "sub_bytes bs 20 4 = sub_bytes ?cs 20 4"
      using len by (intro sub_bytes_u32_inj) simp_all
    have hdr: "take 16 bs = take 16 ?cs \<and> sub_bytes bs 16 4 = sub_bytes ?cs 16 4"
    proof (cases "16 \<le> i")
      case True
      then have "cleared_header bs = cleared_header ?cs" by (simp add: cleared_header_def pc)
      with sums True show ?thesis using len by (auto intro: sub_bytes_u32_inj)
    next
      case False
      then have hc: "sub_bytes ?cs 16 4 = sub_bytes bs 16 4" using len by (simp add: sub_bytes_update)
      with sums have "frame_csum ?f (cleared_header bs) = frame_csum ?f (cleared_header ?cs)" by simp
      then have "cleared_header bs = cleared_header ?cs"
        by (rule frame_csum_one_change [of _ _ i, rotated 2])
          (auto simp: cleared_header_def nth_append pc)
      with hc show ?thesis by (simp add: cleared_header_def)
    qed
    with pc same show ?thesis
      using len take_24_split [of bs] take_24_split [of ?cs] by (metis append_take_drop_id length_list_update)
  qed
  then show ?thesis using i by (metis nth_list_update_eq)
qed

lemma frame_validate_iff: "wlh_frame_validate m (Some f) n neg = WLH_WIRE_OK \<longleftrightarrow>
    frame_ok neg (mem_bytes m f n)"
  unfolding wlh_frame_validate_def
  using frame_decode_ok_iff [of m "wlh_frame_header_init 0" None 0 f n neg]
  by (metis eq_fst_iff prod_cases4)

lemma mem_bytes_upd: "i < n \<Longrightarrow> mem_bytes (m(f + i := x)) f n = (mem_bytes m f n)[i := x]"
  by (rule nth_equalityI) (auto simp: nth_list_update)

section \<open>Properties\<close>

text \<open>C36: SUM32. The word loop and the tail loop of \<open>wlh_sum32\<close> compute, for every length, the
  arithmetic sum of the bytes weighted by \<open>256 ^ (i mod 4)\<close>, modulo \<open>2 ^ 32\<close>.\<close>

theorem wlh_sum32_correct: "wlh_sum32 m (Some p) n = of_nat (sum32_spec (mem_bytes m p n))"
  by (simp add: wlh_sum32_bytes sum32_bytes_spec)

text \<open>C37: CRC-32C. The byte loop of \<open>wlh_crc32c\<close> with its arithmetic mask computes the CRC of
  the bit-serial Castagnoli shift register with initial value and final XOR \<open>0xffffffff\<close>.\<close>

theorem wlh_crc32c_correct: "wlh_crc32c m (Some p) n = crc32c_spec (mem_bytes m p n)"
  by (simp add: wlh_crc32c_bytes crc32c_bytes_spec)

text \<open>C31: Encoding, on every branch. The checks come in the code's order, a refused call leaves
  the memory alone and reports size 0, and an accepted call stores exactly the frame of the
  payload as it was before the call, for any position of the payload, overlapping the output
  or not, and changes no other byte.\<close>

theorem wlh_frame_encode_correct:
  "wlh_frame_encode m (Some out) cap (Some sz) (Some h) payload n =
    (if payload = None \<and> n \<noteq> 0 then (WLH_WIRE_INVALID_ARGUMENT, Some sz, m)
     else if \<not> header_valid h then (wlh_frame_header_validate (Some h), Some 0, m)
     else if n > 65535 then (WLH_WIRE_INVALID_LENGTH, Some 0, m)
     else if cap < 24 + n then (WLH_WIRE_BUFFER_TOO_SMALL, Some 0, m)
     else (WLH_WIRE_OK, Some (24 + n), mem_write m out (frame_bytes h (ptr_bytes m payload n))))"
proof (cases "header_valid h \<and> n \<le> 65535 \<and> 24 + n \<le> cap \<and> \<not> (payload = None \<and> n \<noteq> 0)")
  case True
  then show ?thesis using frame_encode_writes [of h n cap payload m out sz] by auto
next
  case False
  then show ?thesis
    by (auto simp: wlh_frame_encode_def Let_def header_validate_ok wire_consts split: option.split)
qed

text \<open>C32: Round trip. Decoding what was encoded returns the header fields, the checksums of the
  format and a payload pointer to the payload bytes.\<close>

theorem wlh_frame_roundtrip:
  assumes "header_valid h" and "24 + n \<le> cap" and "24 + n \<le> neg" and "neg \<le> 65559"
    and "\<not> (payload = None \<and> n \<noteq> 0)"
  shows "case wlh_frame_encode m (Some out) cap (Some sz) (Some h) payload n of (r, sz', m') \<Rightarrow>
    r = WLH_WIRE_OK \<and> sz' = Some (24 + n) \<and> mem_bytes m' (out + 24) n = ptr_bytes m payload n \<and>
    wlh_frame_decode m' (Some h0) (Some p0) (Some s0) (Some out) (24 + n) neg =
      (WLH_WIRE_OK, Some (h\<lparr>fh_payload_size := of_nat n,
        fh_header_checksum := frame_csum (fh_flags h) (header_bytes h (of_nat n) 0
          (frame_csum (fh_flags h) (ptr_bytes m payload n))),
        fh_payload_checksum := frame_csum (fh_flags h) (ptr_bytes m payload n)\<rparr>),
       Some (Some (out + 24)), Some n)"
proof -
  let ?p = "ptr_bytes m payload n"
  let ?m = "mem_write m out (frame_bytes h ?p)"
  have len: "length ?p = n" using assms(5) by (rule length_ptr_bytes)
  have bytes: "mem_bytes ?m out (24 + n) = frame_bytes h ?p" by (simp add: len)
  then have "mem_bytes ?m (out + 24) n = sub_bytes (frame_bytes h ?p) 24 n"
    by (rule mem_bytes_sub) simp
  then have pl: "mem_bytes ?m (out + 24) n = ?p"
    by (simp add: sub_bytes_def frame_bytes_def Let_def len)
  have ok: "frame_ok neg (frame_bytes h ?p)" using assms len by (simp add: frame_bytes_ok)
  have "n \<le> 65535" using assms(3,4) by simp
  then show ?thesis
    using frame_encode_writes [of h n cap payload m out sz] assms ok pl
    by (simp add: frame_decode_ok_iff bytes parse_frame_bytes len)
qed

theorem wlh_frame_roundtrip_witness:
  "case wlh_frame_encode (buf_mem [1, 2, 3]) (Some 0) 32 (Some 0)
      (Some (wlh_frame_header_init 1)) (Some 0) 3 of (r, sz', m') \<Rightarrow>
    r = WLH_WIRE_OK \<and> mem_bytes m' 24 3 = [1, 2, 3]"
  using wlh_frame_roundtrip [where h = "wlh_frame_header_init 1" and n = 3 and cap = 32 and neg = 4096
      and payload = "Some 0" and m = "buf_mem [1, 2, 3]" and out = 0 and sz = 0]
  by (auto simp: header_init_valid ptr_bytes_def mem_bytes_buf_mem)

text \<open>C33: Canonical form. The decoder succeeds exactly on the encodings of valid headers that fit
  the negotiated size: no other byte string is accepted.\<close>

theorem wlh_frame_decode_canonical:
  "(\<exists>h' p' s'. wlh_frame_decode m (Some h) (Some p) (Some s) (Some f) n neg =
      (WLH_WIRE_OK, h', p', s')) \<longleftrightarrow>
    24 \<le> neg \<and> neg \<le> 65559 \<and> n \<le> neg \<and>
    (\<exists>h payload. header_valid h \<and> length payload \<le> 65535 \<and>
      mem_bytes m f n = frame_bytes h payload)"
  (is "?dec \<longleftrightarrow> ?lo \<and> ?hi \<and> ?fits \<and> ?can")
proof -
  have "?dec \<longleftrightarrow> frame_ok neg (mem_bytes m f n)" by (auto simp: frame_decode_ok_iff)
  also have "\<dots> \<longleftrightarrow> ?lo \<and> ?hi \<and> ?fits \<and> ?can"
  proof
    assume ok: "frame_ok neg (mem_bytes m f n)"
    then have ?lo ?hi ?fits and "header_valid (parse_header (mem_bytes m f n))" and "n - 24 \<le> 65535"
      by (auto simp: frame_ok_def Let_def unat_u16_le)
    moreover from this have "length (drop 24 (mem_bytes m f n)) \<le> 65535" by simp
    ultimately show "?lo \<and> ?hi \<and> ?fits \<and> ?can" using frame_ok_bytes [OF ok] by blast
  next
    assume "?lo \<and> ?hi \<and> ?fits \<and> ?can"
    then obtain h pl where "header_valid h" and bytes: "mem_bytes m f n = frame_bytes h pl"
      and lim: ?lo ?hi ?fits by auto
    moreover have "n = 24 + length pl" using arg_cong [OF bytes, of length] by simp
    ultimately show "frame_ok neg (mem_bytes m f n)" by (simp add: frame_bytes_ok)
  qed
  finally show ?thesis .
qed

text \<open>C34: Integrity. Changing any one byte of an accepted frame makes it refused, in SUM32 and in
  CRC-32C frames alike, header and payload; only a change of the flags byte that also switches
  the checksum algorithm is outside the claim.\<close>

theorem wlh_frame_detects_change:
  assumes "wlh_frame_validate m (Some f) n neg = WLH_WIRE_OK"
    and "i < n" and "x \<noteq> m (f + i)" and "i \<noteq> 5 \<or> bit x 0 = bit (m (f + i)) 0"
  shows "wlh_frame_validate (m(f + i := x)) (Some f) n neg \<noteq> WLH_WIRE_OK"
  using assms frame_ok_change [of neg "mem_bytes m f n" i x]
  by (auto simp: frame_validate_iff mem_bytes_upd)

lemma sample_frame_ok:
  "frame_ok 4096 (mem_bytes (buf_mem (frame_bytes (wlh_frame_header_init 1) [1, 2, 3])) 0 27)"
  using frame_bytes_ok [of "wlh_frame_header_init 1" "[1, 2, 3]" 4096]
  by (simp add: header_init_valid mem_bytes_buf_mem)

theorem wlh_frame_detects_change_witness:
  "wlh_frame_validate ((buf_mem (frame_bytes (wlh_frame_header_init 1) [1, 2, 3]))(0 + 24 := 9))
    (Some 0) 27 4096 \<noteq> WLH_WIRE_OK"
  by (rule wlh_frame_detects_change)
    (simp_all add: frame_validate_iff sample_frame_ok, simp add: buf_mem_def frame_bytes_def Let_def
      nth_append)

text \<open>C35: Bounds. What the decoder returns depends on the \<open>n\<close> bytes of the frame only: it reads
  nothing outside the span it was given.\<close>

theorem wlh_frame_decode_bounds:
  assumes "\<forall>i < n. m (f + i) = m' (f + i)"
  shows "wlh_frame_decode m h p s (Some f) n neg = wlh_frame_decode m' h p s (Some f) n neg"
proof (cases "24 \<le> n")
  case False
  then show ?thesis
    by (auto simp: wlh_frame_decode_def wire_consts Let_def split: option.split)
next
  case True
  have bytes: "mem_bytes m f n = mem_bytes m' f n"
    using assms by (auto intro: mem_bytes_eqI)
  have hdr: "read_frame_header m f = read_frame_header m' f"
    using read_frame_header_parse [OF refl True] bytes by metis
  have hc: "frame_checksum (checksum_header m f) (Some 0) 24 fl =
      frame_checksum (checksum_header m' f) (Some 0) 24 fl" for fl
    using checksum_header_bytes [OF refl True] bytes by (metis frame_checksum_Some)
  have pc: "n = 24 + k \<Longrightarrow>
      frame_checksum m (Some (f + 24)) k fl = frame_checksum m' (Some (f + 24)) k fl" for k fl
    using assms by (auto simp: frame_checksum_Some add.assoc intro!: arg_cong [of _ _ "frame_csum _"]
        mem_bytes_eqI)
  obtain h' where h': "read_frame_header m f = h'" "read_frame_header m' f = h'"
    using hdr by blast
  show ?thesis
  proof (cases "n = 24 + unat (fh_payload_size h')")
    case True
    show ?thesis
      unfolding wlh_frame_decode_def Let_def WLH_FRAME_HEADER_SIZE_def
      by (cases h; cases p; cases s)
        (simp_all only: option.case prod.case h' hc pc [OF True])
  next
    case False
    then show ?thesis
      unfolding wlh_frame_decode_def Let_def WLH_FRAME_HEADER_SIZE_def
      by (cases h; cases p; cases s) (simp_all add: h' hc)
  qed
qed

theorem wlh_frame_decode_bounds_witness:
  "wlh_frame_decode (\<lambda>_. 0) None None None (Some 0) 2 64 =
    wlh_frame_decode ((\<lambda>_. 0)(5 := 1)) None None None (Some 0) 2 64"
  by (rule wlh_frame_decode_bounds) auto

end
