(* ===== verification/Rpc_Codec.thy ===== *)
theory Rpc_Codec
  imports Frame_Codec
begin

text \<open>
  The RPC envelope of protocol/src/wire.c, carried as the payload of a control frame:
  \<open>wlh_rpc_envelope_validate\<close>, \<open>wlh_rpc_encode\<close>, \<open>wlh_rpc_decode\<close> and
  \<open>wlh_rpc_validate\<close>.
\<close>

section \<open>Data\<close>

definition WLH_RPC_ENVELOPE_SIZE :: nat where [wire_consts]: "WLH_RPC_ENVELOPE_SIZE = 16"
definition WLH_RPC_FLAG_MORE :: u8 where [wire_consts]: "WLH_RPC_FLAG_MORE = 1"
definition WLH_RPC_FLAG_SENSITIVE :: u8 where [wire_consts]: "WLH_RPC_FLAG_SENSITIVE = 2"
definition WLH_RPC_FLAGS_MASK :: u8 where [wire_consts]: "WLH_RPC_FLAGS_MASK = 3"
definition WLH_RPC_KIND_REQUEST :: u8 where [wire_consts]: "WLH_RPC_KIND_REQUEST = 1"
definition WLH_RPC_KIND_RESPONSE :: u8 where [wire_consts]: "WLH_RPC_KIND_RESPONSE = 2"
definition WLH_RPC_KIND_EVENT :: u8 where [wire_consts]: "WLH_RPC_KIND_EVENT = 3"

record rpc_envelope =
  re_service_id :: u16
  re_method_id :: u16
  re_request_id :: u32
  re_kind :: u8
  re_flags :: u8
  re_payload_size :: u16
  re_status_domain :: u16
  re_status_code :: i16

section \<open>The code\<close>

definition wlh_rpc_envelope_validate :: "rpc_envelope option \<Rightarrow> wire_result" where
  "wlh_rpc_envelope_validate envelope = (case envelope of
      None \<Rightarrow> WLH_WIRE_INVALID_ARGUMENT
    | Some e \<Rightarrow>
        if re_service_id e = 0 \<or> re_method_id e = 0 then WLH_WIRE_INVALID_RPC
        else if re_kind e < WLH_RPC_KIND_REQUEST \<or> re_kind e > WLH_RPC_KIND_EVENT
        then WLH_WIRE_INVALID_RPC
        else if re_flags e AND NOT WLH_RPC_FLAGS_MASK \<noteq> 0 then WLH_WIRE_INVALID_FLAGS
        else if re_kind e \<noteq> WLH_RPC_KIND_EVENT \<and> re_request_id e = 0 then WLH_WIRE_INVALID_RPC
        else if re_kind e = WLH_RPC_KIND_REQUEST
        then if re_status_domain e \<noteq> 0 \<or> re_status_code e \<noteq> 0 then WLH_WIRE_INVALID_RPC
          else WLH_WIRE_OK
        else if (re_status_code e = 0) \<noteq> (re_status_domain e = 0) then WLH_WIRE_INVALID_RPC
        else WLH_WIRE_OK)"

definition wlh_rpc_encode ::
  "mem \<Rightarrow> ptr \<Rightarrow> nat \<Rightarrow> nat option \<Rightarrow> rpc_envelope option \<Rightarrow> ptr \<Rightarrow> nat \<Rightarrow>
    wire_result \<times> nat option \<times> mem" where
  "wlh_rpc_encode m output output_capacity output_size envelope payload payload_size =
    (case (output, output_size, envelope) of
      (Some out, Some _, Some e) \<Rightarrow>
        if payload = None \<and> payload_size \<noteq> 0
        then (WLH_WIRE_INVALID_ARGUMENT, output_size, m)
        else
          let result = wlh_rpc_envelope_validate (Some e) in
          if result \<noteq> WLH_WIRE_OK then (result, Some 0, m)
          else if payload_size > 65535 then (WLH_WIRE_INVALID_LENGTH, Some 0, m)
          else
            let encoded_size = WLH_RPC_ENVELOPE_SIZE + payload_size in
            if output_capacity < encoded_size then (WLH_WIRE_BUFFER_TOO_SMALL, Some 0, m)
            else
              let m = (case payload of
                        None \<Rightarrow> m
                      | Some src \<Rightarrow> if payload_size \<noteq> 0
                          then memmove m (out + WLH_RPC_ENVELOPE_SIZE) src payload_size else m);
                  m = write_u16_le_unchecked m (out + 0) (re_service_id e);
                  m = write_u16_le_unchecked m (out + 2) (re_method_id e);
                  m = write_u32_le_unchecked m (out + 4) (re_request_id e);
                  m = m(out + 8 := re_kind e);
                  m = m(out + 9 := re_flags e);
                  m = write_u16_le_unchecked m (out + 10) (of_nat payload_size);
                  m = write_u16_le_unchecked m (out + 12) (re_status_domain e);
                  m = write_i16_le_unchecked m (out + 14) (re_status_code e)
              in (WLH_WIRE_OK, Some encoded_size, m)
    | _ \<Rightarrow> (WLH_WIRE_INVALID_ARGUMENT, output_size, m))"

definition read_rpc_envelope :: "mem \<Rightarrow> nat \<Rightarrow> rpc_envelope" where
  "read_rpc_envelope m rpc =
    \<lparr>re_service_id = read_u16_le_unchecked m (rpc + 0),
     re_method_id = read_u16_le_unchecked m (rpc + 2),
     re_request_id = read_u32_le_unchecked m (rpc + 4), re_kind = m (rpc + 8),
     re_flags = m (rpc + 9), re_payload_size = read_u16_le_unchecked m (rpc + 10),
     re_status_domain = read_u16_le_unchecked m (rpc + 12),
     re_status_code = read_i16_le_unchecked m (rpc + 14)\<rparr>"

definition wlh_rpc_decode ::
  "mem \<Rightarrow> rpc_envelope option \<Rightarrow> ptr option \<Rightarrow> nat option \<Rightarrow> ptr \<Rightarrow> nat \<Rightarrow> nat \<Rightarrow>
    wire_result \<times> rpc_envelope option \<times> ptr option \<times> nat option" where
  "wlh_rpc_decode m envelope payload payload_size rpc rpc_size negotiated =
    (case (envelope, payload, payload_size, rpc) of
      (Some _, Some _, Some _, Some p) \<Rightarrow>
        if negotiated > 65535 then (WLH_WIRE_INVALID_ARGUMENT, envelope, Some None, Some 0)
        else if rpc_size < WLH_RPC_ENVELOPE_SIZE
        then (WLH_WIRE_TRUNCATED, envelope, Some None, Some 0)
        else
          let e = read_rpc_envelope m p;
              fail = (\<lambda>r. (r, Some e, Some None, Some 0));
              result = wlh_rpc_envelope_validate (Some e);
              expected_size = WLH_RPC_ENVELOPE_SIZE + unat (re_payload_size e)
          in
          if result \<noteq> WLH_WIRE_OK then fail result
          else if unat (re_payload_size e) > negotiated then fail WLH_WIRE_INVALID_LENGTH
          else if rpc_size < expected_size then fail WLH_WIRE_TRUNCATED
          else if rpc_size \<noteq> expected_size then fail WLH_WIRE_INVALID_LENGTH
          else (WLH_WIRE_OK, Some e, Some (Some (p + WLH_RPC_ENVELOPE_SIZE)),
            Some (unat (re_payload_size e)))
    | _ \<Rightarrow> (WLH_WIRE_INVALID_ARGUMENT, envelope, payload, payload_size))"

definition empty_envelope :: rpc_envelope where
  "empty_envelope = \<lparr>re_service_id = 0, re_method_id = 0, re_request_id = 0, re_kind = 0,
    re_flags = 0, re_payload_size = 0, re_status_domain = 0, re_status_code = 0\<rparr>"

definition wlh_rpc_validate :: "mem \<Rightarrow> ptr \<Rightarrow> nat \<Rightarrow> nat \<Rightarrow> wire_result" where
  "wlh_rpc_validate m rpc rpc_size negotiated =
    fst (wlh_rpc_decode m (Some empty_envelope) (Some None) (Some 0) rpc rpc_size negotiated)"

section \<open>The byte string of an envelope\<close>

definition envelope_bytes :: "rpc_envelope \<Rightarrow> u16 \<Rightarrow> u8 list" where
  "envelope_bytes e len =
    u16_bytes (re_service_id e) @ u16_bytes (re_method_id e) @ u32_bytes (re_request_id e) @
    [re_kind e, re_flags e] @ u16_bytes len @ u16_bytes (re_status_domain e) @
    u16_bytes (re_status_code e)"

definition rpc_bytes :: "rpc_envelope \<Rightarrow> u8 list \<Rightarrow> u8 list" where
  "rpc_bytes e payload = envelope_bytes e (of_nat (length payload)) @ payload"

text \<open>The documented rule: a request names a request and carries no status, a response names a
  request, an event need not, and outside requests the status domain is NONE exactly when the
  status code is OK.\<close>

definition envelope_valid :: "rpc_envelope \<Rightarrow> bool" where
  "envelope_valid e \<longleftrightarrow> re_service_id e \<noteq> 0 \<and> re_method_id e \<noteq> 0 \<and> re_flags e AND NOT 3 = 0 \<and>
    (re_kind e = 1 \<and> re_request_id e \<noteq> 0 \<and> re_status_domain e = 0 \<and> re_status_code e = 0 \<or>
     re_kind e = 2 \<and> re_request_id e \<noteq> 0 \<and> (re_status_code e = 0) = (re_status_domain e = 0) \<or>
     re_kind e = 3 \<and> (re_status_code e = 0) = (re_status_domain e = 0))"

lemma kind_range: "\<not> (k < (1 :: u8) \<or> k > 3) \<longleftrightarrow> k = 1 \<or> k = 2 \<or> k = 3"
proof -
  have "\<not> (unat k < 1 \<or> unat k > 3) \<longleftrightarrow> unat k = 1 \<or> unat k = 2 \<or> unat k = 3" by arith
  then show ?thesis by (simp add: word_less_nat_alt word_unat_eq_iff)
qed

lemma envelope_validate_ok: "wlh_rpc_envelope_validate (Some e) = WLH_WIRE_OK \<longleftrightarrow> envelope_valid e"
  using kind_range [of "re_kind e"]
  by (simp add: wlh_rpc_envelope_validate_def envelope_valid_def wire_consts) blast

lemma length_envelope_bytes [simp]: "length (envelope_bytes e len) = 16"
  by (simp add: envelope_bytes_def)

lemma length_rpc_bytes [simp]: "length (rpc_bytes e p) = 16 + length p"
  by (simp add: rpc_bytes_def)

lemma encode_envelope_writes:
  fixes m :: mem
  shows "write_i16_le_unchecked (write_u16_le_unchecked (write_u16_le_unchecked
      ((write_u32_le_unchecked (write_u16_le_unchecked (write_u16_le_unchecked m (out + 0)
        (re_service_id e)) (out + 2) (re_method_id e)) (out + 4) (re_request_id e))
        (out + 8 := re_kind e, out + 9 := re_flags e)) (out + 10) len) (out + 12)
        (re_status_domain e)) (out + 14) (re_status_code e) =
    mem_write m out (envelope_bytes e len)"
  unfolding write_u16_bytes write_u32_bytes write_i16_le_unchecked_def mem_upd_write
    envelope_bytes_def
  by (simp add: mem_write_write add.assoc del: mem_write.simps)

lemma rpc_encode_writes:
  assumes e: "envelope_valid e" and n: "n \<le> 65535" and cap: "16 + n \<le> cap"
    and p: "\<not> (payload = None \<and> n \<noteq> 0)"
  shows "wlh_rpc_encode m (Some out) cap (Some sz) (Some e) payload n =
    (WLH_WIRE_OK, Some (16 + n), mem_write m out (rpc_bytes e (ptr_bytes m payload n)))"
proof -
  let ?pl = "ptr_bytes m payload n"
  have len: "length ?pl = n" by (rule length_ptr_bytes [OF p])
  have moved: "(case payload of None \<Rightarrow> m
      | Some src \<Rightarrow> if n \<noteq> 0 then memmove m (out + 16) src n else m) = mem_write m (out + 16) ?pl"
    using p by (auto simp: ptr_bytes_def memmove_write split: option.split)
  have hdr: "mem_write (mem_write m (out + 16) ?pl) out (envelope_bytes e (of_nat n)) =
      mem_write m out (rpc_bytes e ?pl)"
    by (simp add: mem_write_behind rpc_bytes_def len)
  have ok: "wlh_rpc_envelope_validate (Some e) = WLH_WIRE_OK"
    using e by (simp add: envelope_validate_ok)
  show ?thesis
    unfolding wlh_rpc_encode_def Let_def option.case prod.case ok encode_envelope_writes
      WLH_RPC_ENVELOPE_SIZE_def moved hdr
    using n cap p by simp
qed

definition parse_envelope :: "u8 list \<Rightarrow> rpc_envelope" where
  "parse_envelope bs =
    \<lparr>re_service_id = bytes_u16 (sub_bytes bs 0 2), re_method_id = bytes_u16 (sub_bytes bs 2 2),
     re_request_id = bytes_u32 (sub_bytes bs 4 4), re_kind = bs ! 8, re_flags = bs ! 9,
     re_payload_size = bytes_u16 (sub_bytes bs 10 2),
     re_status_domain = bytes_u16 (sub_bytes bs 12 2),
     re_status_code = bytes_u16 (sub_bytes bs 14 2)\<rparr>"

definition rpc_ok :: "nat \<Rightarrow> u8 list \<Rightarrow> bool" where
  "rpc_ok negotiated bs \<longleftrightarrow> (let e = parse_envelope bs in
    negotiated \<le> 65535 \<and> 16 \<le> length bs \<and> envelope_valid e \<and>
    unat (re_payload_size e) \<le> negotiated \<and> length bs = 16 + unat (re_payload_size e))"

lemma read_rpc_envelope_parse:
  assumes "mem_bytes m p n = bs" and "16 \<le> n"
  shows "read_rpc_envelope m p = parse_envelope bs"
proof -
  have sub: "k + j \<le> 16 \<Longrightarrow> mem_bytes m (p + k) j = sub_bytes bs k j" for k j
    using assms(2) by (intro mem_bytes_sub [OF assms(1)]) simp
  have at: "k < 16 \<Longrightarrow> m (p + k) = bs ! k" for k
    using assms by (intro mem_bytes_nthD [of m p n]) auto
  show ?thesis
    using sub [of 0 2] sub [of 2 2]
    by (simp add: read_rpc_envelope_def parse_envelope_def read_u16_bytes read_u32_bytes
        read_i16_le_unchecked_def sub at)
qed

lemma rpc_decode_ok_iff:
  "wlh_rpc_decode m (Some e0) (Some p0) (Some s0) (Some f) n neg = (WLH_WIRE_OK, e, p, s) \<longleftrightarrow>
    rpc_ok neg (mem_bytes m f n) \<and> e = Some (parse_envelope (mem_bytes m f n)) \<and>
    p = Some (Some (f + 16)) \<and> s = Some (n - 16)"
proof (cases "16 \<le> n \<and> neg \<le> 65535")
  case False
  then show ?thesis
    by (auto simp: wlh_rpc_decode_def rpc_ok_def wire_consts Let_def)
next
  case True
  then have "read_rpc_envelope m f = parse_envelope (mem_bytes m f n)"
    by (intro read_rpc_envelope_parse [OF refl]) simp
  with True show ?thesis
    by (auto simp: wlh_rpc_decode_def rpc_ok_def wire_consts Let_def envelope_validate_ok)
qed

lemma parse_envelope_bytes:
  "parse_envelope (envelope_bytes e len @ p) = e\<lparr>re_payload_size := len\<rparr>"
  by (simp add: parse_envelope_def envelope_bytes_def sub_bytes_def nth_append)

lemma envelope_valid_update [simp]: "envelope_valid (e\<lparr>re_payload_size := len\<rparr>) = envelope_valid e"
  by (simp add: envelope_valid_def)

lemma rpc_bytes_ok:
  assumes "envelope_valid e" and "length p \<le> neg" and "neg \<le> 65535"
  shows "rpc_ok neg (rpc_bytes e p)"
proof -
  have "unat (of_nat (length p) :: u16) = length p"
    using assms by (simp add: unsigned_of_nat take_bit_nat_eq_self)
  then show ?thesis
    using assms by (simp add: rpc_ok_def rpc_bytes_def Let_def parse_envelope_bytes)
qed

lemma rpc_ok_bytes:
  assumes "rpc_ok neg bs"
  shows "bs = rpc_bytes (parse_envelope bs) (drop 16 bs)"
proof -
  let ?e = "parse_envelope bs"
  have len: "16 \<le> length bs" "length bs = 16 + unat (re_payload_size ?e)"
    using assms by (auto simp: rpc_ok_def Let_def)
  have sub: "k + n \<le> 16 \<Longrightarrow> length (sub_bytes bs k n) = n" for k n
    using len(1) by (simp add: sub_bytes_def)
  have "of_nat (length (drop 16 bs)) = re_payload_size ?e" using len(2) by simp
  then have "envelope_bytes ?e (of_nat (length (drop 16 bs))) = sub_bytes bs 0 2 @ sub_bytes bs 2 2 @
      sub_bytes bs 4 4 @ [bs ! 8, bs ! 9] @ sub_bytes bs 10 2 @ sub_bytes bs 12 2 @ sub_bytes bs 14 2"
    by (simp add: envelope_bytes_def parse_envelope_def sub u16_bytes_bytes_u16 u32_bytes_bytes_u32)
  also have "\<dots> = take 16 bs"
  proof (rule nth_equalityI)
    have two: "2 \<le> i \<Longrightarrow> Suc (Suc (i - 2)) = i" for i by arith
    fix i
    assume "i < length (sub_bytes bs 0 2 @ sub_bytes bs 2 2 @ sub_bytes bs 4 4 @ [bs ! 8, bs ! 9] @
      sub_bytes bs 10 2 @ sub_bytes bs 12 2 @ sub_bytes bs 14 2)"
    then have "i < 16" by (simp add: sub)
    then consider "i < 2" | "2 \<le> i \<and> i < 4" | "4 \<le> i \<and> i < 8" | "i = 8" | "i = 9"
      | "10 \<le> i \<and> i < 12" | "12 \<le> i \<and> i < 14" | "14 \<le> i \<and> i < 16" by fastforce
    then show "(sub_bytes bs 0 2 @ sub_bytes bs 2 2 @ sub_bytes bs 4 4 @ [bs ! 8, bs ! 9] @
      sub_bytes bs 10 2 @ sub_bytes bs 12 2 @ sub_bytes bs 14 2) ! i = take 16 bs ! i"
      using len(1) by cases (auto simp: sub_bytes_def nth_append nth_Cons' two)
  qed (use len(1) in \<open>simp add: sub\<close>)
  finally show ?thesis by (simp add: rpc_bytes_def)
qed

section \<open>Properties\<close>

text \<open>Encoding of an RPC message, on every branch: refusals leave the memory alone, success
  stores exactly the message of the payload as it was before the call, overlapping or not.\<close>

theorem wlh_rpc_encode_correct:
  "wlh_rpc_encode m (Some out) cap (Some sz) (Some e) payload n =
    (if payload = None \<and> n \<noteq> 0 then (WLH_WIRE_INVALID_ARGUMENT, Some sz, m)
     else if \<not> envelope_valid e then (wlh_rpc_envelope_validate (Some e), Some 0, m)
     else if n > 65535 then (WLH_WIRE_INVALID_LENGTH, Some 0, m)
     else if cap < 16 + n then (WLH_WIRE_BUFFER_TOO_SMALL, Some 0, m)
     else (WLH_WIRE_OK, Some (16 + n), mem_write m out (rpc_bytes e (ptr_bytes m payload n))))"
proof (cases "envelope_valid e \<and> n \<le> 65535 \<and> 16 + n \<le> cap \<and> \<not> (payload = None \<and> n \<noteq> 0)")
  case True
  then show ?thesis using rpc_encode_writes [of e n cap payload m out sz] by auto
next
  case False
  then show ?thesis
    by (auto simp: wlh_rpc_encode_def Let_def envelope_validate_ok wire_consts split: option.split)
qed

text \<open>C38: The decoder succeeds exactly on the messages of valid envelopes within the negotiated
  payload size, and returns the envelope and a pointer to the payload that was encoded.\<close>

theorem wlh_rpc_decode_correct:
  "wlh_rpc_decode m (Some e0) (Some p0) (Some s0) (Some f) n neg = (WLH_WIRE_OK, e, p, s) \<longleftrightarrow>
    (\<exists>e' payload. envelope_valid e' \<and> length payload \<le> neg \<and> neg \<le> 65535 \<and>
      mem_bytes m f n = rpc_bytes e' payload \<and>
      e = Some (e'\<lparr>re_payload_size := of_nat (length payload)\<rparr>) \<and>
      p = Some (Some (f + 16)) \<and> s = Some (length payload) \<and>
      mem_bytes m (f + 16) (length payload) = payload)"
  (is "?dec \<longleftrightarrow> ?can")
proof
  let ?bs = "mem_bytes m f n"
  assume ?dec
  then have ok: "rpc_ok neg ?bs" and out: "e = Some (parse_envelope ?bs)" "p = Some (Some (f + 16))"
      "s = Some (n - 16)"
    by (simp_all add: rpc_decode_ok_iff)
  from ok have e: "envelope_valid (parse_envelope ?bs)" "n - 16 \<le> neg" "neg \<le> 65535" "16 \<le> n"
    and size: "n - 16 = unat (re_payload_size (parse_envelope ?bs))"
    by (auto simp: rpc_ok_def Let_def)
  have "parse_envelope ?bs = (parse_envelope ?bs)\<lparr>re_payload_size := of_nat (n - 16)\<rparr>"
    unfolding size by simp
  moreover have "mem_bytes m (f + 16) (n - 16) = drop 16 ?bs" by (simp add: drop_mem_bytes)
  ultimately show ?can
    using e out rpc_ok_bytes [OF ok]
    by (intro exI [of _ "parse_envelope ?bs"] exI [of _ "drop 16 ?bs"]) simp
next
  assume ?can
  then obtain e' pl where c: "envelope_valid e'" "length pl \<le> neg" "neg \<le> 65535"
    "mem_bytes m f n = rpc_bytes e' pl" "e = Some (e'\<lparr>re_payload_size := of_nat (length pl)\<rparr>)"
    "p = Some (Some (f + 16))" "s = Some (length pl)" by blast
  have "n = 16 + length pl" using arg_cong [OF c(4), of length] by simp
  with c rpc_bytes_ok [OF c(1-3)] show ?dec
    by (simp add: rpc_decode_ok_iff rpc_bytes_def parse_envelope_bytes)
qed

end
