(* ===== verification/Raw_Record.thy ===== *)
theory Raw_Record
  imports Rpc_Codec
begin

text \<open>
  The raw record container of protocol/src/raw_record.c: one encoder, and an iterator that
  walks the records of a payload. Several records are aggregated in one frame, so the
  properties are about whole sequences of records.
\<close>

section \<open>Data\<close>

definition WLH_RAW_RECORD_HEADER_SIZE :: nat where
  [wire_consts]: "WLH_RAW_RECORD_HEADER_SIZE = 8"

record raw_record_view =
  rv_record_type :: u8
  rv_flags :: u8
  rv_payload :: ptr
  rv_payload_size :: nat

record raw_record_iterator =
  ri_data :: ptr
  ri_size :: nat
  ri_offset :: nat

section \<open>The code\<close>

text \<open>\<open>size_max\<close> is the platform's \<open>SIZE_MAX\<close>. The header is written before the payload is
  moved, unlike in the frame encoder.\<close>

definition wlh_raw_record_encode ::
  "nat \<Rightarrow> mem \<Rightarrow> ptr \<Rightarrow> nat \<Rightarrow> nat option \<Rightarrow> u8 \<Rightarrow> u8 \<Rightarrow> ptr \<Rightarrow> nat \<Rightarrow>
    wire_result \<times> nat option \<times> mem" where
  "wlh_raw_record_encode size_max m output output_capacity output_size record_type flags payload
      payload_size =
    (case (output, output_size) of
      (Some out, Some _) \<Rightarrow>
        if payload = None \<and> payload_size \<noteq> 0
        then (WLH_WIRE_INVALID_ARGUMENT, output_size, m)
        else if payload_size > 4294967295 \<or> payload_size > size_max - WLH_RAW_RECORD_HEADER_SIZE
        then (WLH_WIRE_INVALID_LENGTH, Some 0, m)
        else
          let encoded_size = WLH_RAW_RECORD_HEADER_SIZE + payload_size in
          if output_capacity < encoded_size then (WLH_WIRE_BUFFER_TOO_SMALL, Some 0, m)
          else
            let m = m(out := record_type);
                m = m(out + 1 := flags);
                m = snd (wlh_write_u16_le m (Some (out + 2)) 2 (of_nat WLH_RAW_RECORD_HEADER_SIZE));
                m = snd (wlh_write_u32_le m (Some (out + 4)) 4 (of_nat payload_size));
                m = (case payload of
                      None \<Rightarrow> m
                    | Some src \<Rightarrow> if payload_size \<noteq> 0
                        then memmove m (out + WLH_RAW_RECORD_HEADER_SIZE) src payload_size else m)
            in (WLH_WIRE_OK, Some encoded_size, m)
    | _ \<Rightarrow> (WLH_WIRE_INVALID_ARGUMENT, output_size, m))"

definition wlh_raw_record_iterator_init ::
  "raw_record_iterator option \<Rightarrow> ptr \<Rightarrow> nat \<Rightarrow> wire_result \<times> raw_record_iterator option" where
  "wlh_raw_record_iterator_init iterator data n =
    (if iterator = None \<or> (data = None \<and> n \<noteq> 0) then (WLH_WIRE_INVALID_ARGUMENT, iterator)
     else (WLH_WIRE_OK, Some \<lparr>ri_data = data, ri_size = n, ri_offset = 0\<rparr>))"

definition wlh_raw_record_iterator_next ::
  "mem \<Rightarrow> raw_record_iterator option \<Rightarrow> raw_record_view option \<Rightarrow>
    wire_result \<times> raw_record_iterator option \<times> raw_record_view option" where
  "wlh_raw_record_iterator_next m iterator view = (case (iterator, view) of
      (Some it, Some _) \<Rightarrow>
        let empty = \<lparr>rv_record_type = 0, rv_flags = 0, rv_payload = None, rv_payload_size = 0\<rparr> in
        if ri_offset it > ri_size it then (WLH_WIRE_INVALID_ARGUMENT, iterator, Some empty)
        else
          let remaining = ri_size it - ri_offset it in
          if remaining = 0 then (WLH_WIRE_END, iterator, Some empty)
          else if remaining < WLH_RAW_RECORD_HEADER_SIZE
          then (WLH_WIRE_TRUNCATED, iterator, Some empty)
          else
            let rec = the (ri_data it) + ri_offset it;
                header_size = unat (the (snd (wlh_read_u16_le m (Some (rec + 2)) 2 (Some 0))));
                payload_size = unat (the (snd (wlh_read_u32_le m (Some (rec + 4)) 4 (Some 0))))
            in
            if header_size < WLH_RAW_RECORD_HEADER_SIZE
            then (WLH_WIRE_INVALID_HEADER_SIZE, iterator, Some empty)
            else if header_size > remaining then (WLH_WIRE_TRUNCATED, iterator, Some empty)
            else if payload_size > remaining - header_size
            then (WLH_WIRE_TRUNCATED, iterator, Some empty)
            else
              (WLH_WIRE_OK,
               Some (it\<lparr>ri_offset := ri_offset it + (header_size + payload_size)\<rparr>),
               Some \<lparr>rv_record_type = m rec, rv_flags = m (rec + 1),
                 rv_payload = Some (rec + header_size), rv_payload_size = payload_size\<rparr>)
    | _ \<Rightarrow> (WLH_WIRE_INVALID_ARGUMENT, iterator, view))"

section \<open>Walking a payload\<close>

text \<open>Every user of the iterator loops \<open>while (iterator_next(&it, &view) == WLH_WIRE_OK)\<close>. The
  loop returns the views seen and the result it stopped with.\<close>

definition empty_view :: raw_record_view where
  "empty_view = \<lparr>rv_record_type = 0, rv_flags = 0, rv_payload = None, rv_payload_size = 0\<rparr>"

lemma iterator_next_progress:
  assumes "wlh_raw_record_iterator_next m (Some it) (Some v) = (WLH_WIRE_OK, it', v')"
  shows "\<exists>j w. it' = Some j \<and> v' = Some w \<and> ri_data j = ri_data it \<and> ri_size j = ri_size it \<and>
    ri_offset it + 8 + rv_payload_size w \<le> ri_offset j \<and> ri_offset j \<le> ri_size it \<and>
    (\<exists>a. rv_payload w = Some a \<and> the (ri_data it) + ri_offset it + 8 \<le> a \<and>
      a + rv_payload_size w = the (ri_data it) + ri_offset j)"
  using assms
  by (auto simp: wlh_raw_record_iterator_next_def wire_consts Let_def split: if_splits)

function walk_records ::
  "mem \<Rightarrow> raw_record_iterator \<Rightarrow> raw_record_view list \<times> wire_result" where
  "walk_records m it =
    (case wlh_raw_record_iterator_next m (Some it) (Some empty_view) of
      (WLH_WIRE_OK, Some it', Some v) \<Rightarrow>
        (case walk_records m it' of (vs, r) \<Rightarrow> (v # vs, r))
    | (r, _, _) \<Rightarrow> ([], r))"
  by pat_completeness auto
termination
  by (relation "measure (\<lambda>(m, it). ri_size it - ri_offset it)")
    (auto dest!: iterator_next_progress [OF sym])

declare walk_records.simps [simp del]

text \<open>The same walk over the bytes themselves: type, flags and payload of each record.\<close>

type_synonym raw_record = "u8 \<times> u8 \<times> u8 list"

function parse_records :: "u8 list \<Rightarrow> raw_record list \<times> wire_result" where
  "parse_records bs =
    (if bs = [] then ([], WLH_WIRE_END)
     else if length bs < 8 then ([], WLH_WIRE_TRUNCATED)
     else
       let hs = unat (bytes_u16 (sub_bytes bs 2 2)); n = unat (bytes_u32 (sub_bytes bs 4 4)) in
       if hs < 8 then ([], WLH_WIRE_INVALID_HEADER_SIZE)
       else if length bs < hs + n then ([], WLH_WIRE_TRUNCATED)
       else case parse_records (drop (hs + n) bs) of
         (rs, r) \<Rightarrow> ((bs ! 0, bs ! 1, sub_bytes bs hs n) # rs, r))"
  by pat_completeness auto
termination
  by (relation "measure length") auto

declare parse_records.simps [simp del]

definition view_record :: "mem \<Rightarrow> raw_record_view \<Rightarrow> raw_record" where
  "view_record m v =
    (rv_record_type v, rv_flags v, mem_bytes m (the (rv_payload v)) (rv_payload_size v))"

lemma read_u16_cell [simp]: "snd (wlh_read_u16_le m (Some a) 2 (Some v)) = Some (read_u16_le_unchecked m a)"
  by (simp add: wlh_read_u16_le_def)

lemma read_u32_cell [simp]: "snd (wlh_read_u32_le m (Some a) 4 (Some v)) = Some (read_u32_le_unchecked m a)"
  by (simp add: wlh_read_u32_le_def)

lemma view_record_bytes:
  "8 \<le> n \<Longrightarrow> hs + k \<le> n \<Longrightarrow>
    view_record m \<lparr>rv_record_type = m rec, rv_flags = m (rec + 1), rv_payload = Some (rec + hs),
      rv_payload_size = k\<rparr> =
    (mem_bytes m rec n ! 0, mem_bytes m rec n ! 1, sub_bytes (mem_bytes m rec n) hs k)"
  by (simp add: view_record_def mem_bytes_sub [OF refl, symmetric])

lemma write_u16_cell: "snd (wlh_write_u16_le m (Some a) 2 v) = write_u16_le_unchecked m a v"
  by (simp add: wlh_write_u16_le_def)

lemma write_u32_cell: "snd (wlh_write_u32_le m (Some a) 4 v) = write_u32_le_unchecked m a v"
  by (simp add: wlh_write_u32_le_def)

lemma iterator_next_eval:
  assumes it: "ri_data it = Some p" "ri_offset it + 8 \<le> ri_size it"
    and rec: "rec = p + ri_offset it"
    and hs: "hs = unat (read_u16_le_unchecked m (rec + 2))"
    and k: "k = unat (read_u32_le_unchecked m (rec + 4))"
  shows "wlh_raw_record_iterator_next m (Some it) (Some v) =
    (if hs < 8 then (WLH_WIRE_INVALID_HEADER_SIZE, Some it, Some empty_view)
     else if ri_offset it + hs + k \<le> ri_size it
     then (WLH_WIRE_OK, Some (it\<lparr>ri_offset := ri_offset it + (hs + k)\<rparr>),
       Some \<lparr>rv_record_type = m rec, rv_flags = m (rec + 1), rv_payload = Some (rec + hs),
         rv_payload_size = k\<rparr>)
     else (WLH_WIRE_TRUNCATED, Some it, Some empty_view))"
proof -
  obtain n where n: "ri_size it = ri_offset it + n" using it(2) by (metis add.assoc le_Suc_ex)
  have "wlh_raw_record_iterator_next m (Some it) (Some v) =
    (if hs < 8 then (WLH_WIRE_INVALID_HEADER_SIZE, Some it, Some empty_view)
     else if n < hs then (WLH_WIRE_TRUNCATED, Some it, Some empty_view)
     else if n - hs < k then (WLH_WIRE_TRUNCATED, Some it, Some empty_view)
     else (WLH_WIRE_OK, Some (it\<lparr>ri_offset := ri_offset it + (hs + k)\<rparr>),
       Some \<lparr>rv_record_type = m rec, rv_flags = m (rec + 1), rv_payload = Some (rec + hs),
         rv_payload_size = k\<rparr>))"
    unfolding hs k rec using it n
    by (simp add: wlh_raw_record_iterator_next_def wire_consts Let_def empty_view_def)
  then show ?thesis using n by (auto split: if_splits)
qed

lemma walk_records_parse:
  "ri_data it = Some p \<Longrightarrow> ri_offset it \<le> ri_size it \<Longrightarrow>
    map_prod (map (view_record m)) id (walk_records m it) =
    parse_records (mem_bytes m (p + ri_offset it) (ri_size it - ri_offset it))"
proof (induction m it rule: walk_records.induct)
  case (1 m it)
  let ?rec = "p + ri_offset it" and ?n = "ri_size it - ri_offset it"
  let ?bs = "mem_bytes m ?rec ?n"
  consider "?n = 0" | "?n \<noteq> 0 \<and> ?n < 8" | "8 \<le> ?n" by linarith
  then show ?case
  proof cases
    case 3
    let ?hs = "unat (bytes_u16 (mem_bytes m (?rec + 2) 2))"
      and ?k = "unat (bytes_u32 (mem_bytes m (?rec + 4) 4))"
    have hd: "mem_bytes m (?rec + 2) 2 = sub_bytes ?bs 2 2"
      "mem_bytes m (?rec + 4) 4 = sub_bytes ?bs 4 4"
      by (rule mem_bytes_sub [OF refl]; use 3 in simp)+
    have off: "ri_offset it + 8 \<le> ri_size it" using 3 by linarith
    have ne: "?bs \<noteq> []" using 3 length_mem_bytes [of m ?rec ?n] by fastforce
    note eval = iterator_next_eval [OF 1(2) off refl refl refl, of m empty_view,
        unfolded read_u16_bytes read_u32_bytes]
    show ?thesis
    proof (cases "8 \<le> ?hs \<and> ?hs + ?k \<le> ?n")
      case True
      let ?it = "it\<lparr>ri_offset := ri_offset it + (?hs + ?k)\<rparr>"
      let ?v = "\<lparr>rv_record_type = m ?rec, rv_flags = m (?rec + 1), rv_payload = Some (?rec + ?hs),
        rv_payload_size = ?k\<rparr>"
      have lim: "ri_offset it + (?hs + ?k) \<le> ri_size it" using True 3 by linarith
      have nxt: "wlh_raw_record_iterator_next m (Some it) (Some empty_view) =
          (WLH_WIRE_OK, Some ?it, Some ?v)"
        unfolding eval using True lim by (simp add: add.assoc)
      have "map_prod (map (view_record m)) id (walk_records m ?it) =
          parse_records (mem_bytes m (p + ri_offset ?it) (ri_size ?it - ri_offset ?it))"
        using 1 nxt lim by (intro 1(1) [OF nxt [symmetric] refl refl]) auto
      moreover have "drop (?hs + ?k) ?bs = mem_bytes m (p + ri_offset ?it) (ri_size ?it - ri_offset ?it)"
        by (simp add: drop_mem_bytes add.assoc)
      moreover have "view_record m ?v = (?bs ! 0, ?bs ! 1, sub_bytes ?bs ?hs ?k)"
        using True 3 by (intro view_record_bytes) auto
      ultimately show ?thesis
        using True 3 hd nxt ne
        by (subst walk_records.simps, subst parse_records.simps)
          (auto simp: Let_def split: prod.splits)
    next
      case False
      let ?r = "if ?hs < 8 then WLH_WIRE_INVALID_HEADER_SIZE else WLH_WIRE_TRUNCATED"
      have "wlh_raw_record_iterator_next m (Some it) (Some empty_view) =
          (?r, Some it, Some empty_view)"
        unfolding eval using False 3 by auto
      moreover have "parse_records ?bs = ([], ?r)"
        using False 3 hd ne by (subst parse_records.simps) (auto simp: Let_def)
      ultimately show ?thesis by (subst walk_records.simps) simp
    qed
  qed (use 1 in \<open>subst walk_records.simps, subst parse_records.simps,
      auto simp: wlh_raw_record_iterator_next_def wire_consts Let_def\<close>)+
qed

section \<open>The byte string of a record sequence\<close>

text \<open>A record with \<open>extra\<close> header bytes behind the eight known ones, which the forward
  compatibility rule lets a newer peer send; this encoder writes none.\<close>

definition ext_record_bytes :: "u8 list \<times> raw_record \<Rightarrow> u8 list" where
  "ext_record_bytes = (\<lambda>(extra, ty, fl, pl).
    [ty, fl] @ u16_bytes (of_nat (8 + length extra)) @ u32_bytes (of_nat (length pl)) @ extra @ pl)"

definition record_bytes :: "raw_record \<Rightarrow> u8 list" where
  "record_bytes r = ext_record_bytes ([], r)"

definition ext_record_valid :: "u8 list \<times> raw_record \<Rightarrow> bool" where
  "ext_record_valid = (\<lambda>(extra, ty, fl, pl). length extra \<le> 65527 \<and> length pl \<le> 4294967295)"

lemma length_ext_record_bytes [simp]:
  "length (ext_record_bytes (extra, ty, fl, pl)) = 8 + length extra + length pl"
  by (simp add: ext_record_bytes_def)

lemma length_record_bytes [simp]: "length (record_bytes (ty, fl, pl)) = 8 + length pl"
  by (simp add: record_bytes_def)

lemma unat_of_nat_u16: "n \<le> 65535 \<Longrightarrow> unat (of_nat n :: u16) = n"
  by (simp add: unsigned_of_nat take_bit_nat_eq_self)

lemma unat_of_nat_u32: "n \<le> 4294967295 \<Longrightarrow> unat (of_nat n :: u32) = n"
  by (simp add: unsigned_of_nat take_bit_nat_eq_self)

lemma sub_bytes_at: "k = length xs \<Longrightarrow> n = length ys \<Longrightarrow> sub_bytes (xs @ ys @ zs) k n = ys"
  by (simp add: sub_bytes_def)

lemma parse_records_Cons:
  assumes "ext_record_valid (extra, ty, fl, pl)"
  shows "parse_records (ext_record_bytes (extra, ty, fl, pl) @ bs) =
    (case parse_records bs of (rs, r) \<Rightarrow> ((ty, fl, pl) # rs, r))"
proof -
  let ?rec = "ext_record_bytes (extra, ty, fl, pl)"
  have hs: "sub_bytes (?rec @ bs) 2 2 = u16_bytes (of_nat (8 + length extra))"
    and n: "sub_bytes (?rec @ bs) 4 4 = u32_bytes (of_nat (length pl))"
    and pl: "sub_bytes (?rec @ bs) (8 + length extra) (length pl) = pl"
    and at: "(?rec @ bs) ! 0 = ty" "(?rec @ bs) ! 1 = fl"
    using sub_bytes_at [of 2 "[ty, fl]" 2] sub_bytes_at [of 4 "[ty, fl] @ u16_bytes _" 4]
      sub_bytes_at [of "8 + length extra" "[ty, fl] @ u16_bytes _ @ u32_bytes _ @ extra" "length pl" pl bs]
    by (simp_all add: ext_record_bytes_def)
  have sizes: "unat (of_nat (8 + length extra) :: u16) = 8 + length extra"
    "unat (of_nat (length pl) :: u32) = length pl"
    using assms unat_of_nat_u16 [of "8 + length extra"] unat_of_nat_u32 [of "length pl"]
    by (simp_all add: ext_record_valid_def)
  have rest: "drop (8 + length extra + length pl) (?rec @ bs) = bs" by simp
  have ne: "?rec @ bs \<noteq> []" "\<not> length (?rec @ bs) < 8"
    by (auto simp: ext_record_bytes_def)
  show ?thesis
    by (subst parse_records.simps)
      (simp only: ne if_False Let_def hs n bytes_u16_u16_bytes bytes_u32_u32_bytes sizes pl at rest,
        simp)
qed

lemma parse_records_encoded:
  "\<forall>e \<in> set es. ext_record_valid e \<Longrightarrow>
    parse_records (concat (map ext_record_bytes es) @ bs) =
    (case parse_records bs of (rs, r) \<Rightarrow> (map snd es @ rs, r))"
proof (induction es)
  case Nil
  then show ?case by (simp split: prod.split)
next
  case (Cons e es)
  obtain extra ty fl pl where e: "e = (extra, ty, fl, pl)" by (cases e) auto
  from Cons show ?case by (simp add: e parse_records_Cons split: prod.split)
qed

lemma parse_records_Nil [simp]: "parse_records [] = ([], WLH_WIRE_END)"
  by (subst parse_records.simps) simp

lemma take_sub_join: "take k bs @ sub_bytes bs k n = take (k + n) bs"
  by (simp add: sub_bytes_def take_add)

lemma record_cut:
  assumes "8 \<le> length bs" and "8 \<le> hs"
  shows "[bs ! 0, bs ! 1] @ sub_bytes bs 2 2 @ sub_bytes bs 4 4 @ sub_bytes bs 8 (hs - 8) @
    sub_bytes bs hs n = take (hs + n) bs"
proof -
  have "[bs ! 0, bs ! 1] = take 2 bs"
    using assms(1) by (cases bs; cases "tl bs") auto
  moreover have "take 2 bs @ sub_bytes bs 2 2 = take 4 bs" "take 4 bs @ sub_bytes bs 4 4 = take 8 bs"
    "take 8 bs @ sub_bytes bs 8 (hs - 8) = take hs bs"
    using take_sub_join [of 2 bs 2] take_sub_join [of 4 bs 4] take_sub_join [of 8 bs "hs - 8"] assms(2)
    by simp_all
  ultimately show ?thesis by (metis append.assoc take_sub_join)
qed

text \<open>A walk that reaches the end has seen every byte: the payload is a sequence of records.\<close>

lemma parse_records_complete:
  "parse_records bs = (rs, WLH_WIRE_END) \<Longrightarrow>
    \<exists>es. (\<forall>e \<in> set es. ext_record_valid e) \<and> map snd es = rs \<and>
      bs = concat (map ext_record_bytes es)"
proof (induction bs arbitrary: rs rule: parse_records.induct)
  case (1 bs)
  show ?case
  proof (cases "bs = []")
    case True
    with 1(2) show ?thesis by (intro exI [of _ "[]"]) simp
  next
    case False
    let ?hs = "unat (bytes_u16 (sub_bytes bs 2 2))" and ?n = "unat (bytes_u32 (sub_bytes bs 4 4))"
    let ?e = "(sub_bytes bs 8 (?hs - 8), bs ! 0, bs ! 1, sub_bytes bs ?hs ?n)"
    from 1(2) False obtain rs' where len: "8 \<le> length bs" "8 \<le> ?hs" "?hs + ?n \<le> length bs"
      and rec: "parse_records (drop (?hs + ?n) bs) = (rs', WLH_WIRE_END)" and rs: "rs = snd ?e # rs'"
      by (subst (asm) parse_records.simps) (auto simp: Let_def split: if_splits prod.splits)
    obtain es where es: "\<forall>e \<in> set es. ext_record_valid e" "map snd es = rs'"
      "drop (?hs + ?n) bs = concat (map ext_record_bytes es)"
      using 1(1) [OF False _ refl refl _ _ rec] len by auto
    have valid: "ext_record_valid ?e"
      using len unat_u16_le [of "bytes_u16 (sub_bytes bs 2 2)"]
        unat_u32_le [of "bytes_u32 (sub_bytes bs 4 4)"]
      by (auto simp: ext_record_valid_def sub_bytes_def)
    have lens: "length (sub_bytes bs 8 (?hs - 8)) = ?hs - 8" "length (sub_bytes bs ?hs ?n) = ?n"
      "length (sub_bytes bs 2 2) = 2" "length (sub_bytes bs 4 4) = 4"
      using len by (simp_all add: sub_bytes_def)
    have "ext_record_bytes ?e = [bs ! 0, bs ! 1] @ sub_bytes bs 2 2 @ sub_bytes bs 4 4 @
        sub_bytes bs 8 (?hs - 8) @ sub_bytes bs ?hs ?n"
      using len(2) by (simp add: ext_record_bytes_def lens u16_bytes_bytes_u16 u32_bytes_bytes_u32)
    also have "\<dots> = take (?hs + ?n) bs" using len(1,2) by (rule record_cut)
    finally have "ext_record_bytes ?e @ drop (?hs + ?n) bs = bs"
      by (metis append_take_drop_id)
    then have "concat (map ext_record_bytes (?e # es)) = bs" unfolding es(3) by simp
    moreover have "\<forall>e \<in> set (?e # es). ext_record_valid e" using es(1) valid by simp
    moreover have "map snd (?e # es) = rs" using es(2) rs by simp
    ultimately show ?thesis by metis
  qed
qed

section \<open>Properties\<close>

lemma raw_record_writes:
  assumes "n \<le> 4294967295" and "n \<le> size_max - 8" and "8 + n \<le> cap"
    and "\<not> (payload = None \<and> n \<noteq> 0)"
    and safe: "\<forall>src. payload = Some src \<longrightarrow> src + n \<le> out \<or> out + 8 \<le> src"
  shows "wlh_raw_record_encode size_max m (Some out) cap (Some sz) ty fl payload n =
    (WLH_WIRE_OK, Some (8 + n), mem_write m out (record_bytes (ty, fl, ptr_bytes m payload n)))"
proof -
  let ?hdr = "[ty, fl] @ u16_bytes 8 @ u32_bytes (of_nat n)"
  let ?pl = "ptr_bytes m payload n"
  have hdr: "write_u32_le_unchecked (write_u16_le_unchecked (m(out := ty, out + 1 := fl))
      (out + 2) 8) (out + 4) (of_nat n) = mem_write m out ?hdr"
    unfolding write_u16_bytes write_u32_bytes mem_upd_write
    by (simp add: mem_write_write add.assoc del: mem_write.simps)
  have same: "ptr_bytes (mem_write m out ?hdr) payload n = ?pl"
    using safe mem_bytes_write_disjoint [of _ n out ?hdr m]
    by (cases payload) (auto simp: ptr_bytes_def simp del: mem_write.simps append.simps)
  have moved: "(case payload of None \<Rightarrow> mem_write m out ?hdr
      | Some src \<Rightarrow> if n \<noteq> 0 then memmove (mem_write m out ?hdr) (out + 8) src n
          else mem_write m out ?hdr) =
    mem_write (mem_write m out ?hdr) (out + 8) ?pl"
    using same assms(4) by (auto simp: ptr_bytes_def memmove_write split: option.splits)
  have bytes: "mem_write (mem_write m out ?hdr) (out + 8) ?pl = mem_write m out (?hdr @ ?pl)"
    by (rule mem_write_write) simp
  have "record_bytes (ty, fl, ?pl) = ?hdr @ ?pl"
    by (simp add: record_bytes_def ext_record_bytes_def length_ptr_bytes [OF assms(4)])
  then show ?thesis
    unfolding wlh_raw_record_encode_def Let_def option.case prod.case WLH_RAW_RECORD_HEADER_SIZE_def
      write_u16_cell write_u32_cell of_nat_numeral hdr moved bytes
    using assms(1-4) by simp
qed

text \<open>C39: Record encoding. When the payload does not overlap the eight header bytes the call
  stores exactly the record; this covers a payload already in place behind the header, which the
  OTA sender relies on.\<close>

theorem wlh_raw_record_encode_correct:
  assumes "n \<le> 4294967295" and "n \<le> size_max - 8" and "8 + n \<le> cap"
    and "\<not> (payload = None \<and> n \<noteq> 0)"
    and "\<forall>src. payload = Some src \<longrightarrow> src + n \<le> out \<or> out + 8 \<le> src"
  shows "wlh_raw_record_encode size_max m (Some out) cap (Some sz) ty fl payload n =
    (WLH_WIRE_OK, Some (8 + n), mem_write m out (record_bytes (ty, fl, ptr_bytes m payload n)))"
  using assms by (rule raw_record_writes)

theorem wlh_raw_record_encode_correct_witness:
  "wlh_raw_record_encode 4294967295 (\<lambda>a. of_nat a) (Some 0) 16 (Some 0) 1 0 (Some 8) 2 =
    (WLH_WIRE_OK, Some 10, mem_write (\<lambda>a. of_nat a) 0 (record_bytes (1, 0, [8, 9])))"
  using wlh_raw_record_encode_correct [of 2 4294967295 16 "Some 8" 0 "\<lambda>a. of_nat a" 0 1 0]
  by (simp add: ptr_bytes_def mem_bytes_2)

text \<open>C40: The walk. Looping the iterator over a buffer ends with \<open>WLH_WIRE_END\<close> exactly when the
  buffer is a sequence of records, header extensions included, and then it has delivered exactly
  their types, flags and payloads, in order.\<close>

theorem walk_records_correct:
  "map_prod (map (view_record m)) id
      (walk_records m \<lparr>ri_data = Some p, ri_size = n, ri_offset = 0\<rparr>) = (rs, WLH_WIRE_END) \<longleftrightarrow>
    (\<exists>es. list_all ext_record_valid es \<and> map snd es = rs \<and>
      mem_bytes m p n = concat (map ext_record_bytes es))"
proof -
  have "map_prod (map (view_record m)) id
      (walk_records m \<lparr>ri_data = Some p, ri_size = n, ri_offset = 0\<rparr>) =
    parse_records (mem_bytes m p n)"
    using walk_records_parse [of "\<lparr>ri_data = Some p, ri_size = n, ri_offset = 0\<rparr>" p m] by simp
  then show ?thesis
    using parse_records_complete [of "mem_bytes m p n" rs] parse_records_encoded [of _ "[]"]
    by (auto simp: list_all_iff)
qed

lemma walk_records_within:
  "ri_data it = Some p \<Longrightarrow> walk_records m it = (vs, r) \<Longrightarrow> v \<in> set vs \<Longrightarrow>
    \<exists>a. rv_payload v = Some a \<and> p + ri_offset it + 8 \<le> a \<and> a + rv_payload_size v \<le> p + ri_size it"
proof (induction m it arbitrary: vs rule: walk_records.induct)
  case (1 m it)
  obtain w it' v' where step: "wlh_raw_record_iterator_next m (Some it) (Some empty_view) = (w, it', v')"
    by (metis prod_cases3)
  from 1(3,4) step obtain j u where w: "w = WLH_WIRE_OK" "it' = Some j" "v' = Some u"
    by (subst (asm) walk_records.simps) (auto split: wire_result.splits option.splits prod.splits)
  obtain us where us: "walk_records m j = (us, r)" "vs = u # us"
    using 1(3) step w by (subst (asm) walk_records.simps) (auto split: prod.splits)
  have prog: "ri_data j = Some p" "ri_size j = ri_size it" "ri_offset it \<le> ri_offset j"
    "\<exists>a. rv_payload u = Some a \<and> p + ri_offset it + 8 \<le> a \<and> a + rv_payload_size u \<le> p + ri_size it"
    using iterator_next_progress [OF step [unfolded w(1)]] w 1(2) by auto
  show ?case
  proof (cases "v = u")
    case True
    with prog show ?thesis by simp
  next
    case False
    then have "v \<in> set us" using 1(4) us by simp
    from 1(1) [OF step [unfolded w, symmetric] refl refl refl refl prog(1) us(1) this] prog
    show ?thesis by fastforce
  qed
qed

text \<open>Memory safety of the walk. Whatever the bytes are, every payload the iterator hands
  out lies inside the buffer, behind its record header.\<close>

theorem walk_records_safe:
  assumes "v \<in> set (fst (walk_records m \<lparr>ri_data = Some p, ri_size = n, ri_offset = 0\<rparr>))"
  shows "\<exists>a. rv_payload v = Some a \<and> p + 8 \<le> a \<and> a + rv_payload_size v \<le> p + n"
  using walk_records_within [of "\<lparr>ri_data = Some p, ri_size = n, ri_offset = 0\<rparr>" p m
      _ _ v] assms by (cases "walk_records m \<lparr>ri_data = Some p, ri_size = n, ri_offset = 0\<rparr>") auto

lemma sample_record_walk:
  "walk_records (buf_mem [1, 0, 8, 0, 1, 0, 0, 0, 7]) \<lparr>ri_data = Some 0, ri_size = 9, ri_offset = 0\<rparr> =
    ([\<lparr>rv_record_type = 1, rv_flags = 0, rv_payload = Some 8, rv_payload_size = 1\<rparr>], WLH_WIRE_END)"
  by code_simp

theorem walk_records_safe_witness:
  "\<exists>a. rv_payload \<lparr>rv_record_type = 1, rv_flags = 0, rv_payload = Some 8, rv_payload_size = 1\<rparr> =
    Some a \<and> 8 \<le> a \<and> a + 1 \<le> (9 :: nat)"
  using walk_records_safe [of "\<lparr>rv_record_type = 1, rv_flags = 0, rv_payload = Some 8,
      rv_payload_size = 1\<rparr>" "buf_mem [1, 0, 8, 0, 1, 0, 0, 0, 7]" 0 9]
  by (simp add: sample_record_walk)

end
