(* ===== verification/Ids.thy ===== *)
theory Ids
  imports Raw_Record
begin

text \<open>
  The numbers of protocol/include/wlh/protocol/ids.h: channels, services, methods, events and
  status values, and the classification of HCI events that both ends share. Status codes are
  signed 16-bit values kept by their bit pattern.
\<close>

section \<open>Channels\<close>

definition WLH_CHANNEL_LINK_CONTROL :: u8 where [id_consts]: "WLH_CHANNEL_LINK_CONTROL = 0"
definition WLH_CHANNEL_CONTROL_RPC :: u8 where [id_consts]: "WLH_CHANNEL_CONTROL_RPC = 1"
definition WLH_CHANNEL_ETHERNET_STA :: u8 where [id_consts]: "WLH_CHANNEL_ETHERNET_STA = 2"
definition WLH_CHANNEL_ETHERNET_AP :: u8 where [id_consts]: "WLH_CHANNEL_ETHERNET_AP = 3"
definition WLH_CHANNEL_BLUETOOTH_HCI :: u8 where [id_consts]: "WLH_CHANNEL_BLUETOOTH_HCI = 4"
definition WLH_CHANNEL_OTA_STREAM :: u8 where [id_consts]: "WLH_CHANNEL_OTA_STREAM = 5"
definition WLH_CHANNEL_DIAGNOSTIC_STREAM :: u8 where [id_consts]: "WLH_CHANNEL_DIAGNOSTIC_STREAM = 6"
definition WLH_CHANNEL_LOG_STREAM :: u8 where [id_consts]: "WLH_CHANNEL_LOG_STREAM = 7"
definition WLH_CHANNEL_USER_PASSTHROUGH :: u8 where [id_consts]: "WLH_CHANNEL_USER_PASSTHROUGH = 8"
definition WLH_CHANNEL_BLUETOOTH_HCI_ADV :: u8 where [id_consts]: "WLH_CHANNEL_BLUETOOTH_HCI_ADV = 9"
definition WLH_CHANNEL_ETHERNET_ETH :: u8 where [id_consts]: "WLH_CHANNEL_ETHERNET_ETH = 0xa"

section \<open>Services\<close>

definition WLH_SERVICE_INVALID :: u16 where [id_consts]: "WLH_SERVICE_INVALID = 0"
definition WLH_SERVICE_LINK :: u16 where [id_consts]: "WLH_SERVICE_LINK = 1"
definition WLH_SERVICE_WIFI :: u16 where [id_consts]: "WLH_SERVICE_WIFI = 2"
definition WLH_SERVICE_BLUETOOTH :: u16 where [id_consts]: "WLH_SERVICE_BLUETOOTH = 3"
definition WLH_SERVICE_OTA :: u16 where [id_consts]: "WLH_SERVICE_OTA = 4"
definition WLH_SERVICE_DIAGNOSTICS :: u16 where [id_consts]: "WLH_SERVICE_DIAGNOSTICS = 5"
definition WLH_SERVICE_IO :: u16 where [id_consts]: "WLH_SERVICE_IO = 6"
definition WLH_SERVICE_ADC :: u16 where [id_consts]: "WLH_SERVICE_ADC = 7"
definition WLH_SERVICE_KV :: u16 where [id_consts]: "WLH_SERVICE_KV = 8"
definition WLH_SERVICE_DEVICE_INFO :: u16 where [id_consts]: "WLH_SERVICE_DEVICE_INFO = 9"
definition WLH_SERVICE_ETH :: u16 where [id_consts]: "WLH_SERVICE_ETH = 0xa"
definition WLH_SERVICE_USER_PASSTHROUGH :: u16 where [id_consts]: "WLH_SERVICE_USER_PASSTHROUGH = 0xf"

section \<open>Link\<close>

definition WLH_LINK_METHOD_HELLO :: u16 where [id_consts]: "WLH_LINK_METHOD_HELLO = 1"
definition WLH_LINK_METHOD_CREDIT_UPDATE :: u16 where [id_consts]: "WLH_LINK_METHOD_CREDIT_UPDATE = 2"
definition WLH_LINK_METHOD_HEARTBEAT :: u16 where [id_consts]: "WLH_LINK_METHOD_HEARTBEAT = 3"
definition WLH_LINK_METHOD_CHANNEL_RESET :: u16 where [id_consts]: "WLH_LINK_METHOD_CHANNEL_RESET = 4"
definition WLH_LINK_EVENT_SESSION_CHANGED :: u16 where [id_consts]: "WLH_LINK_EVENT_SESSION_CHANGED = 0x8001"

section \<open>Wi-Fi\<close>

definition WLH_WIFI_METHOD_INITIALIZE :: u16 where [id_consts]: "WLH_WIFI_METHOD_INITIALIZE = 1"
definition WLH_WIFI_METHOD_DEINITIALIZE :: u16 where [id_consts]: "WLH_WIFI_METHOD_DEINITIALIZE = 2"
definition WLH_WIFI_METHOD_SCAN_START :: u16 where [id_consts]: "WLH_WIFI_METHOD_SCAN_START = 3"
definition WLH_WIFI_METHOD_SCAN_CANCEL :: u16 where [id_consts]: "WLH_WIFI_METHOD_SCAN_CANCEL = 4"
definition WLH_WIFI_METHOD_CONNECT :: u16 where [id_consts]: "WLH_WIFI_METHOD_CONNECT = 5"
definition WLH_WIFI_METHOD_DISCONNECT :: u16 where [id_consts]: "WLH_WIFI_METHOD_DISCONNECT = 6"
definition WLH_WIFI_METHOD_GET_LINK_INFO :: u16 where [id_consts]: "WLH_WIFI_METHOD_GET_LINK_INFO = 7"
definition WLH_WIFI_METHOD_SET_COUNTRY :: u16 where [id_consts]: "WLH_WIFI_METHOD_SET_COUNTRY = 8"
definition WLH_WIFI_METHOD_GET_COUNTRY :: u16 where [id_consts]: "WLH_WIFI_METHOD_GET_COUNTRY = 9"
definition WLH_WIFI_METHOD_SET_POWER_MODE :: u16 where [id_consts]: "WLH_WIFI_METHOD_SET_POWER_MODE = 0xa"
definition WLH_WIFI_METHOD_GET_POWER_MODE :: u16 where [id_consts]: "WLH_WIFI_METHOD_GET_POWER_MODE = 0xb"
definition WLH_WIFI_METHOD_GET_STATISTICS :: u16 where [id_consts]: "WLH_WIFI_METHOD_GET_STATISTICS = 0xc"
definition WLH_WIFI_METHOD_START_AP :: u16 where [id_consts]: "WLH_WIFI_METHOD_START_AP = 0xd"
definition WLH_WIFI_METHOD_STOP_AP :: u16 where [id_consts]: "WLH_WIFI_METHOD_STOP_AP = 0xe"
definition WLH_WIFI_METHOD_GET_AP_CLIENTS :: u16 where [id_consts]: "WLH_WIFI_METHOD_GET_AP_CLIENTS = 0xf"
definition WLH_WIFI_EVENT_SCAN_RESULT :: u16 where [id_consts]: "WLH_WIFI_EVENT_SCAN_RESULT = 0x8001"
definition WLH_WIFI_EVENT_SCAN_COMPLETED :: u16 where [id_consts]: "WLH_WIFI_EVENT_SCAN_COMPLETED = 0x8002"
definition WLH_WIFI_EVENT_CONNECTED :: u16 where [id_consts]: "WLH_WIFI_EVENT_CONNECTED = 0x8003"
definition WLH_WIFI_EVENT_DISCONNECTED :: u16 where [id_consts]: "WLH_WIFI_EVENT_DISCONNECTED = 0x8004"
definition WLH_WIFI_EVENT_AP_CLIENT_JOINED :: u16 where [id_consts]: "WLH_WIFI_EVENT_AP_CLIENT_JOINED = 0x8005"
definition WLH_WIFI_EVENT_AP_CLIENT_LEFT :: u16 where [id_consts]: "WLH_WIFI_EVENT_AP_CLIENT_LEFT = 0x8006"

section \<open>Bluetooth\<close>

definition WLH_BLUETOOTH_METHOD_INITIALIZE :: u16 where [id_consts]: "WLH_BLUETOOTH_METHOD_INITIALIZE = 1"
definition WLH_BLUETOOTH_METHOD_DEINITIALIZE :: u16 where [id_consts]: "WLH_BLUETOOTH_METHOD_DEINITIALIZE = 2"
definition WLH_BLUETOOTH_METHOD_ENABLE :: u16 where [id_consts]: "WLH_BLUETOOTH_METHOD_ENABLE = 3"
definition WLH_BLUETOOTH_METHOD_DISABLE :: u16 where [id_consts]: "WLH_BLUETOOTH_METHOD_DISABLE = 4"
definition WLH_BLUETOOTH_METHOD_GET_INFO :: u16 where [id_consts]: "WLH_BLUETOOTH_METHOD_GET_INFO = 5"
definition WLH_BLUETOOTH_EVENT_STATE_CHANGED :: u16 where [id_consts]: "WLH_BLUETOOTH_EVENT_STATE_CHANGED = 0x8001"

section \<open>H4 packet types\<close>

definition WLH_H4_TYPE_COMMAND :: u8 where [id_consts]: "WLH_H4_TYPE_COMMAND = 1"
definition WLH_H4_TYPE_ACL :: u8 where [id_consts]: "WLH_H4_TYPE_ACL = 2"
definition WLH_H4_TYPE_SCO :: u8 where [id_consts]: "WLH_H4_TYPE_SCO = 3"
definition WLH_H4_TYPE_EVENT :: u8 where [id_consts]: "WLH_H4_TYPE_EVENT = 4"
definition WLH_H4_TYPE_ISO :: u8 where [id_consts]: "WLH_H4_TYPE_ISO = 5"

section \<open>HCI events\<close>

definition WLH_HCI_EVENT_LE_META :: u8 where [id_consts]: "WLH_HCI_EVENT_LE_META = 0x3e"
definition WLH_HCI_LE_SUBEVENT_ADV_REPORT :: u8 where [id_consts]: "WLH_HCI_LE_SUBEVENT_ADV_REPORT = 2"
definition WLH_HCI_LE_SUBEVENT_DIRECT_ADV_REPORT :: u8 where [id_consts]: "WLH_HCI_LE_SUBEVENT_DIRECT_ADV_REPORT = 0xb"
definition WLH_HCI_LE_SUBEVENT_EXT_ADV_REPORT :: u8 where [id_consts]: "WLH_HCI_LE_SUBEVENT_EXT_ADV_REPORT = 0xd"
definition WLH_HCI_LE_SUBEVENT_PERIODIC_ADV_REPORT :: u8 where [id_consts]: "WLH_HCI_LE_SUBEVENT_PERIODIC_ADV_REPORT = 0xf"

section \<open>OTA\<close>

definition WLH_OTA_METHOD_BEGIN :: u16 where [id_consts]: "WLH_OTA_METHOD_BEGIN = 1"
definition WLH_OTA_METHOD_FINALIZE :: u16 where [id_consts]: "WLH_OTA_METHOD_FINALIZE = 2"
definition WLH_OTA_METHOD_ABORT :: u16 where [id_consts]: "WLH_OTA_METHOD_ABORT = 3"
definition WLH_OTA_METHOD_ACTIVATE :: u16 where [id_consts]: "WLH_OTA_METHOD_ACTIVATE = 4"
definition WLH_OTA_METHOD_QUERY :: u16 where [id_consts]: "WLH_OTA_METHOD_QUERY = 5"
definition WLH_OTA_EVENT_PROGRESS :: u16 where [id_consts]: "WLH_OTA_EVENT_PROGRESS = 0x8001"

section \<open>Diagnostics\<close>

definition WLH_DIAGNOSTICS_METHOD_PING :: u16 where [id_consts]: "WLH_DIAGNOSTICS_METHOD_PING = 1"
definition WLH_DIAGNOSTICS_METHOD_GET_STATISTICS :: u16 where [id_consts]: "WLH_DIAGNOSTICS_METHOD_GET_STATISTICS = 2"
definition WLH_DIAGNOSTICS_METHOD_SET_LOG :: u16 where [id_consts]: "WLH_DIAGNOSTICS_METHOD_SET_LOG = 3"
definition WLH_DIAGNOSTICS_METHOD_RESET_COPROCESSOR :: u16 where [id_consts]: "WLH_DIAGNOSTICS_METHOD_RESET_COPROCESSOR = 4"
definition WLH_DIAGNOSTICS_EVENT_FAULT :: u16 where [id_consts]: "WLH_DIAGNOSTICS_EVENT_FAULT = 0x8001"

section \<open>IO\<close>

definition WLH_IO_METHOD_CONFIGURE :: u16 where [id_consts]: "WLH_IO_METHOD_CONFIGURE = 1"
definition WLH_IO_METHOD_READ :: u16 where [id_consts]: "WLH_IO_METHOD_READ = 2"
definition WLH_IO_METHOD_WRITE :: u16 where [id_consts]: "WLH_IO_METHOD_WRITE = 3"

section \<open>ADC\<close>

definition WLH_ADC_METHOD_READ :: u16 where [id_consts]: "WLH_ADC_METHOD_READ = 1"

section \<open>KV\<close>

definition WLH_KV_METHOD_READ :: u16 where [id_consts]: "WLH_KV_METHOD_READ = 1"
definition WLH_KV_METHOD_WRITE :: u16 where [id_consts]: "WLH_KV_METHOD_WRITE = 2"
definition WLH_KV_METHOD_ERASE :: u16 where [id_consts]: "WLH_KV_METHOD_ERASE = 3"

section \<open>Device information\<close>

definition WLH_DEVICE_INFO_METHOD_GET_INFO :: u16 where [id_consts]: "WLH_DEVICE_INFO_METHOD_GET_INFO = 1"

section \<open>Wired Ethernet\<close>

definition WLH_ETH_METHOD_GET_INFO :: u16 where [id_consts]: "WLH_ETH_METHOD_GET_INFO = 1"
definition WLH_ETH_EVENT_LINK_STATE_CHANGED :: u16 where [id_consts]: "WLH_ETH_EVENT_LINK_STATE_CHANGED = 0x8001"

section \<open>User passthrough\<close>

definition WLH_USER_PASSTHROUGH_METHOD_SEND :: u16 where [id_consts]: "WLH_USER_PASSTHROUGH_METHOD_SEND = 1"
definition WLH_USER_PASSTHROUGH_EVENT_RESULT :: u16 where [id_consts]: "WLH_USER_PASSTHROUGH_EVENT_RESULT = 0x8001"

section \<open>Status domains\<close>

definition WLH_STATUS_DOMAIN_NONE :: u16 where [id_consts]: "WLH_STATUS_DOMAIN_NONE = 0"
definition WLH_STATUS_DOMAIN_PROTOCOL :: u16 where [id_consts]: "WLH_STATUS_DOMAIN_PROTOCOL = 1"
definition WLH_STATUS_DOMAIN_TRANSPORT :: u16 where [id_consts]: "WLH_STATUS_DOMAIN_TRANSPORT = 2"
definition WLH_STATUS_DOMAIN_LINK :: u16 where [id_consts]: "WLH_STATUS_DOMAIN_LINK = 3"
definition WLH_STATUS_DOMAIN_WIFI :: u16 where [id_consts]: "WLH_STATUS_DOMAIN_WIFI = 4"
definition WLH_STATUS_DOMAIN_BLUETOOTH :: u16 where [id_consts]: "WLH_STATUS_DOMAIN_BLUETOOTH = 5"
definition WLH_STATUS_DOMAIN_OTA :: u16 where [id_consts]: "WLH_STATUS_DOMAIN_OTA = 6"
definition WLH_STATUS_DOMAIN_PERIPHERAL :: u16 where [id_consts]: "WLH_STATUS_DOMAIN_PERIPHERAL = 7"
definition WLH_STATUS_DOMAIN_STORAGE :: u16 where [id_consts]: "WLH_STATUS_DOMAIN_STORAGE = 8"
definition WLH_STATUS_DOMAIN_DEVICE_INFO :: u16 where [id_consts]: "WLH_STATUS_DOMAIN_DEVICE_INFO = 9"
definition WLH_STATUS_DOMAIN_USER :: u16 where [id_consts]: "WLH_STATUS_DOMAIN_USER = 0xa"
definition WLH_STATUS_DOMAIN_ETH :: u16 where [id_consts]: "WLH_STATUS_DOMAIN_ETH = 0xb"
definition WLH_STATUS_DOMAIN_VENDOR_MIN :: u16 where [id_consts]: "WLH_STATUS_DOMAIN_VENDOR_MIN = 0x8000"

section \<open>Status codes\<close>

definition WLH_STATUS_OK :: i16 where [id_consts]: "WLH_STATUS_OK = 0"
definition WLH_STATUS_INVALID_ARGUMENT :: i16 where [id_consts]: "WLH_STATUS_INVALID_ARGUMENT = - 1"
definition WLH_STATUS_NOT_SUPPORTED :: i16 where [id_consts]: "WLH_STATUS_NOT_SUPPORTED = - 2"
definition WLH_STATUS_NOT_READY :: i16 where [id_consts]: "WLH_STATUS_NOT_READY = - 3"
definition WLH_STATUS_BUSY :: i16 where [id_consts]: "WLH_STATUS_BUSY = - 4"
definition WLH_STATUS_WOULD_BLOCK :: i16 where [id_consts]: "WLH_STATUS_WOULD_BLOCK = - 5"
definition WLH_STATUS_NO_MEMORY :: i16 where [id_consts]: "WLH_STATUS_NO_MEMORY = - 6"
definition WLH_STATUS_NO_CREDIT :: i16 where [id_consts]: "WLH_STATUS_NO_CREDIT = - 7"
definition WLH_STATUS_TIMEOUT :: i16 where [id_consts]: "WLH_STATUS_TIMEOUT = - 8"
definition WLH_STATUS_CANCELLED :: i16 where [id_consts]: "WLH_STATUS_CANCELLED = - 9"
definition WLH_STATUS_VERSION_MISMATCH :: i16 where [id_consts]: "WLH_STATUS_VERSION_MISMATCH = - 10"
definition WLH_STATUS_SESSION_CHANGED :: i16 where [id_consts]: "WLH_STATUS_SESSION_CHANGED = - 11"
definition WLH_STATUS_TRANSPORT_FAILURE :: i16 where [id_consts]: "WLH_STATUS_TRANSPORT_FAILURE = - 12"
definition WLH_STATUS_PEER_UNRESPONSIVE :: i16 where [id_consts]: "WLH_STATUS_PEER_UNRESPONSIVE = - 13"
definition WLH_STATUS_AUTHENTICATION_FAILED :: i16 where [id_consts]: "WLH_STATUS_AUTHENTICATION_FAILED = - 14"
definition WLH_STATUS_NOT_FOUND :: i16 where [id_consts]: "WLH_STATUS_NOT_FOUND = - 15"
definition WLH_STATUS_ALREADY_EXISTS :: i16 where [id_consts]: "WLH_STATUS_ALREADY_EXISTS = - 16"
definition WLH_STATUS_PERMISSION_DENIED :: i16 where [id_consts]: "WLH_STATUS_PERMISSION_DENIED = - 17"
definition WLH_STATUS_DATA_LOSS :: i16 where [id_consts]: "WLH_STATUS_DATA_LOSS = - 18"
definition WLH_STATUS_RESOURCE_EXHAUSTED :: i16 where [id_consts]: "WLH_STATUS_RESOURCE_EXHAUSTED = - 19"
definition WLH_STATUS_INTERNAL :: i16 where [id_consts]: "WLH_STATUS_INTERNAL = - 20"

section \<open>Advertising reports\<close>

definition wlh_hci_event_is_adv_report :: "mem \<Rightarrow> ptr \<Rightarrow> nat \<Rightarrow> bool" where
  "wlh_hci_event_is_adv_report m event n = (case event of
      None \<Rightarrow> False
    | Some p \<Rightarrow>
        if n < 3 \<or> m p \<noteq> WLH_HCI_EVENT_LE_META then False
        else m (p + 2) = WLH_HCI_LE_SUBEVENT_ADV_REPORT \<or>
          m (p + 2) = WLH_HCI_LE_SUBEVENT_DIRECT_ADV_REPORT \<or>
          m (p + 2) = WLH_HCI_LE_SUBEVENT_EXT_ADV_REPORT \<or>
          m (p + 2) = WLH_HCI_LE_SUBEVENT_PERIODIC_ADV_REPORT)"

end
