(* ===== verification/Buffers.thy ===== *)
theory Buffers
  imports Ids
begin

text \<open>
  The codec calls of the host core on buffers of their own: a freshly allocated output buffer, a
  payload in another object, a received frame. Each wrapper runs the memory-level codec function
  on such a layout and returns the bytes; the lemmas give its value.
\<close>

definition frame_encode_buf :: "nat \<Rightarrow> frame_header \<Rightarrow> u8 list \<Rightarrow> wire_result \<times> u8 list" where
  "frame_encode_buf cap h payload =
    (case wlh_frame_encode (mem_write (\<lambda>_. 0) cap payload) (Some 0) cap (Some 0) (Some h) (Some cap)
        (length payload) of
      (r, sz, m) \<Rightarrow> (r, mem_bytes m 0 (the sz)))"

definition frame_decode_buf :: "nat \<Rightarrow> u8 list \<Rightarrow> wire_result \<times> frame_header \<times> u8 list" where
  "frame_decode_buf negotiated frame =
    (case wlh_frame_decode (buf_mem frame) (Some (wlh_frame_header_init 0)) (Some None) (Some 0)
        (Some 0) (length frame) negotiated of
      (r, h, p, n) \<Rightarrow> (r, the h, ptr_bytes (buf_mem frame) (the p) (the n)))"

definition rpc_encode_buf :: "nat \<Rightarrow> rpc_envelope \<Rightarrow> u8 list \<Rightarrow> wire_result \<times> u8 list" where
  "rpc_encode_buf cap e payload =
    (case wlh_rpc_encode (mem_write (\<lambda>_. 0) cap payload) (Some 0) cap (Some 0) (Some e) (Some cap)
        (length payload) of
      (r, sz, m) \<Rightarrow> (r, mem_bytes m 0 (the sz)))"

definition rpc_decode_buf :: "nat \<Rightarrow> u8 list \<Rightarrow> wire_result \<times> rpc_envelope \<times> u8 list" where
  "rpc_decode_buf negotiated rpc =
    (case wlh_rpc_decode (buf_mem rpc) (Some empty_envelope) (Some None) (Some 0) (Some 0)
        (length rpc) negotiated of
      (r, e, p, n) \<Rightarrow> (r, the e, ptr_bytes (buf_mem rpc) (the p) (the n)))"

definition record_encode_buf :: "nat \<Rightarrow> u8 \<Rightarrow> u8 \<Rightarrow> u8 list \<Rightarrow> wire_result \<times> u8 list" where
  "record_encode_buf cap ty fl payload =
    (case wlh_raw_record_encode (2 ^ 64 - 1) (mem_write (\<lambda>_. 0) cap payload) (Some 0) cap (Some 0)
        ty fl (Some cap) (length payload) of
      (r, sz, m) \<Rightarrow> (r, mem_bytes m 0 (the sz)))"

text \<open>The records of a received payload in the order the iterator delivers them, and the result
  it stops with.\<close>

definition raw_records :: "u8 list \<Rightarrow> raw_record list \<times> wire_result" where
  "raw_records payload = map_prod (map (view_record (buf_mem payload))) id
    (walk_records (buf_mem payload) \<lparr>ri_data = Some 0, ri_size = length payload, ri_offset = 0\<rparr>)"

lemma frame_encode_buf_eq:
  "frame_encode_buf cap h payload =
    (if \<not> header_valid h then (wlh_frame_header_validate (Some h), [])
     else if length payload > 65535 then (WLH_WIRE_INVALID_LENGTH, [])
     else if cap < 24 + length payload then (WLH_WIRE_BUFFER_TOO_SMALL, [])
     else (WLH_WIRE_OK, frame_bytes h payload))"
proof (cases "header_valid h \<and> length payload \<le> 65535 \<and> 24 + length payload \<le> cap")
  case True
  then show ?thesis
    using frame_encode_writes [of h "length payload" cap "Some cap" "mem_write (\<lambda>_. 0) cap payload" 0 0]
    by (simp add: frame_encode_buf_def ptr_bytes_def)
next
  case False
  then show ?thesis
    by (auto simp: frame_encode_buf_def wlh_frame_encode_def Let_def header_validate_ok wire_consts)
qed

lemma frame_decode_buf_ok:
  "frame_decode_buf neg frame = (WLH_WIRE_OK, h, p) \<longleftrightarrow>
    frame_ok neg frame \<and> h = parse_header frame \<and> p = drop 24 frame"
proof -
  obtain r h' p' n' where d: "wlh_frame_decode (buf_mem frame) (Some (wlh_frame_header_init 0))
      (Some None) (Some 0) (Some 0) (length frame) neg = (r, h', p', n')" by (metis prod_cases4)
  show ?thesis
  proof (cases "r = WLH_WIRE_OK")
    case True
    with d have *: "frame_ok neg frame" "h' = Some (parse_header frame)" "p' = Some (Some 24)"
        "n' = Some (length frame - 24)"
      by (auto simp: frame_decode_ok_iff)
    then have "24 \<le> length frame" by (auto simp: frame_ok_def Let_def)
    then have "mem_bytes (buf_mem frame) 24 (length frame - 24) = drop 24 frame"
      by (simp add: mem_bytes_buf_mem)
    with * True d show ?thesis by (auto simp: frame_decode_buf_def ptr_bytes_def)
  next
    case False
    moreover have "\<not> frame_ok neg frame"
      using frame_decode_ok_iff [of "buf_mem frame" _ _ _ 0 "length frame" neg
          "Some (parse_header frame)" "Some (Some (0 + 24))" "Some (length frame - 24)"] d False
      by auto
    ultimately show ?thesis using d by (auto simp: frame_decode_buf_def)
  qed
qed

lemma rpc_encode_buf_eq:
  "rpc_encode_buf cap e payload =
    (if \<not> envelope_valid e then (wlh_rpc_envelope_validate (Some e), [])
     else if length payload > 65535 then (WLH_WIRE_INVALID_LENGTH, [])
     else if cap < 16 + length payload then (WLH_WIRE_BUFFER_TOO_SMALL, [])
     else (WLH_WIRE_OK, rpc_bytes e payload))"
proof (cases "envelope_valid e \<and> length payload \<le> 65535 \<and> 16 + length payload \<le> cap")
  case True
  then show ?thesis
    using rpc_encode_writes [of e "length payload" cap "Some cap" "mem_write (\<lambda>_. 0) cap payload" 0 0]
    by (simp add: rpc_encode_buf_def ptr_bytes_def)
next
  case False
  then show ?thesis
    by (auto simp: rpc_encode_buf_def wlh_rpc_encode_def Let_def envelope_validate_ok wire_consts)
qed

lemma rpc_decode_buf_ok:
  "rpc_decode_buf neg rpc = (WLH_WIRE_OK, e, p) \<longleftrightarrow>
    rpc_ok neg rpc \<and> e = parse_envelope rpc \<and> p = drop 16 rpc"
proof -
  obtain r e' p' n' where d: "wlh_rpc_decode (buf_mem rpc) (Some empty_envelope) (Some None) (Some 0)
      (Some 0) (length rpc) neg = (r, e', p', n')" by (metis prod_cases4)
  show ?thesis
  proof (cases "r = WLH_WIRE_OK")
    case True
    with d have *: "rpc_ok neg rpc" "e' = Some (parse_envelope rpc)" "p' = Some (Some 16)"
        "n' = Some (length rpc - 16)"
      by (auto simp: rpc_decode_ok_iff)
    then have "16 \<le> length rpc" by (auto simp: rpc_ok_def Let_def)
    then have "mem_bytes (buf_mem rpc) 16 (length rpc - 16) = drop 16 rpc"
      by (simp add: mem_bytes_buf_mem)
    with * True d show ?thesis by (auto simp: rpc_decode_buf_def ptr_bytes_def)
  next
    case False
    moreover have "\<not> rpc_ok neg rpc"
      using rpc_decode_ok_iff [of "buf_mem rpc" _ _ _ 0 "length rpc" neg
          "Some (parse_envelope rpc)" "Some (Some (0 + 16))" "Some (length rpc - 16)"] d False
      by auto
    ultimately show ?thesis using d by (auto simp: rpc_decode_buf_def)
  qed
qed

lemma record_encode_buf_eq:
  assumes "length payload \<le> 4294967295" and "8 + length payload \<le> cap"
  shows "record_encode_buf cap ty fl payload = (WLH_WIRE_OK, record_bytes (ty, fl, payload))"
  using assms raw_record_writes [of "length payload" "2 ^ 64 - 1" cap "Some cap" 0
      "mem_write (\<lambda>_. 0) cap payload" 0 ty fl]
  by (simp add: record_encode_buf_def ptr_bytes_def)

lemma raw_records_parse: "raw_records payload = parse_records payload"
  using walk_records_parse [of "\<lparr>ri_data = Some 0, ri_size = length payload, ri_offset = 0\<rparr>" 0]
  by (simp add: raw_records_def)

text \<open>The decoders on an encoding.\<close>

lemma frame_decode_bytes:
  assumes "header_valid h" and "24 + length p \<le> neg" and "neg \<le> 65559"
  shows "frame_decode_buf neg (frame_bytes h p) =
    (WLH_WIRE_OK, parse_header (frame_bytes h p), p)"
proof -
  have "drop 24 (frame_bytes h p) = p"
    by (simp add: frame_bytes_def Let_def)
  then show ?thesis
    using frame_bytes_ok [OF assms] by (simp add: frame_decode_buf_ok)
qed

lemma rpc_decode_bytes:
  assumes "envelope_valid e" and "length p \<le> neg" and "neg \<le> 65535"
  shows "rpc_decode_buf neg (rpc_bytes e p) = (WLH_WIRE_OK, e\<lparr>re_payload_size := of_nat (length p)\<rparr>, p)"
proof -
  have "drop 16 (rpc_bytes e p) = p"
    by (simp add: rpc_bytes_def envelope_bytes_def)
  then show ?thesis
    using rpc_bytes_ok [OF assms] by (simp add: rpc_decode_buf_ok, simp add: rpc_bytes_def parse_envelope_bytes)
qed

end
