(* ===== verification/Messages.thy ===== *)
theory Messages
  imports Buffers
begin

text \<open>
  The protobuf messages the host core exchanges (fields it reads or writes), and the protobuf
  library as a parameter. nanopb and the generated descriptors are third-party code: the model
  takes their encoder, size computation and decoders as a record of functions, \<open>pb_codec\<close>, with
  no assumption on what they return. Enum fields are kept as the \<open>uint32_t\<close> the code casts them to.
\<close>

section \<open>Link messages\<close>

record service_version_range =
  svr_service_id :: u32
  svr_major :: u32

record channel_capability =
  cc_channel_id :: u32
  cc_max_frame_payload :: u32
  cc_alignment :: u32

record initial_credit =
  ic_channel_id :: u32
  ic_units :: u32
  ic_unit_bytes :: u32

record hello_request =
  hq_protocol_major :: u32
  hq_implementation :: string
  hq_implementation_version :: string
  hq_max_frame_size :: u32
  hq_alignment :: u32
  hq_checksum_modes :: "u32 list"
  hq_max_rpc_payload :: u32
  hq_services :: "service_version_range list"
  hq_channels :: "channel_capability list"

text \<open>\<open>hr_implementation\<close> and \<open>hr_implementation_version\<close> are the character arrays of the generated
  struct, 33 bytes each.\<close>

record hello_response =
  hr_has_selected_protocol :: bool
  hr_selected_major :: u32
  hr_session_id :: u32
  hr_boot_id :: u64
  hr_implementation :: "u8 list"
  hr_implementation_version :: "u8 list"
  hr_max_frame_size :: u32
  hr_alignment :: u32
  hr_checksum_mode :: u32
  hr_services :: "service_version_range list"
  hr_channels :: "channel_capability list"
  hr_initial_credits :: "initial_credit list"

record credit_update =
  cu_channel_id :: u32
  cu_units :: u32

section \<open>Service responses\<close>

record bluetooth_controller_info_msg =
  bim_state :: u32
  bim_public_address :: "u8 list"
  bim_hci_version :: u32
  bim_manufacturer_id :: u32
  bim_feature_bits :: u64
  bim_max_hci_packet :: u32

record ota_begin_response =
  ob_transfer_id :: u32
  ob_stream_chunk_size :: u32
  ob_stream_alignment :: u32

record ota_query_response =
  oq_state :: u32
  oq_transfer_id :: u32
  oq_image_size :: u64
  oq_bytes_received :: u64
  oq_target_version :: "u8 list"

record device_info_msg =
  di_vendor :: "u8 list"
  di_mcu_model :: "u8 list"
  di_uid :: "u8 list"
  di_board_profile :: "u8 list"

record eth_info_msg =
  ei_has_info :: bool
  ei_link_state :: u32
  ei_mac_address :: "u8 list"
  ei_speed :: u32
  ei_duplex :: u32

record io_state_msg =
  is_pin_id :: u32
  is_level :: bool
  is_mode :: u32
  is_pull :: u32

record adc_sample =
  as_pin_id :: u32
  as_millivolts :: u32

record bluetooth_state_msg =
  bs_state :: u32
  bs_reason :: u32

record eth_link_state_msg =
  el_link_state :: u32
  el_speed :: u32
  el_duplex :: u32

section \<open>Requests and the codec\<close>

datatype pb_msg =
    Msg_HelloRequest hello_request
  | Msg_CreditUpdate credit_update
  | Msg_Empty
  | Msg_BluetoothInitializeRequest (bt_transport: u32) (bt_feature_flags: u32)
  | Msg_BluetoothEnableRequest (bt_mode_flags: u32)
  | Msg_BluetoothDeinitializeRequest (bt_release_memory: bool)
  | Msg_OtaBeginRequest (ob_image_type: u32) (ob_image_size: u64) (ob_sha256: "u8 list")
      (ob_target_version: "u8 list") (ob_slot: "u8 list") (ob_signature: "u8 list")
  | Msg_OtaFinalizeRequest u32 u64
  | Msg_OtaAbortRequest u32
  | Msg_OtaActivateRequest u32 bool
  | Msg_WifiInitializeRequest u32
  | Msg_WifiScanRequest (ws_scan_id: u32) (ws_interface: u32) (ws_ssid: "u8 list")
      (ws_include_hidden: bool) (ws_max_results: u32)
  | Msg_WifiConnectRequest (wc_ssid: "u8 list") (wc_credential: "u8 list") (wc_security: u32)
      (wc_timeout_ms: u32)
  | Msg_WifiDisconnectRequest u32
  | Msg_WifiStartApRequest (wa_ssid: "u8 list") (wa_credential: "u8 list") (wa_security: u32)
      (wa_channel: u32) (wa_max_clients: u32)
  | Msg_IoConfigureRequest (io_pin_id: u32) (io_mode: u32) (io_pull: u32) (io_initial_level: bool)
  | Msg_IoReadRequest u32
  | Msg_IoWriteRequest u32 bool
  | Msg_AdcReadRequest u32
  | Msg_KvReadRequest "u8 list"
  | Msg_KvWriteRequest "u8 list" "u8 list"
  | Msg_KvEraseRequest "u8 list"
  | Msg_EthGetInfoRequest
  | Msg_UserMessageSendRequest (um_endpoint_id: u32) (um_message_type: u32) (um_flags: u32)
      (um_payload: "u8 list")

text \<open>\<open>pb_encoded_size\<close> is \<open>pb_get_encoded_size\<close> (\<open>None\<close> when it fails), \<open>pb_encode_msg\<close> the bytes
  \<open>pb_encode\<close> writes into a buffer of the given capacity, and each decoder \<open>pb_decode\<close> with one
  descriptor.\<close>

record pb_codec =
  pb_encoded_size :: "pb_msg \<Rightarrow> nat option"
  pb_encode_msg :: "nat \<Rightarrow> pb_msg \<Rightarrow> u8 list option"
  pb_dec_hello_response :: "u8 list \<Rightarrow> hello_response option"
  pb_dec_credit_update :: "u8 list \<Rightarrow> credit_update option"
  pb_dec_heartbeat_session :: "u8 list \<Rightarrow> u32 option"
  pb_dec_new_session :: "u8 list \<Rightarrow> u32 option"
  pb_dec_bluetooth_state :: "u8 list \<Rightarrow> bluetooth_state_msg option"
  pb_dec_eth_link_state :: "u8 list \<Rightarrow> eth_link_state_msg option"
  pb_dec_controller_info :: "u8 list \<Rightarrow> bluetooth_controller_info_msg option"
  pb_dec_ota_begin :: "u8 list \<Rightarrow> ota_begin_response option"
  pb_dec_ota_query :: "u8 list \<Rightarrow> ota_query_response option"
  pb_dec_device_info :: "u8 list \<Rightarrow> device_info_msg option"
  pb_dec_eth_info :: "u8 list \<Rightarrow> eth_info_msg option"
  pb_dec_io_state :: "u8 list \<Rightarrow> io_state_msg option"
  pb_dec_adc_sample :: "u8 list \<Rightarrow> adc_sample option"
  pb_dec_kv_value :: "u8 list \<Rightarrow> u8 list option"

end
