(* ===== verification/Core_Monad.thy ===== *)
theory Core_Monad
  imports Prelude "HOL-Library.Monad_Syntax"
begin

text \<open>
  The operations of the state monad both cores are written with, their weakest preconditions, a
  calculus for a quantity of the state that an operation changes by an amount known from its
  result, and the rules that carry a relation between the states before and after through them.
\<close>

section \<open>Operations\<close>

definition gets :: "('s \<Rightarrow> 'a) \<Rightarrow> ('s, 'a) state" where
  "gets f = do { s \<leftarrow> State_Monad.get; State_Monad.return (f s) }"

abbreviation modify :: "('s \<Rightarrow> 's) \<Rightarrow> ('s, unit) state" where
  "modify \<equiv> State_Monad.update"

abbreviation ret :: "'a \<Rightarrow> ('s, 'a) state" where
  "ret \<equiv> State_Monad.return"

definition whenM :: "bool \<Rightarrow> ('s, unit) state \<Rightarrow> ('s, unit) state" where
  "whenM b m = (if b then m else ret ())"

primrec for_each :: "'a list \<Rightarrow> ('a \<Rightarrow> ('s, unit) state) \<Rightarrow> ('s, unit) state" where
  "for_each [] f = ret ()"
| "for_each (x # xs) f = do { f x; for_each xs f }"

section \<open>Weakest preconditions\<close>

lemma wp_gets [wp_simps]: "wp (gets f) Q s = Q (f s) s"
  by (simp add: gets_def wp_simps)

lemma wp_whenM [wp_simps]: "wp (whenM b m) Q s = (if b then wp m Q s else Q () s)"
  by (simp add: whenM_def wp_simps)

lemma wp_let [wp_simps]: "wp (let x = v in f x) Q s = (let x = v in wp (f x) Q s)"
  by simp

lemma wp_sum [wp_simps]: "wp (case x of Inl a \<Rightarrow> f a | Inr b \<Rightarrow> g b) Q s =
    (case x of Inl a \<Rightarrow> wp (f a) Q s | Inr b \<Rightarrow> wp (g b) Q s)"
  by (cases x) auto

text \<open>A callee's specification used inside a caller.\<close>

lemma wp_call: "wp m P s \<Longrightarrow> (\<And>a t. P a t \<Longrightarrow> Q a t) \<Longrightarrow> wp m Q s"
  by (rule wp_mono)

section \<open>Amounts\<close>

text \<open>\<open>delta P m f\<close>: running \<open>m\<close> changes the integer \<open>P\<close> of the state by \<open>f\<close> of the result.\<close>

definition delta :: "('s \<Rightarrow> int) \<Rightarrow> ('s, 'a) state \<Rightarrow> ('a \<Rightarrow> int) \<Rightarrow> bool" where
  "delta P m f \<longleftrightarrow> (\<forall>s. wp m (\<lambda>a t. P t = P s + f a) s)"

lemma deltaI: "(\<And>s. wp m (\<lambda>a t. P t = P s + f a) s) \<Longrightarrow> delta P m f"
  by (simp add: delta_def)

lemma deltaD: "delta P m f \<Longrightarrow> wp m (\<lambda>a t. P t = P s + f a) s"
  by (simp add: delta_def)

lemma delta_run: "delta P m f \<Longrightarrow> run_state m s = (a, t) \<Longrightarrow> P t = P s + f a"
  using deltaD wp_run by fast

lemma delta_weaken: "delta P m f \<Longrightarrow> (\<And>a. f a = g a) \<Longrightarrow> delta P m g"
  by (simp add: delta_def)

lemma delta_return: "f a = 0 \<Longrightarrow> delta P (State_Monad.return a) f"
  by (simp add: delta_def wp_simps)

lemma delta_bind:
  assumes "delta P m f" and "\<And>a. delta P (k a) (\<lambda>b. g b - f a)"
  shows "delta P (State_Monad.bind m k) g"
proof (rule deltaI)
  fix s
  show "wp (State_Monad.bind m k) (\<lambda>b t. P t = P s + g b) s"
    unfolding wp_bind
  proof (rule wp_call [OF deltaD [OF assms(1)]])
    fix a t
    assume "P t = P s + f a"
    then show "wp (k a) (\<lambda>b u. P u = P s + g b) t"
      by (intro wp_call [OF deltaD [OF assms(2)]]) simp
  qed
qed

lemma delta_get: "delta P State_Monad.get (\<lambda>_. 0)"
  by (simp add: delta_def wp_simps)

lemma delta_gets: "delta P (gets f) (\<lambda>_. 0)"
  by (simp add: delta_def wp_simps)

lemma delta_if: "(b \<Longrightarrow> delta P m f) \<Longrightarrow> (\<not> b \<Longrightarrow> delta P n f) \<Longrightarrow> delta P (if b then m else n) f"
  by simp

lemma delta_option:
  "(x = None \<Longrightarrow> delta P m f) \<Longrightarrow> (\<And>a. x = Some a \<Longrightarrow> delta P (k a) f) \<Longrightarrow>
    delta P (case x of None \<Rightarrow> m | Some a \<Rightarrow> k a) f"
  by (cases x) auto

lemma delta_prod:
  "(\<And>a b. x = (a, b) \<Longrightarrow> delta P (k a b) f) \<Longrightarrow> delta P (case x of (a, b) \<Rightarrow> k a b) f"
  by (cases x) auto

lemma delta_let: "(\<And>a. a = x \<Longrightarrow> delta P (k a) f) \<Longrightarrow> delta P (let a = x in k a) f"
  by simp

lemma delta_whenM: "(b \<Longrightarrow> delta P m f) \<Longrightarrow> (\<not> b \<Longrightarrow> f () = 0) \<Longrightarrow> delta P (whenM b m) f"
  by (simp add: whenM_def delta_return)

lemma delta_for_each:
  "(\<And>x. x \<in> set xs \<Longrightarrow> delta P (k x) (\<lambda>_. 0)) \<Longrightarrow> delta P (for_each xs k) (\<lambda>_. 0)"
proof (induction xs)
  case Nil
  then show ?case by (simp add: delta_return)
next
  case (Cons x xs)
  have "delta P (State_Monad.bind (k x) (\<lambda>_. for_each xs k)) (\<lambda>_. 0)"
    by (rule delta_bind [where f = "\<lambda>_. 0"]) (use Cons in auto)
  then show ?case by simp
qed

text \<open>Using a known change inside a caller.\<close>

lemma delta_wp: "delta P m f \<Longrightarrow> (\<And>a t. P t = P s + f a \<Longrightarrow> Q a t) \<Longrightarrow> wp m Q s"
  by (rule wp_call [OF deltaD])

lemma delta_get_bind: "(\<And>s. delta P (k s) f) \<Longrightarrow> delta P (State_Monad.bind State_Monad.get k) f"
  by (simp add: delta_def wp_simps)

lemma delta_seq:
  "delta P m (\<lambda>_. 0) \<Longrightarrow> (\<And>a. delta P (k a) f) \<Longrightarrow> delta P (State_Monad.bind m k) f"
  by (rule delta_bind [where f = "\<lambda>_. 0"]) simp_all

section \<open>Relations\<close>

context state_rel
begin

lemma rel_gets: "state_io_rel R (gets f)"
  by (simp add: state_io_rel_def gets_def R_refl)

lemma rel_whenM: "state_io_rel R m \<Longrightarrow> state_io_rel R (whenM b m)"
  by (simp add: whenM_def rel_return)

lemma rel_for_each:
  assumes "\<And>x. x \<in> set xs \<Longrightarrow> state_io_rel R (k x)"
  shows "state_io_rel R (for_each xs k)"
  using assms by (induction xs) (auto intro!: rel_return rel_bind)

lemma rel_sum:
  "(\<And>a. state_io_rel R (f a)) \<Longrightarrow> (\<And>b. state_io_rel R (g b)) \<Longrightarrow>
    state_io_rel R (case x of Inl a \<Rightarrow> f a | Inr b \<Rightarrow> g b)"
  by (cases x) auto

lemma rel_wpI: "(\<And>s. wp m (\<lambda>_ t. R s t) s) \<Longrightarrow> state_io_rel R m"
  by (simp add: state_io_rel_def wp_snd split_beta)

lemma rel_wpD: "state_io_rel R m \<Longrightarrow> wp m (\<lambda>_ t. R s t) s"
  by (simp add: state_io_rel_def wp_snd split_beta)

lemma rel_wp: "state_io_rel R m \<Longrightarrow> (\<And>a t. R s t \<Longrightarrow> Q a t) \<Longrightarrow> wp m Q s"
  by (rule wp_call [OF rel_wpD])

lemma rel_delta_wp:
  assumes "state_io_rel R m" and "delta P m f"
    and "\<And>a t. R s t \<Longrightarrow> P t = P s + f a \<Longrightarrow> Q a t"
  shows "wp m Q s"
proof -
  have "wp m (\<lambda>a t. R s t \<and> P t = P s + f a) s"
    using rel_wpD [OF assms(1)] deltaD [OF assms(2)] by (simp add: wp_conj)
  then show ?thesis
    by (rule wp_call) (use assms(3) in auto)
qed

lemmas rel_rules = rel_intros rel_gets rel_whenM rel_for_each rel_sum

end

lemma wp_return_all [wp_simps]: "wp (State_Monad.return a) Q = Q a"
  by (rule ext) (simp add: wp_simps)

end
