(* ===== verification/Osal.thy ===== *)
theory Osal
  imports Core_Monad
begin

text \<open>
  The OS layer as the cores see it (common/osal/include/wlh/osal.h): a table of operations.
\<close>

definition WLH_OSAL_NO_WAIT :: u32 where "WLH_OSAL_NO_WAIT = 0"
definition WLH_OSAL_WAIT_FOREVER :: u32 where "WLH_OSAL_WAIT_FOREVER = UINT32_MAX"
definition WLH_OSAL_EVENT_BITS_MASK :: u32 where "WLH_OSAL_EVENT_BITS_MASK = 0x00ffffff"

datatype osal_op =
    Task_create | Task_join | Mutex_create | Mutex_destroy | Mutex_lock | Mutex_unlock
  | Semaphore_create | Semaphore_destroy | Semaphore_take | Semaphore_give
  | Semaphore_give_from_isr | Event_create | Event_destroy | Event_wait | Event_set
  | Event_set_from_isr | Queue_create | Queue_destroy | Queue_send | Queue_send_from_isr
  | Queue_receive | Timer_create | Timer_destroy | Timer_start | Timer_stop
  | Monotonic_time_ms | Sleep_ms | Yield | In_isr

text \<open>\<open>osal_present\<close> says which members of \<open>wlh_osal_ops_t\<close> are not NULL; the other fields give
  the answers of the operations whose result the core looks at.\<close>

record osal_ops =
  osal_present :: "osal_op \<Rightarrow> bool"
  osal_task_create :: "nat \<Rightarrow> int"
  osal_task_join :: "nat \<Rightarrow> int"
  osal_mutex_create :: "nat \<Rightarrow> int"
  osal_mutex_lock :: "nat \<Rightarrow> int"
  osal_semaphore_create :: "nat \<Rightarrow> int"
  osal_queue_create :: "nat \<Rightarrow> int"
  osal_monotonic_time_ms :: "nat \<Rightarrow> u64"

definition wlh_osal_ops_valid :: "osal_ops option \<Rightarrow> bool" where
  "wlh_osal_ops_valid ops = (case ops of
      None \<Rightarrow> False
    | Some ops \<Rightarrow> list_all (osal_present ops)
        [Task_create, Task_join, Mutex_create, Mutex_destroy, Mutex_lock, Mutex_unlock,
         Semaphore_create, Semaphore_destroy, Semaphore_take, Semaphore_give,
         Semaphore_give_from_isr, Event_create, Event_destroy, Event_wait, Event_set,
         Event_set_from_isr, Queue_create, Queue_destroy, Queue_send, Queue_send_from_isr,
         Queue_receive, Timer_create, Timer_destroy, Timer_start, Timer_stop,
         Monotonic_time_ms, Sleep_ms, Yield, In_isr])"

text \<open>The life of a core's worker task.\<close>

datatype worker_phase = Worker_new | Worker_running | Worker_done

text \<open>An OS layer that never refuses and whose clock advances; the witnesses run on it.\<close>

definition demo_osal :: osal_ops where
  "demo_osal = \<lparr>osal_present = (\<lambda>_. True), osal_task_create = (\<lambda>_. 0), osal_task_join = (\<lambda>_. 0),
    osal_mutex_create = (\<lambda>_. 0), osal_mutex_lock = (\<lambda>_. 0), osal_semaphore_create = (\<lambda>_. 0),
    osal_queue_create = (\<lambda>_. 0), osal_monotonic_time_ms = (\<lambda>n. of_nat n)\<rparr>"

end
