(* ===== verification/Host_Types.thy ===== *)
theory Host_Types
  imports Messages Osal
begin

text \<open>
  The data model of the host core (host-core/include/wlh/host.h and host_internal.h) and the
  operations it gets from its environment.

  The function pointers of the configuration answer from their position in the run: the field
  holds, for the \<open>n\<close>-th call the core makes to the outside, what that call returns. Every such
  call is recorded in \<open>trace\<close>, newest first, so a run's outside behaviour is a value one can state
  properties about, and the answers may depend on the whole run without any assumption. The
  context pointers handed back to callbacks are left out; a callback is identified by a number.
\<close>

section \<open>Constants and enumerations\<close>

definition WLH_HOST_MAX_PENDING :: nat where "WLH_HOST_MAX_PENDING = 16"
definition WLH_HOST_MAX_SSID_SIZE :: nat where "WLH_HOST_MAX_SSID_SIZE = 32"
definition WLH_HOST_MAX_CREDENTIAL_SIZE :: nat where "WLH_HOST_MAX_CREDENTIAL_SIZE = 64"
definition WLH_HOST_MAX_USER_PAYLOAD_SIZE :: nat where "WLH_HOST_MAX_USER_PAYLOAD_SIZE = 512"
definition WLH_HOST_MAX_KV_KEY_SIZE :: nat where "WLH_HOST_MAX_KV_KEY_SIZE = 64"
definition WLH_HOST_MAX_KV_VALUE_SIZE :: nat where "WLH_HOST_MAX_KV_VALUE_SIZE = 512"
definition WLH_HOST_MAX_QUEUE_DEPTH :: nat where "WLH_HOST_MAX_QUEUE_DEPTH = 64"
definition WLH_HOST_MAX_HCI_PACKET :: u32 where "WLH_HOST_MAX_HCI_PACKET = 1024"
definition WLH_HOST_PROTOBUF_LIMIT :: nat where "WLH_HOST_PROTOBUF_LIMIT = 2048"
definition WLH_HOST_BLUETOOTH_REASON_MALFORMED_HCI :: u32 where
  "WLH_HOST_BLUETOOTH_REASON_MALFORMED_HCI = 1"
datatype host_result =
    WLH_HOST_OK
  | WLH_HOST_INVALID_ARGUMENT
  | WLH_HOST_INVALID_STATE
  | WLH_HOST_NO_MEMORY
  | WLH_HOST_TRANSPORT_ERROR
  | WLH_HOST_PROTOCOL_ERROR
  | WLH_HOST_NO_CREDIT
  | WLH_HOST_PENDING_FULL
  | WLH_HOST_TIMEOUT
  | WLH_HOST_SESSION_CHANGED
  | WLH_HOST_NOT_FOUND
  | WLH_HOST_NOT_SUPPORTED

datatype host_state =
    STATE_UNINITIALIZED
  | STATE_TRANSPORT_STARTING
  | STATE_WAITING_FOR_PEER
  | STATE_NEGOTIATING
  | STATE_READY
  | STATE_CONGESTED
  | STATE_RECOVERING
  | STATE_FAILED
  | STATE_STOPPING

datatype event_kind =
    EVENT_STATE_CHANGED
  | EVENT_WIFI_SCAN_RESULT
  | EVENT_WIFI_SCAN_COMPLETED
  | EVENT_WIFI_CONNECTED
  | EVENT_WIFI_DISCONNECTED
  | EVENT_ETHERNET_STA_RX
  | EVENT_PROTOCOL_FAULT
  | EVENT_USER_MESSAGE_RESULT
  | EVENT_WIFI_AP_CLIENT_JOINED
  | EVENT_WIFI_AP_CLIENT_LEFT
  | EVENT_ETHERNET_AP_RX
  | EVENT_BLUETOOTH_STATE_CHANGED
  | EVENT_OTA_PROGRESS
  | EVENT_ETHERNET_ETH_RX
  | EVENT_ETH_LINK_STATE_CHANGED

datatype bluetooth_state =
    BLUETOOTH_STATE_UNSPECIFIED
  | BLUETOOTH_STATE_DISABLED
  | BLUETOOTH_STATE_ENABLED
  | BLUETOOTH_STATE_ERROR

text \<open>The cast \<open>(wlh_bluetooth_state_t)\<close>, made only for values up to 3.\<close>

definition bluetooth_state_of :: "u32 \<Rightarrow> bluetooth_state" where
  "bluetooth_state_of v =
    (if v = 0 then BLUETOOTH_STATE_UNSPECIFIED else if v = 1 then BLUETOOTH_STATE_DISABLED
     else if v = 2 then BLUETOOTH_STATE_ENABLED else BLUETOOTH_STATE_ERROR)"

section \<open>Events, completions and replies\<close>

text \<open>Two events carry a struct as their payload bytes; the model keeps the struct.\<close>

datatype event_payload =
    Bytes "u8 list"
  | Bluetooth_state_event bluetooth_state u32
  | Eth_link_state_event u32 u32 u32

record host_event =
  ev_kind :: event_kind
  ev_state :: host_state
  ev_service_id :: u16
  ev_method_id :: u16
  ev_payload :: event_payload

text \<open>A \<open>wlh_rpc_completion_fn\<close> with its context: a callback of the application, or one of the
  core's own completions, whose context is the request object that holds the application's
  callback.\<close>

datatype rpc_completion =
    App nat
  | Bluetooth_info nat
  | Ota_begin nat
  | Ota_query nat
  | Device_info nat
  | Eth_info nat
  | Io_read nat
  | Adc_read nat
  | Kv_read nat

record controller_info =
  ci_state :: bluetooth_state
  ci_public_address :: "u8 list"
  ci_has_public_address :: bool
  ci_hci_version :: u8
  ci_manufacturer_id :: u16
  ci_feature_bits :: u64
  ci_max_hci_packet :: u32

datatype service_reply =
    Reply_bluetooth_info controller_info
  | Reply_ota_begin ota_begin_response
  | Reply_ota_query ota_query_response
  | Reply_device_info device_info_msg
  | Reply_eth_info eth_info_msg
  | Reply_io_read io_state_msg
  | Reply_adc_read adc_sample
  | Reply_kv_read "u8 list"

datatype task =
    Event_task host_event
  | Completion_task rpc_completion host_result u16 i16 "u8 list"

datatype effect =
    EAlloc nat bool
  | EFree
  | ESubmit "u8 list" bool
  | EPost task bool
  | EStart bool
  | EStop bool
  | EClock u64
  | ELock bool
  | EOsal string bool
  | EOnEvent host_event
  | ECompletion nat host_result u16 i16 "u8 list"
  | EReply nat host_result u16 i16 "service_reply option"
  | EHciRx u8 "u8 list" host_result
  | EHciTxReady
  | EOtaRx u32 u64 "u8 list" u16 host_result
  | EOtaTxReady

section \<open>Jobs\<close>

text \<open>\<open>dj_data\<close> holds the first \<open>size\<close> bytes of the flexible array.\<close>

record data_job =
  dj_channel :: u8
  dj_capacity :: nat
  dj_data :: "u8 list"

record rpc_job =
  rj_service_id :: u16
  rj_method_id :: u16
  rj_request_id :: u32
  rj_timeout_ms :: u32
  rj_completion :: "rpc_completion option"
  rj_payload :: "u8 list"

datatype host_job =
    JOB_STOP
  | JOB_RX_FRAME data_job
  | JOB_RPC_REQUEST rpc_job
  | JOB_ETHERNET_TX data_job
  | JOB_BLUETOOTH_TX data_job
  | JOB_OTA_TX data_job
  | JOB_TRANSPORT_LOST
  | JOB_TRANSPORT_STARTED
  | JOB_TRANSPORT_START_FAILED
  | JOB_TRANSPORT_STOPPED
  | JOB_TRANSPORT_STOP_FAILED

section \<open>Configuration\<close>

record host_config =
  cfg_transport_start :: "(nat \<Rightarrow> int) option"
  cfg_transport_stop :: "(nat \<Rightarrow> int) option"
  cfg_submit_tx :: "(nat \<Rightarrow> int) option"
  cfg_alloc :: "(nat \<Rightarrow> bool) option"
  cfg_free :: "unit option"
  cfg_osal :: osal_ops
  cfg_post :: "(nat \<Rightarrow> int) option"
  cfg_on_event :: "unit option"
  cfg_bluetooth_hci_rx :: "(nat \<Rightarrow> host_result) option"
  cfg_bluetooth_hci_tx_ready :: "unit option"
  cfg_ota_stream_rx :: "(nat \<Rightarrow> host_result) option"
  cfg_ota_stream_tx_ready :: "unit option"
  cfg_max_frame_size :: u32
  cfg_rpc_timeout_ms :: u32
  cfg_heartbeat_timeout_ms :: u32
  cfg_max_pending_rpc :: u8
  cfg_core_queue_depth :: u8
  cfg_ethernet_tx_depth :: u8
  cfg_ethernet_tx_aggregation_limit :: u8
  cfg_stop_timeout_ms :: u32

section \<open>State\<close>

record host_diagnostics =
  d_state :: host_state
  d_session_id :: u32
  d_pending_rpc :: u32
  d_tx_frames :: u32
  d_rx_frames :: u32
  d_rpc_timeouts :: u32
  d_checksum_errors :: u32
  d_sequence_gaps :: u32
  d_peer_resets :: u32
  d_transport_resets :: u32
  d_buffer_allocation_failures :: u32
  d_hci_malformed :: u32
  d_hci_drops :: u32
  d_ethernet_no_credit :: u32
  d_ethernet_queue_full :: u32
  d_last_peer_activity_ms :: u64

record pending_rpc =
  p_active :: bool
  p_session_id :: u32
  p_request_id :: u32
  p_service_id :: u16
  p_method_id :: u16
  p_deadline_ms :: u64
  p_completion :: "rpc_completion option"

definition zero_pending :: pending_rpc where
  "zero_pending = \<lparr>p_active = False, p_session_id = 0, p_request_id = 0, p_service_id = 0,
    p_method_id = 0, p_deadline_ms = 0, p_completion = None\<rparr>"

text \<open>The arrays are functions of their index. The queue and the semaphore of the OS layer are
  their contents and count. \<open>h_deferred_job\<close> is the local variable of the worker loop; \<open>h_pb\<close> is
  the linked protobuf library and \<open>trace\<close> the record of outside calls.\<close>

record host =
  h_config :: host_config
  h_state :: host_state
  h_session_id :: u32
  h_next_request_id :: u32
  h_tx_sequence :: "u8 \<Rightarrow> u32"
  h_expected_rx_sequence :: "u8 \<Rightarrow> u32"
  h_tx_credit :: "u8 \<Rightarrow> u32"
  h_ethernet_tx_queued :: "nat \<Rightarrow> u32"
  h_ethernet_rx_pending_credit :: "nat \<Rightarrow> u32"
  h_ethernet_rx_credit_due_ms :: u64
  h_rx_sequence_valid :: "u8 \<Rightarrow> bool"
  h_pending :: "nat \<Rightarrow> pending_rpc"
  h_diagnostics :: host_diagnostics
  h_bluetooth_supported :: bool
  h_bluetooth_hci_stopped :: bool
  h_bluetooth_tx_inflight :: u32
  h_bluetooth_max_record :: u32
  h_bluetooth_state :: bluetooth_state
  h_ota_supported :: bool
  h_ota_max_record :: u32
  h_ota_tx_inflight :: u32
  h_peer_version :: "u8 list"
  h_started_ms :: u64
  h_core_queue :: "host_job list"
  h_ethernet_tx_slots :: nat
  h_worker_started :: bool
  h_worker_stopping :: bool
  h_deferred_job :: "host_job option"
  h_pb :: pb_codec
  trace :: "effect list"

section \<open>Operations of the environment\<close>

definition emit :: "effect \<Rightarrow> (host, unit) state" where
  "emit e = modify (\<lambda>s. s\<lparr>trace := e # trace s\<rparr>)"

text \<open>\<open>buffers.alloc\<close>: whether a buffer was returned. The size recorded is that of the byte array;
  the fixed part of a task or job struct is not counted.\<close>

definition buf_alloc :: "nat \<Rightarrow> (host, bool) state" where
  "buf_alloc n = do {
    s \<leftarrow> State_Monad.get;
    let ok = the (cfg_alloc (h_config s)) (length (trace s));
    emit (EAlloc n ok);
    ret ok
  }"

definition buf_free :: "(host, unit) state" where
  "buf_free = emit EFree"

definition submit_tx :: "u8 list \<Rightarrow> (host, bool) state" where
  "submit_tx frame = do {
    s \<leftarrow> State_Monad.get;
    let ok = (the (cfg_submit_tx (h_config s)) (length (trace s)) = 0);
    emit (ESubmit frame ok);
    ret ok
  }"

definition executor_post :: "task \<Rightarrow> (host, bool) state" where
  "executor_post t = do {
    s \<leftarrow> State_Monad.get;
    let ok = (the (cfg_post (h_config s)) (length (trace s)) = 0);
    emit (EPost t ok);
    ret ok
  }"

definition transport_start :: "(host, bool) state" where
  "transport_start = do {
    s \<leftarrow> State_Monad.get;
    let ok = (the (cfg_transport_start (h_config s)) (length (trace s)) = 0);
    emit (EStart ok);
    ret ok
  }"

definition transport_stop :: "(host, bool) state" where
  "transport_stop = do {
    s \<leftarrow> State_Monad.get;
    let ok = (the (cfg_transport_stop (h_config s)) (length (trace s)) = 0);
    emit (EStop ok);
    ret ok
  }"

definition now_ms :: "(host, u64) state" where
  "now_ms = do {
    s \<leftarrow> State_Monad.get;
    let t = osal_monotonic_time_ms (cfg_osal (h_config s)) (length (trace s));
    emit (EClock t);
    ret t
  }"

text \<open>A \<open>mutex_lock\<close> with a finite timeout; with \<open>WAIT_FOREVER\<close> the call returns holding the lock,
  and an operation is one atomic step of the model.\<close>

definition mutex_lock_timeout :: "(host, bool) state" where
  "mutex_lock_timeout = do {
    s \<leftarrow> State_Monad.get;
    let ok = (osal_mutex_lock (cfg_osal (h_config s)) (length (trace s)) = 0);
    emit (ELock ok);
    ret ok
  }"

text \<open>The counting semaphore \<open>ethernet_tx_slots\<close>, bounded by its maximum, and the core queue.\<close>

definition semaphore_give :: "(host, unit) state" where
  "semaphore_give = modify (\<lambda>s.
    if h_ethernet_tx_slots s < unat (cfg_ethernet_tx_depth (h_config s))
    then s\<lparr>h_ethernet_tx_slots := h_ethernet_tx_slots s + 1\<rparr> else s)"

definition semaphore_take :: "(host, bool) state" where
  "semaphore_take = do {
    s \<leftarrow> State_Monad.get;
    if h_ethernet_tx_slots s = 0 then ret False
    else do {
      modify (\<lambda>s. s\<lparr>h_ethernet_tx_slots := h_ethernet_tx_slots s - 1\<rparr>);
      ret True
    }
  }"

definition queue_send :: "host_job \<Rightarrow> (host, bool) state" where
  "queue_send job = do {
    s \<leftarrow> State_Monad.get;
    if length (h_core_queue s) < unat (cfg_core_queue_depth (h_config s))
    then do {
      modify (\<lambda>s. s\<lparr>h_core_queue := h_core_queue s @ [job]\<rparr>);
      ret True
    }
    else ret False
  }"

definition queue_receive :: "(host, host_job option) state" where
  "queue_receive = do {
    s \<leftarrow> State_Monad.get;
    case h_core_queue s of
      [] \<Rightarrow> ret None
    | job # jobs \<Rightarrow> do {
        modify (\<lambda>s. s\<lparr>h_core_queue := jobs\<rparr>);
        ret (Some job)
      }
  }"

definition diag :: "(host_diagnostics \<Rightarrow> host_diagnostics) \<Rightarrow> (host, unit) state" where
  "diag f = modify (\<lambda>s. s\<lparr>h_diagnostics := f (h_diagnostics s)\<rparr>)"

end
