(* ===== verification/Host_Dispatch.thy ===== *)
theory Host_Dispatch
  imports Host_Types
begin

text \<open>
  Delivery to the application: the core's own completion functions (which decode a response and
  call the application's typed callback), events, completions and state changes
  (host-core/src/host.c and the completion functions of the service clients). A completion runs
  on the executor, or inline when no task can be posted.
\<close>

section \<open>Completions of the service clients\<close>

definition bluetooth_info_completion ::
  "nat \<Rightarrow> host_result \<Rightarrow> u16 \<Rightarrow> i16 \<Rightarrow> u8 list \<Rightarrow> (host, unit) state" where
  "bluetooth_info_completion k result status_domain status_code payload = do {
    pb \<leftarrow> gets h_pb;
    let (result, decoded) =
      (if result = WLH_HOST_OK then
        (case pb_dec_controller_info pb payload of
          Some msg \<Rightarrow>
            if bim_state msg \<le> 3 \<and>
              (length (bim_public_address msg) = 0 \<or> length (bim_public_address msg) = 6)
            then (result, Some (Reply_bluetooth_info
              \<lparr>ci_state = bluetooth_state_of (bim_state msg),
               ci_public_address =
                 (if length (bim_public_address msg) = 6 then bim_public_address msg
                  else [0, 0, 0, 0, 0, 0]),
               ci_has_public_address = (length (bim_public_address msg) = 6),
               ci_hci_version = ucast (bim_hci_version msg),
               ci_manufacturer_id = ucast (bim_manufacturer_id msg),
               ci_feature_bits = bim_feature_bits msg,
               ci_max_hci_packet = bim_max_hci_packet msg\<rparr>))
            else (WLH_HOST_PROTOCOL_ERROR, None)
        | None \<Rightarrow> (WLH_HOST_PROTOCOL_ERROR, None))
       else (result, None));
    emit (EReply k result status_domain status_code decoded);
    buf_free
  }"

definition ota_begin_completion ::
  "nat \<Rightarrow> host_result \<Rightarrow> u16 \<Rightarrow> i16 \<Rightarrow> u8 list \<Rightarrow> (host, unit) state" where
  "ota_begin_completion k result domain status payload = do {
    pb \<leftarrow> gets h_pb;
    let (result, decoded) =
      (if result = WLH_HOST_OK then
        (case pb_dec_ota_begin pb payload of
          Some msg \<Rightarrow>
            if ob_transfer_id msg \<noteq> 0 \<and> ob_stream_chunk_size msg \<noteq> 0 \<and>
              ob_stream_alignment msg \<noteq> 0
            then (result, Some (Reply_ota_begin msg))
            else (WLH_HOST_PROTOCOL_ERROR, None)
        | None \<Rightarrow> (WLH_HOST_PROTOCOL_ERROR, None))
       else (result, None));
    emit (EReply k result domain status decoded);
    buf_free
  }"

definition ota_query_completion ::
  "nat \<Rightarrow> host_result \<Rightarrow> u16 \<Rightarrow> i16 \<Rightarrow> u8 list \<Rightarrow> (host, unit) state" where
  "ota_query_completion k result domain status payload = do {
    pb \<leftarrow> gets h_pb;
    let (result, decoded) =
      (if result = WLH_HOST_OK then
        (case pb_dec_ota_query pb payload of
          Some msg \<Rightarrow>
            if oq_state msg \<le> 5 then (result, Some (Reply_ota_query msg))
            else (WLH_HOST_PROTOCOL_ERROR, None)
        | None \<Rightarrow> (WLH_HOST_PROTOCOL_ERROR, None))
       else (result, None));
    emit (EReply k result domain status decoded);
    buf_free
  }"

text \<open>The three strings are copied without their last byte into a cleared array, so the last
  byte is NUL.\<close>

definition copy_string :: "nat \<Rightarrow> u8 list \<Rightarrow> u8 list" where
  "copy_string n src = take (n - 1) src @ [0]"

definition device_info_completion ::
  "nat \<Rightarrow> host_result \<Rightarrow> u16 \<Rightarrow> i16 \<Rightarrow> u8 list \<Rightarrow> (host, unit) state" where
  "device_info_completion k result status_domain status_code payload = do {
    pb \<leftarrow> gets h_pb;
    let (result, decoded) =
      (if result = WLH_HOST_OK then
        (case pb_dec_device_info pb payload of
          Some msg \<Rightarrow>
            (result, Some (Reply_device_info
              \<lparr>di_vendor = copy_string 33 (di_vendor msg),
               di_mcu_model = copy_string 33 (di_mcu_model msg),
               di_uid = di_uid msg,
               di_board_profile = copy_string 65 (di_board_profile msg)\<rparr>))
        | None \<Rightarrow> (WLH_HOST_PROTOCOL_ERROR, None))
       else (result, None));
    emit (EReply k result status_domain status_code decoded);
    buf_free
  }"

definition eth_info_completion ::
  "nat \<Rightarrow> host_result \<Rightarrow> u16 \<Rightarrow> i16 \<Rightarrow> u8 list \<Rightarrow> (host, unit) state" where
  "eth_info_completion k result status_domain status_code payload = do {
    pb \<leftarrow> gets h_pb;
    let (result, decoded) =
      (if result = WLH_HOST_OK then
        (case pb_dec_eth_info pb payload of
          Some msg \<Rightarrow>
            if ei_has_info msg \<and> 1 \<le> ei_link_state msg \<and> ei_link_state msg \<le> 2 \<and>
              length (ei_mac_address msg) = 6 \<and> ei_speed msg \<le> 3 \<and> ei_duplex msg \<le> 2
            then (result, Some (Reply_eth_info msg))
            else (WLH_HOST_PROTOCOL_ERROR, None)
        | None \<Rightarrow> (WLH_HOST_PROTOCOL_ERROR, None))
       else (result, None));
    emit (EReply k result status_domain status_code decoded);
    buf_free
  }"

definition io_mode_valid :: "u32 \<Rightarrow> bool" where
  "io_mode_valid mode \<longleftrightarrow> mode = 1 \<or> mode = 2 \<or> mode = 3"

definition io_pull_valid :: "u32 \<Rightarrow> bool" where
  "io_pull_valid pull \<longleftrightarrow> pull = 1 \<or> pull = 2 \<or> pull = 3"

definition io_read_completion ::
  "nat \<Rightarrow> host_result \<Rightarrow> u16 \<Rightarrow> i16 \<Rightarrow> u8 list \<Rightarrow> (host, unit) state" where
  "io_read_completion k result status_domain status_code payload = do {
    pb \<leftarrow> gets h_pb;
    let (result, decoded) =
      (if result = WLH_HOST_OK then
        (case pb_dec_io_state pb payload of
          Some msg \<Rightarrow>
            if io_mode_valid (is_mode msg) \<and> io_pull_valid (is_pull msg)
            then (result, Some (Reply_io_read msg))
            else (WLH_HOST_PROTOCOL_ERROR, None)
        | None \<Rightarrow> (WLH_HOST_PROTOCOL_ERROR, None))
       else (result, None));
    emit (EReply k result status_domain status_code decoded);
    buf_free
  }"

definition adc_read_completion ::
  "nat \<Rightarrow> host_result \<Rightarrow> u16 \<Rightarrow> i16 \<Rightarrow> u8 list \<Rightarrow> (host, unit) state" where
  "adc_read_completion k result status_domain status_code payload = do {
    pb \<leftarrow> gets h_pb;
    let (result, decoded) =
      (if result = WLH_HOST_OK then
        (case pb_dec_adc_sample pb payload of
          Some msg \<Rightarrow> (result, Some (Reply_adc_read msg))
        | None \<Rightarrow> (WLH_HOST_PROTOCOL_ERROR, None))
       else (result, None));
    emit (EReply k result status_domain status_code decoded);
    buf_free
  }"

text \<open>\<open>strlen\<close> of the decoded character array.\<close>

definition c_string :: "u8 list \<Rightarrow> u8 list" where
  "c_string bs = takeWhile (\<lambda>b. b \<noteq> 0) bs"

definition kv_read_completion ::
  "nat \<Rightarrow> host_result \<Rightarrow> u16 \<Rightarrow> i16 \<Rightarrow> u8 list \<Rightarrow> (host, unit) state" where
  "kv_read_completion k result status_domain status_code payload = do {
    pb \<leftarrow> gets h_pb;
    if result = WLH_HOST_OK then do {
      message \<leftarrow> buf_alloc 0;
      if \<not> message then do {
        emit (EReply k WLH_HOST_NO_MEMORY status_domain status_code None);
        buf_free
      }
      else do {
        (case pb_dec_kv_value pb payload of
          Some v \<Rightarrow>
            emit (EReply k result status_domain status_code (Some (Reply_kv_read (c_string v))))
        | None \<Rightarrow> emit (EReply k WLH_HOST_PROTOCOL_ERROR status_domain status_code None));
        buf_free;
        buf_free
      }
    }
    else do {
      emit (EReply k result status_domain status_code None);
      buf_free
    }
  }"

text \<open>The call through the function pointer.\<close>

definition call_completion ::
  "rpc_completion \<Rightarrow> host_result \<Rightarrow> u16 \<Rightarrow> i16 \<Rightarrow> u8 list \<Rightarrow> (host, unit) state" where
  "call_completion completion result domain code payload = (case completion of
      App k \<Rightarrow> emit (ECompletion k result domain code payload)
    | Bluetooth_info k \<Rightarrow> bluetooth_info_completion k result domain code payload
    | Ota_begin k \<Rightarrow> ota_begin_completion k result domain code payload
    | Ota_query k \<Rightarrow> ota_query_completion k result domain code payload
    | Device_info k \<Rightarrow> device_info_completion k result domain code payload
    | Eth_info k \<Rightarrow> eth_info_completion k result domain code payload
    | Io_read k \<Rightarrow> io_read_completion k result domain code payload
    | Adc_read k \<Rightarrow> adc_read_completion k result domain code payload
    | Kv_read k \<Rightarrow> kv_read_completion k result domain code payload)"

section \<open>Tasks on the executor\<close>

definition event_task_run :: "host_event \<Rightarrow> (host, unit) state" where
  "event_task_run event = do {
    on_event \<leftarrow> gets (cfg_on_event \<circ> h_config);
    whenM (on_event \<noteq> None) (emit (EOnEvent event));
    buf_free
  }"

definition completion_task_run ::
  "rpc_completion \<Rightarrow> host_result \<Rightarrow> u16 \<Rightarrow> i16 \<Rightarrow> u8 list \<Rightarrow> (host, unit) state" where
  "completion_task_run completion result domain code payload = do {
    call_completion completion result domain code payload;
    buf_free
  }"

fun run_task :: "task \<Rightarrow> (host, unit) state" where
  "run_task (Event_task event) = event_task_run event"
| "run_task (Completion_task completion result domain code payload) =
    completion_task_run completion result domain code payload"

section \<open>Dispatch\<close>

definition event_payload_size :: "event_payload \<Rightarrow> nat" where
  "event_payload_size p = (case p of
      Bytes bs \<Rightarrow> length bs | Bluetooth_state_event _ _ \<Rightarrow> 8 | Eth_link_state_event _ _ _ \<Rightarrow> 12)"

definition dispatch_event ::
  "event_kind \<Rightarrow> u16 \<Rightarrow> u16 \<Rightarrow> event_payload \<Rightarrow> (host, bool) state" where
  "dispatch_event kind service_id method_id payload = do {
    task \<leftarrow> buf_alloc (event_payload_size payload);
    if \<not> task then do {
      diag (\<lambda>d. d\<lparr>d_buffer_allocation_failures := d_buffer_allocation_failures d + 1\<rparr>);
      ret False
    }
    else do {
      st \<leftarrow> gets h_state;
      posted \<leftarrow> executor_post (Event_task \<lparr>ev_kind = kind, ev_state = st,
        ev_service_id = service_id, ev_method_id = method_id, ev_payload = payload\<rparr>);
      if \<not> posted then do { buf_free; ret False }
      else ret True
    }
  }"

definition dispatch_completion ::
  "rpc_completion option \<Rightarrow> host_result \<Rightarrow> u16 \<Rightarrow> i16 \<Rightarrow> u8 list \<Rightarrow> (host, unit) state" where
  "dispatch_completion completion result status_domain status_code payload =
    (case completion of
      None \<Rightarrow> ret ()
    | Some c \<Rightarrow> do {
        task \<leftarrow> buf_alloc (length payload);
        if \<not> task then do {
          diag (\<lambda>d. d\<lparr>d_buffer_allocation_failures := d_buffer_allocation_failures d + 1\<rparr>);
          call_completion c WLH_HOST_NO_MEMORY 0 WLH_STATUS_NO_MEMORY []
        }
        else do {
          posted \<leftarrow> executor_post (Completion_task c result status_domain status_code payload);
          if \<not> posted then do {
            buf_free;
            call_completion c WLH_HOST_TRANSPORT_ERROR 0 WLH_STATUS_INTERNAL []
          }
          else ret ()
        }
      })"

definition host_state_name :: "host_state \<Rightarrow> string" where
  "host_state_name st = (case st of
      STATE_UNINITIALIZED \<Rightarrow> ''UNINITIALIZED''
    | STATE_TRANSPORT_STARTING \<Rightarrow> ''TRANSPORT_STARTING''
    | STATE_WAITING_FOR_PEER \<Rightarrow> ''WAITING_FOR_PEER''
    | STATE_NEGOTIATING \<Rightarrow> ''NEGOTIATING''
    | STATE_READY \<Rightarrow> ''READY''
    | STATE_CONGESTED \<Rightarrow> ''CONGESTED''
    | STATE_RECOVERING \<Rightarrow> ''RECOVERING''
    | STATE_FAILED \<Rightarrow> ''FAILED''
    | STATE_STOPPING \<Rightarrow> ''STOPPING'')"

definition set_state :: "host_state \<Rightarrow> (host, unit) state" where
  "set_state st = do {
    cur \<leftarrow> gets h_state;
    if cur = st then ret ()
    else do {
      modify (\<lambda>s. s\<lparr>h_state := st\<rparr>);
      diag (\<lambda>d. d\<lparr>d_state := st\<rparr>);
      _ \<leftarrow> dispatch_event EVENT_STATE_CHANGED 0 0 (Bytes []);
      ret ()
    }
  }"

end
