(* ===== verification/Host_Wire.thy ===== *)
theory Host_Wire
  imports Host_Dispatch
begin

text \<open>
  Sending (host-core/src/host_wire.c) and the entry of the core queue (\<open>enqueue_job\<close> of
  host_rpc.c, \<open>wlh_host_transport_lost\<close> of host_link.c).
\<close>

section \<open>The core queue\<close>

text \<open>\<open>True\<close> for the return value 0. A call with \<open>WLH_OSAL_WAIT_FOREVER\<close> does not return while the
  queue is full; such a step is taken only when there is room.\<close>

definition enqueue_job :: "host_job \<Rightarrow> (host, bool) state" where
  "enqueue_job job = do {
    started \<leftarrow> gets h_worker_started;
    if \<not> started then ret False
    else queue_send job
  }"

definition wlh_host_transport_lost :: "(host, unit) state" where
  "wlh_host_transport_lost = do {
    started \<leftarrow> gets h_worker_started;
    if started then do { _ \<leftarrow> enqueue_job JOB_TRANSPORT_LOST; ret () }
    else ret ()
  }"

definition is_ethernet_channel :: "u8 \<Rightarrow> bool" where
  "is_ethernet_channel channel \<longleftrightarrow> channel = WLH_CHANNEL_ETHERNET_STA \<or>
    channel = WLH_CHANNEL_ETHERNET_AP \<or> channel = WLH_CHANNEL_ETHERNET_ETH"

text \<open>The transport's completion of a frame, from the adapter's task.\<close>

definition tx_complete :: "u8 list \<Rightarrow> int \<Rightarrow> (host, unit) state" where
  "tx_complete frame status = do {
    let ethernet_frame = (length frame \<ge> WLH_FRAME_HEADER_SIZE \<and> is_ethernet_channel (frame ! 4));
    buf_free;
    whenM ethernet_frame semaphore_give;
    whenM (status \<noteq> 0) wlh_host_transport_lost
  }"

section \<open>Frames\<close>

definition encode_pb :: "pb_codec \<Rightarrow> nat \<Rightarrow> pb_msg \<Rightarrow> host_result \<times> u8 list" where
  "encode_pb pb capacity message = (case pb_encode_msg pb capacity message of
      None \<Rightarrow> (WLH_HOST_PROTOCOL_ERROR, [])
    | Some bs \<Rightarrow> (WLH_HOST_OK, bs))"

definition send_payload_frame_units ::
  "u8 \<Rightarrow> u8 list \<Rightarrow> bool \<Rightarrow> u32 \<Rightarrow> (host, host_result) state" where
  "send_payload_frame_units channel payload reserved credit_units = do {
    s \<leftarrow> State_Monad.get;
    let frame_size = WLH_FRAME_HEADER_SIZE + length payload;
    if frame_size > unat (cfg_max_frame_size (h_config s)) \<or> length payload > 65535 \<or>
      credit_units = 0
    then ret WLH_HOST_INVALID_ARGUMENT
    else if \<not> reserved \<and> h_tx_credit s channel < credit_units then do {
      set_state STATE_CONGESTED;
      ret WLH_HOST_NO_CREDIT
    }
    else do {
      frame \<leftarrow> buf_alloc frame_size;
      if \<not> frame then do {
        diag (\<lambda>d. d\<lparr>d_buffer_allocation_failures := d_buffer_allocation_failures d + 1\<rparr>);
        ret WLH_HOST_NO_MEMORY
      }
      else do {
        let header = (wlh_frame_header_init channel)
          \<lparr>fh_session_id :=
             (if channel = WLH_CHANNEL_LINK_CONTROL \<and> h_session_id s = 0 then 0
              else h_session_id s),
           fh_sequence := h_tx_sequence s channel\<rparr>;
        let (wire, bytes) = frame_encode_buf frame_size header payload;
        if wire \<noteq> WLH_WIRE_OK then do {
          buf_free;
          ret WLH_HOST_PROTOCOL_ERROR
        }
        else do {
          accepted \<leftarrow> submit_tx bytes;
          if \<not> accepted then do {
            buf_free;
            ret WLH_HOST_TRANSPORT_ERROR
          }
          else do {
            modify (\<lambda>s. s\<lparr>h_tx_sequence :=
              (h_tx_sequence s)(channel := h_tx_sequence s channel + 1)\<rparr>);
            whenM (\<not> reserved) (modify (\<lambda>s. s\<lparr>h_tx_credit :=
              (h_tx_credit s)(channel := h_tx_credit s channel - credit_units)\<rparr>));
            diag (\<lambda>d. d\<lparr>d_tx_frames := d_tx_frames d + 1\<rparr>);
            ret WLH_HOST_OK
          }
        }
      }
    }
  }"

definition send_payload_frame :: "u8 \<Rightarrow> u8 list \<Rightarrow> bool \<Rightarrow> (host, host_result) state" where
  "send_payload_frame channel payload reserved =
    send_payload_frame_units channel payload reserved 1"

section \<open>RPC messages\<close>

definition rpc_channel :: "rpc_envelope \<Rightarrow> u8" where
  "rpc_channel envelope = (if re_service_id envelope = WLH_SERVICE_LINK
    then WLH_CHANNEL_LINK_CONTROL else WLH_CHANNEL_CONTROL_RPC)"

definition send_rpc :: "rpc_envelope \<Rightarrow> u8 list \<Rightarrow> bool \<Rightarrow> (host, host_result) state" where
  "send_rpc envelope payload reserved = do {
    let channel = rpc_channel envelope;
    if length payload > WLH_HOST_PROTOBUF_LIMIT then ret WLH_HOST_INVALID_ARGUMENT
    else do {
      let rpc_capacity = WLH_RPC_ENVELOPE_SIZE + length payload;
      rpc \<leftarrow> buf_alloc rpc_capacity;
      if \<not> rpc then ret WLH_HOST_NO_MEMORY
      else do {
        let (wire, bytes) = rpc_encode_buf rpc_capacity envelope payload;
        if wire \<noteq> WLH_WIRE_OK then do {
          buf_free;
          ret WLH_HOST_PROTOCOL_ERROR
        }
        else do {
          result \<leftarrow> send_payload_frame channel bytes reserved;
          buf_free;
          ret result
        }
      }
    }
  }"

definition send_rpc_message :: "rpc_envelope \<Rightarrow> pb_msg \<Rightarrow> bool \<Rightarrow> (host, host_result) state" where
  "send_rpc_message envelope message reserved = do {
    pb \<leftarrow> gets h_pb;
    case pb_encoded_size pb message of
      None \<Rightarrow> ret WLH_HOST_PROTOCOL_ERROR
    | Some payload_size \<Rightarrow>
        if payload_size > WLH_HOST_PROTOBUF_LIMIT then ret WLH_HOST_PROTOCOL_ERROR
        else if payload_size = 0 then send_rpc envelope [] reserved
        else do {
          payload \<leftarrow> buf_alloc payload_size;
          if \<not> payload then ret WLH_HOST_NO_MEMORY
          else do {
            let (result, bytes) = encode_pb pb payload_size message;
            result \<leftarrow> (if result = WLH_HOST_OK \<and> length bytes = payload_size
              then send_rpc envelope bytes reserved
              else ret WLH_HOST_PROTOCOL_ERROR);
            buf_free;
            ret result
          }
        }
  }"

definition send_credit_update :: "u8 \<Rightarrow> u32 \<Rightarrow> (host, host_result) state" where
  "send_credit_update channel units =
    (if units = 0 then ret WLH_HOST_OK
     else send_rpc_message
       (empty_envelope\<lparr>re_service_id := WLH_SERVICE_LINK,
          re_method_id := WLH_LINK_METHOD_CREDIT_UPDATE, re_kind := WLH_RPC_KIND_EVENT\<rparr>)
       (Msg_CreditUpdate \<lparr>cu_channel_id = ucast channel, cu_units = units\<rparr>) True)"

end
