(* ===== verification/Host_Link.thy ===== *)
theory Host_Link
  imports Host_Wire
begin

text \<open>
  Link control: the Hello negotiation, credit updates, heartbeats, session changes and the
  transport's lifecycle (host-core/src/host_link.c), with \<open>cancel_pending\<close> of host_rpc.c and the
  credit reset of host_frame.c they use.
\<close>

definition cancel_pending :: "host_result \<Rightarrow> (host, unit) state" where
  "cancel_pending result = for_each [0..<WLH_HOST_MAX_PENDING] (\<lambda>index. do {
    pending \<leftarrow> gets (\<lambda>s. h_pending s index);
    if \<not> p_active pending then ret ()
    else do {
      modify (\<lambda>s. s\<lparr>h_pending := (h_pending s)(index := zero_pending)\<rparr>);
      dispatch_completion (p_completion pending) result WLH_STATUS_DOMAIN_LINK
        (if result = WLH_HOST_TIMEOUT then WLH_STATUS_TIMEOUT else WLH_STATUS_SESSION_CHANGED) []
    }
  })"

definition reset_ethernet_rx_credits :: "(host, unit) state" where
  "reset_ethernet_rx_credits = modify (\<lambda>s.
    s\<lparr>h_ethernet_rx_pending_credit := (\<lambda>_. 0), h_ethernet_rx_credit_due_ms := 0\<rparr>)"

section \<open>Hello\<close>

definition hello_request_of :: "host_config \<Rightarrow> hello_request" where
  "hello_request_of cfg =
    \<lparr>hq_protocol_major = 1,
     hq_implementation = ''wl-hosted-host-core'',
     hq_implementation_version = ''0.1.0'',
     hq_max_frame_size = cfg_max_frame_size cfg,
     hq_alignment = 1,
     hq_checksum_modes = [1, 2],
     hq_max_rpc_payload = of_nat WLH_HOST_PROTOBUF_LIMIT,
     hq_services = map (\<lambda>id. \<lparr>svr_service_id = ucast id, svr_major = 1\<rparr>)
       [WLH_SERVICE_LINK, WLH_SERVICE_WIFI, WLH_SERVICE_DIAGNOSTICS, WLH_SERVICE_BLUETOOTH,
        WLH_SERVICE_OTA, WLH_SERVICE_ETH],
     hq_channels = map (\<lambda>(ch, n). \<lparr>cc_channel_id = ucast ch, cc_max_frame_payload = n,
         cc_alignment = 1\<rparr>)
       [(WLH_CHANNEL_LINK_CONTROL, of_nat WLH_HOST_PROTOBUF_LIMIT),
        (WLH_CHANNEL_CONTROL_RPC, of_nat WLH_HOST_PROTOBUF_LIMIT),
        (WLH_CHANNEL_ETHERNET_STA, 1600),
        (WLH_CHANNEL_ETHERNET_AP, 1600),
        (WLH_CHANNEL_BLUETOOTH_HCI, WLH_HOST_MAX_HCI_PACKET),
        (WLH_CHANNEL_BLUETOOTH_HCI_ADV, WLH_HOST_MAX_HCI_PACKET),
        (WLH_CHANNEL_OTA_STREAM, 4096),
        (WLH_CHANNEL_ETHERNET_ETH, 1600)]\<rparr>"

definition next_request_id :: "(host, u32) state" where
  "next_request_id = do {
    r \<leftarrow> gets h_next_request_id;
    modify (\<lambda>s. s\<lparr>h_next_request_id := h_next_request_id s + 1\<rparr>);
    if r = 0 then do {
      r \<leftarrow> gets h_next_request_id;
      modify (\<lambda>s. s\<lparr>h_next_request_id := h_next_request_id s + 1\<rparr>);
      ret r
    }
    else ret r
  }"

definition send_hello :: "(host, host_result) state" where
  "send_hello = do {
    hello \<leftarrow> buf_alloc 0;
    if \<not> hello then ret WLH_HOST_NO_MEMORY
    else do {
      cfg \<leftarrow> gets h_config;
      request_id \<leftarrow> next_request_id;
      let envelope = empty_envelope\<lparr>re_service_id := WLH_SERVICE_LINK,
        re_method_id := WLH_LINK_METHOD_HELLO, re_request_id := request_id,
        re_kind := WLH_RPC_KIND_REQUEST\<rparr>;
      set_state STATE_NEGOTIATING;
      result \<leftarrow> send_rpc_message envelope (Msg_HelloRequest (hello_request_of cfg)) True;
      buf_free;
      ret result
    }
  }"

definition hello_credits :: "hello_response \<Rightarrow> u8 \<Rightarrow> u32" where
  "hello_credits hello = foldl (\<lambda>credit c. if ic_channel_id c < 256
      then credit(ucast (ic_channel_id c) := ic_units c) else credit)
    (\<lambda>_. 0) (hr_initial_credits hello)"

text \<open>Support and record limit of Bluetooth: the last matching channel entries are min-folded.\<close>

definition hello_bluetooth :: "host_config \<Rightarrow> hello_response \<Rightarrow> bool \<times> u32" where
  "hello_bluetooth cfg hello =
    (let service_found = list_ex (\<lambda>v. svr_service_id v = ucast WLH_SERVICE_BLUETOOTH)
           (hr_services hello);
         (channel_found, record_limit) = foldl (\<lambda>(found, limit) c.
             if cc_channel_id c = ucast WLH_CHANNEL_BLUETOOTH_HCI
             then (True, if cc_max_frame_payload c \<noteq> 0 \<and> cc_max_frame_payload c < limit
               then cc_max_frame_payload c else limit)
             else (found, limit))
           (False, WLH_HOST_MAX_HCI_PACKET) (hr_channels hello);
         frame_limit = (if hr_max_frame_size hello > cfg_max_frame_size cfg
           then cfg_max_frame_size cfg else hr_max_frame_size hello)
     in
     if frame_limit \<ge> 32 then
       (let payload_limit = frame_limit - 24 - 8 in
        (service_found \<and> channel_found,
         if payload_limit < record_limit then payload_limit else record_limit))
     else (False, record_limit))"

text \<open>The OTA limit is computed in \<open>size_t\<close>, where a \<open>max_frame_size\<close> below 32 wraps around.\<close>

definition hello_ota :: "host_config \<Rightarrow> hello_response \<Rightarrow> bool \<times> u32" where
  "hello_ota cfg hello =
    (let service_found = list_ex (\<lambda>v. svr_service_id v = ucast WLH_SERVICE_OTA) (hr_services hello);
         (channel_found, record_limit) = foldl (\<lambda>(found, limit) c.
             if cc_channel_id c = ucast WLH_CHANNEL_OTA_STREAM
             then (True, if cc_max_frame_payload c \<noteq> 0 then cc_max_frame_payload c else limit)
             else (found, limit))
           (False, 4096) (hr_channels hello);
         space = (ucast (cfg_max_frame_size cfg) :: u64) - 24 - 8;
         record_limit = (if (ucast record_limit :: u64) > space then ucast space else record_limit)
     in (service_found \<and> channel_found \<and> record_limit \<ge> 16, record_limit))"

definition hello_acceptable :: "hello_response \<Rightarrow> bool" where
  "hello_acceptable hello \<longleftrightarrow> hr_has_selected_protocol hello \<and> hr_selected_major hello = 1 \<and>
    hr_session_id hello \<noteq> 0 \<and> unat (hr_max_frame_size hello) \<ge> WLH_FRAME_HEADER_SIZE"

definition handle_hello_response :: "u8 list \<Rightarrow> (host, host_result) state" where
  "handle_hello_response payload = do {
    hello \<leftarrow> buf_alloc 0;
    if \<not> hello then ret WLH_HOST_NO_MEMORY
    else do {
      pb \<leftarrow> gets h_pb;
      let decoded = pb_dec_hello_response pb payload;
      if (case decoded of None \<Rightarrow> True | Some hello \<Rightarrow> \<not> hello_acceptable hello) then do {
        buf_free;
        set_state STATE_FAILED;
        ret WLH_HOST_PROTOCOL_ERROR
      }
      else do {
        let hello = the decoded;
        cfg \<leftarrow> gets h_config;
        reset_ethernet_rx_credits;
        modify (\<lambda>s. s\<lparr>h_session_id := hr_session_id hello,
          h_peer_version := (take 33 (hr_implementation_version hello))[32 := 0]\<rparr>);
        diag (\<lambda>d. d\<lparr>d_session_id := hr_session_id hello\<rparr>);
        modify (\<lambda>s. s\<lparr>h_tx_credit := hello_credits hello\<rparr>);
        modify (\<lambda>s. s\<lparr>h_bluetooth_supported := fst (hello_bluetooth cfg hello),
          h_bluetooth_max_record := snd (hello_bluetooth cfg hello),
          h_bluetooth_hci_stopped := False,
          h_bluetooth_state := BLUETOOTH_STATE_UNSPECIFIED\<rparr>);
        modify (\<lambda>s. s\<lparr>h_ota_supported := fst (hello_ota cfg hello),
          h_ota_max_record := snd (hello_ota cfg hello)\<rparr>);
        buf_free;
        now \<leftarrow> now_ms;
        diag (\<lambda>d. d\<lparr>d_last_peer_activity_ms := now\<rparr>);
        set_state STATE_READY;
        ret WLH_HOST_OK
      }
    }
  }"

section \<open>Link events\<close>

definition handle_credit_update :: "u8 list \<Rightarrow> (host, unit) state" where
  "handle_credit_update payload = do {
    pb \<leftarrow> gets h_pb;
    case pb_dec_credit_update pb payload of
      None \<Rightarrow> ret ()
    | Some credit \<Rightarrow>
        if \<not> cu_channel_id credit < 256 then ret ()
        else do {
          s \<leftarrow> State_Monad.get;
          let channel = (ucast (cu_channel_id credit) :: u8);
          let old = h_tx_credit s channel;
          let updated = sat_add old (cu_units credit);
          modify (\<lambda>s. s\<lparr>h_tx_credit := (h_tx_credit s)(channel := updated)\<rparr>);
          whenM (channel = WLH_CHANNEL_BLUETOOTH_HCI \<and>
              cfg_bluetooth_hci_tx_ready (h_config s) \<noteq> None)
            (let inflight = h_bluetooth_tx_inflight s; was_usable = old > inflight;
                 now_usable = updated > inflight
             in whenM (\<not> was_usable \<and> now_usable) (emit EHciTxReady));
          whenM (channel = WLH_CHANNEL_OTA_STREAM \<and>
              cfg_ota_stream_tx_ready (h_config s) \<noteq> None)
            (let inflight = h_ota_tx_inflight s; was_usable = old > inflight;
                 now_usable = updated > inflight
             in whenM (\<not> was_usable \<and> now_usable) (emit EOtaTxReady));
          whenM (h_state s = STATE_CONGESTED) (set_state STATE_READY)
        }
  }"

definition handle_heartbeat :: "u8 list \<Rightarrow> (host, unit) state" where
  "handle_heartbeat payload = do {
    heartbeat \<leftarrow> buf_alloc 0;
    if \<not> heartbeat then ret ()
    else do {
      s \<leftarrow> State_Monad.get;
      (case pb_dec_heartbeat_session (h_pb s) payload of
        None \<Rightarrow> ret ()
      | Some session \<Rightarrow> whenM (session = h_session_id s) (do {
          now \<leftarrow> now_ms;
          diag (\<lambda>d. d\<lparr>d_last_peer_activity_ms := now\<rparr>)
        }));
      buf_free
    }
  }"

text \<open>The Bluetooth and OTA fields of a session, cleared in three places of the code.\<close>

definition clear_session_services :: "host \<Rightarrow> host" where
  "clear_session_services s = s\<lparr>h_bluetooth_supported := False, h_bluetooth_hci_stopped := False,
    h_bluetooth_tx_inflight := 0, h_bluetooth_state := BLUETOOTH_STATE_UNSPECIFIED,
    h_ota_supported := False, h_ota_tx_inflight := 0,
    h_peer_version := (h_peer_version s)[0 := 0]\<rparr>"

definition handle_session_changed :: "u8 list \<Rightarrow> (host, unit) state" where
  "handle_session_changed payload = do {
    changed \<leftarrow> buf_alloc 0;
    if \<not> changed then ret ()
    else do {
      s \<leftarrow> State_Monad.get;
      let decoded = pb_dec_new_session (h_pb s) payload;
      if (case decoded of None \<Rightarrow> True | Some new \<Rightarrow> new = 0 \<or> new = h_session_id s)
      then buf_free
      else do {
        buf_free;
        diag (\<lambda>d. d\<lparr>d_peer_resets := d_peer_resets d + 1\<rparr>);
        cancel_pending WLH_HOST_SESSION_CHANGED;
        modify (\<lambda>s. clear_session_services (s\<lparr>h_session_id := 0, h_tx_credit := (\<lambda>_. 0),
          h_rx_sequence_valid := (\<lambda>_. False)\<rparr>));
        _ \<leftarrow> send_hello;
        ret ()
      }
    }
  }"

definition handle_link_event :: "rpc_envelope \<Rightarrow> u8 list \<Rightarrow> (host, unit) state" where
  "handle_link_event envelope payload =
    (if re_method_id envelope = WLH_LINK_METHOD_CREDIT_UPDATE then handle_credit_update payload
     else if re_method_id envelope = WLH_LINK_METHOD_HEARTBEAT then handle_heartbeat payload
     else if re_method_id envelope = WLH_LINK_EVENT_SESSION_CHANGED
     then handle_session_changed payload
     else ret ())"

section \<open>Transport lifecycle\<close>

definition transport_start_complete :: "int \<Rightarrow> (host, unit) state" where
  "transport_start_complete status = do {
    _ \<leftarrow> enqueue_job (if status = 0 then JOB_TRANSPORT_STARTED else JOB_TRANSPORT_START_FAILED);
    ret ()
  }"

definition transport_stop_complete :: "int \<Rightarrow> (host, unit) state" where
  "transport_stop_complete status = do {
    _ \<leftarrow> enqueue_job (if status = 0 then JOB_TRANSPORT_STOPPED else JOB_TRANSPORT_STOP_FAILED);
    ret ()
  }"

definition request_transport_start :: "(host, unit) state" where
  "request_transport_start = do {
    set_state STATE_TRANSPORT_STARTING;
    accepted \<leftarrow> transport_start;
    whenM (\<not> accepted) (set_state STATE_FAILED)
  }"

definition finish_shutdown :: "(host, unit) state" where
  "finish_shutdown = do {
    modify (\<lambda>s. s\<lparr>h_session_id := 0\<rparr>);
    set_state STATE_UNINITIALIZED;
    modify (\<lambda>s. s\<lparr>h_worker_stopping := True\<rparr>)
  }"

definition process_transport_lost :: "(host, unit) state" where
  "process_transport_lost = do {
    st \<leftarrow> gets h_state;
    if st = STATE_STOPPING \<or> st = STATE_UNINITIALIZED then ret ()
    else do {
      diag (\<lambda>d. d\<lparr>d_transport_resets := d_transport_resets d + 1\<rparr>);
      cancel_pending WLH_HOST_SESSION_CHANGED;
      modify (\<lambda>s. clear_session_services (s\<lparr>h_session_id := 0, h_tx_credit := (\<lambda>_. 0),
        h_tx_sequence := (\<lambda>_. 0), h_rx_sequence_valid := (\<lambda>_. False)\<rparr>));
      set_state STATE_RECOVERING;
      accepted \<leftarrow> transport_stop;
      whenM (\<not> accepted) (set_state STATE_FAILED)
    }
  }"

end
