(* ===== verification/Host_Rpc.thy ===== *)
theory Host_Rpc
  imports Host_Link
begin

text \<open>
  Requests, the pending table and the deadlines (host-core/src/host_rpc.c).
\<close>

section \<open>Pending table\<close>

definition allocate_pending :: "host \<Rightarrow> nat option" where
  "allocate_pending s =
    (let limit = unat (cfg_max_pending_rpc (h_config s));
         limit = (if limit > WLH_HOST_MAX_PENDING then WLH_HOST_MAX_PENDING else limit)
     in find (\<lambda>index. \<not> p_active (h_pending s index)) [0..<limit])"

definition find_pending :: "host \<Rightarrow> rpc_envelope \<Rightarrow> nat option" where
  "find_pending s envelope = find (\<lambda>index. let pending = h_pending s index in
      p_active pending \<and> p_session_id pending = h_session_id s \<and>
      p_request_id pending = re_request_id envelope \<and>
      p_service_id pending = re_service_id envelope \<and>
      p_method_id pending = re_method_id envelope)
    [0..<WLH_HOST_MAX_PENDING]"

section \<open>Deadlines\<close>

definition expire_pending :: "u64 \<Rightarrow> nat \<Rightarrow> (host, unit) state" where
  "expire_pending current index = do {
    pending \<leftarrow> gets (\<lambda>s. h_pending s index);
    if p_active pending \<and> current \<ge> p_deadline_ms pending then do {
      modify (\<lambda>s. s\<lparr>h_pending := (h_pending s)(index := zero_pending)\<rparr>);
      diag (\<lambda>d. d\<lparr>d_rpc_timeouts := d_rpc_timeouts d + 1\<rparr>);
      dispatch_completion (p_completion pending) WLH_HOST_TIMEOUT WLH_STATUS_DOMAIN_LINK
        WLH_STATUS_TIMEOUT []
    }
    else ret ()
  }"

definition process_deadlines :: "(host, host_result) state" where
  "process_deadlines = do {
    current \<leftarrow> now_ms;
    for_each [0..<WLH_HOST_MAX_PENDING] (expire_pending current);
    s \<leftarrow> State_Monad.get;
    if h_state s = STATE_READY \<and> cfg_heartbeat_timeout_ms (h_config s) \<noteq> 0 \<and>
      current - d_last_peer_activity_ms (h_diagnostics s) \<ge>
        ucast (cfg_heartbeat_timeout_ms (h_config s))
    then do {
      cancel_pending WLH_HOST_TIMEOUT;
      process_transport_lost;
      ret WLH_HOST_TIMEOUT
    }
    else ret WLH_HOST_OK
  }"

definition deadline_wait_ms :: "u64 \<Rightarrow> u64 \<Rightarrow> u32" where
  "deadline_wait_ms current deadline =
    (if deadline \<le> current then WLH_OSAL_NO_WAIT
     else
       let remaining = deadline - current in
       if remaining \<ge> ucast WLH_OSAL_WAIT_FOREVER then WLH_OSAL_WAIT_FOREVER - 1
       else ucast remaining)"

definition nearest_deadline :: "host \<Rightarrow> u64" where
  "nearest_deadline s =
    (let nearest = foldl (\<lambda>nearest index.
           if p_active (h_pending s index) \<and> p_deadline_ms (h_pending s index) < nearest
           then p_deadline_ms (h_pending s index) else nearest)
         (- 1) [0..<WLH_HOST_MAX_PENDING];
         nearest =
           (if h_state s = STATE_READY \<and> cfg_heartbeat_timeout_ms (h_config s) \<noteq> 0 then
              let heartbeat_deadline = d_last_peer_activity_ms (h_diagnostics s) +
                ucast (cfg_heartbeat_timeout_ms (h_config s))
              in if heartbeat_deadline < nearest then heartbeat_deadline else nearest
            else nearest)
     in if h_ethernet_rx_credit_due_ms s \<noteq> 0 \<and> h_ethernet_rx_credit_due_ms s < nearest
        then h_ethernet_rx_credit_due_ms s else nearest)"

definition next_wait_ms :: "(host, u32) state" where
  "next_wait_ms = do {
    current \<leftarrow> now_ms;
    s \<leftarrow> State_Monad.get;
    let nearest = nearest_deadline s;
    ret (if nearest = - 1 then WLH_OSAL_WAIT_FOREVER else deadline_wait_ms current nearest)
  }"

section \<open>Requests\<close>

text \<open>The result and the value stored through \<open>request_id\<close>, when one is.\<close>

definition wlh_host_rpc_request ::
  "u16 \<Rightarrow> u16 \<Rightarrow> u8 list option \<Rightarrow> nat \<Rightarrow> u32 \<Rightarrow> rpc_completion option \<Rightarrow>
    (host, host_result \<times> u32 option) state" where
  "wlh_host_rpc_request service_id method_id payload payload_size timeout_ms completion = do {
    started \<leftarrow> gets h_worker_started;
    if service_id = 0 \<or> method_id = 0 \<or> (payload_size \<noteq> 0 \<and> payload = None) \<or>
      payload_size > WLH_HOST_PROTOBUF_LIMIT \<or> \<not> started
    then ret (WLH_HOST_INVALID_ARGUMENT, None)
    else do {
      locked \<leftarrow> mutex_lock_timeout;
      if \<not> locked then ret (WLH_HOST_TIMEOUT, None)
      else do {
        assigned_request_id \<leftarrow> next_request_id;
        job \<leftarrow> buf_alloc payload_size;
        if \<not> job then ret (WLH_HOST_NO_MEMORY, None)
        else do {
          queued \<leftarrow> enqueue_job (JOB_RPC_REQUEST
            \<lparr>rj_service_id = service_id, rj_method_id = method_id,
             rj_request_id = assigned_request_id, rj_timeout_ms = timeout_ms,
             rj_completion = completion,
             rj_payload = (if payload_size \<noteq> 0 then take payload_size (the payload) else [])\<rparr>);
          if \<not> queued then do {
            buf_free;
            ret (WLH_HOST_PENDING_FULL, None)
          }
          else ret (WLH_HOST_OK, Some assigned_request_id)
        }
      }
    }
  }"

definition rpc_message_request ::
  "u16 \<Rightarrow> u16 \<Rightarrow> pb_msg \<Rightarrow> rpc_completion option \<Rightarrow> (host, host_result) state" where
  "rpc_message_request service_id method_id message completion = do {
    pb \<leftarrow> gets h_pb;
    case pb_encoded_size pb message of
      None \<Rightarrow> ret WLH_HOST_PROTOCOL_ERROR
    | Some n \<Rightarrow>
        if n > WLH_HOST_PROTOBUF_LIMIT then ret WLH_HOST_PROTOCOL_ERROR
        else if n = 0 then do {
          (result, _) \<leftarrow> wlh_host_rpc_request service_id method_id None 0 0 completion;
          ret result
        }
        else do {
          payload \<leftarrow> buf_alloc n;
          if \<not> payload then ret WLH_HOST_NO_MEMORY
          else do {
            let (result, bytes) = encode_pb pb n message;
            result \<leftarrow> (if result = WLH_HOST_OK \<and> length bytes = n then do {
                (result, _) \<leftarrow> wlh_host_rpc_request service_id method_id (Some bytes) n 0 completion;
                ret result
              }
              else ret WLH_HOST_PROTOCOL_ERROR);
            buf_free;
            ret result
          }
        }
  }"

text \<open>Requests are taken from the queue only in \<open>READY\<close>; the slot is filled before the frame is
  sent and cleared again when sending fails.\<close>

definition process_rpc_request :: "rpc_job \<Rightarrow> (host, host_result) state" where
  "process_rpc_request job = do {
    s \<leftarrow> State_Monad.get;
    if h_state s \<noteq> STATE_READY then ret WLH_HOST_INVALID_STATE
    else case allocate_pending s of
      None \<Rightarrow> ret WLH_HOST_PENDING_FULL
    | Some slot \<Rightarrow> do {
        let envelope = empty_envelope\<lparr>re_service_id := rj_service_id job,
          re_method_id := rj_method_id job, re_request_id := rj_request_id job,
          re_kind := WLH_RPC_KIND_REQUEST\<rparr>;
        now \<leftarrow> now_ms;
        modify (\<lambda>s. s\<lparr>h_pending := (h_pending s)(slot :=
          \<lparr>p_active = True, p_session_id = h_session_id s, p_request_id = rj_request_id job,
           p_service_id = rj_service_id job, p_method_id = rj_method_id job,
           p_deadline_ms = now + ucast (if rj_timeout_ms job = 0
             then cfg_rpc_timeout_ms (h_config s) else rj_timeout_ms job),
           p_completion = rj_completion job\<rparr>)\<rparr>);
        result \<leftarrow> send_rpc envelope (rj_payload job) False;
        if result \<noteq> WLH_HOST_OK then do {
          modify (\<lambda>s. s\<lparr>h_pending := (h_pending s)(slot := zero_pending)\<rparr>);
          ret result
        }
        else ret WLH_HOST_OK
      }
  }"

end
