(* ===== verification/Host_Streams.thy ===== *)
theory Host_Streams
  imports Host_Rpc
begin

text \<open>
  The data channels' receive side: HCI frames (host-core/src/host_bluetooth.c) and OTA stream
  frames (host-core/src/host_ota.c).
\<close>

section \<open>HCI frames\<close>

definition le16_at :: "u8 list \<Rightarrow> nat \<Rightarrow> nat" where
  "le16_at p i = unat ((ucast (p ! i) :: u16) OR push_bit 8 (ucast (p ! (i + 1))))"

definition hci_rx_record_valid :: "host \<Rightarrow> u8 \<Rightarrow> raw_record \<Rightarrow> bool" where
  "hci_rx_record_valid s channel record = (case record of (record_type, _, payload) \<Rightarrow>
    if length payload > unat (h_bluetooth_max_record s) then False
    else if record_type = WLH_H4_TYPE_ACL then
      if channel = WLH_CHANNEL_BLUETOOTH_HCI_ADV then False
      else length payload \<ge> 4 \<and> le16_at payload 2 + 4 = length payload
    else if record_type = WLH_H4_TYPE_EVENT then
      length payload \<ge> 2 \<and> unat (payload ! 1) + 2 = length payload
    else False)"

definition bluetooth_fault :: "u32 \<Rightarrow> (host, unit) state" where
  "bluetooth_fault reason = do {
    diag (\<lambda>d. d\<lparr>d_hci_malformed := d_hci_malformed d + 1\<rparr>);
    modify (\<lambda>s. s\<lparr>h_bluetooth_hci_stopped := True, h_bluetooth_state := BLUETOOTH_STATE_ERROR\<rparr>);
    _ \<leftarrow> dispatch_event EVENT_BLUETOOTH_STATE_CHANGED WLH_SERVICE_BLUETOOTH
      WLH_BLUETOOTH_EVENT_STATE_CHANGED (Bluetooth_state_event BLUETOOTH_STATE_ERROR reason);
    ret ()
  }"

text \<open>The validation loop stops at the first bad record; its result is the iterator's last one,
  or \<open>WLH_WIRE_INVALID_ARGUMENT\<close> for a bad record and for an empty payload.\<close>

definition hci_validate :: "host \<Rightarrow> u8 \<Rightarrow> u8 list \<Rightarrow> wire_result" where
  "hci_validate s channel payload =
    (if payload = [] then WLH_WIRE_INVALID_ARGUMENT
     else case raw_records payload of (records, result) \<Rightarrow>
       if list_all (hci_rx_record_valid s channel) records then result
       else WLH_WIRE_INVALID_ARGUMENT)"

fun hci_deliver :: "raw_record list \<Rightarrow> (host, bool) state" where
  "hci_deliver [] = ret True"
| "hci_deliver ((record_type, flags, payload) # records) = do {
    s \<leftarrow> State_Monad.get;
    taken \<leftarrow> (case cfg_bluetooth_hci_rx (h_config s) of
        None \<Rightarrow> ret False
      | Some hci_rx \<Rightarrow> do {
          let r = hci_rx (length (trace s));
          emit (EHciRx record_type payload r);
          ret (r = WLH_HOST_OK)
        });
    if \<not> taken then do {
      diag (\<lambda>d. d\<lparr>d_hci_drops := d_hci_drops d + 1\<rparr>);
      ret False
    }
    else hci_deliver records
  }"

definition process_hci_frame :: "u8 \<Rightarrow> u8 list \<Rightarrow> (host, host_result) state" where
  "process_hci_frame channel payload = do {
    s \<leftarrow> State_Monad.get;
    if h_bluetooth_hci_stopped s then do {
      diag (\<lambda>d. d\<lparr>d_hci_drops := d_hci_drops d + 1\<rparr>);
      ret WLH_HOST_INVALID_STATE
    }
    else if hci_validate s channel payload \<noteq> WLH_WIRE_END then do {
      bluetooth_fault WLH_HOST_BLUETOOTH_REASON_MALFORMED_HCI;
      ret WLH_HOST_PROTOCOL_ERROR
    }
    else do {
      delivered \<leftarrow> hci_deliver (fst (raw_records payload));
      _ \<leftarrow> send_credit_update channel 1;
      ret (if delivered then WLH_HOST_OK else WLH_HOST_PENDING_FULL)
    }
  }"

section \<open>OTA stream frames\<close>

definition le32_at :: "u8 list \<Rightarrow> nat \<Rightarrow> u32" where
  "le32_at p i = ucast (p ! i) OR push_bit 8 (ucast (p ! (i + 1))) OR
    push_bit 16 (ucast (p ! (i + 2))) OR push_bit 24 (ucast (p ! (i + 3)))"

definition le64_at :: "u8 list \<Rightarrow> nat \<Rightarrow> u64" where
  "le64_at p i = ucast (p ! i) OR push_bit 8 (ucast (p ! (i + 1))) OR
    push_bit 16 (ucast (p ! (i + 2))) OR push_bit 24 (ucast (p ! (i + 3))) OR
    push_bit 32 (ucast (p ! (i + 4))) OR push_bit 40 (ucast (p ! (i + 5))) OR
    push_bit 48 (ucast (p ! (i + 6))) OR push_bit 56 (ucast (p ! (i + 7)))"

definition le16w_at :: "u8 list \<Rightarrow> nat \<Rightarrow> u16" where
  "le16w_at p i = ucast (p ! i) OR push_bit 8 (ucast (p ! (i + 1)))"

text \<open>The loop ends quietly on a malformed tail: only the records before it are looked at.\<close>

fun ota_deliver :: "raw_record list \<Rightarrow> (host, host_result) state" where
  "ota_deliver [] = ret WLH_HOST_OK"
| "ota_deliver ((record_type, flags, p) # records) =
    (if record_type \<noteq> 1 \<or> length p < 16 then ret WLH_HOST_PROTOCOL_ERROR
     else do {
       s \<leftarrow> State_Monad.get;
       result \<leftarrow> (case cfg_ota_stream_rx (h_config s) of
           None \<Rightarrow> ret WLH_HOST_OK
         | Some ota_rx \<Rightarrow> do {
             let r = ota_rx (length (trace s));
             emit (EOtaRx (le32_at p 0) (le64_at p 4) (drop 16 p) (le16w_at p 14) r);
             ret r
           });
       if result \<noteq> WLH_HOST_OK then ret WLH_HOST_NO_MEMORY
       else ota_deliver records
     })"

definition process_ota_frame :: "u8 list \<Rightarrow> (host, host_result) state" where
  "process_ota_frame payload = ota_deliver (fst (raw_records payload))"

end
