(* ===== verification/Host_Frame.thy ===== *)
theory Host_Frame
  imports Host_Streams
begin

text \<open>
  The receive path (host-core/src/host_frame.c): decoding, session and sequence checks, dispatch
  by channel, Ethernet credit accounting and the ingress \<open>wlh_host_on_frame\<close>.
\<close>

section \<open>Ethernet credit accounting\<close>

definition WLH_ETHERNET_CREDIT_BATCH :: u32 where "WLH_ETHERNET_CREDIT_BATCH = 8"
definition WLH_ETHERNET_CREDIT_MAX_DELAY_MS :: u64 where "WLH_ETHERNET_CREDIT_MAX_DELAY_MS = 1"

definition ethernet_channel_index :: "u8 \<Rightarrow> nat" where
  "ethernet_channel_index channel =
    (if channel = WLH_CHANNEL_ETHERNET_AP then 1
     else if channel = WLH_CHANNEL_ETHERNET_ETH then 2 else 0)"

definition ethernet_channels :: "(nat \<times> u8) list" where
  "ethernet_channels =
    [(0, WLH_CHANNEL_ETHERNET_STA), (1, WLH_CHANNEL_ETHERNET_AP), (2, WLH_CHANNEL_ETHERNET_ETH)]"

fun flush_credit_loop :: "bool \<Rightarrow> bool \<Rightarrow> (nat \<times> u8) list \<Rightarrow> (host, bool) state" where
  "flush_credit_loop due retry [] = ret retry"
| "flush_credit_loop due retry ((index, channel) # rest) = do {
    units \<leftarrow> gets (\<lambda>s. h_ethernet_rx_pending_credit s index);
    if units = 0 \<or> (units < WLH_ETHERNET_CREDIT_BATCH \<and> \<not> due)
    then flush_credit_loop due retry rest
    else do {
      result \<leftarrow> send_credit_update channel units;
      if result = WLH_HOST_OK then do {
        modify (\<lambda>s. s\<lparr>h_ethernet_rx_pending_credit :=
          (h_ethernet_rx_pending_credit s)(index := 0)\<rparr>);
        flush_credit_loop due retry rest
      }
      else flush_credit_loop due True rest
    }
  }"

definition flush_ethernet_rx_credits :: "(host, bool) state" where
  "flush_ethernet_rx_credits = do {
    current \<leftarrow> now_ms;
    s \<leftarrow> State_Monad.get;
    let due = (h_ethernet_rx_credit_due_ms s \<noteq> 0 \<and> current \<ge> h_ethernet_rx_credit_due_ms s);
    retry \<leftarrow> flush_credit_loop due False ethernet_channels;
    modify (\<lambda>s. s\<lparr>h_ethernet_rx_credit_due_ms :=
      (if h_ethernet_rx_pending_credit s 0 = 0 \<and> h_ethernet_rx_pending_credit s 1 = 0 \<and>
          h_ethernet_rx_pending_credit s 2 = 0
       then 0 else current + WLH_ETHERNET_CREDIT_MAX_DELAY_MS)\<rparr>);
    ret retry
  }"

definition accumulate_ethernet_rx_credit :: "u8 \<Rightarrow> u32 \<Rightarrow> (host, unit) state" where
  "accumulate_ethernet_rx_credit channel units = do {
    let index = ethernet_channel_index channel;
    modify (\<lambda>s. s\<lparr>h_ethernet_rx_pending_credit := (h_ethernet_rx_pending_credit s)
      (index := sat_add (h_ethernet_rx_pending_credit s index) units)\<rparr>);
    due \<leftarrow> gets h_ethernet_rx_credit_due_ms;
    if due = 0 then do {
      now \<leftarrow> now_ms;
      modify (\<lambda>s. s\<lparr>h_ethernet_rx_credit_due_ms := now + WLH_ETHERNET_CREDIT_MAX_DELAY_MS\<rparr>)
    }
    else ret ()
  }"

section \<open>Ethernet frames\<close>

definition ethernet_rx_event :: "u8 \<Rightarrow> event_kind" where
  "ethernet_rx_event channel =
    (if channel = WLH_CHANNEL_ETHERNET_STA then EVENT_ETHERNET_STA_RX
     else if channel = WLH_CHANNEL_ETHERNET_AP then EVENT_ETHERNET_AP_RX
     else EVENT_ETHERNET_ETH_RX)"

fun ethernet_deliver :: "u8 \<Rightarrow> bool \<Rightarrow> raw_record list \<Rightarrow> (host, bool) state" where
  "ethernet_deliver channel dispatch_failed [] = ret dispatch_failed"
| "ethernet_deliver channel dispatch_failed ((record_type, flags, payload) # records) =
    (if record_type \<noteq> 1 then ethernet_deliver channel dispatch_failed records
     else do {
       ok \<leftarrow> dispatch_event (ethernet_rx_event channel) 0 0 (Bytes payload);
       ethernet_deliver channel (dispatch_failed \<or> \<not> ok) records
     })"

definition process_ethernet_frame :: "u8 \<Rightarrow> u8 list \<Rightarrow> (host, host_result) state" where
  "process_ethernet_frame channel frame_payload = do {
    let (records, record_result) = raw_records frame_payload;
    let payload_valid = (frame_payload \<noteq> [] \<and> record_result = WLH_WIRE_END);
    dispatch_failed \<leftarrow> (if payload_valid then ethernet_deliver channel False records else ret False);
    accumulate_ethernet_rx_credit channel
      (if payload_valid then of_nat (length records) else 1);
    if \<not> payload_valid then ret WLH_HOST_PROTOCOL_ERROR
    else ret (if dispatch_failed then WLH_HOST_NO_MEMORY else WLH_HOST_OK)
  }"

section \<open>Control frames\<close>

definition wifi_event_kind :: "u16 \<Rightarrow> event_kind" where
  "wifi_event_kind method_id =
    (if method_id = WLH_WIFI_EVENT_SCAN_RESULT then EVENT_WIFI_SCAN_RESULT
     else if method_id = WLH_WIFI_EVENT_SCAN_COMPLETED then EVENT_WIFI_SCAN_COMPLETED
     else if method_id = WLH_WIFI_EVENT_CONNECTED then EVENT_WIFI_CONNECTED
     else if method_id = WLH_WIFI_EVENT_DISCONNECTED then EVENT_WIFI_DISCONNECTED
     else if method_id = WLH_WIFI_EVENT_AP_CLIENT_JOINED then EVENT_WIFI_AP_CLIENT_JOINED
     else if method_id = WLH_WIFI_EVENT_AP_CLIENT_LEFT then EVENT_WIFI_AP_CLIENT_LEFT
     else EVENT_PROTOCOL_FAULT)"

definition process_rpc_response :: "rpc_envelope \<Rightarrow> u8 list \<Rightarrow> (host, host_result) state" where
  "process_rpc_response envelope payload = do {
    s \<leftarrow> State_Monad.get;
    case find_pending s envelope of
      None \<Rightarrow> ret WLH_HOST_NOT_FOUND
    | Some index \<Rightarrow> do {
        let copy = h_pending s index;
        modify (\<lambda>s. s\<lparr>h_pending := (h_pending s)(index := zero_pending)\<rparr>);
        dispatch_completion (p_completion copy)
          (if re_status_code envelope = WLH_STATUS_OK then WLH_HOST_OK
           else WLH_HOST_PROTOCOL_ERROR)
          (re_status_domain envelope) (re_status_code envelope) payload;
        ret WLH_HOST_OK
      }
  }"

definition process_bluetooth_state_event :: "rpc_envelope \<Rightarrow> u8 list \<Rightarrow> (host, host_result) state" where
  "process_bluetooth_state_event envelope payload = do {
    pb \<leftarrow> gets h_pb;
    case pb_dec_bluetooth_state pb payload of
      None \<Rightarrow> ret WLH_HOST_PROTOCOL_ERROR
    | Some decoded \<Rightarrow>
        if bs_state decoded > 3 then ret WLH_HOST_PROTOCOL_ERROR
        else do {
          modify (\<lambda>s. s\<lparr>h_bluetooth_state := bluetooth_state_of (bs_state decoded)\<rparr>);
          _ \<leftarrow> dispatch_event EVENT_BLUETOOTH_STATE_CHANGED (re_service_id envelope)
            (re_method_id envelope)
            (Bluetooth_state_event (bluetooth_state_of (bs_state decoded)) (bs_reason decoded));
          ret WLH_HOST_OK
        }
  }"

definition process_eth_link_event :: "rpc_envelope \<Rightarrow> u8 list \<Rightarrow> (host, host_result) state" where
  "process_eth_link_event envelope payload = do {
    pb \<leftarrow> gets h_pb;
    case pb_dec_eth_link_state pb payload of
      None \<Rightarrow> ret WLH_HOST_PROTOCOL_ERROR
    | Some decoded \<Rightarrow>
        if el_link_state decoded > 2 \<or> el_speed decoded > 3 \<or> el_duplex decoded > 2
        then ret WLH_HOST_PROTOCOL_ERROR
        else do {
          _ \<leftarrow> dispatch_event EVENT_ETH_LINK_STATE_CHANGED (re_service_id envelope)
            (re_method_id envelope)
            (Eth_link_state_event (el_link_state decoded) (el_speed decoded) (el_duplex decoded));
          ret WLH_HOST_OK
        }
  }"

definition process_rpc_message :: "rpc_envelope \<Rightarrow> u8 list \<Rightarrow> (host, host_result) state" where
  "process_rpc_message envelope payload = do {
    s \<leftarrow> State_Monad.get;
    let kind = re_kind envelope;
    let service = re_service_id envelope;
    let method = re_method_id envelope;
    if kind = WLH_RPC_KIND_RESPONSE \<and> service = WLH_SERVICE_LINK \<and>
      method = WLH_LINK_METHOD_HELLO \<and> h_state s = STATE_NEGOTIATING
    then
      if re_status_code envelope \<noteq> WLH_STATUS_OK then do {
        set_state STATE_FAILED;
        ret WLH_HOST_PROTOCOL_ERROR
      }
      else handle_hello_response payload
    else if kind = WLH_RPC_KIND_RESPONSE then process_rpc_response envelope payload
    else if kind = WLH_RPC_KIND_EVENT \<and> service = WLH_SERVICE_LINK then do {
      handle_link_event envelope payload;
      ret WLH_HOST_OK
    }
    else if kind = WLH_RPC_KIND_EVENT \<and> service = WLH_SERVICE_WIFI then do {
      _ \<leftarrow> dispatch_event (wifi_event_kind method) service method (Bytes payload);
      ret WLH_HOST_OK
    }
    else if kind = WLH_RPC_KIND_EVENT \<and> service = WLH_SERVICE_BLUETOOTH \<and>
      method = WLH_BLUETOOTH_EVENT_STATE_CHANGED
    then process_bluetooth_state_event envelope payload
    else if kind = WLH_RPC_KIND_EVENT \<and> service = WLH_SERVICE_ETH \<and>
      method = WLH_ETH_EVENT_LINK_STATE_CHANGED
    then process_eth_link_event envelope payload
    else if kind = WLH_RPC_KIND_EVENT \<and> service = WLH_SERVICE_OTA \<and>
      method = WLH_OTA_EVENT_PROGRESS
    then do {
      _ \<leftarrow> dispatch_event EVENT_OTA_PROGRESS service method (Bytes payload);
      ret WLH_HOST_OK
    }
    else if kind = WLH_RPC_KIND_EVENT \<and> service = WLH_SERVICE_USER_PASSTHROUGH \<and>
      method = WLH_USER_PASSTHROUGH_EVENT_RESULT
    then do {
      _ \<leftarrow> dispatch_event EVENT_USER_MESSAGE_RESULT service method (Bytes payload);
      ret WLH_HOST_OK
    }
    else ret WLH_HOST_PROTOCOL_ERROR
  }"

definition process_control_frame :: "u8 \<Rightarrow> u8 list \<Rightarrow> (host, host_result) state" where
  "process_control_frame channel frame_payload = do {
    (if channel = WLH_CHANNEL_CONTROL_RPC then do {
      _ \<leftarrow> send_credit_update WLH_CHANNEL_CONTROL_RPC 1;
      ret ()
    } else ret ());
    let (wire, envelope, payload) = rpc_decode_buf WLH_HOST_PROTOBUF_LIMIT frame_payload;
    if wire \<noteq> WLH_WIRE_OK then ret WLH_HOST_PROTOCOL_ERROR
    else process_rpc_message envelope payload
  }"

section \<open>Frames\<close>

definition session_mismatch :: "(host, host_result) state" where
  "session_mismatch = do {
    diag (\<lambda>d. d\<lparr>d_peer_resets := d_peer_resets d + 1\<rparr>);
    cancel_pending WLH_HOST_SESSION_CHANGED;
    modify (\<lambda>s. clear_session_services (s\<lparr>h_session_id := 0\<rparr>));
    set_state STATE_RECOVERING;
    _ \<leftarrow> send_hello;
    ret WLH_HOST_SESSION_CHANGED
  }"

definition note_frame :: "frame_header \<Rightarrow> (host, unit) state" where
  "note_frame header = do {
    s \<leftarrow> State_Monad.get;
    whenM (h_rx_sequence_valid s (fh_channel header) \<and>
        fh_sequence header \<noteq> h_expected_rx_sequence s (fh_channel header))
      (diag (\<lambda>d. d\<lparr>d_sequence_gaps := d_sequence_gaps d + 1\<rparr>));
    modify (\<lambda>s. s\<lparr>
      h_expected_rx_sequence :=
        (h_expected_rx_sequence s)(fh_channel header := fh_sequence header + 1),
      h_rx_sequence_valid := (h_rx_sequence_valid s)(fh_channel header := True)\<rparr>);
    diag (\<lambda>d. d\<lparr>d_rx_frames := d_rx_frames d + 1\<rparr>);
    now \<leftarrow> now_ms;
    diag (\<lambda>d. d\<lparr>d_last_peer_activity_ms := now\<rparr>)
  }"

definition process_frame :: "u8 list \<Rightarrow> (host, host_result) state" where
  "process_frame frame = do {
    s \<leftarrow> State_Monad.get;
    let (wire, header, frame_payload) =
      frame_decode_buf (unat (cfg_max_frame_size (h_config s))) frame;
    if wire \<noteq> WLH_WIRE_OK then do {
      diag (\<lambda>d. d\<lparr>d_checksum_errors := d_checksum_errors d +
        (if wire = WLH_WIRE_CHECKSUM_MISMATCH then 1 else 0)\<rparr>);
      _ \<leftarrow> dispatch_event EVENT_PROTOCOL_FAULT 0 0 (Bytes []);
      ret WLH_HOST_PROTOCOL_ERROR
    }
    else if h_session_id s \<noteq> 0 \<and> fh_session_id header \<noteq> h_session_id s then session_mismatch
    else do {
      note_frame header;
      let channel = fh_channel header;
      if channel = WLH_CHANNEL_BLUETOOTH_HCI \<or> channel = WLH_CHANNEL_BLUETOOTH_HCI_ADV
      then process_hci_frame channel frame_payload
      else if channel = WLH_CHANNEL_OTA_STREAM then process_ota_frame frame_payload
      else if is_ethernet_channel channel then process_ethernet_frame channel frame_payload
      else if channel = WLH_CHANNEL_LINK_CONTROL \<or> channel = WLH_CHANNEL_CONTROL_RPC
      then process_control_frame channel frame_payload
      else ret WLH_HOST_PROTOCOL_ERROR
    }
  }"

definition wlh_host_on_frame :: "u8 list \<Rightarrow> (host, host_result) state" where
  "wlh_host_on_frame frame = do {
    s \<leftarrow> State_Monad.get;
    if length frame < WLH_FRAME_HEADER_SIZE \<or>
      length frame > unat (cfg_max_frame_size (h_config s)) \<or> \<not> h_worker_started s
    then ret WLH_HOST_INVALID_ARGUMENT
    else do {
      data \<leftarrow> buf_alloc (length frame);
      if \<not> data then ret WLH_HOST_NO_MEMORY
      else do {
        queued \<leftarrow> enqueue_job (JOB_RX_FRAME
          \<lparr>dj_channel = 0, dj_capacity = length frame, dj_data = frame\<rparr>);
        if \<not> queued then do {
          buf_free;
          ret WLH_HOST_PENDING_FULL
        }
        else ret WLH_HOST_OK
      }
    }
  }"

end
