(* ===== verification/Host_Worker.thy ===== *)
theory Host_Worker
  imports Host_Frame
begin

text \<open>
  The worker task, initialisation, start, stop and diagnostics (host-core/src/host.c). One turn
  of the worker loop is \<open>worker_turn\<close>: deadlines and due credits first, then one job.
\<close>

section \<open>Aggregation\<close>

text \<open>The loop takes a job from the queue in each turn and adds a credit unit for each job it merges, so
  that it runs at most \<open>ethernet_tx_aggregation_limit\<close> times: this is its fuel, and the loop condition fails
  before it is used up. The result is the merged job and the units; a job that cannot be merged is
  put off to \<open>h_deferred_job\<close>.\<close>

definition decrement :: "u32 \<Rightarrow> u32" where
  "decrement n = (if n > 0 then n - 1 else n)"

definition grow_job :: "nat \<Rightarrow> data_job \<Rightarrow> (host, data_job option) state" where
  "grow_job payload_capacity data =
    (if dj_capacity data < payload_capacity then do {
       expanded \<leftarrow> buf_alloc payload_capacity;
       if \<not> expanded then ret None
       else do {
         buf_free;
         ret (Some (data\<lparr>dj_capacity := payload_capacity\<rparr>))
       }
     }
     else ret (Some data))"

fun aggregate_loop ::
  "nat \<Rightarrow> nat \<Rightarrow> data_job \<Rightarrow> u32 \<Rightarrow> (host, data_job \<times> u32) state" where
  "aggregate_loop 0 payload_capacity data credit_units = ret (data, credit_units)"
| "aggregate_loop (Suc fuel) payload_capacity data credit_units = do {
    s \<leftarrow> State_Monad.get;
    if h_deferred_job s = None \<and> cfg_ethernet_tx_aggregation_limit (h_config s) \<ge> 2 \<and>
      credit_units < ucast (cfg_ethernet_tx_aggregation_limit (h_config s))
    then do {
      next_job \<leftarrow> queue_receive;
      case next_job of
        None \<Rightarrow> ret (data, credit_units)
      | Some (JOB_ETHERNET_TX candidate) \<Rightarrow>
          if dj_channel candidate \<noteq> dj_channel data \<or>
            length (dj_data data) > payload_capacity \<or>
            length (dj_data candidate) > payload_capacity - length (dj_data data)
          then do {
            modify (\<lambda>s. s\<lparr>h_deferred_job := Some (JOB_ETHERNET_TX candidate)\<rparr>);
            ret (data, credit_units)
          }
          else do {
            grown \<leftarrow> grow_job payload_capacity data;
            case grown of
              None \<Rightarrow> do {
                modify (\<lambda>s. s\<lparr>h_deferred_job := Some (JOB_ETHERNET_TX candidate)\<rparr>);
                ret (data, credit_units)
              }
            | Some data \<Rightarrow> do {
                semaphore_give;
                let ethernet_index = ethernet_channel_index (dj_channel candidate);
                modify (\<lambda>s. s\<lparr>h_ethernet_tx_queued := (h_ethernet_tx_queued s)
                  (ethernet_index := decrement (h_ethernet_tx_queued s ethernet_index))\<rparr>);
                buf_free;
                aggregate_loop fuel payload_capacity
                  (data\<lparr>dj_data := dj_data data @ dj_data candidate\<rparr>) (credit_units + 1)
              }
          }
      | Some job \<Rightarrow> do {
          modify (\<lambda>s. s\<lparr>h_deferred_job := Some job\<rparr>);
          ret (data, credit_units)
        }
    }
    else ret (data, credit_units)
  }"

definition aggregate_ethernet_jobs :: "data_job \<Rightarrow> (host, data_job \<times> u32) state" where
  "aggregate_ethernet_jobs data = do {
    s \<leftarrow> State_Monad.get;
    let payload_capacity = unat (cfg_max_frame_size (h_config s)) - WLH_FRAME_HEADER_SIZE;
    aggregate_loop (unat (cfg_ethernet_tx_aggregation_limit (h_config s))) payload_capacity data 1
  }"

section \<open>Jobs\<close>

definition ethernet_tx_job :: "data_job \<Rightarrow> (host, unit) state" where
  "ethernet_tx_job data = do {
    let ethernet_index = ethernet_channel_index (dj_channel data);
    (data, credit_units) \<leftarrow> aggregate_ethernet_jobs data;
    modify (\<lambda>s. s\<lparr>h_ethernet_tx_queued := (h_ethernet_tx_queued s)
      (ethernet_index := decrement (h_ethernet_tx_queued s ethernet_index))\<rparr>);
    result \<leftarrow> send_payload_frame_units (dj_channel data) (dj_data data) False credit_units;
    whenM (result \<noteq> WLH_HOST_OK) semaphore_give;
    buf_free
  }"

definition transport_started_job :: "(host, unit) state" where
  "transport_started_job = do {
    st \<leftarrow> gets h_state;
    whenM (st \<noteq> STATE_STOPPING) (do {
      now \<leftarrow> now_ms;
      modify (\<lambda>s. s\<lparr>h_started_ms := now\<rparr>);
      set_state STATE_WAITING_FOR_PEER;
      result \<leftarrow> send_hello;
      whenM (result \<noteq> WLH_HOST_OK) (set_state STATE_FAILED)
    })
  }"

definition run_job :: "host_job \<Rightarrow> (host, unit) state" where
  "run_job job = (case job of
      JOB_STOP \<Rightarrow> do {
        set_state STATE_STOPPING;
        cancel_pending WLH_HOST_SESSION_CHANGED;
        accepted \<leftarrow> transport_stop;
        whenM (\<not> accepted) finish_shutdown
      }
    | JOB_RX_FRAME data \<Rightarrow> do {
        _ \<leftarrow> process_frame (dj_data data);
        buf_free
      }
    | JOB_RPC_REQUEST rpc \<Rightarrow> do {
        result \<leftarrow> process_rpc_request rpc;
        whenM (result \<noteq> WLH_HOST_OK)
          (dispatch_completion (rj_completion rpc) result WLH_STATUS_DOMAIN_LINK
            WLH_STATUS_INTERNAL []);
        buf_free
      }
    | JOB_ETHERNET_TX data \<Rightarrow> ethernet_tx_job data
    | JOB_BLUETOOTH_TX data \<Rightarrow> do {
        modify (\<lambda>s. s\<lparr>h_bluetooth_tx_inflight := decrement (h_bluetooth_tx_inflight s)\<rparr>);
        _ \<leftarrow> send_payload_frame (dj_channel data) (dj_data data) False;
        buf_free
      }
    | JOB_OTA_TX data \<Rightarrow> do {
        modify (\<lambda>s. s\<lparr>h_ota_tx_inflight := decrement (h_ota_tx_inflight s)\<rparr>);
        _ \<leftarrow> send_payload_frame (dj_channel data) (dj_data data) False;
        buf_free
      }
    | JOB_TRANSPORT_LOST \<Rightarrow> process_transport_lost
    | JOB_TRANSPORT_STARTED \<Rightarrow> transport_started_job
    | JOB_TRANSPORT_START_FAILED \<Rightarrow> do {
        st \<leftarrow> gets h_state;
        whenM (st \<noteq> STATE_STOPPING) (set_state STATE_FAILED)
      }
    | JOB_TRANSPORT_STOPPED \<Rightarrow> do {
        st \<leftarrow> gets h_state;
        if st = STATE_STOPPING then finish_shutdown
        else if st = STATE_RECOVERING then request_transport_start
        else ret ()
      }
    | JOB_TRANSPORT_STOP_FAILED \<Rightarrow> do {
        st \<leftarrow> gets h_state;
        if st = STATE_STOPPING then finish_shutdown
        else set_state STATE_FAILED
      })"

section \<open>The worker\<close>

text \<open>The deferred job goes before the queue. The result is the wait of this turn; a receive that
  finds the queue empty is the timeout of that wait.\<close>

definition take_job :: "(host, host_job option) state" where
  "take_job = do {
    deferred \<leftarrow> gets h_deferred_job;
    case deferred of
      Some job \<Rightarrow> do {
        modify (\<lambda>s. s\<lparr>h_deferred_job := None\<rparr>);
        ret (Some job)
      }
    | None \<Rightarrow> queue_receive
  }"

definition worker_turn :: "(host, u32) state" where
  "worker_turn = do {
    _ \<leftarrow> process_deadlines;
    _ \<leftarrow> flush_ethernet_rx_credits;
    wait_ms \<leftarrow> next_wait_ms;
    job \<leftarrow> take_job;
    (case job of None \<Rightarrow> ret () | Some job \<Rightarrow> run_job job);
    ret wait_ms
  }"

definition worker_start :: "(host, unit) state" where
  "worker_start = request_transport_start"

definition worker_exit :: "(host, unit) state" where
  "worker_exit = do {
    st \<leftarrow> gets h_state;
    whenM (st \<noteq> STATE_UNINITIALIZED) finish_shutdown
  }"

section \<open>Initialisation\<close>

definition zero_diagnostics :: host_diagnostics where
  "zero_diagnostics = \<lparr>d_state = STATE_UNINITIALIZED, d_session_id = 0, d_pending_rpc = 0,
    d_tx_frames = 0, d_rx_frames = 0, d_rpc_timeouts = 0, d_checksum_errors = 0,
    d_sequence_gaps = 0, d_peer_resets = 0, d_transport_resets = 0,
    d_buffer_allocation_failures = 0, d_hci_malformed = 0, d_hci_drops = 0,
    d_ethernet_no_credit = 0, d_ethernet_queue_full = 0, d_last_peer_activity_ms = 0\<rparr>"

definition zero_host :: "host_config \<Rightarrow> pb_codec \<Rightarrow> host" where
  "zero_host cfg pb = \<lparr>h_config = cfg, h_state = STATE_UNINITIALIZED, h_session_id = 0,
    h_next_request_id = 0, h_tx_sequence = (\<lambda>_. 0), h_expected_rx_sequence = (\<lambda>_. 0),
    h_tx_credit = (\<lambda>_. 0), h_ethernet_tx_queued = (\<lambda>_. 0),
    h_ethernet_rx_pending_credit = (\<lambda>_. 0), h_ethernet_rx_credit_due_ms = 0,
    h_rx_sequence_valid = (\<lambda>_. False), h_pending = (\<lambda>_. zero_pending),
    h_diagnostics = zero_diagnostics, h_bluetooth_supported = False,
    h_bluetooth_hci_stopped = False, h_bluetooth_tx_inflight = 0, h_bluetooth_max_record = 0,
    h_bluetooth_state = BLUETOOTH_STATE_UNSPECIFIED, h_ota_supported = False,
    h_ota_max_record = 0, h_ota_tx_inflight = 0, h_peer_version = replicate 33 0,
    h_started_ms = 0, h_core_queue = [], h_ethernet_tx_slots = 0, h_worker_started = False,
    h_worker_stopping = False, h_deferred_job = None, h_pb = pb, trace = []\<rparr>"

text \<open>On a queue depth above the limit the code has already cleared the object and stored the
  configuration when it returns the error.\<close>

definition wlh_host_init :: "host \<Rightarrow> host_config option \<Rightarrow> host_result \<times> host" where
  "wlh_host_init host config = (case config of
      None \<Rightarrow> (WLH_HOST_INVALID_ARGUMENT, host)
    | Some c \<Rightarrow>
        if cfg_transport_start c = None \<or> cfg_transport_stop c = None \<or> cfg_submit_tx c = None \<or>
          cfg_alloc c = None \<or> cfg_free c = None \<or> \<not> wlh_osal_ops_valid (Some (cfg_osal c)) \<or>
          cfg_post c = None \<or> unat (cfg_max_frame_size c) < WLH_FRAME_HEADER_SIZE \<or>
          unat (cfg_max_frame_size c) > WLH_FRAME_MAX_SIZE \<or> cfg_max_pending_rpc c = 0 \<or>
          unat (cfg_max_pending_rpc c) > WLH_HOST_MAX_PENDING
        then (WLH_HOST_INVALID_ARGUMENT, host)
        else
          let c = (if cfg_core_queue_depth c = 0 then c\<lparr>cfg_core_queue_depth := 16\<rparr> else c) in
          if unat (cfg_core_queue_depth c) > WLH_HOST_MAX_QUEUE_DEPTH
          then (WLH_HOST_INVALID_ARGUMENT, zero_host c (h_pb host))
          else
            let c = (if cfg_ethernet_tx_depth c = 0
                  then c\<lparr>cfg_ethernet_tx_depth := cfg_core_queue_depth c\<rparr> else c);
                c = (if cfg_stop_timeout_ms c = 0 then c\<lparr>cfg_stop_timeout_ms := 3000\<rparr> else c)
            in (WLH_HOST_OK, (zero_host c (h_pb host))\<lparr>h_next_request_id := 1\<rparr>))"

definition osal_call :: "string \<Rightarrow> (osal_ops \<Rightarrow> nat \<Rightarrow> int) \<Rightarrow> (host, bool) state" where
  "osal_call name f = do {
    s \<leftarrow> State_Monad.get;
    let ok = (f (cfg_osal (h_config s)) (length (trace s)) = 0);
    emit (EOsal name ok);
    ret ok
  }"

definition osal_destroy :: "string \<Rightarrow> (host, unit) state" where
  "osal_destroy name = emit (EOsal name True)"

text \<open>Creating the queue empties it and creating the semaphore sets its count.\<close>

definition wlh_host_start :: "(host, host_result) state" where
  "wlh_host_start = do {
    st \<leftarrow> gets h_state;
    if st \<noteq> STATE_UNINITIALIZED then ret WLH_HOST_INVALID_STATE
    else do {
      mutex \<leftarrow> osal_call ''mutex_create'' osal_mutex_create;
      if \<not> mutex then ret WLH_HOST_INVALID_STATE
      else do {
        queue \<leftarrow> osal_call ''queue_create'' osal_queue_create;
        if \<not> queue then do {
          osal_destroy ''mutex_destroy'';
          ret WLH_HOST_INVALID_STATE
        }
        else do {
          modify (\<lambda>s. s\<lparr>h_core_queue := []\<rparr>);
          semaphore \<leftarrow> osal_call ''semaphore_create'' osal_semaphore_create;
          if \<not> semaphore then do {
            osal_destroy ''queue_destroy'';
            osal_destroy ''mutex_destroy'';
            ret WLH_HOST_INVALID_STATE
          }
          else do {
            modify (\<lambda>s. s\<lparr>h_ethernet_tx_slots := unat (cfg_ethernet_tx_depth (h_config s)),
              h_worker_stopping := False, h_worker_started := True\<rparr>);
            task \<leftarrow> osal_call ''task_create'' osal_task_create;
            if \<not> task then do {
              modify (\<lambda>s. s\<lparr>h_worker_started := False\<rparr>);
              osal_destroy ''queue_destroy'';
              osal_destroy ''semaphore_destroy'';
              osal_destroy ''mutex_destroy'';
              ret WLH_HOST_INVALID_STATE
            }
            else ret WLH_HOST_OK
          }
        }
      }
    }
  }"

text \<open>\<open>wlh_host_stop\<close> up to the join, and what it does once the worker has ended (or the join has
  timed out); the worker's turns run in between.\<close>

definition wlh_host_stop_request :: "(host, host_result) state" where
  "wlh_host_stop_request = do {
    started \<leftarrow> gets h_worker_started;
    if \<not> started then ret WLH_HOST_INVALID_STATE
    else do {
      queued \<leftarrow> enqueue_job JOB_STOP;
      ret (if queued then WLH_HOST_OK else WLH_HOST_INVALID_STATE)
    }
  }"

definition wlh_host_stop_join :: "(host, host_result) state" where
  "wlh_host_stop_join = do {
    joined \<leftarrow> osal_call ''task_join'' osal_task_join;
    if \<not> joined then ret WLH_HOST_TIMEOUT
    else do {
      modify (\<lambda>s. s\<lparr>h_worker_started := False\<rparr>);
      osal_destroy ''queue_destroy'';
      osal_destroy ''semaphore_destroy'';
      osal_destroy ''mutex_destroy'';
      ret WLH_HOST_OK
    }
  }"

definition wlh_host_get_diagnostics :: "host \<Rightarrow> host_diagnostics" where
  "wlh_host_get_diagnostics s = (h_diagnostics s)\<lparr>d_pending_rpc :=
    foldl (\<lambda>n index. n + (if p_active (h_pending s index) then 1 else 0)) 0
      [0..<WLH_HOST_MAX_PENDING]\<rparr>"

definition wlh_host_get_peer_version :: "host \<Rightarrow> u8 list" where
  "wlh_host_get_peer_version s = h_peer_version s"

section \<open>Test hooks\<close>

definition wlh_host_test_set_credit :: "u8 \<Rightarrow> u32 \<Rightarrow> (host, unit) state" where
  "wlh_host_test_set_credit channel credit = modify (\<lambda>s.
    if h_worker_started s then s\<lparr>h_tx_credit := (h_tx_credit s)(channel := credit)\<rparr> else s)"

definition wlh_host_test_force_session_change :: "u32 \<Rightarrow> (host, unit) state" where
  "wlh_host_test_force_session_change session_id = do {
    s \<leftarrow> State_Monad.get;
    if \<not> h_worker_started s \<or> session_id = 0 then ret ()
    else if session_id = h_session_id s then ret ()
    else do {
      cancel_pending WLH_HOST_SESSION_CHANGED;
      modify (\<lambda>s. s\<lparr>h_session_id := session_id\<rparr>);
      diag (\<lambda>d. d\<lparr>d_session_id := session_id, d_peer_resets := d_peer_resets d + 1\<rparr>)
    }
  }"

definition wlh_host_test_expire_all :: "(host, unit) state" where
  "wlh_host_test_expire_all = do {
    s \<leftarrow> State_Monad.get;
    if \<not> h_worker_started s then ret ()
    else for_each [0..<WLH_HOST_MAX_PENDING] (\<lambda>index.
      modify (\<lambda>s. if p_active (h_pending s index)
        then s\<lparr>h_pending := (h_pending s)(index := (h_pending s index)\<lparr>p_deadline_ms := 0\<rparr>)\<rparr>
        else s))
  }"

end
