(* ===== verification/Host_Clients.thy ===== *)
theory Host_Clients
  imports Host_Worker
begin

text \<open>
  The calls of the application: the data senders (host_ethernet.c, \<open>wlh_host_bluetooth_hci_send\<close>,
  \<open>wlh_host_ota_stream_send\<close>) and the service clients, which validate their parameters, build the
  request message and pass it to \<open>rpc_message_request\<close>. A host pointer that is NULL is not a state
  of the model. Byte strings given by pointer and size are lists with an optional pointer.
\<close>

section \<open>Ethernet\<close>

definition ethernet_send :: "u8 \<Rightarrow> u8 list option \<Rightarrow> (host, host_result) state" where
  "ethernet_send channel ethernet_frame = do {
    started \<leftarrow> gets h_worker_started;
    case ethernet_frame of
      None \<Rightarrow> ret WLH_HOST_INVALID_ARGUMENT
    | Some frame \<Rightarrow>
        if frame = [] \<or> length frame > 1600 \<or> \<not> started then ret WLH_HOST_INVALID_ARGUMENT
        else do {
          slot \<leftarrow> semaphore_take;
          if \<not> slot then ret WLH_HOST_PENDING_FULL
          else do {
            record \<leftarrow> buf_alloc (8 + length frame);
            if \<not> record then do {
              semaphore_give;
              ret WLH_HOST_NO_MEMORY
            }
            else do {
              let (wire, bytes) = record_encode_buf (8 + length frame) 1 0 frame;
              if wire \<noteq> WLH_WIRE_OK then do {
                buf_free;
                semaphore_give;
                ret WLH_HOST_INVALID_ARGUMENT
              }
              else do {
                locked \<leftarrow> mutex_lock_timeout;
                if \<not> locked then do {
                  buf_free;
                  semaphore_give;
                  ret WLH_HOST_PENDING_FULL
                }
                else do {
                  s \<leftarrow> State_Monad.get;
                  let ethernet_index = ethernet_channel_index channel;
                  let no_credit = (h_tx_credit s channel \<le> h_ethernet_tx_queued s ethernet_index);
                  queued \<leftarrow> (if no_credit then ret False
                    else enqueue_job (JOB_ETHERNET_TX
                      \<lparr>dj_channel = channel, dj_capacity = length bytes, dj_data = bytes\<rparr>));
                  if no_credit \<or> \<not> queued then do {
                    diag (\<lambda>d. if no_credit
                      then d\<lparr>d_ethernet_no_credit := d_ethernet_no_credit d + 1\<rparr>
                      else d\<lparr>d_ethernet_queue_full := d_ethernet_queue_full d + 1\<rparr>);
                    buf_free;
                    semaphore_give;
                    ret WLH_HOST_NO_CREDIT
                  }
                  else do {
                    modify (\<lambda>s. s\<lparr>h_ethernet_tx_queued := (h_ethernet_tx_queued s)
                      (ethernet_index := h_ethernet_tx_queued s ethernet_index + 1)\<rparr>);
                    ret WLH_HOST_OK
                  }
                }
              }
            }
          }
        }
  }"

definition wlh_host_ethernet_sta_send :: "u8 list option \<Rightarrow> (host, host_result) state" where
  "wlh_host_ethernet_sta_send frame = ethernet_send WLH_CHANNEL_ETHERNET_STA frame"

definition wlh_host_ethernet_ap_send :: "u8 list option \<Rightarrow> (host, host_result) state" where
  "wlh_host_ethernet_ap_send frame = ethernet_send WLH_CHANNEL_ETHERNET_AP frame"

definition wlh_host_ethernet_eth_send :: "u8 list option \<Rightarrow> (host, host_result) state" where
  "wlh_host_ethernet_eth_send frame = ethernet_send WLH_CHANNEL_ETHERNET_ETH frame"

section \<open>Bluetooth\<close>

definition bluetooth_check_supported :: "(host, host_result) state" where
  "bluetooth_check_supported = do {
    s \<leftarrow> State_Monad.get;
    ret (if \<not> h_worker_started s then WLH_HOST_INVALID_STATE
      else if h_bluetooth_supported s then WLH_HOST_OK else WLH_HOST_NOT_SUPPORTED)
  }"

definition bluetooth_request ::
  "u16 \<Rightarrow> pb_msg \<Rightarrow> rpc_completion option \<Rightarrow> (host, host_result) state" where
  "bluetooth_request method message completion = do {
    result \<leftarrow> bluetooth_check_supported;
    if result \<noteq> WLH_HOST_OK then ret result
    else rpc_message_request WLH_SERVICE_BLUETOOTH method message completion
  }"

definition wlh_host_bluetooth_initialize ::
  "u32 \<Rightarrow> rpc_completion option \<Rightarrow> (host, host_result) state" where
  "wlh_host_bluetooth_initialize feature_flags completion =
    bluetooth_request WLH_BLUETOOTH_METHOD_INITIALIZE
      (Msg_BluetoothInitializeRequest 1 feature_flags) completion"

definition wlh_host_bluetooth_enable ::
  "u32 \<Rightarrow> rpc_completion option \<Rightarrow> (host, host_result) state" where
  "wlh_host_bluetooth_enable mode_flags completion =
    bluetooth_request WLH_BLUETOOTH_METHOD_ENABLE (Msg_BluetoothEnableRequest mode_flags) completion"

definition wlh_host_bluetooth_disable :: "rpc_completion option \<Rightarrow> (host, host_result) state" where
  "wlh_host_bluetooth_disable completion =
    bluetooth_request WLH_BLUETOOTH_METHOD_DISABLE Msg_Empty completion"

definition wlh_host_bluetooth_deinitialize ::
  "bool \<Rightarrow> rpc_completion option \<Rightarrow> (host, host_result) state" where
  "wlh_host_bluetooth_deinitialize release_memory completion =
    bluetooth_request WLH_BLUETOOTH_METHOD_DEINITIALIZE
      (Msg_BluetoothDeinitializeRequest release_memory) completion"

text \<open>The typed requests allocate a request object that carries the application's callback, and
  free it when the request is refused.\<close>

definition typed_request ::
  "(host, host_result) state \<Rightarrow> (host, host_result) state" where
  "typed_request request = do {
    allocated \<leftarrow> buf_alloc 0;
    if \<not> allocated then ret WLH_HOST_NO_MEMORY
    else do {
      result \<leftarrow> request;
      whenM (result \<noteq> WLH_HOST_OK) buf_free;
      ret result
    }
  }"

definition wlh_host_bluetooth_get_info :: "nat option \<Rightarrow> (host, host_result) state" where
  "wlh_host_bluetooth_get_info completion = (case completion of
      None \<Rightarrow> ret WLH_HOST_INVALID_ARGUMENT
    | Some k \<Rightarrow> do {
        result \<leftarrow> bluetooth_check_supported;
        if result \<noteq> WLH_HOST_OK then ret result
        else typed_request (rpc_message_request WLH_SERVICE_BLUETOOTH
          WLH_BLUETOOTH_METHOD_GET_INFO Msg_Empty (Some (Bluetooth_info k)))
      })"

definition bluetooth_release_inflight :: "(host, unit) state" where
  "bluetooth_release_inflight =
    modify (\<lambda>s. s\<lparr>h_bluetooth_tx_inflight := decrement (h_bluetooth_tx_inflight s)\<rparr>)"

definition hci_packet_check :: "u8 \<Rightarrow> u8 list \<Rightarrow> host_result" where
  "hci_packet_check h4_type packet =
    (if h4_type = WLH_H4_TYPE_SCO \<or> h4_type = WLH_H4_TYPE_ISO then WLH_HOST_NOT_SUPPORTED
     else if h4_type = WLH_H4_TYPE_COMMAND then
       if length packet < 3 \<or> unat (packet ! 2) + 3 \<noteq> length packet
       then WLH_HOST_INVALID_ARGUMENT else WLH_HOST_OK
     else if h4_type = WLH_H4_TYPE_ACL then
       if length packet < 4 \<or> le16_at packet 2 + 4 \<noteq> length packet
       then WLH_HOST_INVALID_ARGUMENT else WLH_HOST_OK
     else WLH_HOST_INVALID_ARGUMENT)"

definition wlh_host_bluetooth_hci_send :: "u8 \<Rightarrow> u8 list option \<Rightarrow> (host, host_result) state" where
  "wlh_host_bluetooth_hci_send h4_type packet = do {
    s \<leftarrow> State_Monad.get;
    case packet of
      None \<Rightarrow> ret WLH_HOST_INVALID_ARGUMENT
    | Some packet \<Rightarrow>
        if packet = [] \<or> \<not> h_worker_started s then ret WLH_HOST_INVALID_ARGUMENT
        else if hci_packet_check h4_type packet \<noteq> WLH_HOST_OK
        then ret (hci_packet_check h4_type packet)
        else if \<not> h_bluetooth_supported s then ret WLH_HOST_NOT_SUPPORTED
        else if h_bluetooth_hci_stopped s then ret WLH_HOST_INVALID_STATE
        else if length packet > unat (h_bluetooth_max_record s) then ret WLH_HOST_INVALID_ARGUMENT
        else if h_tx_credit s WLH_CHANNEL_BLUETOOTH_HCI \<le> h_bluetooth_tx_inflight s
        then ret WLH_HOST_NO_CREDIT
        else do {
          modify (\<lambda>s. s\<lparr>h_bluetooth_tx_inflight := h_bluetooth_tx_inflight s + 1\<rparr>);
          record \<leftarrow> buf_alloc (WLH_RAW_RECORD_HEADER_SIZE + length packet);
          if \<not> record then do {
            bluetooth_release_inflight;
            ret WLH_HOST_NO_MEMORY
          }
          else do {
            let (wire, bytes) =
              record_encode_buf (WLH_RAW_RECORD_HEADER_SIZE + length packet) h4_type 0 packet;
            if wire \<noteq> WLH_WIRE_OK then do {
              buf_free;
              bluetooth_release_inflight;
              ret WLH_HOST_INVALID_ARGUMENT
            }
            else do {
              queued \<leftarrow> enqueue_job (JOB_BLUETOOTH_TX \<lparr>dj_channel = WLH_CHANNEL_BLUETOOTH_HCI,
                dj_capacity = 0, dj_data = bytes\<rparr>);
              if \<not> queued then do {
                buf_free;
                bluetooth_release_inflight;
                ret WLH_HOST_PENDING_FULL
              }
              else ret WLH_HOST_OK
            }
          }
        }
  }"

section \<open>OTA\<close>

definition ota_check_supported :: "(host, host_result) state" where
  "ota_check_supported = do {
    s \<leftarrow> State_Monad.get;
    ret (if \<not> h_worker_started s then WLH_HOST_INVALID_STATE
      else if h_ota_supported s then WLH_HOST_OK else WLH_HOST_NOT_SUPPORTED)
  }"

definition ota_request ::
  "u16 \<Rightarrow> pb_msg \<Rightarrow> rpc_completion option \<Rightarrow> (host, host_result) state" where
  "ota_request method message completion = do {
    result \<leftarrow> ota_check_supported;
    if result \<noteq> WLH_HOST_OK then ret result
    else rpc_message_request WLH_SERVICE_OTA method message completion
  }"

record ota_begin_params =
  op_image_size :: u64
  op_sha256 :: "u8 list"
  op_target_version :: "u8 list option"
  op_slot :: "u8 list option"
  op_signature :: "u8 list option"
  op_signature_size :: nat

text \<open>The message object is a second buffer, freed in any case.\<close>

definition with_message :: "(host, host_result) state \<Rightarrow> (host, host_result) state" where
  "with_message request = do {
    message \<leftarrow> buf_alloc 0;
    if \<not> message then ret WLH_HOST_NO_MEMORY
    else do {
      result \<leftarrow> request;
      buf_free;
      ret result
    }
  }"

definition wlh_host_ota_begin ::
  "ota_begin_params option \<Rightarrow> nat option \<Rightarrow> (host, host_result) state" where
  "wlh_host_ota_begin params completion = (case (params, completion) of
      (Some p, Some k) \<Rightarrow>
        if op_image_size p = 0 \<or> op_signature_size p > 512 \<or>
          (op_signature_size p \<noteq> 0 \<and> op_signature p = None) \<or>
          (case op_target_version p of None \<Rightarrow> False | Some v \<Rightarrow> length v > 32) \<or>
          (case op_slot p of None \<Rightarrow> False | Some v \<Rightarrow> length v > 16)
        then ret WLH_HOST_INVALID_ARGUMENT
        else do {
          result \<leftarrow> ota_check_supported;
          if result \<noteq> WLH_HOST_OK then ret result
          else typed_request (with_message (ota_request WLH_OTA_METHOD_BEGIN
            (Msg_OtaBeginRequest 1 (op_image_size p) (take 32 (op_sha256 p))
              (case op_target_version p of None \<Rightarrow> [] | Some v \<Rightarrow> v)
              (case op_slot p of None \<Rightarrow> [] | Some v \<Rightarrow> v)
              (case op_signature p of None \<Rightarrow> [] | Some v \<Rightarrow> take (op_signature_size p) v))
            (Some (Ota_begin k))))
        }
    | _ \<Rightarrow> ret WLH_HOST_INVALID_ARGUMENT)"

definition wlh_host_ota_finalize ::
  "u32 \<Rightarrow> u64 \<Rightarrow> rpc_completion option \<Rightarrow> (host, host_result) state" where
  "wlh_host_ota_finalize transfer_id bytes_sent completion =
    (if transfer_id = 0 then ret WLH_HOST_INVALID_ARGUMENT
     else ota_request WLH_OTA_METHOD_FINALIZE (Msg_OtaFinalizeRequest transfer_id bytes_sent)
       completion)"

definition wlh_host_ota_abort :: "u32 \<Rightarrow> rpc_completion option \<Rightarrow> (host, host_result) state" where
  "wlh_host_ota_abort transfer_id completion =
    (if transfer_id = 0 then ret WLH_HOST_INVALID_ARGUMENT
     else ota_request WLH_OTA_METHOD_ABORT (Msg_OtaAbortRequest transfer_id) completion)"

definition wlh_host_ota_activate ::
  "u32 \<Rightarrow> bool \<Rightarrow> rpc_completion option \<Rightarrow> (host, host_result) state" where
  "wlh_host_ota_activate transfer_id reboot completion =
    (if transfer_id = 0 then ret WLH_HOST_INVALID_ARGUMENT
     else ota_request WLH_OTA_METHOD_ACTIVATE (Msg_OtaActivateRequest transfer_id reboot) completion)"

definition wlh_host_ota_query :: "nat option \<Rightarrow> (host, host_result) state" where
  "wlh_host_ota_query completion = (case completion of
      None \<Rightarrow> ret WLH_HOST_INVALID_ARGUMENT
    | Some k \<Rightarrow> do {
        result \<leftarrow> ota_check_supported;
        if result \<noteq> WLH_HOST_OK then ret result
        else typed_request (ota_request WLH_OTA_METHOD_QUERY Msg_Empty (Some (Ota_query k)))
      })"

definition put_le16 :: "mem \<Rightarrow> nat \<Rightarrow> u16 \<Rightarrow> mem" where
  "put_le16 m out value = (m(out := ucast value))(out + 1 := ucast (drop_bit 8 value))"

definition put_le32 :: "mem \<Rightarrow> nat \<Rightarrow> u32 \<Rightarrow> mem" where
  "put_le32 m out value =
    foldl (\<lambda>m i. m(out + i := ucast (drop_bit (i * 8) value))) m [0..<4]"

definition put_le64 :: "mem \<Rightarrow> nat \<Rightarrow> u64 \<Rightarrow> mem" where
  "put_le64 m out value =
    foldl (\<lambda>m i. m(out + i := ucast (drop_bit (i * 8) value))) m [0..<8]"

text \<open>The record is built in place: its payload is written behind the record header and then
  encoded onto itself.\<close>

definition ota_stream_record :: "u32 \<Rightarrow> u64 \<Rightarrow> u8 list \<Rightarrow> wire_result \<times> u8 list" where
  "ota_stream_record transfer_id offset data =
    (let n = length data;
         m = (\<lambda>_. 0 :: u8);
         m = put_le32 m WLH_RAW_RECORD_HEADER_SIZE transfer_id;
         m = put_le64 m (WLH_RAW_RECORD_HEADER_SIZE + 4) offset;
         m = put_le16 m (WLH_RAW_RECORD_HEADER_SIZE + 12) (of_nat n);
         m = put_le16 m (WLH_RAW_RECORD_HEADER_SIZE + 14) 0;
         m = mem_write m (WLH_RAW_RECORD_HEADER_SIZE + 16) data
     in case wlh_raw_record_encode (2 ^ 64 - 1) m (Some 0) (WLH_RAW_RECORD_HEADER_SIZE + 16 + n)
         (Some 0) 1 0 (Some WLH_RAW_RECORD_HEADER_SIZE) (16 + n) of
       (r, sz, m) \<Rightarrow> (r, mem_bytes m 0 (the sz)))"

definition ota_release_inflight :: "(host, unit) state" where
  "ota_release_inflight = modify (\<lambda>s. s\<lparr>h_ota_tx_inflight := decrement (h_ota_tx_inflight s)\<rparr>)"

definition wlh_host_ota_stream_send ::
  "u32 \<Rightarrow> u64 \<Rightarrow> u8 list option \<Rightarrow> (host, host_result) state" where
  "wlh_host_ota_stream_send transfer_id offset data = do {
    s \<leftarrow> State_Monad.get;
    case data of
      None \<Rightarrow> ret WLH_HOST_INVALID_ARGUMENT
    | Some data \<Rightarrow>
        if data = [] \<or> length data > 65535 \<or> transfer_id = 0 \<or> \<not> h_worker_started s
        then ret WLH_HOST_INVALID_ARGUMENT
        else if \<not> h_ota_supported s then ret WLH_HOST_NOT_SUPPORTED
        else if length data + 16 > unat (h_ota_max_record s) then ret WLH_HOST_INVALID_ARGUMENT
        else if h_tx_credit s WLH_CHANNEL_OTA_STREAM \<le> h_ota_tx_inflight s
        then ret WLH_HOST_NO_CREDIT
        else do {
          modify (\<lambda>s. s\<lparr>h_ota_tx_inflight := h_ota_tx_inflight s + 1\<rparr>);
          job \<leftarrow> buf_alloc (WLH_RAW_RECORD_HEADER_SIZE + 16 + length data);
          if \<not> job then do {
            ota_release_inflight;
            ret WLH_HOST_NO_MEMORY
          }
          else do {
            let (wire, bytes) = ota_stream_record transfer_id offset data;
            if wire \<noteq> WLH_WIRE_OK then do {
              buf_free;
              ota_release_inflight;
              ret WLH_HOST_INVALID_ARGUMENT
            }
            else do {
              queued \<leftarrow> enqueue_job (JOB_OTA_TX \<lparr>dj_channel = WLH_CHANNEL_OTA_STREAM,
                dj_capacity = 0, dj_data = bytes\<rparr>);
              if \<not> queued then do {
                buf_free;
                ota_release_inflight;
                ret WLH_HOST_PENDING_FULL
              }
              else ret WLH_HOST_OK
            }
          }
        }
  }"

section \<open>Wi-Fi\<close>

record wifi_scan_params =
  wsp_scan_id :: u32
  wsp_ssid :: "u8 list option"
  wsp_ssid_size :: nat
  wsp_include_hidden :: bool
  wsp_max_results :: u32

record wifi_connect_params =
  wcp_ssid :: "u8 list option"
  wcp_ssid_size :: nat
  wcp_credential :: "u8 list option"
  wcp_credential_size :: nat
  wcp_security :: u32
  wcp_timeout_ms :: u32

record wifi_start_ap_params =
  wap_ssid :: "u8 list option"
  wap_ssid_size :: nat
  wap_credential :: "u8 list option"
  wap_credential_size :: nat
  wap_security :: u32
  wap_channel :: u32
  wap_max_clients :: u32

definition sized_bytes :: "u8 list option \<Rightarrow> nat \<Rightarrow> u8 list" where
  "sized_bytes p n = (case p of None \<Rightarrow> [] | Some bs \<Rightarrow> take n bs)"

definition wifi_request ::
  "u16 \<Rightarrow> pb_msg \<Rightarrow> rpc_completion option \<Rightarrow> (host, host_result) state" where
  "wifi_request method message completion =
    rpc_message_request WLH_SERVICE_WIFI method message completion"

definition wlh_host_wifi_initialize :: "rpc_completion option \<Rightarrow> (host, host_result) state" where
  "wlh_host_wifi_initialize completion =
    wifi_request WLH_WIFI_METHOD_INITIALIZE (Msg_WifiInitializeRequest 1) completion"

definition wlh_host_wifi_scan ::
  "wifi_scan_params option \<Rightarrow> rpc_completion option \<Rightarrow> (host, host_result) state" where
  "wlh_host_wifi_scan params completion = (case params of
      None \<Rightarrow> ret WLH_HOST_INVALID_ARGUMENT
    | Some p \<Rightarrow>
        if wsp_scan_id p = 0 \<or> wsp_ssid_size p > WLH_HOST_MAX_SSID_SIZE \<or>
          (wsp_ssid_size p \<noteq> 0 \<and> wsp_ssid p = None)
        then ret WLH_HOST_INVALID_ARGUMENT
        else wifi_request WLH_WIFI_METHOD_SCAN_START
          (Msg_WifiScanRequest (wsp_scan_id p) 1 (sized_bytes (wsp_ssid p) (wsp_ssid_size p))
            (wsp_include_hidden p) (wsp_max_results p)) completion)"

definition wlh_host_wifi_connect ::
  "wifi_connect_params option \<Rightarrow> rpc_completion option \<Rightarrow> (host, host_result) state" where
  "wlh_host_wifi_connect params completion = (case params of
      None \<Rightarrow> ret WLH_HOST_INVALID_ARGUMENT
    | Some p \<Rightarrow>
        if wcp_ssid_size p = 0 \<or> wcp_ssid_size p > WLH_HOST_MAX_SSID_SIZE \<or>
          wcp_credential_size p > WLH_HOST_MAX_CREDENTIAL_SIZE \<or> wcp_ssid p = None \<or>
          (wcp_credential_size p \<noteq> 0 \<and> wcp_credential p = None)
        then ret WLH_HOST_INVALID_ARGUMENT
        else wifi_request WLH_WIFI_METHOD_CONNECT
          (Msg_WifiConnectRequest (sized_bytes (wcp_ssid p) (wcp_ssid_size p))
            (sized_bytes (wcp_credential p) (wcp_credential_size p)) (wcp_security p)
            (wcp_timeout_ms p)) completion)"

definition wlh_host_wifi_disconnect :: "rpc_completion option \<Rightarrow> (host, host_result) state" where
  "wlh_host_wifi_disconnect completion =
    wifi_request WLH_WIFI_METHOD_DISCONNECT (Msg_WifiDisconnectRequest 1) completion"

definition wlh_host_wifi_start_ap ::
  "wifi_start_ap_params option \<Rightarrow> rpc_completion option \<Rightarrow> (host, host_result) state" where
  "wlh_host_wifi_start_ap params completion = (case params of
      None \<Rightarrow> ret WLH_HOST_INVALID_ARGUMENT
    | Some p \<Rightarrow>
        if wap_ssid_size p = 0 \<or> wap_ssid_size p > WLH_HOST_MAX_SSID_SIZE \<or>
          wap_credential_size p > WLH_HOST_MAX_CREDENTIAL_SIZE \<or> wap_ssid p = None \<or>
          (wap_credential_size p \<noteq> 0 \<and> wap_credential p = None)
        then ret WLH_HOST_INVALID_ARGUMENT
        else wifi_request WLH_WIFI_METHOD_START_AP
          (Msg_WifiStartApRequest (sized_bytes (wap_ssid p) (wap_ssid_size p))
            (sized_bytes (wap_credential p) (wap_credential_size p)) (wap_security p)
            (wap_channel p) (wap_max_clients p)) completion)"

definition wlh_host_wifi_stop_ap :: "rpc_completion option \<Rightarrow> (host, host_result) state" where
  "wlh_host_wifi_stop_ap completion = wifi_request WLH_WIFI_METHOD_STOP_AP Msg_Empty completion"

section \<open>Peripherals\<close>

record io_config =
  ioc_pin_id :: u32
  ioc_mode :: u32
  ioc_pull :: u32
  ioc_initial_level :: bool

definition wlh_host_io_configure ::
  "io_config option \<Rightarrow> rpc_completion option \<Rightarrow> (host, host_result) state" where
  "wlh_host_io_configure config completion = (case config of
      None \<Rightarrow> ret WLH_HOST_INVALID_ARGUMENT
    | Some c \<Rightarrow>
        if \<not> io_mode_valid (ioc_mode c) \<or> \<not> io_pull_valid (ioc_pull c)
        then ret WLH_HOST_INVALID_ARGUMENT
        else rpc_message_request WLH_SERVICE_IO WLH_IO_METHOD_CONFIGURE
          (Msg_IoConfigureRequest (ioc_pin_id c) (ioc_mode c) (ioc_pull c) (ioc_initial_level c))
          completion)"

definition wlh_host_io_read :: "u32 \<Rightarrow> nat option \<Rightarrow> (host, host_result) state" where
  "wlh_host_io_read pin_id completion = (case completion of
      None \<Rightarrow> ret WLH_HOST_INVALID_ARGUMENT
    | Some k \<Rightarrow> typed_request (rpc_message_request WLH_SERVICE_IO WLH_IO_METHOD_READ
        (Msg_IoReadRequest pin_id) (Some (Io_read k))))"

definition wlh_host_io_write ::
  "u32 \<Rightarrow> bool \<Rightarrow> rpc_completion option \<Rightarrow> (host, host_result) state" where
  "wlh_host_io_write pin_id level completion =
    rpc_message_request WLH_SERVICE_IO WLH_IO_METHOD_WRITE (Msg_IoWriteRequest pin_id level) completion"

definition wlh_host_adc_read :: "u32 \<Rightarrow> nat option \<Rightarrow> (host, host_result) state" where
  "wlh_host_adc_read pin_id completion = (case completion of
      None \<Rightarrow> ret WLH_HOST_INVALID_ARGUMENT
    | Some k \<Rightarrow> typed_request (rpc_message_request WLH_SERVICE_ADC WLH_ADC_METHOD_READ
        (Msg_AdcReadRequest pin_id) (Some (Adc_read k))))"

section \<open>Key-value store\<close>

text \<open>A C string is its bytes before the terminator.\<close>

definition kv_key_valid :: "u8 list option \<Rightarrow> bool" where
  "kv_key_valid key = (case key of
      None \<Rightarrow> False | Some k \<Rightarrow> k \<noteq> [] \<and> length k \<le> WLH_HOST_MAX_KV_KEY_SIZE)"

definition wlh_host_kv_read :: "u8 list option \<Rightarrow> nat option \<Rightarrow> (host, host_result) state" where
  "wlh_host_kv_read key completion = (case completion of
      None \<Rightarrow> ret WLH_HOST_INVALID_ARGUMENT
    | Some k \<Rightarrow>
        if \<not> kv_key_valid key then ret WLH_HOST_INVALID_ARGUMENT
        else typed_request (with_message (rpc_message_request WLH_SERVICE_KV WLH_KV_METHOD_READ
          (Msg_KvReadRequest (the key)) (Some (Kv_read k)))))"

definition wlh_host_kv_write ::
  "u8 list option \<Rightarrow> u8 list option \<Rightarrow> rpc_completion option \<Rightarrow> (host, host_result) state" where
  "wlh_host_kv_write key value completion =
    (if \<not> kv_key_valid key \<or> value = None \<or> length (the value) > WLH_HOST_MAX_KV_VALUE_SIZE
     then ret WLH_HOST_INVALID_ARGUMENT
     else with_message (rpc_message_request WLH_SERVICE_KV WLH_KV_METHOD_WRITE
       (Msg_KvWriteRequest (the key) (the value)) completion))"

definition wlh_host_kv_erase ::
  "u8 list option \<Rightarrow> rpc_completion option \<Rightarrow> (host, host_result) state" where
  "wlh_host_kv_erase key completion =
    (if \<not> kv_key_valid key then ret WLH_HOST_INVALID_ARGUMENT
     else with_message (rpc_message_request WLH_SERVICE_KV WLH_KV_METHOD_ERASE
       (Msg_KvEraseRequest (the key)) completion))"

section \<open>Device information, wired Ethernet, user messages\<close>

definition wlh_host_get_device_info :: "nat option \<Rightarrow> (host, host_result) state" where
  "wlh_host_get_device_info completion = do {
    started \<leftarrow> gets h_worker_started;
    case completion of
      None \<Rightarrow> ret WLH_HOST_INVALID_ARGUMENT
    | Some k \<Rightarrow>
        if \<not> started then ret WLH_HOST_INVALID_ARGUMENT
        else typed_request (rpc_message_request WLH_SERVICE_DEVICE_INFO
          WLH_DEVICE_INFO_METHOD_GET_INFO Msg_Empty (Some (Device_info k)))
  }"

definition wlh_host_eth_get_info :: "nat option \<Rightarrow> (host, host_result) state" where
  "wlh_host_eth_get_info completion = do {
    started \<leftarrow> gets h_worker_started;
    case completion of
      None \<Rightarrow> ret WLH_HOST_INVALID_ARGUMENT
    | Some k \<Rightarrow>
        if \<not> started then ret WLH_HOST_INVALID_ARGUMENT
        else typed_request (rpc_message_request WLH_SERVICE_ETH WLH_ETH_METHOD_GET_INFO
          Msg_EthGetInfoRequest (Some (Eth_info k)))
  }"

definition wlh_host_user_message_send ::
  "u32 \<Rightarrow> u32 \<Rightarrow> u32 \<Rightarrow> u8 list option \<Rightarrow> nat \<Rightarrow> rpc_completion option \<Rightarrow>
    (host, host_result) state" where
  "wlh_host_user_message_send endpoint_id message_type flags payload payload_size completion =
    (if endpoint_id = 0 \<or> payload_size > WLH_HOST_MAX_USER_PAYLOAD_SIZE \<or>
       (payload_size \<noteq> 0 \<and> payload = None)
     then ret WLH_HOST_INVALID_ARGUMENT
     else with_message (rpc_message_request WLH_SERVICE_USER_PASSTHROUGH
       WLH_USER_PASSTHROUGH_METHOD_SEND
       (Msg_UserMessageSendRequest endpoint_id message_type flags
         (sized_bytes payload payload_size)) completion))"

end
