(* ===== verification/Host_Logic.thy ===== *)
theory Host_Logic
  imports Host_Clients
begin

text \<open>
  What each environment operation does to the state of the host core, as weakest preconditions.
\<close>

section \<open>Weakest preconditions of the environment\<close>

lemma wp_emit [wp_simps]: "wp (emit e) Q s = Q () (s\<lparr>trace := e # trace s\<rparr>)"
  by (simp add: emit_def wp_simps)

lemma wp_diag [wp_simps]: "wp (diag f) Q s = Q () (s\<lparr>h_diagnostics := f (h_diagnostics s)\<rparr>)"
  by (simp add: diag_def wp_simps)

lemma wp_buf_free [wp_simps]: "wp buf_free Q s = Q () (s\<lparr>trace := EFree # trace s\<rparr>)"
  by (simp add: buf_free_def wp_simps)

text \<open>Whatever the environment answers, the operation records the answer and returns it.\<close>

lemma wp_buf_alloc: "(\<And>ok. Q ok (s\<lparr>trace := EAlloc n ok # trace s\<rparr>)) \<Longrightarrow> wp (buf_alloc n) Q s"
  by (simp add: buf_alloc_def wp_simps Let_def)

lemma wp_submit_tx: "(\<And>ok. Q ok (s\<lparr>trace := ESubmit f ok # trace s\<rparr>)) \<Longrightarrow> wp (submit_tx f) Q s"
  by (simp add: submit_tx_def wp_simps Let_def)

lemma wp_executor_post:
  "(\<And>ok. Q ok (s\<lparr>trace := EPost t ok # trace s\<rparr>)) \<Longrightarrow> wp (executor_post t) Q s"
  by (simp add: executor_post_def wp_simps Let_def)

lemma wp_transport_start: "(\<And>ok. Q ok (s\<lparr>trace := EStart ok # trace s\<rparr>)) \<Longrightarrow> wp transport_start Q s"
  by (simp add: transport_start_def wp_simps Let_def)

lemma wp_transport_stop: "(\<And>ok. Q ok (s\<lparr>trace := EStop ok # trace s\<rparr>)) \<Longrightarrow> wp transport_stop Q s"
  by (simp add: transport_stop_def wp_simps Let_def)

lemma wp_now_ms: "(\<And>t. Q t (s\<lparr>trace := EClock t # trace s\<rparr>)) \<Longrightarrow> wp now_ms Q s"
  by (simp add: now_ms_def wp_simps Let_def)

lemma wp_mutex_lock_timeout:
  "(\<And>ok. Q ok (s\<lparr>trace := ELock ok # trace s\<rparr>)) \<Longrightarrow> wp mutex_lock_timeout Q s"
  by (simp add: mutex_lock_timeout_def wp_simps Let_def)

lemma wp_osal_call: "(\<And>ok. Q ok (s\<lparr>trace := EOsal n ok # trace s\<rparr>)) \<Longrightarrow> wp (osal_call n f) Q s"
  by (simp add: osal_call_def wp_simps Let_def)

lemmas wp_env = wp_buf_alloc wp_submit_tx wp_executor_post wp_transport_start wp_transport_stop
  wp_now_ms wp_mutex_lock_timeout wp_osal_call

end
