(* ===== verification/Host_Scope.thy ===== *)
theory Host_Scope
  imports Host_Logic
begin

text \<open>
  What the operations leave alone. \<open>reporting\<close> is the footprint of the dispatch functions and of
  \<open>set_state\<close>, \<open>sending\<close> that of everything that builds and submits a frame; both are preorders, so
  the calculus of \<open>state_rel\<close> carries them from the primitives to the callers.
\<close>

section \<open>Footprints\<close>

fun is_submit :: "effect \<Rightarrow> bool" where
  "is_submit (ESubmit _ _) = True"
| "is_submit _ = False"

definition no_submit :: "effect list \<Rightarrow> bool" where
  "no_submit es \<longleftrightarrow> (\<forall>e \<in> set es. \<not> is_submit e)"

lemma no_submit_simps [simp]:
  "no_submit []" "no_submit (e # es) \<longleftrightarrow> \<not> is_submit e \<and> no_submit es"
  "no_submit (es @ es') \<longleftrightarrow> no_submit es \<and> no_submit es'"
  by (auto simp: no_submit_def)

definition noting :: "host \<Rightarrow> host \<Rightarrow> bool" where
  "noting s t \<longleftrightarrow> (\<exists>d es. no_submit es \<and> t = s\<lparr>h_diagnostics := d, trace := es @ trace s\<rparr>)"

definition reporting :: "host \<Rightarrow> host \<Rightarrow> bool" where
  "reporting s t \<longleftrightarrow> (\<exists>st d es. no_submit es \<and>
    t = s\<lparr>h_state := st, h_diagnostics := d, trace := es @ trace s\<rparr>)"

definition sending :: "host \<Rightarrow> host \<Rightarrow> bool" where
  "sending s t \<longleftrightarrow> (\<exists>st q c d es. t = s\<lparr>h_state := st, h_tx_sequence := q, h_tx_credit := c,
    h_diagnostics := d, trace := es @ trace s\<rparr>)"

lemma notingI: "no_submit es \<Longrightarrow> noting s (s\<lparr>h_diagnostics := d, trace := es @ trace s\<rparr>)"
  unfolding noting_def by blast

interpretation noting: state_rel noting
proof
  show "noting s s" for s
    using notingI [where d = "h_diagnostics s" and es = "[]" and s = s] by simp
  show "noting s u" if "noting s t" "noting t u" for s t u
  proof -
    from that(1) obtain d es where es: "no_submit es" and t: "t = s\<lparr>h_diagnostics := d, trace := es @ trace s\<rparr>"
      by (auto simp: noting_def)
    from that(2) obtain d' es' where es': "no_submit es'" and u: "u = t\<lparr>h_diagnostics := d', trace := es' @ trace t\<rparr>"
      by (auto simp: noting_def)
    show ?thesis
      using notingI [where d = d' and es = "es' @ es" and s = s] es es' by (simp add: t u)
  qed
qed

lemma reportingI: "no_submit es \<Longrightarrow> reporting s (s\<lparr>h_state := st, h_diagnostics := d, trace := es @ trace s\<rparr>)"
  unfolding reporting_def by blast

interpretation reporting: state_rel reporting
proof
  show "reporting s s" for s
    using reportingI [where st = "h_state s" and d = "h_diagnostics s" and es = "[]" and s = s] by simp
  show "reporting s u" if "reporting s t" "reporting t u" for s t u
  proof -
    from that(1) obtain st d es where es: "no_submit es" and t: "t = s\<lparr>h_state := st, h_diagnostics := d, trace := es @ trace s\<rparr>"
      by (auto simp: reporting_def)
    from that(2) obtain st' d' es' where es': "no_submit es'" and u: "u = t\<lparr>h_state := st', h_diagnostics := d', trace := es' @ trace t\<rparr>"
      by (auto simp: reporting_def)
    show ?thesis
      using reportingI [where st = st' and d = d' and es = "es' @ es" and s = s] es es' by (simp add: t u)
  qed
qed

lemma sendingI: "sending s (s\<lparr>h_state := st, h_tx_sequence := q, h_tx_credit := c,
    h_diagnostics := d, trace := es @ trace s\<rparr>)"
  unfolding sending_def by blast

interpretation sending: state_rel sending
proof
  show "sending s s" for s
    using sendingI 
      [where st = "h_state s" and q = "h_tx_sequence s" and c = "h_tx_credit s"
        and d = "h_diagnostics s" and es = "[]" and s = s] by simp
  show "sending s u" if "sending s t" "sending t u" for s t u
  proof -
    from that(1) obtain st q c d es where t: "t = s\<lparr>h_state := st, h_tx_sequence := q,
        h_tx_credit := c, h_diagnostics := d, trace := es @ trace s\<rparr>"
      by (auto simp: sending_def)
    from that(2) obtain st' q' c' d' es' where u: "u = t\<lparr>h_state := st', h_tx_sequence := q',
        h_tx_credit := c', h_diagnostics := d', trace := es' @ trace t\<rparr>"
      by (auto simp: sending_def)
    show ?thesis
      using sendingI 
      [where st = st' and q = q' and c = c' and d = d' and es = "es' @ es" and s = s] by (simp add: t u)
  qed
qed

lemma reporting_sending: "reporting s t \<Longrightarrow> sending s t"
proof -
  assume "reporting s t"
  then obtain st d es where es: "no_submit es" and t: "t = s\<lparr>h_state := st, h_diagnostics := d, trace := es @ trace s\<rparr>"
    by (auto simp: reporting_def)
  show "sending s t"
    using sendingI 
      [where st = st and q = "h_tx_sequence s" and c = "h_tx_credit s" and d = d and es = es and s = s] by (simp add: t)
qed

lemma sending_rel: "state_io_rel reporting m \<Longrightarrow> state_io_rel sending m"
  by (rule sending.rel_wpI, rule reporting.rel_wp) (auto intro: reporting_sending)

section \<open>Reporting operations\<close>

lemma noting_reporting: "noting s t \<Longrightarrow> reporting s t"
proof -
  assume "noting s t"
  then obtain d es where es: "no_submit es" and t: "t = s\<lparr>h_diagnostics := d, trace := es @ trace s\<rparr>"
    by (auto simp: noting_def)
  show "reporting s t"
    using reportingI [OF es, where st = "h_state s" and d = d and s = s] by (simp add: t)
qed

lemma reporting_rel: "state_io_rel noting m \<Longrightarrow> state_io_rel reporting m"
  by (rule reporting.rel_wpI, rule noting.rel_wp) (auto intro: noting_reporting)

named_theorems noted \<open>operations whose footprint is noting\<close>
named_theorems reports \<open>operations whose footprint is reporting\<close>
named_theorems sends \<open>operations whose footprint is sending\<close>

lemma noting_emit: "\<not> is_submit e \<Longrightarrow> noting s (s\<lparr>trace := e # trace s\<rparr>)"
  using notingI [where d = "h_diagnostics s" and es = "[e]" and s = s] by simp

lemma noting_diag: "noting s (s\<lparr>h_diagnostics := d\<rparr>)"
  using notingI [where d = d and es = "[]" and s = s] by simp

lemma notes_emit [noted]: "\<not> is_submit e \<Longrightarrow> state_io_rel noting (emit e)"
  by (rule noting.rel_wpI) (simp add: wp_simps noting_emit)

lemma notes_env [noted]:
  "state_io_rel noting (diag g)"
  "state_io_rel noting buf_free"
  "state_io_rel noting (buf_alloc n)"
  "state_io_rel noting (executor_post t)"
  "state_io_rel noting transport_start"
  "state_io_rel noting transport_stop"
  "state_io_rel noting now_ms"
  "state_io_rel noting mutex_lock_timeout"
  "state_io_rel noting (osal_call name f2)"
  by (rule noting.rel_wpI, (rule wp_env)?, simp add: wp_simps noting_emit noting_diag)+

lemma notes_call_completion [noted]: "state_io_rel noting (call_completion c r d code p)"
  by (cases c) (simp_all only: call_completion_def bluetooth_info_completion_def
      ota_begin_completion_def ota_query_completion_def device_info_completion_def
      eth_info_completion_def io_read_completion_def adc_read_completion_def
      kv_read_completion_def rpc_completion.case, (intro noting.rel_rules noted; simp)+)

lemma notes_dispatch_completion [noted]:
  "state_io_rel noting (dispatch_completion c r d code p)"
  unfolding dispatch_completion_def by (intro noting.rel_rules noted)

lemma notes_dispatch_event [noted]: "state_io_rel noting (dispatch_event k sv m p)"
  unfolding dispatch_event_def by (intro noting.rel_rules noted)

lemma notes_grow_job [noted]: "state_io_rel noting (grow_job n data)"
  unfolding grow_job_def by (intro noting.rel_rules noted)

lemmas reports_notes [reports] = noted [THEN reporting_rel]

lemma reporting_state: "state_io_rel reporting (modify (\<lambda>s. s\<lparr>h_state := st\<rparr>))"
proof (rule reporting.rel_update)
  show "reporting s (s\<lparr>h_state := st\<rparr>)" for s
    using reportingI [where st = st and d = "h_diagnostics s" and es = "[]" and s = s] by simp
qed

lemma reports_set_state [reports]: "state_io_rel reporting (set_state st)"
  unfolding set_state_def by (intro reporting.rel_rules reports reporting_state)

lemma reports_grow_job: "state_io_rel reporting (grow_job n data)"
  by (rule reports)

text \<open>\<open>set_state\<close> does reach the state.\<close>

lemma set_state_wp:
  assumes "\<And>t. reporting s t \<Longrightarrow> h_state t = st \<Longrightarrow> Q () t"
  shows "wp (set_state st) Q s"
proof -
  have "wp (set_state st) (\<lambda>_ t. reporting s t \<and> h_state t = st) s"
    unfolding wp_conj
  proof
    show "wp (set_state st) (\<lambda>_ t. reporting s t) s"
      by (rule reporting.rel_wpD [OF reports_set_state])
    show "wp (set_state st) (\<lambda>_ t. h_state t = st) s"
      by (auto simp: set_state_def wp_simps noting_def
          intro!: noting.rel_wp [OF notes_dispatch_event])
  qed
  then show ?thesis
    by (rule wp_call) (use assms in auto)
qed

section \<open>Sending operations\<close>

lemma sending_fields:
  "sending s (s\<lparr>h_tx_sequence := q\<rparr>)" "sending s (s\<lparr>h_tx_credit := c\<rparr>)"
  using sendingI [where st = "h_state s" and q = q and c = "h_tx_credit s"
      and d = "h_diagnostics s" and es = "[]" and s = s]
    sendingI [where st = "h_state s" and q = "h_tx_sequence s" and c = c
      and d = "h_diagnostics s" and es = "[]" and s = s] by simp_all

lemma sends_submit [sends]: "state_io_rel sending (submit_tx f)"
  by (rule sending.rel_wpI, rule wp_submit_tx)
    (use sendingI [where st = "h_state s" and q = "h_tx_sequence s" and c = "h_tx_credit s"
      and d = "h_diagnostics s" and es = "[ESubmit f ok]" and s = s for s ok] in simp)

lemma sends_modify [sends]:
  "state_io_rel sending (modify (\<lambda>s. s\<lparr>h_tx_sequence := gq s\<rparr>))"
  "state_io_rel sending (modify (\<lambda>s. s\<lparr>h_tx_credit := gc s\<rparr>))"
  by (rule sending.rel_update, rule sending_fields)+

lemmas sends_reports [sends] = reports [THEN sending_rel]

lemma sends_frame_units [sends]: "state_io_rel sending (send_payload_frame_units ch p rsv u)"
  unfolding send_payload_frame_units_def by (intro sending.rel_rules sends)

lemma sends_frame [sends]: "state_io_rel sending (send_payload_frame ch p rsv)"
  unfolding send_payload_frame_def by (rule sends)

lemma sends_rpc [sends]: "state_io_rel sending (send_rpc envelope p rsv)"
  unfolding send_rpc_def by (intro sending.rel_rules sends)

lemma sends_rpc_message [sends]: "state_io_rel sending (send_rpc_message envelope m rsv)"
  unfolding send_rpc_message_def by (intro sending.rel_rules sends)

lemma sends_credit_update [sends]: "state_io_rel sending (send_credit_update ch u)"
  unfolding send_credit_update_def by (intro sending.rel_rules sends)

text \<open>Fields outside the footprint, as the callers use them.\<close>

lemma sending_keeps:
  assumes "sending s t"
  shows "h_config t = h_config s" and "h_session_id t = h_session_id s"
    and "h_pending t = h_pending s" and "h_core_queue t = h_core_queue s"
    and "h_deferred_job t = h_deferred_job s" and "h_pb t = h_pb s"
    and "h_ethernet_tx_queued t = h_ethernet_tx_queued s"
    and "h_ethernet_tx_slots t = h_ethernet_tx_slots s"
    and "h_ethernet_rx_pending_credit t = h_ethernet_rx_pending_credit s"
    and "h_worker_started t = h_worker_started s"
    and "h_worker_stopping t = h_worker_stopping s"
    and "h_bluetooth_tx_inflight t = h_bluetooth_tx_inflight s"
    and "h_ota_tx_inflight t = h_ota_tx_inflight s"
    and "h_next_request_id t = h_next_request_id s"
  using assms by (auto simp: sending_def)

lemma reporting_keeps:
  assumes "reporting s t"
  shows "h_tx_sequence t = h_tx_sequence s" and "h_tx_credit t = h_tx_credit s"
    and "h_deferred_job t = h_deferred_job s" and "h_config t = h_config s"
    and "h_core_queue t = h_core_queue s" and "h_session_id t = h_session_id s"
    and "h_pending t = h_pending s"
  using assms by (auto simp: reporting_def)

end
