(* ===== verification/Host_Ledger.thy ===== *)
theory Host_Ledger
  imports Host_Scope
begin

text \<open>
  Double-entry bookkeeping for the host core. A ledger gives a weight to every outside call and to
  every completion and buffer the core holds; \<open>balance\<close> is the weight of the calls made so far plus
  that of what the pending table, the queue and the deferred job hold. The locale \<open>ledger\<close> states
  which weights make the books balance and proves, operation by operation, that the core keeps
  them. Two sets of weights are used: one counts buffers, so that keeping the balance means that
  every buffer allocated is freed or handed over exactly once; the other counts completions, so
  that it means that every accepted request is completed exactly once.
\<close>

section \<open>Balances\<close>

definition pending_weight :: "(rpc_completion option \<Rightarrow> int) \<Rightarrow> pending_rpc \<Rightarrow> int" where
  "pending_weight cw p = (if p_active p then cw (p_completion p) else 0)"

fun job_weight :: "(rpc_completion option \<Rightarrow> int) \<Rightarrow> int \<Rightarrow> host_job \<Rightarrow> int" where
  "job_weight cw bw (JOB_RPC_REQUEST job) = cw (rj_completion job) - bw"
| "job_weight cw bw (JOB_RX_FRAME _) = - bw"
| "job_weight cw bw (JOB_ETHERNET_TX _) = - bw"
| "job_weight cw bw (JOB_BLUETOOTH_TX _) = - bw"
| "job_weight cw bw (JOB_OTA_TX _) = - bw"
| "job_weight cw bw _ = 0"

fun task_weight :: "(rpc_completion option \<Rightarrow> int) \<Rightarrow> int \<Rightarrow> task \<Rightarrow> int" where
  "task_weight cw bw (Event_task _) = - bw"
| "task_weight cw bw (Completion_task c _ _ _ _) = cw (Some c) - bw"

definition deferred_weight ::
  "(rpc_completion option \<Rightarrow> int) \<Rightarrow> int \<Rightarrow> host_job option \<Rightarrow> int" where
  "deferred_weight cw bw job = (case job of None \<Rightarrow> 0 | Some j \<Rightarrow> job_weight cw bw j)"

definition balance ::
  "(effect \<Rightarrow> int) \<Rightarrow> (rpc_completion option \<Rightarrow> int) \<Rightarrow> int \<Rightarrow> host \<Rightarrow> int" where
  "balance eff cw bw s = sum_list (map eff (trace s)) +
    (\<Sum>i<WLH_HOST_MAX_PENDING. pending_weight cw (h_pending s i)) +
    sum_list (map (job_weight cw bw) (h_core_queue s)) +
    deferred_weight cw bw (h_deferred_job s)"

text \<open>The balance looks at four fields only.\<close>

lemma balance_frame [simp]:
  "balance eff cw bw (s\<lparr>h_state := a1\<rparr>) = balance eff cw bw s"
  "balance eff cw bw (s\<lparr>h_session_id := a2\<rparr>) = balance eff cw bw s"
  "balance eff cw bw (s\<lparr>h_next_request_id := a3\<rparr>) = balance eff cw bw s"
  "balance eff cw bw (s\<lparr>h_tx_sequence := a4\<rparr>) = balance eff cw bw s"
  "balance eff cw bw (s\<lparr>h_expected_rx_sequence := a5\<rparr>) = balance eff cw bw s"
  "balance eff cw bw (s\<lparr>h_tx_credit := a6\<rparr>) = balance eff cw bw s"
  "balance eff cw bw (s\<lparr>h_ethernet_tx_queued := a7\<rparr>) = balance eff cw bw s"
  "balance eff cw bw (s\<lparr>h_ethernet_rx_pending_credit := a8\<rparr>) = balance eff cw bw s"
  "balance eff cw bw (s\<lparr>h_ethernet_rx_credit_due_ms := a9\<rparr>) = balance eff cw bw s"
  "balance eff cw bw (s\<lparr>h_rx_sequence_valid := a10\<rparr>) = balance eff cw bw s"
  "balance eff cw bw (s\<lparr>h_diagnostics := a11\<rparr>) = balance eff cw bw s"
  "balance eff cw bw (s\<lparr>h_bluetooth_supported := a12\<rparr>) = balance eff cw bw s"
  "balance eff cw bw (s\<lparr>h_bluetooth_hci_stopped := a13\<rparr>) = balance eff cw bw s"
  "balance eff cw bw (s\<lparr>h_bluetooth_tx_inflight := a14\<rparr>) = balance eff cw bw s"
  "balance eff cw bw (s\<lparr>h_bluetooth_max_record := a15\<rparr>) = balance eff cw bw s"
  "balance eff cw bw (s\<lparr>h_bluetooth_state := a16\<rparr>) = balance eff cw bw s"
  "balance eff cw bw (s\<lparr>h_ota_supported := a17\<rparr>) = balance eff cw bw s"
  "balance eff cw bw (s\<lparr>h_ota_max_record := a18\<rparr>) = balance eff cw bw s"
  "balance eff cw bw (s\<lparr>h_ota_tx_inflight := a19\<rparr>) = balance eff cw bw s"
  "balance eff cw bw (s\<lparr>h_peer_version := a20\<rparr>) = balance eff cw bw s"
  "balance eff cw bw (s\<lparr>h_started_ms := a21\<rparr>) = balance eff cw bw s"
  "balance eff cw bw (s\<lparr>h_ethernet_tx_slots := a22\<rparr>) = balance eff cw bw s"
  "balance eff cw bw (s\<lparr>h_worker_started := a23\<rparr>) = balance eff cw bw s"
  "balance eff cw bw (s\<lparr>h_worker_stopping := a24\<rparr>) = balance eff cw bw s"
  by (simp_all add: balance_def)

lemma balance_trace [simp]:
  "balance eff cw bw (s\<lparr>trace := e # t\<rparr>) = balance eff cw bw (s\<lparr>trace := t\<rparr>) + eff e"
  "balance eff cw bw (s\<lparr>trace := trace s\<rparr>) = balance eff cw bw s"
  by (simp_all add: balance_def)

lemma balance_pending:
  assumes "i < WLH_HOST_MAX_PENDING" and others: "\<And>j. j \<noteq> i \<Longrightarrow> table j = h_pending s j"
  shows "balance eff cw bw (s\<lparr>h_pending := table(i := p)\<rparr>) =
    balance eff cw bw s - pending_weight cw (h_pending s i) + pending_weight cw p"
proof -
  have split: "(\<Sum>k<WLH_HOST_MAX_PENDING. pending_weight cw (f k)) =
      pending_weight cw (f i) + (\<Sum>k \<in> {..<WLH_HOST_MAX_PENDING} - {i}. pending_weight cw (f k))" for f
    using assms(1) by (intro sum.remove) auto
  have rest: "(\<Sum>k \<in> {..<WLH_HOST_MAX_PENDING} - {i}. pending_weight cw ((table(i := p)) k)) =
      (\<Sum>k \<in> {..<WLH_HOST_MAX_PENDING} - {i}. pending_weight cw (h_pending s k))"
    using others by (intro sum.cong) auto
  show ?thesis
    unfolding balance_def using split [of "h_pending s"] split [of "table(i := p)"] rest
    by (simp del: fun_upd_apply) simp
qed

lemma pending_weight_zero [simp]: "pending_weight cw zero_pending = 0"
  by (simp add: pending_weight_def zero_pending_def)

lemma pending_weight_cases:
  "p_active p \<Longrightarrow> pending_weight cw p = cw (p_completion p)"
  "\<not> p_active p \<Longrightarrow> pending_weight cw p = 0"
  by (simp_all add: pending_weight_def)

lemma balance_pending_clear:
  "i < WLH_HOST_MAX_PENDING \<Longrightarrow> p_active (h_pending s i) \<Longrightarrow>
    (\<And>j. j \<noteq> i \<Longrightarrow> table j = h_pending s j) \<Longrightarrow>
    balance eff cw bw (s\<lparr>h_pending := table(i := zero_pending)\<rparr>) =
      balance eff cw bw s - cw (p_completion (h_pending s i))"
  by (simp add: balance_pending) (simp add: pending_weight_def)

lemma balance_deferred_put [simp]:
  "h_deferred_job s = None \<Longrightarrow>
    balance eff cw bw (s\<lparr>h_deferred_job := Some job\<rparr>) = balance eff cw bw s + job_weight cw bw job"
  by (simp add: balance_def deferred_weight_def)

lemma balance_deferred_take [simp]:
  "h_deferred_job s = Some job \<Longrightarrow>
    balance eff cw bw (s\<lparr>h_deferred_job := None\<rparr>) = balance eff cw bw s - job_weight cw bw job"
  by (simp add: balance_def deferred_weight_def)

lemma balance_queue_put [simp]:
  "balance eff cw bw (s\<lparr>h_core_queue := h_core_queue s @ [job]\<rparr>) =
    balance eff cw bw s + job_weight cw bw job"
  by (simp add: balance_def)

lemma balance_queue_take:
  "h_core_queue s = job # jobs \<Longrightarrow>
    balance eff cw bw (s\<lparr>h_core_queue := jobs\<rparr>) = balance eff cw bw s - job_weight cw bw job"
  by (simp add: balance_def)

lemma clear_session_balance [simp]:
  "balance eff cw bw (clear_session_services s) = balance eff cw bw s"
  by (simp add: clear_session_services_def balance_def)

named_theorems books \<open>what each operation adds to the balance\<close>

section \<open>The application's calls\<close>

text \<open>The request call, its result only.\<close>

definition rpc_request_call ::
  "u16 \<Rightarrow> u16 \<Rightarrow> u8 list option \<Rightarrow> nat \<Rightarrow> u32 \<Rightarrow> rpc_completion option \<Rightarrow>
    (host, host_result) state" where
  "rpc_request_call service_id method_id payload n timeout_ms completion = do {
    (result, _) \<leftarrow> wlh_host_rpc_request service_id method_id payload n timeout_ms completion;
    ret result
  }"

text \<open>\<open>host_call m c\<close>: the application may run \<open>m\<close>, which, when it returns \<open>WLH_HOST_OK\<close>, has
  taken a request to be completed through \<open>c\<close>. The application's own callbacks are \<open>App\<close>.\<close>

inductive host_call :: "(host, host_result) state \<Rightarrow> rpc_completion option \<Rightarrow> bool" where
  call_ethernet_sta: "host_call (wlh_host_ethernet_sta_send frame) None"
| call_ethernet_ap: "host_call (wlh_host_ethernet_ap_send frame) None"
| call_ethernet_eth: "host_call (wlh_host_ethernet_eth_send frame) None"
| call_hci_send: "host_call (wlh_host_bluetooth_hci_send ty packet) None"
| call_ota_stream_send: "host_call (wlh_host_ota_stream_send tid off data) None"
| call_on_frame: "host_call (wlh_host_on_frame bytes) None"
| call_rpc_request:
    "host_call (rpc_request_call sv m p n tmo (map_option App k)) (map_option App k)"
| call_bt_initialize: "host_call (wlh_host_bluetooth_initialize fl (map_option App k)) (map_option App k)"
| call_bt_enable: "host_call (wlh_host_bluetooth_enable fl (map_option App k)) (map_option App k)"
| call_bt_disable: "host_call (wlh_host_bluetooth_disable (map_option App k)) (map_option App k)"
| call_bt_deinitialize:
    "host_call (wlh_host_bluetooth_deinitialize b (map_option App k)) (map_option App k)"
| call_bt_info: "host_call (wlh_host_bluetooth_get_info k) (map_option Bluetooth_info k)"
| call_ota_begin: "host_call (wlh_host_ota_begin op k) (map_option Ota_begin k)"
| call_ota_finalize: "host_call (wlh_host_ota_finalize tid sent (map_option App k)) (map_option App k)"
| call_ota_abort: "host_call (wlh_host_ota_abort tid (map_option App k)) (map_option App k)"
| call_ota_activate: "host_call (wlh_host_ota_activate tid b (map_option App k)) (map_option App k)"
| call_ota_query: "host_call (wlh_host_ota_query k) (map_option Ota_query k)"
| call_wifi_initialize: "host_call (wlh_host_wifi_initialize (map_option App k)) (map_option App k)"
| call_wifi_scan: "host_call (wlh_host_wifi_scan sp (map_option App k)) (map_option App k)"
| call_wifi_connect: "host_call (wlh_host_wifi_connect cp (map_option App k)) (map_option App k)"
| call_wifi_disconnect: "host_call (wlh_host_wifi_disconnect (map_option App k)) (map_option App k)"
| call_wifi_start_ap: "host_call (wlh_host_wifi_start_ap ap (map_option App k)) (map_option App k)"
| call_wifi_stop_ap: "host_call (wlh_host_wifi_stop_ap (map_option App k)) (map_option App k)"
| call_io_configure: "host_call (wlh_host_io_configure ic (map_option App k)) (map_option App k)"
| call_io_read: "host_call (wlh_host_io_read pin k) (map_option Io_read k)"
| call_io_write: "host_call (wlh_host_io_write pin b (map_option App k)) (map_option App k)"
| call_adc_read: "host_call (wlh_host_adc_read pin k) (map_option Adc_read k)"
| call_kv_read: "host_call (wlh_host_kv_read key k) (map_option Kv_read k)"
| call_kv_write: "host_call (wlh_host_kv_write key v (map_option App k)) (map_option App k)"
| call_kv_erase: "host_call (wlh_host_kv_erase key (map_option App k)) (map_option App k)"
| call_device_info: "host_call (wlh_host_get_device_info k) (map_option Device_info k)"
| call_eth_info: "host_call (wlh_host_eth_get_info k) (map_option Eth_info k)"
| call_user_message:
    "host_call (wlh_host_user_message_send ep mt fl p n (map_option App k)) (map_option App k)"

text \<open>The number of the application's callback.\<close>

fun callback :: "rpc_completion \<Rightarrow> nat" where
  "callback (App k) = k"
| "callback (Bluetooth_info k) = k"
| "callback (Ota_begin k) = k"
| "callback (Ota_query k) = k"
| "callback (Device_info k) = k"
| "callback (Eth_info k) = k"
| "callback (Io_read k) = k"
| "callback (Adc_read k) = k"
| "callback (Kv_read k) = k"

section \<open>The ledger\<close>

locale ledger =
  fixes eff :: "effect \<Rightarrow> int" and cw :: "rpc_completion option \<Rightarrow> int" and bw :: int and rw :: "nat \<Rightarrow> int"
  assumes eff_alloc [simp]: "eff (EAlloc n ok) = (if ok then bw else 0)"
    and eff_free [simp]: "eff EFree = - bw"
    and eff_submit [simp]: "eff (ESubmit f ok) = (if ok then - bw else 0)"
    and eff_post [simp]: "eff (EPost t ok) = (if ok then task_weight cw bw t else 0)"
    and eff_completion [simp]: "eff (ECompletion k r d code p) = cw (Some (App k))"
    and eff_reply [simp]: "eff (EReply k r d code reply) = rw k"
    and eff_neutral [simp]: "eff (EStart ok) = 0" "eff (EStop ok) = 0" "eff (EClock ms) = 0"
      "eff (ELock ok) = 0" "eff (EOsal name ok) = 0" "eff (EOnEvent ev) = 0"
      "eff (EHciRx ty p hr) = 0" "eff EHciTxReady = 0" "eff (EOtaRx tid off p fl hr) = 0"
      "eff EOtaTxReady = 0"
    and cw_none [simp]: "cw None = 0"
    and cw_typed [simp]: "cw (Some (Bluetooth_info k)) = rw k - bw" "cw (Some (Ota_begin k)) = rw k - bw"
      "cw (Some (Ota_query k)) = rw k - bw" "cw (Some (Device_info k)) = rw k - bw"
      "cw (Some (Eth_info k)) = rw k - bw" "cw (Some (Io_read k)) = rw k - bw"
      "cw (Some (Adc_read k)) = rw k - bw" "cw (Some (Kv_read k)) = rw k - bw"
begin

abbreviation bal :: "host \<Rightarrow> int" where
  "bal \<equiv> balance eff cw bw"

abbreviation jw :: "host_job \<Rightarrow> int" where
  "jw \<equiv> job_weight cw bw"

text \<open>The environment.\<close>

lemma alloc_books [books]: "delta bal (buf_alloc n) (\<lambda>ok. if ok then bw else 0)"
  by (rule deltaI, rule wp_buf_alloc) simp

lemma submit_books [books]: "delta bal (submit_tx f) (\<lambda>ok. if ok then - bw else 0)"
  by (rule deltaI, rule wp_submit_tx) simp

lemma post_books [books]:
  "delta bal (executor_post t) (\<lambda>ok. if ok then task_weight cw bw t else 0)"
  by (rule deltaI, rule wp_executor_post) simp

lemma start_books [books]: "delta bal transport_start (\<lambda>_. 0)"
  by (rule deltaI, rule wp_transport_start) simp

lemma stop_books [books]: "delta bal transport_stop (\<lambda>_. 0)"
  by (rule deltaI, rule wp_transport_stop) simp

lemma clock_books [books]: "delta bal now_ms (\<lambda>_. 0)"
  by (rule deltaI, rule wp_now_ms) simp

lemma lock_books [books]: "delta bal mutex_lock_timeout (\<lambda>_. 0)"
  by (rule deltaI, rule wp_mutex_lock_timeout) simp

lemma osal_books [books]: "delta bal (osal_call name f) (\<lambda>_. 0)"
  by (rule deltaI, rule wp_osal_call) simp

lemma give_books [books]: "delta bal semaphore_give (\<lambda>_. 0)"
  by (rule deltaI) (simp add: semaphore_give_def wp_simps)

lemma take_books [books]: "delta bal semaphore_take (\<lambda>_. 0)"
  by (rule deltaI) (simp add: semaphore_take_def wp_simps)

lemma queue_send_books [books]: "delta bal (queue_send job) (\<lambda>ok. if ok then jw job else 0)"
  by (rule deltaI) (simp add: queue_send_def wp_simps)

lemma queue_receive_books [books]:
  "delta bal queue_receive (\<lambda>job. - deferred_weight cw bw job)"
  by (rule deltaI)
    (auto simp: queue_receive_def wp_simps balance_queue_take deferred_weight_def split: list.split)

lemma take_job_books [books]: "delta bal take_job (\<lambda>job. - deferred_weight cw bw job)"
  by (rule deltaI) (auto simp: take_job_def wp_simps deferred_weight_def split: option.split
      intro!: delta_wp [OF queue_receive_books])

text \<open>Completions.\<close>

lemma call_completion_books [books]: "delta bal (call_completion c r d code p) (\<lambda>_. cw (Some c))"
proof (rule deltaI)
  fix s
  show "wp (call_completion c r d code p) (\<lambda>_ t. bal t = bal s + cw (Some c)) s"
    by (cases c) (auto simp: call_completion_def bluetooth_info_completion_def
      ota_begin_completion_def ota_query_completion_def device_info_completion_def
      eth_info_completion_def io_read_completion_def adc_read_completion_def
      kv_read_completion_def wp_simps Let_def split: option.split prod.split
      intro!: books [THEN delta_wp])
qed

lemma dispatch_completion_books [books]:
  "delta bal (dispatch_completion c r d code p) (\<lambda>_. cw c)"
  by (rule deltaI) (auto simp: dispatch_completion_def wp_simps split: option.split if_splits
      intro!: books [THEN delta_wp])

lemma dispatch_event_books [books]: "delta bal (dispatch_event k sv m p) (\<lambda>_. 0)"
  by (rule deltaI) (auto simp: dispatch_event_def wp_simps split: if_splits
      intro!: books [THEN delta_wp])

lemma set_state_books [books]: "delta bal (set_state st) (\<lambda>_. 0)"
  by (rule deltaI) (auto simp: set_state_def wp_simps intro!: books [THEN delta_wp])

lemma run_task_books [books]: "delta bal (run_task t) (\<lambda>_. task_weight cw bw t)"
  by (rule deltaI, cases t) (auto simp: event_task_run_def completion_task_run_def wp_simps
      intro!: books [THEN delta_wp])

text \<open>Sending.\<close>

lemma enqueue_books [books]: "delta bal (enqueue_job job) (\<lambda>ok. if ok then jw job else 0)"
  by (rule deltaI) (auto simp: enqueue_job_def wp_simps gets_def intro!: books [THEN delta_wp])

lemma transport_lost_books [books]: "delta bal wlh_host_transport_lost (\<lambda>_. 0)"
  by (rule deltaI) (auto simp: wlh_host_transport_lost_def wp_simps intro!: books [THEN delta_wp])

lemma tx_complete_books: "delta bal (tx_complete frame status) (\<lambda>_. - bw)"
  by (rule deltaI) (auto simp: tx_complete_def wp_simps Let_def intro!: books [THEN delta_wp])

lemma send_frame_units_books [books]: "delta bal (send_payload_frame_units ch p rsv u) (\<lambda>_. 0)"
  by (rule deltaI) (auto simp: send_payload_frame_units_def wp_simps Let_def
      split: prod.split if_splits intro!: books [THEN delta_wp])

lemma send_frame_books [books]: "delta bal (send_payload_frame ch p rsv) (\<lambda>_. 0)"
  unfolding send_payload_frame_def by (rule books)

lemma send_rpc_books [books]: "delta bal (send_rpc envelope p rsv) (\<lambda>_. 0)"
  by (rule deltaI) (auto simp: send_rpc_def wp_simps Let_def split: prod.split if_splits
      intro!: books [THEN delta_wp])

lemma send_rpc_message_books [books]: "delta bal (send_rpc_message envelope m rsv) (\<lambda>_. 0)"
  by (rule deltaI) (auto simp: send_rpc_message_def wp_simps Let_def
      split: option.split prod.split if_splits intro!: books [THEN delta_wp])

lemma send_credit_update_books [books]: "delta bal (send_credit_update ch u) (\<lambda>_. 0)"
  by (rule deltaI) (auto simp: send_credit_update_def wp_simps intro!: books [THEN delta_wp])

text \<open>Link control.\<close>

lemma cancel_books [books]: "delta bal (cancel_pending r) (\<lambda>_. 0)"
  unfolding cancel_pending_def
proof (rule delta_for_each)
  fix i
  assume "i \<in> set [0..<WLH_HOST_MAX_PENDING]"
  then show "delta bal (do {
      pending \<leftarrow> gets (\<lambda>s. h_pending s i);
      if \<not> p_active pending then ret ()
      else do {
        modify (\<lambda>s. s\<lparr>h_pending := (h_pending s)(i := zero_pending)\<rparr>);
        dispatch_completion (p_completion pending) r WLH_STATUS_DOMAIN_LINK
          (if r = WLH_HOST_TIMEOUT then WLH_STATUS_TIMEOUT else WLH_STATUS_SESSION_CHANGED) []
      }}) (\<lambda>_. 0)"
    by (intro deltaI) (auto simp: wp_simps balance_pending_clear
        intro!: books [THEN delta_wp])
qed

lemma next_request_id_books [books]: "delta bal next_request_id (\<lambda>_. 0)"
  by (rule deltaI) (auto simp: next_request_id_def wp_simps)

lemma send_hello_books [books]: "delta bal send_hello (\<lambda>_. 0)"
  by (rule deltaI) (auto simp: send_hello_def wp_simps Let_def intro!: books [THEN delta_wp])

lemma hello_response_books [books]: "delta bal (handle_hello_response p) (\<lambda>_. 0)"
  by (rule deltaI) (auto simp: handle_hello_response_def reset_ethernet_rx_credits_def wp_simps
      Let_def intro!: books [THEN delta_wp] split: option.splits)

lemma credit_update_books [books]: "delta bal (handle_credit_update p) (\<lambda>_. 0)"
  by (rule deltaI) (auto simp: handle_credit_update_def wp_simps Let_def
      intro!: books [THEN delta_wp] split: option.splits)

lemma heartbeat_books [books]: "delta bal (handle_heartbeat p) (\<lambda>_. 0)"
  by (rule deltaI) (auto simp: handle_heartbeat_def wp_simps
      intro!: books [THEN delta_wp] split: option.splits)

lemma session_changed_books [books]: "delta bal (handle_session_changed p) (\<lambda>_. 0)"
  by (rule deltaI) (auto simp: handle_session_changed_def wp_simps Let_def
      intro!: books [THEN delta_wp] split: option.splits)

lemma link_event_books [books]: "delta bal (handle_link_event envelope p) (\<lambda>_. 0)"
  unfolding handle_link_event_def
  by (intro delta_if books delta_return refl)

lemma request_start_books [books]: "delta bal request_transport_start (\<lambda>_. 0)"
  by (rule deltaI) (auto simp: request_transport_start_def wp_simps intro!: books [THEN delta_wp])

lemma finish_books [books]: "delta bal finish_shutdown (\<lambda>_. 0)"
  by (rule deltaI) (auto simp: finish_shutdown_def wp_simps intro!: books [THEN delta_wp])

lemma process_lost_books [books]: "delta bal process_transport_lost (\<lambda>_. 0)"
  by (rule deltaI) (auto simp: process_transport_lost_def wp_simps intro!: books [THEN delta_wp])

lemma start_complete_books [books]: "delta bal (transport_start_complete st) (\<lambda>_. 0)"
  by (rule deltaI) (auto simp: transport_start_complete_def wp_simps intro!: books [THEN delta_wp])

lemma stop_complete_books [books]: "delta bal (transport_stop_complete st) (\<lambda>_. 0)"
  by (rule deltaI) (auto simp: transport_stop_complete_def wp_simps intro!: books [THEN delta_wp])

text \<open>Requests and deadlines.\<close>

lemma expire_books: "i < WLH_HOST_MAX_PENDING \<Longrightarrow> delta bal (expire_pending current i) (\<lambda>_. 0)"
  by (rule deltaI) (auto simp: expire_pending_def wp_simps balance_pending_clear
      intro!: books [THEN delta_wp])

lemma expire_all_books [books]:
  "delta bal (for_each [0..<WLH_HOST_MAX_PENDING] (expire_pending current)) (\<lambda>_. 0)"
  by (rule delta_for_each) (simp add: expire_books)

lemma deadlines_books [books]: "delta bal process_deadlines (\<lambda>_. 0)"
  by (rule deltaI) (auto simp: process_deadlines_def wp_simps intro!: books [THEN delta_wp])

lemma next_wait_books [books]: "delta bal next_wait_ms (\<lambda>_. 0)"
  by (rule deltaI) (auto simp: next_wait_ms_def wp_simps Let_def intro!: books [THEN delta_wp])

lemma rpc_request_books [books]:
  "delta bal (wlh_host_rpc_request sv m p n tmo c) (\<lambda>(r, _). if r = WLH_HOST_OK then cw c else 0)"
  by (rule deltaI) (auto simp: wlh_host_rpc_request_def wp_simps Let_def
      intro!: books [THEN delta_wp])

lemma message_request_books [books]:
  "delta bal (rpc_message_request sv m msg c) (\<lambda>r. if r = WLH_HOST_OK then cw c else 0)"
  by (rule deltaI) (auto simp: rpc_message_request_def wp_simps Let_def
      split: option.splits prod.splits intro!: books [THEN delta_wp])

lemma allocate_pending_free:
  assumes "allocate_pending s = Some i"
  shows "i < WLH_HOST_MAX_PENDING" and "\<not> p_active (h_pending s i)"
  using assms by (auto simp: allocate_pending_def Let_def find_Some_iff split: if_splits)

lemma process_request_books [books]:
  "delta bal (process_rpc_request job) (\<lambda>r. if r = WLH_HOST_OK then cw (rj_completion job) else 0)"
proof (rule deltaI)
  fix s
  show "wp (process_rpc_request job) (\<lambda>r t. bal t = bal s +
      (if r = WLH_HOST_OK then cw (rj_completion job) else 0)) s"
  proof (cases "allocate_pending s")
    case None
    then show ?thesis
      by (auto simp: process_rpc_request_def wp_simps)
  next
    case (Some i)
    note free = allocate_pending_free [OF Some]
    show ?thesis
      by (auto simp: process_rpc_request_def wp_simps Let_def Some free balance_pending
          pending_weight_cases sending_keeps intro!: wp_now_ms
          sending.rel_delta_wp [OF sends_rpc send_rpc_books])
  qed
qed

text \<open>Receiving.\<close>

lemma hci_deliver_books [books]: "delta bal (hci_deliver records) (\<lambda>_. 0)"
proof (induction records rule: hci_deliver.induct)
  case 1
  then show ?case by (simp add: delta_return)
next
  case (2 ty fl p records)
  note ih = delta_wp [OF "2.IH"]
  show ?case
    by (rule deltaI) (auto simp: wp_simps Let_def split: option.split intro!: ih)
qed

lemma hci_frame_books [books]: "delta bal (process_hci_frame ch p) (\<lambda>_. 0)"
  by (rule deltaI) (auto simp: process_hci_frame_def bluetooth_fault_def wp_simps
      intro!: books [THEN delta_wp])

lemma ota_deliver_books [books]: "delta bal (ota_deliver records) (\<lambda>_. 0)"
proof (induction records rule: ota_deliver.induct)
  case 1
  then show ?case by (simp add: delta_return)
next
  case (2 ty fl p records)
  show ?case
  proof (cases "ty \<noteq> 1 \<or> length p < 16")
    case False
    show ?thesis
      by (rule deltaI) (use False in \<open>auto simp: wp_simps Let_def split: option.split
        intro!: delta_wp [OF "2.IH"]\<close>)
  qed (auto simp: delta_return)
qed

lemma ota_frame_books [books]: "delta bal (process_ota_frame p) (\<lambda>_. 0)"
  unfolding process_ota_frame_def by (rule books)

lemma ethernet_deliver_books [books]: "delta bal (ethernet_deliver ch failed records) (\<lambda>_. 0)"
proof (induction ch failed records rule: ethernet_deliver.induct)
  case (1 ch failed)
  then show ?case by (simp add: delta_return)
next
  case (2 ch failed ty fl p records)
  show ?case
  proof (cases "ty = 1")
    case True
    show ?thesis
      by (rule deltaI) (use True in \<open>auto simp: wp_simps
        intro!: books [THEN delta_wp] delta_wp [OF "2.IH"(2)]\<close>)
  next
    case False
    then show ?thesis
      using "2.IH"(1) by simp
  qed
qed

lemma accumulate_books [books]: "delta bal (accumulate_ethernet_rx_credit ch u) (\<lambda>_. 0)"
  by (rule deltaI) (auto simp: accumulate_ethernet_rx_credit_def wp_simps Let_def
      intro!: books [THEN delta_wp])

lemma ethernet_frame_books [books]: "delta bal (process_ethernet_frame ch p) (\<lambda>_. 0)"
  by (rule deltaI) (auto simp: process_ethernet_frame_def wp_simps Let_def split: prod.splits
      intro!: books [THEN delta_wp])

lemma flush_loop_books [books]: "delta bal (flush_credit_loop due retry chs) (\<lambda>_. 0)"
proof (induction chs arbitrary: due retry)
  case Nil
  then show ?case by (simp add: delta_return)
next
  case (Cons ch chs)
  show ?case
    by (cases ch, rule deltaI)
      (auto simp: wp_simps intro!: books [THEN delta_wp] Cons [THEN delta_wp])
qed

lemma flush_books [books]: "delta bal flush_ethernet_rx_credits (\<lambda>_. 0)"
  by (rule deltaI) (auto simp: flush_ethernet_rx_credits_def wp_simps Let_def
      intro!: books [THEN delta_wp])

lemma find_pending_active:
  assumes "find_pending s envelope = Some i"
  shows "i < WLH_HOST_MAX_PENDING" and "p_active (h_pending s i)"
  using assms by (auto simp: find_pending_def Let_def find_Some_iff)

lemma response_books [books]: "delta bal (process_rpc_response envelope p) (\<lambda>_. 0)"
proof (rule deltaI)
  fix s
  show "wp (process_rpc_response envelope p) (\<lambda>_ t. bal t = bal s + 0) s"
  proof (cases "find_pending s envelope")
    case (Some i)
    note found = find_pending_active [OF Some]
    show ?thesis
      by (auto simp: process_rpc_response_def wp_simps Let_def Some found balance_pending_clear
          intro!: books [THEN delta_wp])
  qed (simp add: process_rpc_response_def wp_simps)
qed

lemma service_event_books [books]:
  "delta bal (process_bluetooth_state_event envelope p) (\<lambda>_. 0)"
  "delta bal (process_eth_link_event envelope p) (\<lambda>_. 0)"
  by (rule deltaI, auto simp: process_bluetooth_state_event_def process_eth_link_event_def wp_simps
      split: option.split intro!: books [THEN delta_wp])+

lemma rpc_message_books [books]: "delta bal (process_rpc_message envelope p) (\<lambda>_. 0)"
  unfolding process_rpc_message_def Let_def
  by (intro delta_get_bind delta_if delta_seq books delta_return refl)

lemma control_frame_books [books]: "delta bal (process_control_frame ch p) (\<lambda>_. 0)"
  by (rule deltaI) (auto simp: process_control_frame_def wp_simps Let_def split: prod.split
      intro!: books [THEN delta_wp])

lemma mismatch_books [books]: "delta bal session_mismatch (\<lambda>_. 0)"
  by (rule deltaI) (auto simp: session_mismatch_def wp_simps intro!: books [THEN delta_wp])

lemma note_frame_books [books]: "delta bal (note_frame header) (\<lambda>_. 0)"
  by (rule deltaI) (auto simp: note_frame_def wp_simps intro!: books [THEN delta_wp])

lemma process_frame_books [books]: "delta bal (process_frame frame) (\<lambda>_. 0)"
  by (rule deltaI) (auto simp: process_frame_def wp_simps Let_def split: prod.split
      intro!: books [THEN delta_wp])

lemma on_frame_books [books]: "delta bal (wlh_host_on_frame frame) (\<lambda>_. 0)"
  by (rule deltaI) (auto simp: wlh_host_on_frame_def wp_simps intro!: books [THEN delta_wp])

text \<open>The worker.\<close>

lemma grow_books [books]: "delta bal (grow_job n data) (\<lambda>_. 0)"
  by (rule deltaI) (auto simp: grow_job_def wp_simps intro!: books [THEN delta_wp])

lemma aggregate_books [books]: "delta bal (aggregate_loop fuel cap data units) (\<lambda>_. 0)"
proof (induction fuel arbitrary: data units)
  case 0
  then show ?case by (simp add: delta_return)
next
  case (Suc fuel)
  show ?case
  proof (rule deltaI)
    fix s
    show "wp (aggregate_loop (Suc fuel) cap data units) (\<lambda>_ t. bal t = bal s + 0) s"
    proof (cases "h_core_queue s")
      case Nil
      then show ?thesis
        by (auto simp: queue_receive_def wp_simps)
    next
      case (Cons job jobs)
      show ?thesis
        by (cases job) (auto simp: queue_receive_def wp_simps Cons balance_queue_take Let_def
            reporting_keeps split: option.split
            intro!: reporting.rel_delta_wp [OF reports_grow_job grow_books]
              give_books [THEN delta_wp] Suc [THEN delta_wp])
    qed
  qed
qed

lemma aggregate_jobs_books [books]: "delta bal (aggregate_ethernet_jobs data) (\<lambda>_. 0)"
  by (rule deltaI) (auto simp: aggregate_ethernet_jobs_def wp_simps Let_def
      intro!: books [THEN delta_wp])

lemma ethernet_job_books [books]: "delta bal (ethernet_tx_job data) (\<lambda>_. - bw)"
  by (rule deltaI) (auto simp: ethernet_tx_job_def wp_simps Let_def intro!: books [THEN delta_wp])

lemma run_job_books [books]: "delta bal (run_job job) (\<lambda>_. jw job)"
  by (rule deltaI, cases job) (auto simp: run_job_def transport_started_job_def wp_simps
      intro!: books [THEN delta_wp])

lemma worker_turn_books: "delta bal worker_turn (\<lambda>_. 0)"
  by (rule deltaI) (auto simp: worker_turn_def wp_simps deferred_weight_def split: option.split
      intro!: books [THEN delta_wp])

lemma worker_start_books: "delta bal worker_start (\<lambda>_. 0)"
  unfolding worker_start_def by (rule books)

lemma worker_exit_books: "delta bal worker_exit (\<lambda>_. 0)"
  by (rule deltaI) (auto simp: worker_exit_def wp_simps intro!: books [THEN delta_wp])

lemma stop_request_books: "delta bal wlh_host_stop_request (\<lambda>_. 0)"
  by (rule deltaI) (auto simp: wlh_host_stop_request_def wp_simps intro!: books [THEN delta_wp])

text \<open>The application's calls.\<close>

lemma ethernet_send_books: "delta bal (ethernet_send ch frame) (\<lambda>_. 0)"
  by (rule deltaI) (auto simp: ethernet_send_def wp_simps Let_def split: option.split prod.split
      intro!: books [THEN delta_wp])

lemma hci_send_books: "delta bal (wlh_host_bluetooth_hci_send ty packet) (\<lambda>_. 0)"
  by (rule deltaI) (auto simp: wlh_host_bluetooth_hci_send_def bluetooth_release_inflight_def
      wp_simps Let_def split: option.split prod.split intro!: books [THEN delta_wp])

lemma ota_send_books: "delta bal (wlh_host_ota_stream_send tid off data) (\<lambda>_. 0)"
  by (rule deltaI) (auto simp: wlh_host_ota_stream_send_def ota_release_inflight_def
      wp_simps Let_def split: option.split prod.split intro!: books [THEN delta_wp])

text \<open>A request object travels with its completion, so a typed request also adds the object.\<close>

lemma typed_books:
  assumes "delta bal request (\<lambda>r. if r = WLH_HOST_OK then w - bw else 0)"
  shows "delta bal (typed_request request) (\<lambda>r. if r = WLH_HOST_OK then w else 0)"
  by (rule deltaI) (auto simp: typed_request_def wp_simps intro!: books [THEN delta_wp]
      assms [THEN delta_wp])

lemma with_message_books:
  assumes "delta bal request (\<lambda>r. if r = WLH_HOST_OK then w else 0)"
  shows "delta bal (with_message request) (\<lambda>r. if r = WLH_HOST_OK then w else 0)"
  by (rule deltaI) (auto simp: with_message_def wp_simps intro!: books [THEN delta_wp]
      assms [THEN delta_wp])

lemma checked_books [books]: "delta bal bluetooth_check_supported (\<lambda>_. 0)"
  "delta bal ota_check_supported (\<lambda>_. 0)"
  by (rule deltaI, simp add: bluetooth_check_supported_def ota_check_supported_def wp_simps)+

lemma service_request_books [books]:
  "delta bal (bluetooth_request m msg c) (\<lambda>r. if r = WLH_HOST_OK then cw c else 0)"
  "delta bal (ota_request m msg c) (\<lambda>r. if r = WLH_HOST_OK then cw c else 0)"
  by (rule deltaI, auto simp: bluetooth_request_def ota_request_def wp_simps
      intro!: books [THEN delta_wp])+

lemma typed_message_books:
  assumes "cw (Some c) = w - bw"
  shows "delta bal (typed_request (rpc_message_request sv m msg (Some c)))
      (\<lambda>r. if r = WLH_HOST_OK then w else 0)"
    and "delta bal (typed_request (ota_request m msg (Some c)))
      (\<lambda>r. if r = WLH_HOST_OK then w else 0)"
    and "delta bal (typed_request (with_message (rpc_message_request sv m msg (Some c))))
      (\<lambda>r. if r = WLH_HOST_OK then w else 0)"
    and "delta bal (typed_request (with_message (ota_request m msg (Some c))))
      (\<lambda>r. if r = WLH_HOST_OK then w else 0)"
  using message_request_books [of sv m msg "Some c"] service_request_books(2) [of m msg "Some c"]
  unfolding assms by (auto intro!: typed_books with_message_books)

lemmas typed_requests = cw_typed [THEN typed_message_books(1)] cw_typed [THEN typed_message_books(2)]
  cw_typed [THEN typed_message_books(3)] cw_typed [THEN typed_message_books(4)]

lemma rpc_call_books [books]:
  "delta bal (rpc_request_call sv m p n tmo c) (\<lambda>r. if r = WLH_HOST_OK then cw c else 0)"
  by (rule deltaI) (auto simp: rpc_request_call_def wp_simps split: prod.splits
      intro!: books [THEN delta_wp])

lemma message_books [books]:
  "delta bal (with_message (rpc_message_request sv m msg c))
    (\<lambda>r. if r = WLH_HOST_OK then cw c else 0)"
  by (intro with_message_books books)

definition call_weight :: "rpc_completion option \<Rightarrow> int" where
  "call_weight c = (case c of None \<Rightarrow> 0 | Some c \<Rightarrow> rw (callback c))"

lemma call_weight_simps [simp]:
  "call_weight None = 0" "call_weight (Some c) = rw (callback c)"
  by (simp_all add: call_weight_def)

lemma host_call_books:
  assumes "host_call m c" and app: "\<And>k. cw (Some (App k)) = rw k"
  shows "delta bal m (\<lambda>r. if r = WLH_HOST_OK then call_weight c else 0)"
proof -
  have none: "cw (map_option App k) = call_weight (map_option App k)" for k
    by (cases k) (simp_all add: app)
  show ?thesis
    by (rule deltaI) (use assms(1) in \<open>cases rule: host_call.cases; auto simp: none wp_simps
      wlh_host_ethernet_sta_send_def wlh_host_ethernet_ap_send_def wlh_host_ethernet_eth_send_def
      wlh_host_bluetooth_initialize_def wlh_host_bluetooth_enable_def
      wlh_host_bluetooth_disable_def wlh_host_bluetooth_deinitialize_def
      wlh_host_bluetooth_get_info_def wlh_host_ota_begin_def wlh_host_ota_finalize_def
      wlh_host_ota_abort_def wlh_host_ota_activate_def wlh_host_ota_query_def wifi_request_def
      wlh_host_wifi_initialize_def wlh_host_wifi_scan_def wlh_host_wifi_connect_def
      wlh_host_wifi_disconnect_def wlh_host_wifi_start_ap_def wlh_host_wifi_stop_ap_def
      wlh_host_io_configure_def wlh_host_io_read_def wlh_host_io_write_def wlh_host_adc_read_def
      wlh_host_kv_read_def wlh_host_kv_write_def wlh_host_kv_erase_def
      wlh_host_get_device_info_def wlh_host_eth_get_info_def wlh_host_user_message_send_def
      split: option.split
      intro!: ethernet_send_books [THEN delta_wp] hci_send_books [THEN delta_wp]
        ota_send_books [THEN delta_wp] typed_requests [THEN delta_wp] books [THEN delta_wp]\<close>)
qed

end

section \<open>Two ledgers\<close>

text \<open>Buffers: an allocation counts one, a release, a submission and a posted task pass one on.
  A completion of a service client owns its request object.\<close>

definition request_object :: "rpc_completion option \<Rightarrow> nat" where
  "request_object c = (case c of None \<Rightarrow> 0 | Some (App _) \<Rightarrow> 0 | Some _ \<Rightarrow> 1)"

definition buffer_cw :: "rpc_completion option \<Rightarrow> int" where
  "buffer_cw c = - int (request_object c)"

definition buffer_eff :: "effect \<Rightarrow> int" where
  "buffer_eff e = (case e of
      EAlloc _ ok \<Rightarrow> (if ok then 1 else 0)
    | EFree \<Rightarrow> - 1
    | ESubmit _ ok \<Rightarrow> (if ok then - 1 else 0)
    | EPost t ok \<Rightarrow> (if ok then task_weight buffer_cw 1 t else 0)
    | _ \<Rightarrow> 0)"

interpretation buffer_ledger: ledger buffer_eff buffer_cw 1 "\<lambda>_. 0"
  by unfold_locales (simp_all add: buffer_eff_def buffer_cw_def request_object_def)

text \<open>Requests: calling the application's callback \<open>k\<close> counts one, whichever typed completion
  calls it.\<close>

definition is_callback :: "nat \<Rightarrow> rpc_completion option \<Rightarrow> nat" where
  "is_callback k c = (case c of None \<Rightarrow> 0 | Some c \<Rightarrow> if callback c = k then 1 else 0)"

definition request_cw :: "nat \<Rightarrow> rpc_completion option \<Rightarrow> int" where
  "request_cw k c = int (is_callback k c)"

definition request_eff :: "nat \<Rightarrow> effect \<Rightarrow> int" where
  "request_eff k e = (case e of
      ECompletion n _ _ _ _ \<Rightarrow> (if n = k then 1 else 0)
    | EReply n _ _ _ _ \<Rightarrow> (if n = k then 1 else 0)
    | EPost t ok \<Rightarrow> (if ok then task_weight (request_cw k) 0 t else 0)
    | _ \<Rightarrow> 0)"

interpretation request_ledger: ledger "request_eff k" "request_cw k" 0 "\<lambda>n. if n = k then 1 else 0" for k
  by unfold_locales (simp_all add: request_eff_def request_cw_def is_callback_def)

end
