(* ===== verification/Host_Trace.thy ===== *)
theory Host_Trace
  imports Host_Ledger
begin

text \<open>
  Relations that every operation of the host core obeys. The locale \<open>core_ops\<close> asks of a preorder
  on host states that it does not look at the fields other than the configuration, the send
  sequence numbers, the queue with the deferred job, the Ethernet slots and the trace; that an
  outside call other than a submission is allowed; that sending on a channel that is not Ethernet
  and queueing a job for one are; and that a transport reset is. Everything the core does outside
  the Ethernet sender then obeys it. \<open>core_relation\<close> adds what the Ethernet sender does. Three relations are shown this way: the run only grows and the
  configuration stays; the sequence numbers of each channel are consecutive; every submitted frame
  is well formed.
\<close>

text \<open>Jobs whose data, if any, does not go out on an Ethernet channel.\<close>

fun plain_job :: "host_job \<Rightarrow> bool" where
  "plain_job (JOB_ETHERNET_TX _) = False"
| "plain_job (JOB_BLUETOOTH_TX data) = (\<not> is_ethernet_channel (dj_channel data))"
| "plain_job (JOB_OTA_TX data) = (\<not> is_ethernet_channel (dj_channel data))"
| "plain_job _ = True"

locale core_ops = state_rel R for R :: "host \<Rightarrow> host \<Rightarrow> bool" +
  assumes quiet: "h_config t = h_config s \<Longrightarrow> h_pb t = h_pb s \<Longrightarrow>
      h_tx_sequence t = h_tx_sequence s \<Longrightarrow> h_core_queue t = h_core_queue s \<Longrightarrow>
      h_deferred_job t = h_deferred_job s \<Longrightarrow> h_ethernet_tx_slots t = h_ethernet_tx_slots s \<Longrightarrow>
      trace t = trace s \<Longrightarrow> R s t"
    and call: "\<not> is_submit e \<Longrightarrow> R s (s\<lparr>trace := e # trace s\<rparr>)"
    and sent_plain: "\<not> is_ethernet_channel ch \<Longrightarrow>
      state_io_rel R (send_payload_frame_units ch p rsv u)"
    and queued_plain: "plain_job job \<Longrightarrow> state_io_rel R (queue_send job)"
    and reset: "no_submit es \<Longrightarrow> R s (s\<lparr>h_tx_sequence := (\<lambda>_. 0), trace := EStop ok # es @ trace s\<rparr>)"
begin

lemma quiet_update:
  "(\<And>s. h_config (f s) = h_config s \<and> h_pb (f s) = h_pb s \<and>
    h_tx_sequence (f s) = h_tx_sequence s \<and> h_core_queue (f s) = h_core_queue s \<and>
    h_deferred_job (f s) = h_deferred_job s \<and> h_ethernet_tx_slots (f s) = h_ethernet_tx_slots s \<and>
    trace (f s) = trace s) \<Longrightarrow> state_io_rel R (modify f)"
  by (rule rel_update) (simp add: quiet)

lemma emit_rel: "\<not> is_submit e \<Longrightarrow> state_io_rel R (emit e)"
  by (rule rel_wpI) (simp add: wp_simps call)

lemma diag_rel: "state_io_rel R (diag f)"
  unfolding diag_def by (rule quiet_update) simp

lemma env_rel:
  "state_io_rel R buf_free" "state_io_rel R (buf_alloc n)" "state_io_rel R (executor_post t)"
  "state_io_rel R transport_start" "state_io_rel R transport_stop" "state_io_rel R now_ms"
  "state_io_rel R mutex_lock_timeout" "state_io_rel R (osal_call name g)"
  "state_io_rel R (osal_destroy name)"
  by (rule rel_wpI, (rule wp_env)?, simp add: wp_simps osal_destroy_def call)+

lemmas prims = emit_rel diag_rel env_rel quiet_update rel_rules

lemma completion_rel: "state_io_rel R (call_completion c r d code p)"
  by (cases c) (simp_all only: call_completion_def bluetooth_info_completion_def
      ota_begin_completion_def ota_query_completion_def device_info_completion_def
      eth_info_completion_def io_read_completion_def adc_read_completion_def
      kv_read_completion_def rpc_completion.case, (intro prims; simp)+)

lemma dispatch_rel:
  "state_io_rel R (dispatch_completion c r d code p)" "state_io_rel R (dispatch_event k sv m ep)"
  unfolding dispatch_completion_def dispatch_event_def
  by (intro prims completion_rel; simp)+

lemma set_state_rel: "state_io_rel R (set_state st)"
  unfolding set_state_def by (intro prims dispatch_rel; simp)

lemma run_task_rel: "state_io_rel R (run_task t)"
  by (cases t) (simp_all add: event_task_run_def completion_task_run_def,
      (intro prims completion_rel; simp)+)

lemma enqueue_rel: "plain_job job \<Longrightarrow> state_io_rel R (enqueue_job job)"
  unfolding enqueue_job_def by (intro prims queued_plain)

lemma transport_lost_rel: "state_io_rel R wlh_host_transport_lost"
  unfolding wlh_host_transport_lost_def by (intro prims enqueue_rel; simp)

lemma control_channels: "\<not> is_ethernet_channel (rpc_channel envelope)"
  by (simp add: is_ethernet_channel_def rpc_channel_def id_consts)

lemma send_frame_rel: "\<not> is_ethernet_channel ch \<Longrightarrow> state_io_rel R (send_payload_frame ch p rsv)"
  unfolding send_payload_frame_def by (rule sent_plain)

lemma send_rel:
  "state_io_rel R (send_rpc envelope p rsv)" "state_io_rel R (send_rpc_message envelope msg rsv)"
  "state_io_rel R (send_credit_update ch u)"
proof -
  show rpc: "state_io_rel R (send_rpc envelope p rsv)" for envelope p rsv
    unfolding send_rpc_def Let_def by (intro prims send_frame_rel control_channels)
  show message: "state_io_rel R (send_rpc_message envelope msg rsv)" for envelope msg rsv
    unfolding send_rpc_message_def by (intro prims rpc)
  show "state_io_rel R (send_credit_update ch u)"
    unfolding send_credit_update_def by (intro prims message)
qed

lemma cancel_rel: "state_io_rel R (cancel_pending r)"
  unfolding cancel_pending_def by (intro prims dispatch_rel; simp)

lemma next_id_rel: "state_io_rel R next_request_id"
  unfolding next_request_id_def by (intro prims; simp)

lemma hello_rel: "state_io_rel R send_hello"
  unfolding send_hello_def by (intro prims send_rel set_state_rel next_id_rel)

lemma hello_response_rel: "state_io_rel R (handle_hello_response p)"
  unfolding handle_hello_response_def reset_ethernet_rx_credits_def
  by (intro prims set_state_rel; simp)

lemma link_event_rel: "state_io_rel R (handle_link_event envelope p)"
  unfolding handle_link_event_def handle_credit_update_def handle_heartbeat_def
    handle_session_changed_def clear_session_services_def
  by (intro prims set_state_rel cancel_rel hello_rel; simp)

lemma lifecycle_rel:
  "state_io_rel R (transport_start_complete st)" "state_io_rel R (transport_stop_complete st)"
  "state_io_rel R request_transport_start" "state_io_rel R finish_shutdown"
  unfolding transport_start_complete_def transport_stop_complete_def request_transport_start_def
    finish_shutdown_def
  by (intro prims enqueue_rel set_state_rel; simp)+

lemma reset_tail_rel:
  "state_io_rel R (do {
    modify (\<lambda>s. clear_session_services (s\<lparr>h_session_id := 0, h_tx_credit := (\<lambda>_. 0),
      h_tx_sequence := (\<lambda>_. 0), h_rx_sequence_valid := (\<lambda>_. False)\<rparr>));
    set_state STATE_RECOVERING;
    accepted \<leftarrow> transport_stop;
    whenM (\<not> accepted) (set_state STATE_FAILED)
  })" (is "state_io_rel R ?m")
proof (rule rel_wpI)
  fix s
  define s1 where "s1 = clear_session_services (s\<lparr>h_session_id := 0, h_tx_credit := (\<lambda>_. 0),
      h_tx_sequence := (\<lambda>_. 0), h_rx_sequence_valid := (\<lambda>_. False)\<rparr>)"
  have step: "R s (t\<lparr>trace := EStop ok # trace t\<rparr>)" if "reporting s1 t" for t ok
  proof -
    from that obtain st d es where es: "no_submit es"
      and t: "t = s1\<lparr>h_state := st, h_diagnostics := d, trace := es @ trace s1\<rparr>"
      by (auto simp: reporting_def)
    show ?thesis
      by (rule R_trans [OF reset [OF es, of s ok] quiet])
        (simp_all add: t s1_def clear_session_services_def)
  qed
  show "wp ?m (\<lambda>_ t. R s t) s"
    unfolding wp_simps s1_def [symmetric] wp_whenM
    by (rule reporting.rel_wp [OF reports_set_state], rule wp_transport_stop)
      (auto intro: step R_trans [OF step] rel_wp [OF set_state_rel])
qed

lemma process_lost_rel: "state_io_rel R process_transport_lost"
  unfolding process_transport_lost_def
  by (intro rel_bind rel_if rel_gets rel_return diag_rel cancel_rel reset_tail_rel)

text \<open>Requests, receiving, the worker.\<close>

lemma deadlines_rel: "state_io_rel R process_deadlines"
  unfolding process_deadlines_def expire_pending_def
  by (intro prims dispatch_rel cancel_rel process_lost_rel; simp)

lemma next_wait_rel: "state_io_rel R next_wait_ms"
  unfolding next_wait_ms_def by (intro prims)

lemma rpc_rel:
  "state_io_rel R (wlh_host_rpc_request sv m p n tmo c)"
  "state_io_rel R (rpc_message_request sv m msg c)"
  "state_io_rel R (process_rpc_request job)"
proof -
  show request: "state_io_rel R (wlh_host_rpc_request sv m p n tmo c)" for sv m p n tmo c
    unfolding wlh_host_rpc_request_def by (intro prims enqueue_rel next_id_rel; simp)
  show "state_io_rel R (rpc_message_request sv m msg c)"
    unfolding rpc_message_request_def by (intro prims request)
  show "state_io_rel R (process_rpc_request job)"
    unfolding process_rpc_request_def by (intro prims send_rel; simp)
qed

lemma hci_rel: "state_io_rel R (process_hci_frame ch p)"
proof -
  have deliver: "state_io_rel R (hci_deliver records)" for records
  proof (induction records)
    case (Cons rec records)
    show ?case
      by (cases rec) (simp, (intro prims Cons; simp))
  qed (simp add: rel_return)
  show ?thesis
    unfolding process_hci_frame_def bluetooth_fault_def
    by (intro prims deliver send_rel dispatch_rel; simp)
qed

lemma ota_rel: "state_io_rel R (process_ota_frame p)"
proof -
  have "state_io_rel R (ota_deliver records)" for records
  proof (induction records)
    case (Cons rec records)
    show ?case
      by (cases rec) (simp, (intro conjI impI prims Cons; simp))
  qed (simp add: rel_return)
  then show ?thesis
    unfolding process_ota_frame_def .
qed

lemma ethernet_rel: "state_io_rel R (process_ethernet_frame ch p)"
proof -
  have deliver: "state_io_rel R (ethernet_deliver ch failed records)" for ch failed records
  proof (induction records arbitrary: failed)
    case (Cons rec records)
    show ?case
      by (cases rec) (simp, intro conjI impI prims dispatch_rel Cons)
  qed (simp add: rel_return)
  show ?thesis
    unfolding process_ethernet_frame_def accumulate_ethernet_rx_credit_def
    by (intro prims deliver; simp)
qed

lemma flush_rel: "state_io_rel R flush_ethernet_rx_credits"
proof -
  have loop: "state_io_rel R (flush_credit_loop due retry chs)" for due retry chs
  proof (induction chs arbitrary: due retry)
    case (Cons ch chs)
    show ?case
      by (cases ch) (simp del: de_Morgan_conj, (intro prims send_rel Cons; simp))
  qed (simp add: rel_return)
  show ?thesis
    unfolding flush_ethernet_rx_credits_def by (intro prims loop; simp)
qed

lemma control_rel: "state_io_rel R (process_control_frame ch p)"
  unfolding process_control_frame_def process_rpc_message_def process_rpc_response_def
    process_bluetooth_state_event_def process_eth_link_event_def
  by (intro prims send_rel set_state_rel hello_response_rel link_event_rel dispatch_rel; simp)

lemma frame_rel: "state_io_rel R (process_frame frame)"
  unfolding process_frame_def session_mismatch_def note_frame_def clear_session_services_def
  by (intro prims dispatch_rel cancel_rel set_state_rel hello_rel hci_rel ota_rel ethernet_rel
      control_rel; simp)

lemma on_frame_rel: "state_io_rel R (wlh_host_on_frame frame)"
  unfolding wlh_host_on_frame_def by (intro prims enqueue_rel; simp)

lemma run_plain_job_rel: "plain_job job \<Longrightarrow> state_io_rel R (run_job job)"
  by (cases job) (simp_all add: run_job_def transport_started_job_def,
      (intro prims set_state_rel cancel_rel lifecycle_rel frame_rel rpc_rel dispatch_rel
        send_frame_rel process_lost_rel hello_rel; simp)+)

lemma worker_start_rel: "state_io_rel R worker_start"
  unfolding worker_start_def by (rule lifecycle_rel)

lemma worker_exit_rel: "state_io_rel R worker_exit"
  unfolding worker_exit_def by (intro prims lifecycle_rel)

lemma stop_request_rel: "state_io_rel R wlh_host_stop_request"
  unfolding wlh_host_stop_request_def by (intro prims enqueue_rel; simp)

text \<open>The application's calls.\<close>

lemma stream_send_rel:
  "state_io_rel R (wlh_host_bluetooth_hci_send ty packet)"
  "state_io_rel R (wlh_host_ota_stream_send tid off data)"
  unfolding wlh_host_bluetooth_hci_send_def wlh_host_ota_stream_send_def
    bluetooth_release_inflight_def ota_release_inflight_def
  by (intro prims enqueue_rel; simp add: is_ethernet_channel_def id_consts)+

lemma request_rel:
  "state_io_rel R (rpc_request_call sv m p n tmo c)" "state_io_rel R (bluetooth_request m msg c)"
  "state_io_rel R (ota_request m msg c)" "state_io_rel R bluetooth_check_supported"
  "state_io_rel R ota_check_supported"
  unfolding rpc_request_call_def bluetooth_request_def ota_request_def
    bluetooth_check_supported_def ota_check_supported_def
  by (intro prims rpc_rel)+

lemma wrapped_rel:
  "state_io_rel R m \<Longrightarrow> state_io_rel R (typed_request m)"
  "state_io_rel R m \<Longrightarrow> state_io_rel R (with_message m)"
  unfolding typed_request_def with_message_def by (intro prims; simp)+

lemma host_call_rel:
  assumes "host_call m c"
    and ethernet: "\<And>frame ch. is_ethernet_channel ch \<Longrightarrow> state_io_rel R (ethernet_send ch frame)"
  shows "state_io_rel R m"
  using assms(1)
  by (induction rule: host_call.induct)
    (unfold wlh_host_ethernet_sta_send_def wlh_host_ethernet_ap_send_def wlh_host_ethernet_eth_send_def
      wlh_host_bluetooth_initialize_def wlh_host_bluetooth_enable_def
      wlh_host_bluetooth_disable_def wlh_host_bluetooth_deinitialize_def
      wlh_host_bluetooth_get_info_def wlh_host_ota_begin_def wlh_host_ota_finalize_def
      wlh_host_ota_abort_def wlh_host_ota_activate_def wlh_host_ota_query_def wifi_request_def
      wlh_host_wifi_initialize_def wlh_host_wifi_scan_def wlh_host_wifi_connect_def
      wlh_host_wifi_disconnect_def wlh_host_wifi_start_ap_def wlh_host_wifi_stop_ap_def
      wlh_host_io_configure_def wlh_host_io_read_def wlh_host_io_write_def wlh_host_adc_read_def
      wlh_host_kv_read_def wlh_host_kv_write_def wlh_host_kv_erase_def
      wlh_host_get_device_info_def wlh_host_eth_get_info_def wlh_host_user_message_send_def,
      (intro prims on_frame_rel stream_send_rel request_rel rpc_rel wrapped_rel ethernet;
        simp add: is_ethernet_channel_def)+)

end

section \<open>Relations of the whole core\<close>

text \<open>A relation that does not look at the slots and the deferred job either, and that sending to and
  receiving from the queue obey.\<close>

locale core_relation = state_rel R for R :: "host \<Rightarrow> host \<Rightarrow> bool" +
  assumes silent: "h_config t = h_config s \<Longrightarrow> h_pb t = h_pb s \<Longrightarrow>
      h_tx_sequence t = h_tx_sequence s \<Longrightarrow> h_core_queue t = h_core_queue s \<Longrightarrow>
      trace t = trace s \<Longrightarrow> R s t"
    and called: "\<not> is_submit e \<Longrightarrow> R s (s\<lparr>trace := e # trace s\<rparr>)"
    and sent: "state_io_rel R (send_payload_frame_units ch p rsv u)"
    and restarted: "no_submit es \<Longrightarrow> R s (s\<lparr>h_tx_sequence := (\<lambda>_. 0), trace := EStop ok # es @ trace s\<rparr>)"
    and queued: "length (h_core_queue s) < unat (cfg_core_queue_depth (h_config s)) \<Longrightarrow>
      R s (s\<lparr>h_core_queue := h_core_queue s @ [job]\<rparr>)"
    and received: "h_core_queue s = job # jobs \<Longrightarrow> R s (s\<lparr>h_core_queue := jobs\<rparr>)"
    and emptied: "R s (s\<lparr>h_core_queue := []\<rparr>)"
begin

lemma queue_rel: "state_io_rel R (queue_send job)" "state_io_rel R queue_receive"
proof -
  show "state_io_rel R (queue_send job)"
    by (rule rel_wpI) (simp add: queue_send_def wp_simps R_refl queued)
  show "state_io_rel R queue_receive"
  proof (rule rel_wpI)
    fix s
    show "wp queue_receive (\<lambda>_ t. R s t) s"
      by (cases "h_core_queue s") (simp_all add: queue_receive_def wp_simps R_refl received)
  qed
qed

end

sublocale core_relation \<subseteq> core_ops R
  by unfold_locales (auto intro: silent called sent restarted queue_rel)

context core_relation
begin

lemma silent_update:
  "(\<And>s. h_config (f s) = h_config s \<and> h_pb (f s) = h_pb s \<and>
    h_tx_sequence (f s) = h_tx_sequence s \<and> h_core_queue (f s) = h_core_queue s \<and>
    trace (f s) = trace s) \<Longrightarrow> state_io_rel R (modify f)"
  by (rule rel_update) (simp add: silent)

lemma emptied_update: "state_io_rel R (modify (\<lambda>s. s\<lparr>h_core_queue := []\<rparr>))"
  by (rule rel_update) (rule emptied)

lemma semaphore_rel: "state_io_rel R semaphore_give" "state_io_rel R semaphore_take"
  unfolding semaphore_give_def semaphore_take_def by (intro rel_rules silent_update; simp)+

lemma enqueue_any_rel: "state_io_rel R (enqueue_job job)"
  unfolding enqueue_job_def by (intro prims queue_rel)

lemma tx_complete_rel: "state_io_rel R (tx_complete frame status)"
  unfolding tx_complete_def by (intro prims transport_lost_rel semaphore_rel)

lemma aggregate_rel: "state_io_rel R (aggregate_ethernet_jobs data)"
proof -
  have grow: "state_io_rel R (grow_job n data)" for n data
    unfolding grow_job_def by (intro prims)
  have loop: "state_io_rel R (aggregate_loop fuel cap data units)" for fuel cap data units
  proof (induction fuel arbitrary: data units)
    case (Suc fuel)
    show ?case
      unfolding aggregate_loop.simps
      by (intro rel_bind rel_get rel_if rel_return queue_rel)
        (auto split: option.split host_job.split intro!: prims silent_update semaphore_rel grow Suc)
  qed (simp add: rel_return)
  show ?thesis
    unfolding aggregate_ethernet_jobs_def by (intro prims loop)
qed

lemma run_job_rel: "state_io_rel R (run_job job)"
proof (cases job)
  case (JOB_ETHERNET_TX data)
  show ?thesis
    unfolding JOB_ETHERNET_TX run_job_def host_job.case ethernet_tx_job_def
    by (intro prims aggregate_rel sent semaphore_rel; simp)
next
  case (JOB_BLUETOOTH_TX data)
  show ?thesis
    unfolding JOB_BLUETOOTH_TX run_job_def host_job.case send_payload_frame_def
    by (intro prims sent; simp)
next
  case (JOB_OTA_TX data)
  show ?thesis
    unfolding JOB_OTA_TX run_job_def host_job.case send_payload_frame_def
    by (intro prims sent; simp)
qed (use run_plain_job_rel [of job] in simp_all)

lemma worker_rel:
  "state_io_rel R worker_turn" "state_io_rel R wlh_host_stop_join" "state_io_rel R wlh_host_start"
  unfolding worker_turn_def wlh_host_stop_join_def wlh_host_start_def take_job_def
  by (intro emptied_update prims silent_update queue_rel deadlines_rel flush_rel next_wait_rel run_job_rel; simp)+

lemma ethernet_send_rel: "state_io_rel R (ethernet_send ch frame)"
  unfolding ethernet_send_def
  by (intro prims semaphore_rel enqueue_any_rel; simp)

lemma call_rel: "host_call m c \<Longrightarrow> state_io_rel R m"
  by (erule host_call_rel) (rule ethernet_send_rel)

end

section \<open>What sending does\<close>

definition out_header :: "host \<Rightarrow> u8 \<Rightarrow> frame_header" where
  "out_header s ch = (wlh_frame_header_init ch)
    \<lparr>fh_session_id := h_session_id s, fh_sequence := h_tx_sequence s ch\<rparr>"

definition out_frame :: "host \<Rightarrow> u8 \<Rightarrow> u8 list \<Rightarrow> u8 list" where
  "out_frame s ch p = frame_bytes (out_header s ch) p"

lemma out_header_valid [simp]: "header_valid (out_header s ch)"
  using header_init_valid [of ch] by (simp add: out_header_def header_valid_def)

lemma out_frame_header:
  "fh_channel (parse_header (out_frame s ch p)) = ch"
  "fh_sequence (parse_header (out_frame s ch p)) = h_tx_sequence s ch"
  "fh_session_id (parse_header (out_frame s ch p)) = h_session_id s"
  by (simp_all add: out_frame_def parse_frame_bytes out_header_def wlh_frame_header_init_def)

lemma session_or_zero: "(if c \<and> x = 0 then 0 else x) = (x :: u32)"
  by simp

text \<open>The state after each way sending can end.\<close>

definition send_oversize :: "host \<Rightarrow> u8 list \<Rightarrow> u32 \<Rightarrow> bool" where
  "send_oversize s p u \<longleftrightarrow> 24 + length p > unat (cfg_max_frame_size (h_config s)) \<or>
    length p > 65535 \<or> u = 0"

definition after_no_memory :: "host \<Rightarrow> nat \<Rightarrow> host" where
  "after_no_memory s n = s\<lparr>trace := EAlloc n False # trace s,
    h_diagnostics := (h_diagnostics s)\<lparr>d_buffer_allocation_failures :=
      d_buffer_allocation_failures (h_diagnostics s) + 1\<rparr>\<rparr>"

definition after_refused :: "host \<Rightarrow> u8 list \<Rightarrow> host" where
  "after_refused s f =
    s\<lparr>trace := EFree # ESubmit f False # EAlloc (length f) True # trace s\<rparr>"

definition after_sent :: "host \<Rightarrow> u8 \<Rightarrow> u8 list \<Rightarrow> bool \<Rightarrow> u32 \<Rightarrow> host" where
  "after_sent s ch f rsv u = s\<lparr>
    trace := ESubmit f True # EAlloc (length f) True # trace s,
    h_tx_sequence := (h_tx_sequence s)(ch := h_tx_sequence s ch + 1),
    h_tx_credit := (if rsv then h_tx_credit s else (h_tx_credit s)(ch := h_tx_credit s ch - u)),
    h_diagnostics := (h_diagnostics s)\<lparr>d_tx_frames := d_tx_frames (h_diagnostics s) + 1\<rparr>\<rparr>"

lemma send_units_wp:
  assumes "send_oversize s p u \<Longrightarrow> Q WLH_HOST_INVALID_ARGUMENT s"
    and "\<And>t. \<not> send_oversize s p u \<Longrightarrow> \<not> rsv \<Longrightarrow> h_tx_credit s ch < u \<Longrightarrow>
      wp (set_state STATE_CONGESTED) (\<lambda>_. Q WLH_HOST_NO_CREDIT) s"
    and "\<not> send_oversize s p u \<Longrightarrow> rsv \<or> u \<le> h_tx_credit s ch \<Longrightarrow>
      Q WLH_HOST_NO_MEMORY (after_no_memory s (24 + length p))"
    and "\<not> send_oversize s p u \<Longrightarrow> rsv \<or> u \<le> h_tx_credit s ch \<Longrightarrow>
      Q WLH_HOST_TRANSPORT_ERROR (after_refused s (out_frame s ch p))"
    and "\<not> send_oversize s p u \<Longrightarrow> rsv \<or> u \<le> h_tx_credit s ch \<Longrightarrow>
      Q WLH_HOST_OK (after_sent s ch (out_frame s ch p) rsv u)"
  shows "wp (send_payload_frame_units ch p rsv u) Q s"
proof (cases "send_oversize s p u")
  case True
  then show ?thesis
    using assms(1) by (auto simp: send_payload_frame_units_def wp_simps Let_def send_oversize_def
      wire_consts)
next
  case False
  then have size: "\<not> unat (cfg_max_frame_size (h_config s)) < 24 + length p" "length p \<le> 65535" "u \<noteq> 0"
    by (auto simp: send_oversize_def)
  show ?thesis
  proof (cases "\<not> rsv \<and> h_tx_credit s ch < u")
    case True
    then show ?thesis
      using assms(2) [OF False] size
      by (simp add: send_payload_frame_units_def wp_simps Let_def wire_consts)
  next
    case credit: False
    then have ok: "rsv \<or> u \<le> h_tx_credit s ch" by auto
    have len: "length (out_frame s ch p) = 24 + length p"
      by (simp add: out_frame_def)
    have wire: "frame_encode_buf (24 + length p) (out_header s ch) p =
        (WLH_WIRE_OK, out_frame s ch p)"
      using size by (simp add: frame_encode_buf_eq out_frame_def)
    show ?thesis
      unfolding send_payload_frame_units_def session_or_zero out_header_def [symmetric]
      using size credit assms(3-5) [OF False ok]
      by (auto simp: wp_simps Let_def wire_consts wire len after_no_memory_def
          after_refused_def after_sent_def intro!: wp_buf_alloc wp_submit_tx)
  qed
qed

section \<open>The run only grows\<close>

definition extends :: "host \<Rightarrow> host \<Rightarrow> bool" where
  "extends s t \<longleftrightarrow> h_config t = h_config s \<and> h_pb t = h_pb s \<and> (\<exists>es. trace t = es @ trace s)"

lemma sending_extends: "sending s t \<Longrightarrow> extends s t"
  by (auto simp: sending_def extends_def)

interpretation ext: core_relation extends
proof
  show "extends s s" for s
    by (simp add: extends_def)
  show "extends s u" if "extends s t" "extends t u" for s t u
  proof -
    from that obtain es es' where "trace t = es @ trace s" "trace u = es' @ trace t"
      by (auto simp: extends_def)
    then have "trace u = (es' @ es) @ trace s" by simp
    with that show ?thesis by (auto simp: extends_def)
  qed
  show "state_io_rel extends (send_payload_frame_units ch p rsv u)" for ch p rsv u
    using sending.rel_wpD [OF sends_frame_units, of ch p rsv u] sending_extends
    by (auto simp: state_io_rel_def wp_snd split_beta)
qed (auto simp: extends_def)

section \<open>Sequence numbers\<close>

text \<open>\<open>numbered tr q\<close>: in the run \<open>tr\<close> (newest call first) the accepted frames of every channel
  carry consecutive sequence numbers, counted from zero since the run began or a transport stop
  restarted them, and \<open>q\<close> is the next number of each channel.\<close>

inductive numbered :: "effect list \<Rightarrow> (u8 \<Rightarrow> u32) \<Rightarrow> bool" where
  num_start: "numbered [] (\<lambda>_. 0)"
| num_accepted: "numbered tr q \<Longrightarrow> fh_channel (parse_header f) = ch \<Longrightarrow>
    fh_sequence (parse_header f) = q ch \<Longrightarrow> numbered (ESubmit f True # tr) (q(ch := q ch + 1))"
| num_refused: "numbered tr q \<Longrightarrow> numbered (ESubmit f False # tr) q"
| num_call: "numbered tr q \<Longrightarrow> \<not> is_submit e \<Longrightarrow> numbered (e # tr) q"
| num_restart: "numbered tr q \<Longrightarrow> numbered (EStop ok # tr) (\<lambda>_. 0)"

definition numbering :: "host \<Rightarrow> host \<Rightarrow> bool" where
  "numbering s t \<longleftrightarrow> (numbered (trace s) (h_tx_sequence s) \<longrightarrow> numbered (trace t) (h_tx_sequence t))"

lemma num_buffers:
  "numbered tr q \<Longrightarrow> numbered (EAlloc n ok # tr) q" "numbered tr q \<Longrightarrow> numbered (EFree # tr) q"
  by (simp_all add: num_call)

lemma numbered_calls: "numbered tr q \<Longrightarrow> no_submit es \<Longrightarrow> numbered (es @ tr) q"
  by (induction es) (auto intro: num_call)

lemma reporting_numbering: "reporting s t \<Longrightarrow> numbering s t"
  by (auto simp: reporting_def numbering_def intro: numbered_calls)

interpretation num: core_relation numbering
proof
  show "numbering s s" for s
    by (simp add: numbering_def)
  show "numbering s u" if "numbering s t" "numbering t u" for s t u
    using that by (auto simp: numbering_def)
  show "state_io_rel numbering (send_payload_frame_units ch p rsv u)" for ch p rsv u
  proof -
    have "wp (send_payload_frame_units ch p rsv u) (\<lambda>_ t. numbering s t) s" for s
      by (rule send_units_wp)
        (auto simp: numbering_def after_no_memory_def after_refused_def after_sent_def
          out_frame_header intro!: num_accepted num_refused num_buffers reporting.rel_wp [OF reports_set_state]
          intro: reporting_numbering [unfolded numbering_def, rule_format])
    then show ?thesis
      by (simp add: state_io_rel_def wp_snd split_beta)
  qed
  show "numbering s (s\<lparr>h_tx_sequence := (\<lambda>_. 0), trace := EStop ok # es @ trace s\<rparr>)"
    if "no_submit es" for s es ok
    using that by (auto simp: numbering_def intro: num_restart numbered_calls)
qed (auto simp: numbering_def intro: num_call)

section \<open>Well-formed frames\<close>

text \<open>Every frame handed to the transport, accepted or not, passes the decoder for the configured
  frame size.\<close>

definition submitted :: "effect list \<Rightarrow> u8 list set" where
  "submitted tr = {f. \<exists>ok. ESubmit f ok \<in> set tr}"

lemma submitted_simps [simp]:
  "submitted (ESubmit f ok # tr) = insert f (submitted tr)"
  "\<not> is_submit e \<Longrightarrow> submitted (e # tr) = submitted tr"
  "submitted (es @ tr) = submitted es \<union> submitted tr"
  by (auto simp: submitted_def)

lemma submitted_calls: "no_submit es \<Longrightarrow> submitted es = {}"
  by (auto simp: submitted_def no_submit_def)

definition all_framed :: "host \<Rightarrow> bool" where
  "all_framed s \<longleftrightarrow> (\<forall>f \<in> submitted (trace s). frame_ok (unat (cfg_max_frame_size (h_config s))) f)"

definition framing :: "host \<Rightarrow> host \<Rightarrow> bool" where
  "framing s t \<longleftrightarrow> h_config t = h_config s \<and>
    (unat (cfg_max_frame_size (h_config s)) \<le> WLH_FRAME_MAX_SIZE \<longrightarrow> all_framed s \<longrightarrow> all_framed t)"

lemma out_frame_ok:
  assumes "\<not> send_oversize s p u"
    and "unat (cfg_max_frame_size (h_config s)) \<le> WLH_FRAME_MAX_SIZE"
  shows "frame_ok (unat (cfg_max_frame_size (h_config s))) (out_frame s ch p)"
  using assms frame_bytes_ok [of "out_header s ch" p "unat (cfg_max_frame_size (h_config s))"]
  by (simp add: out_frame_def send_oversize_def wire_consts)

lemma reporting_framing: "reporting s t \<Longrightarrow> framing s t"
  by (auto simp: reporting_def framing_def all_framed_def submitted_calls)

interpretation fr: core_relation framing
proof
  show "state_io_rel framing (send_payload_frame_units ch p rsv u)" for ch p rsv u
  proof -
    have "wp (send_payload_frame_units ch p rsv u) (\<lambda>_ t. framing s t) s" for s
      by (rule send_units_wp)
        (auto simp: framing_def all_framed_def after_no_memory_def after_refused_def after_sent_def
          out_frame_ok intro!: reporting.rel_wp [OF reports_set_state]
          dest: reporting_framing [unfolded framing_def all_framed_def])
    then show ?thesis
      by (simp add: state_io_rel_def wp_snd split_beta)
  qed
qed (auto simp: framing_def all_framed_def submitted_calls)

end
