(* ===== verification/Host_System.thy ===== *)
theory Host_System
  imports Host_Trace
begin

text \<open>
  The host core in its environment: the core's state, the frames the transport holds, the tasks
  posted to the executor and, as a ghost, the callbacks of the requests accepted so far. A step is
  a call of the application, a turn of the worker task, a completion or lifecycle callback of the
  transport, or the executor running its oldest task. The books of \<open>ledger\<close> then become invariants
  of every reachable state: no buffer is lost or freed twice, and no request is lost or completed
  twice.
\<close>

section \<open>The system\<close>

record system =
  sys_host :: host
  sys_frames :: "u8 list list"
  sys_tasks :: "task list"
  sys_worker :: worker_phase
  sys_accepted :: "rpc_completion list"

fun accepted_frame :: "effect \<Rightarrow> u8 list list" where
  "accepted_frame (ESubmit f True) = [f]"
| "accepted_frame _ = []"

fun posted_task :: "effect \<Rightarrow> task list" where
  "posted_task (EPost t True) = [t]"
| "posted_task _ = []"

definition new_calls :: "host \<Rightarrow> host \<Rightarrow> effect list" where
  "new_calls s t = take (length (trace t) - length (trace s)) (trace t)"

text \<open>Run a part of the core: what it submits goes to the transport, what it posts to the
  executor.\<close>

definition run_core :: "(host, 'a) state \<Rightarrow> system \<Rightarrow> system" where
  "run_core m sys = (let t = snd (run_state m (sys_host sys));
      calls = rev (new_calls (sys_host sys) t)
    in sys\<lparr>sys_host := t, sys_frames := sys_frames sys @ concat (map accepted_frame calls),
      sys_tasks := sys_tasks sys @ concat (map posted_task calls)\<rparr>)"

definition core_result :: "(host, 'a) state \<Rightarrow> system \<Rightarrow> 'a" where
  "core_result m sys = fst (run_state m (sys_host sys))"

inductive host_step :: "system \<Rightarrow> system \<Rightarrow> bool" where
  step_call: "host_call m c \<Longrightarrow> host_step sys ((run_core m sys)\<lparr>sys_accepted :=
      (case c of Some k \<Rightarrow> if core_result m sys = WLH_HOST_OK then k # sys_accepted sys
        else sys_accepted sys | None \<Rightarrow> sys_accepted sys)\<rparr>)"
| step_worker_start: "sys_worker sys = Worker_new \<Longrightarrow>
    host_step sys ((run_core worker_start sys)\<lparr>sys_worker := Worker_running\<rparr>)"
| step_worker_turn: "sys_worker sys = Worker_running \<Longrightarrow>
    \<not> h_worker_stopping (sys_host sys) \<Longrightarrow> host_step sys (run_core worker_turn sys)"
| step_worker_exit: "sys_worker sys = Worker_running \<Longrightarrow> h_worker_stopping (sys_host sys) \<Longrightarrow>
    host_step sys ((run_core worker_exit sys)\<lparr>sys_worker := Worker_done\<rparr>)"
| step_tx_complete: "i < length (sys_frames sys) \<Longrightarrow>
    host_step sys (run_core (tx_complete (sys_frames sys ! i) status)
      (sys\<lparr>sys_frames := take i (sys_frames sys) @ drop (Suc i) (sys_frames sys)\<rparr>))"
| step_task: "sys_tasks sys = t # ts \<Longrightarrow>
    host_step sys (run_core (run_task t) (sys\<lparr>sys_tasks := ts\<rparr>))"
| step_start_complete: "host_step sys (run_core (transport_start_complete status) sys)"
| step_stop_complete: "host_step sys (run_core (transport_stop_complete status) sys)"
| step_transport_lost: "host_step sys (run_core wlh_host_transport_lost sys)"
| step_stop: "host_step sys (run_core wlh_host_stop_request sys)"

text \<open>The initial states: the host object has been initialised and started.\<close>

inductive host_initial :: "system \<Rightarrow> bool" where
  "wlh_host_init h (Some cfg) = (WLH_HOST_OK, s0) \<Longrightarrow>
    sys0 = \<lparr>sys_host = s0, sys_frames = [], sys_tasks = [], sys_worker = Worker_new,
      sys_accepted = []\<rparr> \<Longrightarrow>
    core_result wlh_host_start sys0 = WLH_HOST_OK \<Longrightarrow> host_initial (run_core wlh_host_start sys0)"

section \<open>Invariants from relations\<close>

lemma extends_new_calls:
  assumes "extends s t"
  shows "trace t = new_calls s t @ trace s"
  using assms by (auto simp: extends_def new_calls_def)

lemma run_core_host: "sys_host (run_core m sys) = snd (run_state m (sys_host sys))"
  by (simp add: run_core_def Let_def)

context core_relation
begin

lemma run_core_R: "state_io_rel R m \<Longrightarrow> R (sys_host sys) (sys_host (run_core m sys))"
  by (simp add: run_core_host state_io_rel_def split_beta)

lemma host_step_R: "host_step sys sys' \<Longrightarrow> R (sys_host sys) (sys_host sys')"
proof (induction rule: host_step.induct)
  case (step_call m c sys)
  then show ?case
    using run_core_R [OF call_rel [OF step_call]] by simp
next
  case (step_tx_complete i sys status)
  show ?case
    using run_core_R [OF tx_complete_rel, of "sys\<lparr>sys_frames := take i (sys_frames sys) @
      drop (Suc i) (sys_frames sys)\<rparr>"] by simp
next
  case (step_task sys t ts)
  show ?case
    using run_core_R [OF run_task_rel, of "sys\<lparr>sys_tasks := ts\<rparr>"] by simp
qed (auto intro!: run_core_R worker_rel worker_start_rel worker_exit_rel stop_request_rel
    lifecycle_rel transport_lost_rel)

lemma host_initial_R:
  assumes "host_initial sys"
  obtains h cfg s0 where "wlh_host_init h (Some cfg) = (WLH_HOST_OK, s0)" and "R s0 (sys_host sys)"
  using assms
proof cases
  case (1 h cfg s0 sys0)
  then show ?thesis
    using run_core_R [OF worker_rel(3), of sys0] that by simp
qed

end

text \<open>A reachable state: what every step keeps and the start establishes, holds.\<close>

definition reachable_system :: "system \<Rightarrow> bool" where
  "reachable_system = reachable host_initial host_step"

section \<open>Books of the system\<close>

text \<open>The weight of a call when what it hands over is counted where it is now: a frame with the
  transport, a task with the executor.\<close>

definition kept_weight :: "(effect \<Rightarrow> int) \<Rightarrow> effect \<Rightarrow> int" where
  "kept_weight eff e = (case e of ESubmit _ _ \<Rightarrow> 0 | EPost _ _ \<Rightarrow> 0 | _ \<Rightarrow> eff e)"

definition held :: "(rpc_completion option \<Rightarrow> int) \<Rightarrow> int \<Rightarrow> host \<Rightarrow> int" where
  "held cw bw s = (\<Sum>i<WLH_HOST_MAX_PENDING. pending_weight cw (h_pending s i)) +
    sum_list (map (job_weight cw bw) (h_core_queue s)) + deferred_weight cw bw (h_deferred_job s)"

definition sys_balance ::
  "(effect \<Rightarrow> int) \<Rightarrow> (rpc_completion option \<Rightarrow> int) \<Rightarrow> int \<Rightarrow> system \<Rightarrow> int" where
  "sys_balance eff cw bw sys = sum_list (map (kept_weight eff) (trace (sys_host sys))) +
    held cw bw (sys_host sys) - bw * int (length (sys_frames sys)) +
    sum_list (map (task_weight cw bw) (sys_tasks sys))"

lemma balance_held: "balance eff cw bw s = sum_list (map eff (trace s)) + held cw bw s"
  by (simp add: balance_def held_def)

context ledger
begin

lemma call_weights:
  "eff e = kept_weight eff e - bw * int (length (accepted_frame e)) +
    sum_list (map (task_weight cw bw) (posted_task e))"
  by (cases e rule: accepted_frame.cases; cases e rule: posted_task.cases)
    (auto simp: kept_weight_def)

lemma calls_weights:
  "sum_list (map eff es) = sum_list (map (kept_weight eff) es) -
    bw * int (length (concat (map accepted_frame (rev es)))) +
    sum_list (map (task_weight cw bw) (concat (map posted_task (rev es))))"
proof (induction es)
  case (Cons e es)
  then show ?case
    using call_weights [of e] by (simp add: algebra_simps)
qed simp

lemma run_core_balance_at:
  assumes "wp m (\<lambda>a t. bal t = bal (sys_host sys) + f a) (sys_host sys)"
    and "state_io_rel extends m"
  shows "sys_balance eff cw bw (run_core m sys) =
    sys_balance eff cw bw sys + f (core_result m sys)"
proof -
  let ?s = "sys_host sys"
  obtain a t where run: "run_state m ?s = (a, t)" by (cases "run_state m ?s")
  define es where "es = new_calls ?s t"
  have "extends ?s t"
    using ext.rel_wpD [OF assms(2), of ?s] run by (simp add: wp_def)
  then have t: "trace t = es @ trace ?s"
    unfolding es_def by (rule extends_new_calls)
  have bal: "bal t = bal ?s + f a"
    by (rule wp_run [OF run assms(1)])
  show ?thesis
    using bal calls_weights [of es]
    by (simp add: run_core_def core_result_def run sys_balance_def balance_held t es_def [symmetric]
        Let_def algebra_simps)
qed

lemma run_core_balance:
  "delta bal m f \<Longrightarrow> state_io_rel extends m \<Longrightarrow> sys_balance eff cw bw (run_core m sys) =
    sys_balance eff cw bw sys + f (core_result m sys)"
  by (rule run_core_balance_at [OF deltaD])

text \<open>The invariant: the balance is the weight of the accepted request_ledger.\<close>

definition settled :: "system \<Rightarrow> bool" where
  "settled sys \<longleftrightarrow>
    sys_balance eff cw bw sys = sum_list (map (\<lambda>c. rw (callback c)) (sys_accepted sys))"

lemma sys_balance_extra [simp]:
  "sys_balance eff cw bw (sys\<lparr>sys_accepted := cs\<rparr>) = sys_balance eff cw bw sys"
  "sys_balance eff cw bw (sys\<lparr>sys_worker := w\<rparr>) = sys_balance eff cw bw sys"
  by (simp_all add: sys_balance_def)

lemma run_core_extra [simp]:
  "sys_accepted (run_core m sys) = sys_accepted sys"
  "sys_worker (run_core m sys) = sys_worker sys"
  by (simp_all add: run_core_def Let_def)

lemma run_core_settled:
  assumes "delta bal m (\<lambda>_. 0)" and "state_io_rel extends m" and "settled sys"
  shows "settled (run_core m sys)"
  using assms run_core_balance [OF assms(1,2), of sys] by (simp add: settled_def)

lemma settled_worker [simp]: "settled (sys\<lparr>sys_worker := w\<rparr>) = settled sys"
  by (simp add: settled_def)

lemma take_frame_balance:
  "length (sys_frames sys) = Suc (length fs) \<Longrightarrow>
    sys_balance eff cw bw (sys\<lparr>sys_frames := fs\<rparr>) = sys_balance eff cw bw sys + bw"
  by (simp add: sys_balance_def algebra_simps)

lemma take_task_balance:
  "sys_tasks sys = t # ts \<Longrightarrow>
    sys_balance eff cw bw (sys\<lparr>sys_tasks := ts\<rparr>) = sys_balance eff cw bw sys - task_weight cw bw t"
  by (simp add: sys_balance_def)

lemma host_step_settled:
  assumes "host_step sys sys'" and app: "\<And>k. cw (Some (App k)) = rw k" and "settled sys"
  shows "settled sys'"
  using assms(1,3)
proof (induction rule: host_step.induct)
  case (step_call m c sys)
  show ?case
    using step_call run_core_balance [OF host_call_books [OF step_call(1) app]
        ext.call_rel [OF step_call(1)], of sys]
    by (auto simp: settled_def split: option.split)
next
  case (step_tx_complete i sys status)
  show ?case
    using step_tx_complete take_frame_balance [of sys
        "take i (sys_frames sys) @ drop (Suc i) (sys_frames sys)"]
      run_core_balance [OF tx_complete_books ext.tx_complete_rel, of "sys_frames sys ! i" status
        "sys\<lparr>sys_frames := take i (sys_frames sys) @ drop (Suc i) (sys_frames sys)\<rparr>"]
    by (simp add: settled_def)
next
  case (step_task sys t ts)
  show ?case
    using step_task take_task_balance [OF step_task(1)]
      run_core_balance [OF run_task_books ext.run_task_rel, of t "sys\<lparr>sys_tasks := ts\<rparr>"]
    by (simp add: settled_def)
qed (auto intro!: run_core_settled worker_start_books worker_turn_books worker_exit_books
    start_complete_books stop_complete_books transport_lost_books stop_request_books
    ext.worker_rel ext.worker_start_rel ext.worker_exit_rel ext.stop_request_rel ext.lifecycle_rel
    ext.transport_lost_rel)

lemma host_initial_settled:
  assumes "host_initial sys"
  shows "settled sys"
  using assms
proof cases
  case (1 h cfg s0 sys0)
  have s0: "trace s0 = []" "h_core_queue s0 = []" "h_deferred_job s0 = None"
      "h_pending s0 = (\<lambda>_. zero_pending)"
    using 1(2) by (auto simp: wlh_host_init_def zero_host_def Let_def split: if_splits)
  have "wp wlh_host_start (\<lambda>_ t. bal t = bal s0 + 0) s0"
    using s0 by (auto simp: wlh_host_start_def osal_destroy_def wp_simps balance_def
        intro!: wp_osal_call)
  then have "sys_balance eff cw bw sys = sys_balance eff cw bw sys0"
    using run_core_balance_at [of wlh_host_start sys0 "\<lambda>_. 0"] ext.worker_rel(3)
    by (simp add: 1)
  then show ?thesis
    by (simp add: settled_def 1 sys_balance_def held_def s0 deferred_weight_def)
qed

end

section \<open>A concrete run\<close>

text \<open>The witnesses use this system: initialised and started with an environment that always
  accepts, the worker running, one request of the application queued.\<close>

definition demo_config :: host_config where
  "demo_config = \<lparr>cfg_transport_start = Some (\<lambda>_. 0), cfg_transport_stop = Some (\<lambda>_. 0),
    cfg_submit_tx = Some (\<lambda>_. 0), cfg_alloc = Some (\<lambda>_. True), cfg_free = Some (),
    cfg_osal = demo_osal, cfg_post = Some (\<lambda>_. 0), cfg_on_event = Some (),
    cfg_bluetooth_hci_rx = Some (\<lambda>_. WLH_HOST_OK), cfg_bluetooth_hci_tx_ready = Some (),
    cfg_ota_stream_rx = Some (\<lambda>_. WLH_HOST_OK), cfg_ota_stream_tx_ready = Some (),
    cfg_max_frame_size = 4096, cfg_rpc_timeout_ms = 1000, cfg_heartbeat_timeout_ms = 0,
    cfg_max_pending_rpc = 8, cfg_core_queue_depth = 0, cfg_ethernet_tx_depth = 4,
    cfg_ethernet_tx_aggregation_limit = 4, cfg_stop_timeout_ms = 0\<rparr>"

definition demo_pb :: pb_codec where
  "demo_pb = \<lparr>pb_encoded_size = (\<lambda>_. Some 0), pb_encode_msg = (\<lambda>_ _. Some []),
    pb_dec_hello_response = (\<lambda>_. None), pb_dec_credit_update = (\<lambda>_. None),
    pb_dec_heartbeat_session = (\<lambda>_. None), pb_dec_new_session = (\<lambda>_. None),
    pb_dec_bluetooth_state = (\<lambda>_. None), pb_dec_eth_link_state = (\<lambda>_. None),
    pb_dec_controller_info = (\<lambda>_. None), pb_dec_ota_begin = (\<lambda>_. None),
    pb_dec_ota_query = (\<lambda>_. None), pb_dec_device_info = (\<lambda>_. None), pb_dec_eth_info = (\<lambda>_. None),
    pb_dec_io_state = (\<lambda>_. None), pb_dec_adc_sample = (\<lambda>_. None), pb_dec_kv_value = (\<lambda>_. None)\<rparr>"

definition demo_boot :: system where
  "demo_boot = \<lparr>sys_host = snd (wlh_host_init (zero_host demo_config demo_pb) (Some demo_config)),
    sys_frames = [], sys_tasks = [], sys_worker = Worker_new, sys_accepted = []\<rparr>"

definition demo_start :: system where
  "demo_start = (run_core worker_start (run_core wlh_host_start demo_boot))
    \<lparr>sys_worker := Worker_running\<rparr>"

definition demo_request :: "(host, host_result) state" where
  "demo_request = rpc_request_call 2 1 None 0 0 (map_option App (Some 7))"

definition demo_system :: system where
  "demo_system = (run_core demo_request demo_start)\<lparr>sys_accepted := [App 7]\<rparr>"

lemma wp_fst: "fst (run_state m s) = a \<longleftrightarrow> wp m (\<lambda>b _. b = a) s"
  by (simp add: wp_def split_beta)

lemma demo_init: "wlh_host_init (zero_host demo_config demo_pb) (Some demo_config) =
  (WLH_HOST_OK, (zero_host (demo_config\<lparr>cfg_core_queue_depth := 16, cfg_stop_timeout_ms := 3000\<rparr>)
    demo_pb)\<lparr>h_next_request_id := 1\<rparr>)"
  by (simp add: wlh_host_init_def demo_config_def demo_osal_def wlh_osal_ops_valid_def wire_consts
      WLH_HOST_MAX_PENDING_def WLH_HOST_MAX_QUEUE_DEPTH_def zero_host_def)

definition demo_cfg :: host_config where
  "demo_cfg = demo_config\<lparr>cfg_core_queue_depth := 16, cfg_stop_timeout_ms := 3000\<rparr>"

lemma demo_boot_host: "sys_host demo_boot = (zero_host demo_cfg demo_pb)\<lparr>h_next_request_id := 1\<rparr>"
  by (simp add: demo_boot_def demo_init demo_cfg_def)

lemma demo_answers:
  "cfg_alloc demo_cfg = Some (\<lambda>_. True)" "cfg_submit_tx demo_cfg = Some (\<lambda>_. 0)"
  "cfg_post demo_cfg = Some (\<lambda>_. 0)" "cfg_osal demo_cfg = demo_osal"
  "cfg_core_queue_depth demo_cfg = 16" "cfg_ethernet_tx_depth demo_cfg = 4"
  "cfg_max_frame_size demo_cfg = 4096"
  by (simp_all add: demo_cfg_def demo_config_def)

definition ready_to_queue :: "host \<Rightarrow> bool" where
  "ready_to_queue s \<longleftrightarrow> h_config s = demo_cfg \<and> h_worker_started s \<and> h_core_queue s = []"

lemma demo_started: "wp wlh_host_start (\<lambda>r t. r = WLH_HOST_OK \<and> ready_to_queue t) (sys_host demo_boot)"
  by (simp add: demo_boot_host zero_host_def wlh_host_start_def osal_call_def wp_simps Let_def
      demo_answers demo_osal_def ready_to_queue_def)

lemma demo_worker: "ready_to_queue s \<Longrightarrow> wp worker_start (\<lambda>_ t. ready_to_queue t) s"
  unfolding worker_start_def request_transport_start_def
  by (rule reporting.rel_wp [where m = "do { set_state STATE_TRANSPORT_STARTING;
      accepted \<leftarrow> transport_start; whenM (\<not> accepted) (set_state STATE_FAILED) }"])
    (auto intro!: reporting.rel_rules reports simp: ready_to_queue_def reporting_def)

lemma demo_request_ok: "ready_to_queue s \<Longrightarrow> wp demo_request (\<lambda>r _. r = WLH_HOST_OK) s"
  by (simp add: demo_request_def rpc_request_call_def wlh_host_rpc_request_def wp_simps Let_def
      mutex_lock_timeout_def next_request_id_def buf_alloc_def enqueue_job_def queue_send_def
      ready_to_queue_def demo_answers demo_osal_def WLH_HOST_PROTOBUF_LIMIT_def)

lemma demo_ready: "ready_to_queue (sys_host demo_start)"
proof -
  have "ready_to_queue (sys_host (run_core wlh_host_start demo_boot))"
    using demo_started by (simp add: run_core_host wp_conj wp_snd)
  then show ?thesis
    using demo_worker by (simp add: demo_start_def run_core_host wp_snd)
qed

lemma demo_reachable: "reachable_system demo_system"
proof -
  have "host_initial (run_core wlh_host_start demo_boot)"
    using demo_init demo_started
    by (intro host_initial.intros [OF demo_init])
      (simp_all add: demo_boot_def demo_init core_result_def wp_conj wp_fst)
  moreover have "host_step (run_core wlh_host_start demo_boot) demo_start"
    unfolding demo_start_def by (rule step_worker_start) (simp add: demo_boot_def run_core_def Let_def)
  moreover have "host_step demo_start demo_system"
  proof -
    have "core_result demo_request demo_start = WLH_HOST_OK"
      using demo_request_ok [OF demo_ready] by (simp add: core_result_def wp_fst)
    then show ?thesis
      using step_call [of demo_request "Some (App 7)" demo_start]
        call_rpc_request [where k = "Some 7" and sv = 2 and m = 1 and p = None and n = 0 and tmo = 0]
      by (simp add: demo_system_def demo_request_def demo_start_def demo_boot_def run_core_def Let_def)
  qed
  ultimately show ?thesis
    unfolding reachable_system_def by (blast intro: reachable.intros)
qed
section \<open>Counting buffers and completions\<close>

definition allocations :: "effect list \<Rightarrow> nat" where
  "allocations tr = length (filter (\<lambda>e. case e of EAlloc _ ok \<Rightarrow> ok | _ \<Rightarrow> False) tr)"

definition releases :: "effect list \<Rightarrow> nat" where
  "releases tr = length (filter (\<lambda>e. e = EFree) tr)"

fun task_buffers :: "task \<Rightarrow> nat" where
  "task_buffers (Event_task _) = 1"
| "task_buffers (Completion_task c _ _ _ _) = 1 + request_object (Some c)"

fun job_buffers :: "host_job \<Rightarrow> nat" where
  "job_buffers (JOB_RPC_REQUEST job) = 1 + request_object (rj_completion job)"
| "job_buffers (JOB_RX_FRAME _) = 1"
| "job_buffers (JOB_ETHERNET_TX _) = 1"
| "job_buffers (JOB_BLUETOOTH_TX _) = 1"
| "job_buffers (JOB_OTA_TX _) = 1"
| "job_buffers _ = 0"

definition pending_objects :: "host \<Rightarrow> nat" where
  "pending_objects s = (\<Sum>i<WLH_HOST_MAX_PENDING. if p_active (h_pending s i)
    then request_object (p_completion (h_pending s i)) else 0)"

definition waiting_jobs :: "host \<Rightarrow> host_job list" where
  "waiting_jobs s = (case h_deferred_job s of None \<Rightarrow> [] | Some j \<Rightarrow> [j]) @ h_core_queue s"

text \<open>How often callback \<open>k\<close> has been called, and how many tasks, jobs and table entries will.\<close>

definition completions :: "nat \<Rightarrow> effect list \<Rightarrow> nat" where
  "completions k tr = length (filter (\<lambda>e. case e of ECompletion n _ _ _ _ \<Rightarrow> n = k
    | EReply n _ _ _ _ \<Rightarrow> n = k | _ \<Rightarrow> False) tr)"

fun task_requests :: "nat \<Rightarrow> task \<Rightarrow> nat" where
  "task_requests k (Event_task _) = 0"
| "task_requests k (Completion_task c _ _ _ _) = is_callback k (Some c)"

fun job_requests :: "nat \<Rightarrow> host_job \<Rightarrow> nat" where
  "job_requests k (JOB_RPC_REQUEST job) = is_callback k (rj_completion job)"
| "job_requests k _ = 0"

definition pending_requests :: "nat \<Rightarrow> host \<Rightarrow> nat" where
  "pending_requests k s = (\<Sum>i<WLH_HOST_MAX_PENDING. if p_active (h_pending s i)
    then is_callback k (p_completion (h_pending s i)) else 0)"

lemma buffer_weights:
  "task_weight buffer_cw 1 t = - int (task_buffers t)"
  "job_weight buffer_cw 1 j = - int (job_buffers j)"
  by (cases t; simp add: buffer_cw_def) (cases j; simp add: buffer_cw_def)

lemma buffer_trace:
  "sum_list (map (kept_weight buffer_eff) tr) = int (allocations tr) - int (releases tr)"
proof (induction tr)
  case (Cons e tr)
  then show ?case
    by (cases e) (auto simp: kept_weight_def buffer_eff_def allocations_def releases_def)
qed (simp add: allocations_def releases_def)

lemma sum_list_neg_int: "sum_list (map (\<lambda>x. - int (f x)) xs) = - int (sum_list (map f xs))"
  by (induction xs) auto

lemma held_buffers: "held buffer_cw 1 s =
    - int (sum_list (map job_buffers (waiting_jobs s)) + pending_objects s)"
proof -
  have "(\<Sum>i<WLH_HOST_MAX_PENDING. pending_weight buffer_cw (h_pending s i)) =
      - int (pending_objects s)"
    unfolding pending_objects_def of_nat_sum sum_negf [symmetric]
    by (intro sum.cong) (auto simp: pending_weight_def buffer_cw_def)
  moreover have "job_weight buffer_cw 1 = (\<lambda>j. - int (job_buffers j))"
    by (rule ext) (rule buffer_weights)
  ultimately show ?thesis
    by (simp add: held_def waiting_jobs_def deferred_weight_def sum_list_neg_int split: option.split)
qed

lemma request_trace:
  "sum_list (map (kept_weight (request_eff k)) tr) = int (completions k tr)"
proof (induction tr)
  case (Cons e tr)
  then show ?case
    by (cases e) (auto simp: kept_weight_def request_eff_def completions_def)
qed (simp add: completions_def)

lemma sum_list_int: "sum_list (map (\<lambda>x. int (f x)) xs) = int (sum_list (map f xs))"
  by (induction xs) auto

lemma held_requests: "held (request_cw k) 0 s =
    int (sum_list (map (job_requests k) (waiting_jobs s)) + pending_requests k s)"
proof -
  have "(\<Sum>i<WLH_HOST_MAX_PENDING. pending_weight (request_cw k) (h_pending s i)) =
      int (pending_requests k s)"
    unfolding pending_requests_def of_nat_sum
    by (intro sum.cong) (auto simp: pending_weight_def request_cw_def)
  moreover have "job_weight (request_cw k) 0 = (\<lambda>j. int (job_requests k j))"
  proof (rule ext)
    show "job_weight (request_cw k) 0 j = int (job_requests k j)" for j
      by (cases j) (simp_all add: request_cw_def)
  qed
  ultimately show ?thesis
    by (simp add: held_def waiting_jobs_def deferred_weight_def sum_list_int split: option.split)
qed

section \<open>Invariants of the reachable states\<close>

interpretation buffer_books: step_invariant host_initial host_step buffer_ledger.settled
  by unfold_locales
    (auto intro: buffer_ledger.host_initial_settled buffer_ledger.host_step_settled
      simp: buffer_cw_def request_object_def)

interpretation request_books: step_invariant host_initial host_step "request_ledger.settled k" for k
  by unfold_locales
    (auto intro: request_ledger.host_initial_settled request_ledger.host_step_settled
      simp: request_cw_def is_callback_def)





end
