(* ===== verification/Host_Slots.thy ===== *)
theory Host_Slots
  imports Host_System
begin

text \<open>
  The admission slots of the Ethernet sender. A frame of the application takes a slot of the
  counting semaphore; the slot is given back when the frame is refused, when its record is merged
  into another frame, when sending fails, or when the transport completes the frame. The invariant
  says that the free slots, the waiting Ethernet jobs and the Ethernet frames in flight add up to
  the configured depth, so that no slot leaks and \<open>semaphore_give\<close> never runs into its maximum.
\<close>

section \<open>Slots in use\<close>

definition ethernet_frame :: "u8 list \<Rightarrow> bool" where
  "ethernet_frame f \<longleftrightarrow> length f \<ge> WLH_FRAME_HEADER_SIZE \<and> is_ethernet_channel (f ! 4)"

fun is_ethernet_sent :: "effect \<Rightarrow> bool" where
  "is_ethernet_sent (ESubmit f ok) = (ok \<and> ethernet_frame f)"
| "is_ethernet_sent _ = False"

definition ethernet_sent :: "effect list \<Rightarrow> nat" where
  "ethernet_sent tr = length (filter is_ethernet_sent tr)"

fun is_ethernet_job :: "host_job \<Rightarrow> bool" where
  "is_ethernet_job (JOB_ETHERNET_TX _) = True"
| "is_ethernet_job _ = False"

definition ethernet_jobs :: "host \<Rightarrow> nat" where
  "ethernet_jobs s = length (filter is_ethernet_job (waiting_jobs s))"

text \<open>A waiting Ethernet job holds one packet of the application, as one record, for the channel its
  sender named.\<close>

definition ethernet_packet :: "data_job \<Rightarrow> u8 list" where
  "ethernet_packet data = drop WLH_RAW_RECORD_HEADER_SIZE (dj_data data)"

definition ethernet_job_ok :: "data_job \<Rightarrow> bool" where
  "ethernet_job_ok data \<longleftrightarrow> is_ethernet_channel (dj_channel data) \<and> ethernet_packet data \<noteq> [] \<and>
    length (ethernet_packet data) \<le> 1600 \<and> dj_data data = record_bytes (1, 0, ethernet_packet data)"

fun job_ok :: "host_job \<Rightarrow> bool" where
  "job_ok (JOB_ETHERNET_TX data) = ethernet_job_ok data"
| "job_ok job = plain_job job"

text \<open>\<open>used\<close> are the slots the running operation has in hand, \<open>done\<close> the Ethernet frames the
  transport has completed.\<close>

definition slot_inv :: "nat \<Rightarrow> nat \<Rightarrow> host \<Rightarrow> bool" where
  "slot_inv completed used s \<longleftrightarrow>
    h_ethernet_tx_slots s + ethernet_jobs s + ethernet_sent (trace s) + used =
      unat (cfg_ethernet_tx_depth (h_config s)) + completed \<and>
    completed \<le> ethernet_sent (trace s) \<and> list_all job_ok (waiting_jobs s)"

lemma ethernet_sent_simps [simp]:
  "ethernet_sent [] = 0"
  "ethernet_sent (e # tr) = (if is_ethernet_sent e then 1 else 0) + ethernet_sent tr"
  "ethernet_sent (es @ tr) = ethernet_sent es + ethernet_sent tr"
  by (auto simp: ethernet_sent_def)

lemma not_submit_not_sent: "\<not> is_submit e \<Longrightarrow> \<not> is_ethernet_sent e"
  by (cases e) auto

lemma ethernet_sent_calls: "no_submit es \<Longrightarrow> ethernet_sent es = 0"
  by (induction es) (auto dest: not_submit_not_sent)

lemma slot_inv_cong:
  "h_config t = h_config s \<Longrightarrow> h_core_queue t = h_core_queue s \<Longrightarrow>
    h_deferred_job t = h_deferred_job s \<Longrightarrow> h_ethernet_tx_slots t = h_ethernet_tx_slots s \<Longrightarrow>
    ethernet_sent (trace t) = ethernet_sent (trace s) \<Longrightarrow>
    slot_inv completed used t = slot_inv completed used s"
  by (simp add: slot_inv_def ethernet_jobs_def waiting_jobs_def)

definition slots_kept :: "host \<Rightarrow> host \<Rightarrow> bool" where
  "slots_kept s t \<longleftrightarrow> (\<forall>completed used. slot_inv completed used s \<longrightarrow> slot_inv completed used t)"

lemma reporting_slots: "reporting s t \<Longrightarrow> slots_kept s t"
proof -
  assume "reporting s t"
  then have "slot_inv c u t = slot_inv c u s" for c u
    by (intro slot_inv_cong) (auto simp: reporting_def ethernet_sent_calls)
  then show ?thesis
    by (simp add: slots_kept_def)
qed

lemma out_frame_channel: "out_frame s ch p ! 4 = ch"
  using out_frame_header(1) [of s ch p] by (simp add: parse_header_def)

lemma out_frame_ethernet [simp]: "ethernet_frame (out_frame s ch p) = is_ethernet_channel ch"
  by (simp add: ethernet_frame_def out_frame_channel) (simp add: out_frame_def wire_consts)

lemma plain_job_ok: "plain_job job \<Longrightarrow> job_ok job \<and> \<not> is_ethernet_job job"
  by (cases job) auto

interpretation slots: core_ops slots_kept
proof
  show "slots_kept s u" if "slots_kept s t" "slots_kept t u" for s t u
    using that by (simp add: slots_kept_def)
  show "slots_kept s t" if "h_config t = h_config s" "h_core_queue t = h_core_queue s"
    "h_deferred_job t = h_deferred_job s" "h_ethernet_tx_slots t = h_ethernet_tx_slots s"
    "trace t = trace s" for s t
    using that by (simp add: slots_kept_def slot_inv_cong [of t s])
  show "slots_kept s (s\<lparr>trace := e # trace s\<rparr>)" if "\<not> is_submit e" for e s
    using that not_submit_not_sent [OF that]
    by (simp add: slots_kept_def slot_inv_cong [of "s\<lparr>trace := e # trace s\<rparr>" s])
  show "slots_kept s (s\<lparr>h_tx_sequence := \<lambda>_. 0, trace := EStop ok # es @ trace s\<rparr>)"
    if "no_submit es" for es s ok
    using that by (simp add: slots_kept_def ethernet_sent_calls
      slot_inv_cong [of "s\<lparr>h_tx_sequence := \<lambda>_. 0, trace := EStop ok # es @ trace s\<rparr>" s])
  show "state_io_rel slots_kept (queue_send job)" if "plain_job job" for job
  proof -
    have "slots_kept s (s\<lparr>h_core_queue := h_core_queue s @ [job]\<rparr>)" for s
      using plain_job_ok [OF that]
      by (simp add: slots_kept_def slot_inv_def ethernet_jobs_def waiting_jobs_def split: option.split)
    then show ?thesis
      by (auto simp: queue_send_def state_io_rel_def slots_kept_def State_Monad.update_def)
  qed
  show "state_io_rel slots_kept (send_payload_frame_units ch p rsv u)"
    if "\<not> is_ethernet_channel ch" for ch p rsv u
  proof -
    have "wp (send_payload_frame_units ch p rsv u) (\<lambda>_ t. slots_kept s t) s" for s
    proof (rule send_units_wp)
      show "slots_kept s (after_no_memory s n)" for n
        using slot_inv_cong [of "after_no_memory s n" s]
        by (simp add: slots_kept_def after_no_memory_def)
      show "slots_kept s (after_refused s f)" for f
        using slot_inv_cong [of "after_refused s f" s]
        by (simp add: slots_kept_def after_refused_def)
      show "slots_kept s (after_sent s ch (out_frame s ch p) rsv u)"
        using slot_inv_cong [of "after_sent s ch (out_frame s ch p) rsv u" s] that
        by (simp add: slots_kept_def after_sent_def)
    qed (auto simp: slots_kept_def intro!: reporting.rel_wp [OF reports_set_state]
        dest: reporting_slots [unfolded slots_kept_def])
    then show ?thesis
      by (simp add: state_io_rel_def wp_snd split_beta)
  qed
qed (simp add: slots_kept_def)

section \<open>The Ethernet sender\<close>

lemma slots_wp:
  assumes "state_io_rel slots_kept m" and "slot_inv c u s"
    and "\<And>a t. slot_inv c u t \<Longrightarrow> Q a t"
  shows "wp m Q s"
  using assms by (auto intro!: slots.rel_wp [OF assms(1)] simp: slots_kept_def)

lemma report_slots_wp:
  assumes "state_io_rel reporting m" and "slot_inv c u s"
    and "\<And>a t. slot_inv c u t \<Longrightarrow> reporting s t \<Longrightarrow> Q a t"
  shows "wp m Q s"
  using assms(2,3) reporting_slots
  by (auto intro!: reporting.rel_wp [OF assms(1)] simp: slots_kept_def)

lemma slot_inv_trace [simp]:
  "\<not> is_ethernet_sent e \<Longrightarrow>
    slot_inv c u (s\<lparr>trace := e # tr\<rparr>) = slot_inv c u (s\<lparr>trace := tr\<rparr>)"
  "trace s = tr \<Longrightarrow> slot_inv c u (s\<lparr>trace := tr\<rparr>) = slot_inv c u s"
  by (rule slot_inv_cong; simp)+

lemma slot_inv_frame [simp]:
  "slot_inv c u (s\<lparr>h_ethernet_tx_queued := q\<rparr>) = slot_inv c u s"
  "slot_inv c u (s\<lparr>h_diagnostics := d\<rparr>) = slot_inv c u s"
  by (rule slot_inv_cong; simp)+

lemma give_slots: "slot_inv c (Suc u) s \<Longrightarrow> wp semaphore_give (\<lambda>_ t. slot_inv c u t) s"
  by (auto simp: semaphore_give_def wp_simps slot_inv_def ethernet_jobs_def waiting_jobs_def)

lemma give_slots_wp:
  "slot_inv c (Suc u) s \<Longrightarrow> (\<And>a t. slot_inv c u t \<Longrightarrow> Q a t) \<Longrightarrow> wp semaphore_give Q s"
  by (rule wp_call [OF give_slots])

lemma take_slots_wp:
  assumes "slot_inv c u s" and "Q False s"
    and "\<And>t. slot_inv c (Suc u) t \<Longrightarrow> Q True t"
  shows "wp semaphore_take Q s"
  using assms by (auto simp: semaphore_take_def wp_simps slot_inv_def ethernet_jobs_def waiting_jobs_def)

definition in_hand :: "host_job \<Rightarrow> nat" where
  "in_hand job = (if is_ethernet_job job then 1 else 0)"

lemma slot_inv_receive:
  "h_core_queue s = job # jobs \<Longrightarrow> slot_inv c u s \<Longrightarrow>
    slot_inv c (u + in_hand job) (s\<lparr>h_core_queue := jobs\<rparr>) \<and> job_ok job"
  by (auto simp: slot_inv_def ethernet_jobs_def waiting_jobs_def in_hand_def split: option.splits)

lemma slot_inv_defer:
  "h_deferred_job s = None \<Longrightarrow> job_ok job \<Longrightarrow> slot_inv c (u + in_hand job) s \<Longrightarrow>
    slot_inv c u (s\<lparr>h_deferred_job := Some job\<rparr>)"
  by (auto simp: slot_inv_def ethernet_jobs_def waiting_jobs_def in_hand_def)

lemma slot_inv_undefer:
  "h_deferred_job s = Some job \<Longrightarrow> slot_inv c u s \<Longrightarrow>
    slot_inv c (u + in_hand job) (s\<lparr>h_deferred_job := None\<rparr>) \<and> job_ok job"
  by (auto simp: slot_inv_def ethernet_jobs_def waiting_jobs_def in_hand_def)

lemma take_job_slots:
  assumes "slot_inv c u s"
  shows "wp take_job (\<lambda>job t. case job of None \<Rightarrow> slot_inv c u t
    | Some job \<Rightarrow> slot_inv c (u + in_hand job) t \<and> job_ok job) s"
proof (cases "h_deferred_job s")
  case None
  then show ?thesis
    using assms slot_inv_receive
    by (cases "h_core_queue s") (auto simp: take_job_def queue_receive_def wp_simps)
next
  case (Some job)
  then show ?thesis
    using assms slot_inv_undefer by (auto simp: take_job_def wp_simps)
qed

lemma aggregate_slots:
  assumes "slot_inv c u s"
  shows "wp (aggregate_loop fuel cap data units)
    (\<lambda>(data', _) t. slot_inv c u t \<and> dj_channel data' = dj_channel data) s"
  using assms
proof (induction fuel arbitrary: data units s)
  case 0
  then show ?case by (simp add: wp_simps)
next
  case (Suc fuel)
  show ?case
  proof (cases "h_core_queue s")
    case Nil
    then show ?thesis
      using Suc.prems by (auto simp: queue_receive_def wp_simps)
  next
    case (Cons job jobs)
    note received = slot_inv_receive [OF Cons Suc.prems]
    have put_off: "slot_inv c u (s\<lparr>h_core_queue := jobs, h_deferred_job := Some job\<rparr>)"
      if "h_deferred_job s = None"
      using slot_inv_defer [of "s\<lparr>h_core_queue := jobs\<rparr>"] received that by simp
    show ?thesis
    proof (cases "is_ethernet_job job")
      case False
      then show ?thesis
        using Suc.prems put_off
        by (cases job) (auto simp: queue_receive_def wp_simps Cons)
    next
      case True
      then obtain candidate where job: "job = JOB_ETHERNET_TX candidate"
        by (cases job) auto
      have hand: "slot_inv c (Suc u) (s\<lparr>h_core_queue := jobs\<rparr>)"
        using received by (simp add: job in_hand_def)
      have grow: "wp (grow_job cap data) (\<lambda>grown t. slot_inv c (Suc u) t \<and>
          h_deferred_job t = h_deferred_job s \<and>
          (case grown of None \<Rightarrow> True | Some d \<Rightarrow> dj_channel d = dj_channel data))
        (s\<lparr>h_core_queue := jobs\<rparr>)"
        using hand by (auto simp: grow_job_def wp_simps intro!: wp_buf_alloc)
      show ?thesis
        using Suc.prems put_off received
        by (auto simp: queue_receive_def wp_simps Cons job Let_def split: option.split
            intro!: wp_call [OF grow] give_slots_wp wp_call [OF Suc.IH]
            slot_inv_defer simp: in_hand_def)
    qed
  qed
qed

lemma send_ethernet_slots:
  assumes "slot_inv c (Suc u) s" and "is_ethernet_channel ch"
  shows "wp (send_payload_frame_units ch p rsv units) (\<lambda>r t.
    if r = WLH_HOST_OK then slot_inv c u t else slot_inv c (Suc u) t) s"
proof (rule send_units_wp)
  show "if WLH_HOST_OK = WLH_HOST_OK then slot_inv c u (after_sent s ch (out_frame s ch p) rsv units)
    else slot_inv c (Suc u) (after_sent s ch (out_frame s ch p) rsv units)"
    using assms by (auto simp: slot_inv_def after_sent_def ethernet_jobs_def waiting_jobs_def)
next
  show "wp (set_state STATE_CONGESTED) (\<lambda>_ t. if WLH_HOST_NO_CREDIT = WLH_HOST_OK
    then slot_inv c u t else slot_inv c (Suc u) t) s"
    by (rule report_slots_wp [OF reports_set_state assms(1)]) simp
qed (use assms(1) in \<open>auto simp: after_no_memory_def after_refused_def\<close>)

lemma ethernet_job_slots:
  assumes "slot_inv c (Suc u) s" and "ethernet_job_ok data"
  shows "wp (ethernet_tx_job data) (\<lambda>_ t. slot_inv c u t) s"
  using assms
  by (auto simp: ethernet_job_ok_def ethernet_tx_job_def aggregate_ethernet_jobs_def wp_simps Let_def
      intro!: wp_call [OF aggregate_slots [where u = "Suc u"]]
        wp_call [OF send_ethernet_slots [where u = u]] give_slots_wp split: if_splits)

lemma run_job_slots:
  assumes "slot_inv c (u + in_hand job) s" and "job_ok job"
  shows "wp (run_job job) (\<lambda>_ t. slot_inv c u t) s"
proof (cases "is_ethernet_job job")
  case True
  then obtain data where "job = JOB_ETHERNET_TX data" by (cases job) auto
  then show ?thesis
    using assms by (auto simp: run_job_def in_hand_def intro!: ethernet_job_slots)
next
  case False
  then have "plain_job job" using assms(2) by (cases job) auto
  then show ?thesis
    using assms(1) False
    by (auto intro!: slots_wp [OF slots.run_plain_job_rel, where u = u] simp: in_hand_def)
qed

lemma worker_turn_slots:
  assumes "slot_inv c u s"
  shows "wp worker_turn (\<lambda>_ t. slot_inv c u t) s"
  using assms
  by (auto simp: worker_turn_def wp_simps split: option.splits
      intro!: slots_wp [OF slots.deadlines_rel] slots_wp [OF slots.flush_rel]
        slots_wp [OF slots.next_wait_rel] wp_call [OF take_job_slots] wp_call [OF run_job_slots])

lemma tx_complete_slots:
  assumes "slot_inv c (u + (if ethernet_frame f then 1 else 0)) s"
  shows "wp (tx_complete f status) (\<lambda>_ t. slot_inv c u t) s"
  using assms
  by (auto simp: tx_complete_def wp_simps Let_def ethernet_frame_def [symmetric]
      intro!: give_slots_wp slots_wp [OF slots.transport_lost_rel] split: if_splits)

lemma enqueue_ethernet_slots:
  assumes "slot_inv c (Suc u) s" and "ethernet_job_ok data"
  shows "wp (enqueue_job (JOB_ETHERNET_TX data)) (\<lambda>ok t.
    if ok then slot_inv c u t else slot_inv c (Suc u) t) s"
  using assms
  by (auto simp: enqueue_job_def queue_send_def wp_simps slot_inv_def ethernet_jobs_def
      waiting_jobs_def split: option.split)

lemma drop_record_header [simp]: "drop 8 (record_bytes (ty, fl, p)) = p"
  by (simp add: record_bytes_def ext_record_bytes_def)

lemma new_ethernet_job:
  assumes "is_ethernet_channel ch" and "p \<noteq> []" and "length p \<le> 1600"
  shows "ethernet_job_ok \<lparr>dj_channel = ch, dj_capacity = n, dj_data = record_bytes (1, 0, p)\<rparr>"
  using assms by (simp add: ethernet_job_ok_def ethernet_packet_def WLH_RAW_RECORD_HEADER_SIZE_def)

lemma ethernet_send_slots:
  assumes "is_ethernet_channel ch" and "slot_inv c u s"
  shows "wp (ethernet_send ch frame) (\<lambda>_ t. slot_inv c u t) s"
  using assms
  by (auto simp: ethernet_send_def record_encode_buf_eq new_ethernet_job wp_simps Let_def split: option.split prod.split
      intro!: take_slots_wp wp_buf_alloc wp_mutex_lock_timeout give_slots_wp
        wp_call [OF enqueue_ethernet_slots [where u = u]] split: if_splits)

lemma worker_turn_kept: "state_io_rel slots_kept worker_turn"
  using worker_turn_slots by (simp add: state_io_rel_def split_beta slots_kept_def wp_snd)

lemma host_call_slots: "host_call m c \<Longrightarrow> state_io_rel slots_kept m"
proof (erule slots.host_call_rel)
  show "state_io_rel slots_kept (ethernet_send ch frame)" if "is_ethernet_channel ch" for ch frame
    using ethernet_send_slots [OF that]
    by (simp add: state_io_rel_def split_beta slots_kept_def wp_snd)
qed

section \<open>The system\<close>

definition ethernet_in_flight :: "system \<Rightarrow> nat" where
  "ethernet_in_flight sys = length (filter ethernet_frame (sys_frames sys))"

definition slots_settled :: "system \<Rightarrow> bool" where
  "slots_settled sys \<longleftrightarrow> (\<exists>completed. ethernet_in_flight sys + completed =
    ethernet_sent (trace (sys_host sys)) \<and> slot_inv completed 0 (sys_host sys))"

lemma accepted_ethernet:
  "length (filter ethernet_frame (concat (map accepted_frame (rev es)))) = ethernet_sent es"
proof (induction es)
  case (Cons e es)
  have "length (filter ethernet_frame (accepted_frame e)) = (if is_ethernet_sent e then 1 else 0)"
    by (cases e rule: accepted_frame.cases) auto
  then show ?case
    using Cons by simp
qed simp

lemma run_core_slots:
  assumes "ethernet_in_flight sys + completed = ethernet_sent (trace (sys_host sys))"
    and "wp m (\<lambda>_ t. slot_inv completed 0 t) (sys_host sys)" and "state_io_rel extends m"
  shows "slots_settled (run_core m sys)"
proof -
  let ?s = "sys_host sys"
  obtain a t where run: "run_state m ?s = (a, t)" by (cases "run_state m ?s")
  have "extends ?s t"
    using ext.rel_wpD [OF assms(3), of ?s] run by (simp add: wp_def)
  then have t: "trace t = new_calls ?s t @ trace ?s"
    by (rule extends_new_calls)
  have "ethernet_in_flight (run_core m sys) + completed = ethernet_sent (trace t)"
    using assms(1) by (subst t)
      (simp add: ethernet_in_flight_def run_core_def run Let_def accepted_ethernet)
  moreover have "slot_inv completed 0 t"
    using assms(2) by (rule wp_run [OF run])
  ultimately show ?thesis
    unfolding slots_settled_def by (auto simp: run_core_host run)
qed

lemma keeps_settled:
  assumes "slots_settled sys" and "\<And>c s. slot_inv c 0 s \<Longrightarrow> wp m (\<lambda>_ t. slot_inv c 0 t) s"
    and "state_io_rel extends m"
  shows "slots_settled (run_core m sys)"
proof -
  from assms(1) obtain c where c: "ethernet_in_flight sys + c = ethernet_sent (trace (sys_host sys))"
    and inv: "slot_inv c 0 (sys_host sys)"
    by (auto simp: slots_settled_def)
  show ?thesis
    by (rule run_core_slots [OF c assms(2) [OF inv] assms(3)])
qed

lemma rel_settled:
  assumes "slots_settled sys" and "state_io_rel slots_kept m" and "state_io_rel extends m"
  shows "slots_settled (run_core m sys)"
  by (rule keeps_settled [OF assms(1) _ assms(3)]) (erule slots_wp [OF assms(2)])

lemma slots_settled_extra [simp]:
  "slots_settled (sys\<lparr>sys_accepted := cs\<rparr>) = slots_settled sys"
  "slots_settled (sys\<lparr>sys_worker := w\<rparr>) = slots_settled sys"
  "slots_settled (sys\<lparr>sys_tasks := ts\<rparr>) = slots_settled sys"
  by (simp_all add: slots_settled_def ethernet_in_flight_def)

lemma remove_nth_split:
  "i < length xs \<Longrightarrow> length (filter P xs) =
    length (filter P (take i xs @ drop (Suc i) xs)) + (if P (xs ! i) then 1 else 0)"
  by (subst id_take_nth_drop [of i xs]) auto

lemma host_step_slots:
  assumes "host_step sys sys'" and "slots_settled sys"
  shows "slots_settled sys'"
  using assms
proof (induction rule: host_step.induct)
  case (step_call m c sys)
  have "slots_settled (run_core m sys)"
    by (rule rel_settled [OF step_call(2) host_call_slots [OF step_call(1)]
        ext.call_rel [OF step_call(1)]])
  then show ?case by simp
next
  case (step_tx_complete i sys status)
  let ?f = "sys_frames sys ! i"
  let ?sys = "sys\<lparr>sys_frames := take i (sys_frames sys) @ drop (Suc i) (sys_frames sys)\<rparr>"
  let ?used = "if ethernet_frame ?f then 1 else 0 :: nat"
  from step_tx_complete(2) obtain c
    where c: "ethernet_in_flight sys + c = ethernet_sent (trace (sys_host sys))"
      "slot_inv c 0 (sys_host sys)"
    by (auto simp: slots_settled_def)
  have left: "ethernet_in_flight ?sys + (c + ?used) = ethernet_sent (trace (sys_host ?sys))"
    using c(1) remove_nth_split [OF step_tx_complete(1), of ethernet_frame]
    by (simp add: ethernet_in_flight_def)
  then have "slot_inv (c + ?used) (0 + ?used) (sys_host ?sys)"
    using c(2) by (auto simp: slot_inv_def)
  then show ?case
    by (intro run_core_slots [OF left] tx_complete_slots ext.tx_complete_rel)
next
  case (step_task sys t ts)
  then show ?case
    by (intro rel_settled slots.run_task_rel ext.run_task_rel) simp
qed (auto intro!: rel_settled worker_turn_kept
    slots.worker_start_rel slots.worker_exit_rel slots.stop_request_rel slots.lifecycle_rel
    slots.transport_lost_rel ext.worker_rel ext.worker_start_rel ext.worker_exit_rel
    ext.stop_request_rel ext.lifecycle_rel ext.transport_lost_rel)

lemma host_initial_slots:
  assumes "host_initial sys"
  shows "slots_settled sys"
  using assms
proof cases
  case (1 h cfg s0 sys0)
  have s0: "trace s0 = []" "h_core_queue s0 = []" "h_deferred_job s0 = None"
    using 1(2) by (auto simp: wlh_host_init_def zero_host_def Let_def split: if_splits)
  have "wp wlh_host_start (\<lambda>r t. r = WLH_HOST_OK \<longrightarrow> slot_inv 0 0 t) s0"
    using s0 by (auto simp: wlh_host_start_def osal_destroy_def wp_simps slot_inv_def
        ethernet_jobs_def waiting_jobs_def intro!: wp_osal_call)
  moreover have "fst (run_state wlh_host_start s0) = WLH_HOST_OK"
    using 1(4) by (simp add: core_result_def 1(3))
  ultimately have "wp wlh_host_start (\<lambda>_ t. slot_inv 0 0 t) s0"
    by (simp add: wp_def split_beta)
  then show ?thesis
    unfolding 1(1) by (intro run_core_slots [where completed = 0] ext.worker_rel)
      (simp_all add: 1(3) ethernet_in_flight_def s0)
qed

interpretation slot_books: step_invariant host_initial host_step slots_settled
  by unfold_locales (auto intro: host_initial_slots host_step_slots)

text \<open>C3: The admission slots of the Ethernet sender are conserved. In every reachable state the free
  slots, the Ethernet jobs that wait and the Ethernet frames the transport holds add up to the
  configured depth.\<close>

theorem ethernet_slots_conserved:
  assumes "reachable_system sys"
  shows "h_ethernet_tx_slots (sys_host sys) + ethernet_jobs (sys_host sys) + ethernet_in_flight sys =
    unat (cfg_ethernet_tx_depth (h_config (sys_host sys)))"
  using slot_books.reachable_I [OF assms [unfolded reachable_system_def]]
  by (auto simp: slots_settled_def slot_inv_def)

theorem ethernet_slots_conserved_witness:
  "h_ethernet_tx_slots (sys_host demo_system) + ethernet_jobs (sys_host demo_system) +
    ethernet_in_flight demo_system =
    unat (cfg_ethernet_tx_depth (h_config (sys_host demo_system)))"
  by (rule ethernet_slots_conserved [OF demo_reachable])

end
