(* ===== verification/Host_Requests.thy ===== *)
theory Host_Requests
  imports Host_Slots
begin

text \<open>
  Properties of the pending table: responses, deadlines, cancellation and the worker's wait.
\<close>

section \<open>Deliveries\<close>

text \<open>How often the completion of callback \<open>k\<close> was called or posted to the executor.\<close>

definition deliveries :: "nat \<Rightarrow> effect list \<Rightarrow> nat" where
  "deliveries k tr = completions k tr +
    sum_list (map (task_requests k) (concat (map posted_task tr)))"

lemma deliveries_append: "deliveries k (es @ tr) = deliveries k es + deliveries k tr"
  by (simp add: deliveries_def completions_def)

lemma request_eff_trace: "sum_list (map (request_eff k) tr) = int (deliveries k tr)"
proof (induction tr)
  case (Cons e tr)
  have "request_eff k e = int (deliveries k [e])"
  proof (cases e)
    case (EPost t ok)
    then show ?thesis
      by (cases t) (auto simp: request_eff_def deliveries_def completions_def request_cw_def)
  qed (auto simp: request_eff_def deliveries_def completions_def)
  then show ?case
    using Cons deliveries_append [of k "[e]" tr] by simp
qed (simp add: deliveries_def completions_def)

lemma balance_deliveries:
  "balance (request_eff k) (request_cw k) 0 s = int (deliveries k (trace s)) + held (request_cw k) 0 s"
  by (simp add: balance_held request_eff_trace)

lemma noting_held: "noting s t \<Longrightarrow> held cw bw t = held cw bw s"
  by (auto simp: noting_def held_def)

lemma dispatch_delivers:
  "wp (dispatch_completion c r d code p) (\<lambda>_ t. noting s t \<and>
    (\<forall>k. deliveries k (trace t) = deliveries k (trace s) + is_callback k c)) s"
proof -
  have "wp (dispatch_completion c r d code p) (\<lambda>_ t.
      deliveries k (trace t) = deliveries k (trace s) + is_callback k c) s" for k
    by (rule noting.rel_delta_wp [OF notes_dispatch_completion
        request_ledger.dispatch_completion_books [of k]])
      (simp add: balance_deliveries noting_held request_cw_def)
  then show ?thesis
    using noting.rel_wpD [OF notes_dispatch_completion] by (simp add: wp_conj) (simp add: wp_snd)
qed

section \<open>Responses\<close>

definition answers :: "host \<Rightarrow> rpc_envelope \<Rightarrow> nat \<Rightarrow> bool" where
  "answers s envelope i \<longleftrightarrow> (let pending = h_pending s i in
    p_active pending \<and> p_session_id pending = h_session_id s \<and>
    p_request_id pending = re_request_id envelope \<and>
    p_service_id pending = re_service_id envelope \<and> p_method_id pending = re_method_id envelope)"

lemma find_pending_answers: "find_pending s envelope = find (answers s envelope) [0..<WLH_HOST_MAX_PENDING]"
  by (simp add: find_pending_def answers_def [abs_def])

lemma find_filter: "find P xs = (case filter P xs of [] \<Rightarrow> None | x # _ \<Rightarrow> Some x)"
  by (induction xs) auto

text \<open>C27: A response completes exactly the request it answers. When no active entry of the table has
  the current session and the response's request, service and method numbers, nothing changes.
  Otherwise the first such entry is cleared, every other entry and every field but the diagnostics
  stays, and the completion of that entry, and of no other, is called or posted once.\<close>

theorem process_rpc_response_correct:
  "case run_state (process_rpc_response envelope p) s of (r, t) \<Rightarrow>
    (case filter (answers s envelope) [0..<WLH_HOST_MAX_PENDING] of
      [] \<Rightarrow> r = WLH_HOST_NOT_FOUND \<and> t = s
    | i # _ \<Rightarrow> r = WLH_HOST_OK \<and>
        noting (s\<lparr>h_pending := (h_pending s)(i := zero_pending)\<rparr>) t \<and>
        (\<forall>k. deliveries k (trace t) =
          deliveries k (trace s) + is_callback k (p_completion (h_pending s i))))"
proof (cases "filter (answers s envelope) [0..<WLH_HOST_MAX_PENDING]")
  case Nil
  then have "find_pending s envelope = None"
    by (simp add: find_pending_answers find_filter)
  then show ?thesis
    using Nil by (simp add: process_rpc_response_def)
next
  case (Cons i rest)
  then have found: "find_pending s envelope = Some i"
    by (simp add: find_pending_answers find_filter)
  have "wp (process_rpc_response envelope p) (\<lambda>r t. r = WLH_HOST_OK \<and>
      noting (s\<lparr>h_pending := (h_pending s)(i := zero_pending)\<rparr>) t \<and>
      (\<forall>k. deliveries k (trace t) =
        deliveries k (trace s) + is_callback k (p_completion (h_pending s i)))) s"
    by (auto simp: process_rpc_response_def wp_simps Let_def found
        intro!: wp_call [OF dispatch_delivers])
  then show ?thesis
    by (simp add: wp_def Cons split_beta)
qed

section \<open>Sweeping the table\<close>

definition sweep_result :: "(pending_rpc \<Rightarrow> bool) \<Rightarrow> nat list \<Rightarrow> host \<Rightarrow> host \<Rightarrow> bool" where
  "sweep_result sel xs s t \<longleftrightarrow>
    h_pending t = (\<lambda>i. if i \<in> set xs \<and> sel (h_pending s i) then zero_pending else h_pending s i) \<and>
    noting (s\<lparr>h_pending := h_pending t\<rparr>) t \<and>
    (\<forall>k. deliveries k (trace t) = deliveries k (trace s) +
      sum_list (map (\<lambda>i. is_callback k (p_completion (h_pending s i)))
        (filter (\<lambda>i. sel (h_pending s i)) xs)))"

lemma noting_pending:
  "noting (s\<lparr>h_pending := x\<rparr>) t \<Longrightarrow> noting (s\<lparr>h_pending := y\<rparr>) (t\<lparr>h_pending := y\<rparr>)"
proof -
  assume "noting (s\<lparr>h_pending := x\<rparr>) t"
  then obtain d es where es: "no_submit es"
    and t: "t = s\<lparr>h_pending := x, h_diagnostics := d, trace := es @ trace s\<rparr>"
    by (auto simp: noting_def)
  show ?thesis
    using notingI [OF es, where s = "s\<lparr>h_pending := y\<rparr>" and d = d] by (cases s) (simp add: t)
qed

lemma noting_table: "noting (s\<lparr>h_pending := x\<rparr>) t \<Longrightarrow> h_pending t = x"
  by (auto simp: noting_def)

lemma sweep_step:
  assumes "i \<notin> set xs" and "sel (h_pending s i)"
    and "noting (s\<lparr>h_pending := (h_pending s)(i := zero_pending)\<rparr>) t"
    and "\<forall>k. deliveries k (trace t) = deliveries k (trace s) + is_callback k (p_completion (h_pending s i))"
    and "sweep_result sel xs t u"
  shows "sweep_result sel (i # xs) s u"
proof -
  have t: "h_pending t = (h_pending s)(i := zero_pending)"
    using noting_table [OF assms(3)] .
  have "noting (s\<lparr>h_pending := h_pending u\<rparr>) u"
    using noting_pending [OF assms(3), of "h_pending u"] assms(5)
    by (auto simp: sweep_result_def intro: noting.R_trans)
  moreover have "h_pending u = (\<lambda>j. if j \<in> set (i # xs) \<and> sel (h_pending s j) then zero_pending
      else h_pending s j)"
    using assms(1,2,5) by (auto simp: sweep_result_def t)
  moreover have "filter (\<lambda>j. sel (h_pending t j)) xs = filter (\<lambda>j. sel (h_pending s j)) xs"
    using assms(1) by (intro filter_cong) (auto simp: t)
  moreover have "(\<Sum>j\<leftarrow>filter (\<lambda>j. sel (h_pending s j)) xs. is_callback k (p_completion (h_pending t j))) =
      (\<Sum>j\<leftarrow>filter (\<lambda>j. sel (h_pending s j)) xs. is_callback k (p_completion (h_pending s j)))" for k
    using assms(1) by (intro arg_cong [where f = sum_list] map_cong) (auto simp: t)
  ultimately show ?thesis
    using assms(2,4,5) by (simp add: sweep_result_def)
qed

lemma sweep_skip:
  "\<not> sel (h_pending s i) \<Longrightarrow> sweep_result sel xs s u \<Longrightarrow> sweep_result sel (i # xs) s u"
  by (auto simp: sweep_result_def)

lemma sweep_loop:
  assumes body: "\<And>i s. i \<in> set xs \<Longrightarrow> wp (f i) (\<lambda>_ t.
      if sel (h_pending s i)
      then noting (s\<lparr>h_pending := (h_pending s)(i := zero_pending)\<rparr>) t \<and>
        (\<forall>k. deliveries k (trace t) = deliveries k (trace s) + is_callback k (p_completion (h_pending s i)))
      else t = s) s"
    and "distinct xs"
  shows "wp (for_each xs f) (\<lambda>_ t. sweep_result sel xs s t) s"
  using assms
proof (induction xs arbitrary: s)
  case Nil
  then show ?case
    by (simp add: wp_simps sweep_result_def noting.R_refl)
next
  case (Cons i xs)
  have rest: "wp (for_each xs f) (\<lambda>_ u. sweep_result sel xs t u) t" for t
    using Cons by simp
  show ?case
    unfolding for_each.simps wp_bind
  proof (rule wp_call [OF Cons.prems(1)])
    show "i \<in> set (i # xs)" by simp
    fix a t
    assume step: "if sel (h_pending s i)
      then noting (s\<lparr>h_pending := (h_pending s)(i := zero_pending)\<rparr>) t \<and>
        (\<forall>k. deliveries k (trace t) = deliveries k (trace s) + is_callback k (p_completion (h_pending s i)))
      else t = s"
    show "wp (for_each xs f) (\<lambda>_ u. sweep_result sel (i # xs) s u) t"
    proof (rule wp_call [OF rest])
      fix b u
      assume r: "sweep_result sel xs t u"
      show "sweep_result sel (i # xs) s u"
        using step r Cons.prems(2) sweep_step [of i xs sel s t u] sweep_skip [of sel s i xs u]
        by (auto split: if_splits)
    qed
  qed
qed

section \<open>Deadlines\<close>

definition due :: "u64 \<Rightarrow> pending_rpc \<Rightarrow> bool" where
  "due current pending \<longleftrightarrow> p_active pending \<and> p_deadline_ms pending \<le> current"

text \<open>C28: Expiry. The pass over the table at time \<open>current\<close> clears exactly the active entries whose
  deadline has come and leaves every other entry and field but the diagnostics alone; the
  completion of each expired request, and of no other, is called or posted once.\<close>

theorem expire_pending_correct:
  "case run_state (for_each [0..<WLH_HOST_MAX_PENDING] (expire_pending current)) s of (_, t) \<Rightarrow>
    sweep_result (due current) [0..<WLH_HOST_MAX_PENDING] s t"
proof -
  have "wp (for_each [0..<WLH_HOST_MAX_PENDING] (expire_pending current))
    (\<lambda>_ t. sweep_result (due current) [0..<WLH_HOST_MAX_PENDING] s t) s"
  proof (rule sweep_loop)
    fix i s
    show "wp (expire_pending current i) (\<lambda>_ t. if due current (h_pending s i)
        then noting (s\<lparr>h_pending := (h_pending s)(i := zero_pending)\<rparr>) t \<and>
          (\<forall>k. deliveries k (trace t) = deliveries k (trace s) + is_callback k (p_completion (h_pending s i)))
        else t = s) s"
      by (auto simp: expire_pending_def due_def wp_simps intro!: wp_call [OF dispatch_delivers]
          elim!: noting.R_trans [rotated] intro: noting_diag)
  qed simp
  then show ?thesis
    by (simp add: wp_def)
qed

text \<open>Cancellation, at a session change, a transport loss, a heartbeat timeout and a stop. All
  active entries are cleared and the completion of each of them is called or posted once.\<close>

theorem cancel_pending_correct:
  "case run_state (cancel_pending result) s of (_, t) \<Rightarrow>
    sweep_result p_active [0..<WLH_HOST_MAX_PENDING] s t"
proof -
  have "wp (cancel_pending result) (\<lambda>_ t. sweep_result p_active [0..<WLH_HOST_MAX_PENDING] s t) s"
    unfolding cancel_pending_def
    by (rule sweep_loop) (auto simp: wp_simps intro!: wp_call [OF dispatch_delivers])
  then show ?thesis
    by (simp add: wp_def)
qed

section \<open>The worker's wait\<close>

text \<open>The times at which something is due: the deadlines of the active requests, the peer's silence
  and the held-back Ethernet credits. The value \<open>2^64 - 1\<close> stands for no time.\<close>

definition wake_times :: "host \<Rightarrow> u64 list" where
  "wake_times s =
    map (\<lambda>i. p_deadline_ms (h_pending s i))
      (filter (\<lambda>i. p_active (h_pending s i)) [0..<WLH_HOST_MAX_PENDING]) @
    (if h_state s = STATE_READY \<and> cfg_heartbeat_timeout_ms (h_config s) \<noteq> 0
     then [d_last_peer_activity_ms (h_diagnostics s) + ucast (cfg_heartbeat_timeout_ms (h_config s))]
     else []) @
    (if h_ethernet_rx_credit_due_ms s \<noteq> 0 then [h_ethernet_rx_credit_due_ms s] else [])"

definition earliest :: "u64 list \<Rightarrow> u64" where
  "earliest ts = foldl min (- 1) ts"

lemma foldl_min_filter:
  "foldl (\<lambda>m i. if P i \<and> f i < m then f i else m) (a :: u64) xs = foldl min a (map f (filter P xs))"
  by (induction xs arbitrary: a) (auto simp: min_def not_less intro: arg_cong2 [where f = "foldl min"])

lemma nearest_deadline_earliest: "nearest_deadline s = earliest (wake_times s)"
  unfolding nearest_deadline_def Let_def foldl_min_filter earliest_def wake_times_def foldl_append
  by (auto simp: min_def not_less)

lemma earliest_Min: "earliest ts = Min (insert (- 1) (set ts))"
proof -
  have "foldl min a ts = Min (insert a (set ts))" for a :: u64
  proof (induction ts arbitrary: a)
    case (Cons t ts)
    show ?case
      using Cons.IH [of "min a t"] by (cases "ts = []") (auto simp: min.assoc Min_insert)
  qed simp
  then show ?thesis by (simp add: earliest_def)
qed

text \<open>C29: The worker never oversleeps and never wakes early without reason. With nothing due it waits
  for ever; otherwise it waits until the earliest time due, zero if that has passed, and at most
  \<open>2^32 - 2\<close> ms, one less than the value that means for ever.\<close>

theorem next_wait_ms_correct:
  defines "first \<equiv> \<lambda>s. Min (insert (- 1) (set (wake_times s)))"
    and "current \<equiv> \<lambda>s. osal_monotonic_time_ms (cfg_osal (h_config s)) (length (trace s))"
  shows "case run_state next_wait_ms s of (w, t) \<Rightarrow>
    t = s\<lparr>trace := EClock (current s) # trace s\<rparr> \<and>
    (if first s = - 1 then w = WLH_OSAL_WAIT_FOREVER
     else unat w = min (2 ^ 32 - 2) (unat (first s) - unat (current s)))"
proof -
  have wait: "unat (deadline_wait_ms c d) = min (2 ^ 32 - 2) (unat d - unat c)" for c d
  proof (cases "d \<le> c")
    case True
    then show ?thesis
      by (simp add: deadline_wait_ms_def WLH_OSAL_NO_WAIT_def word_le_nat_alt)
  next
    case False
    then have diff: "unat (d - c) = unat d - unat c"
      by (intro unat_sub) simp
    have forever: "unat (ucast WLH_OSAL_WAIT_FOREVER :: u64) = 2 ^ 32 - 1"
      by (simp add: WLH_OSAL_WAIT_FOREVER_def unsigned_ucast_eq take_bit_eq_mod)
    show ?thesis
    proof (cases "ucast WLH_OSAL_WAIT_FOREVER \<le> d - c")
      case True
      then have "2 ^ 32 - 1 \<le> unat d - unat c"
        using forever diff by (simp add: word_le_nat_alt)
      moreover have "unat (WLH_OSAL_WAIT_FOREVER - 1) = 2 ^ 32 - 2"
        by (simp add: WLH_OSAL_WAIT_FOREVER_def)
      ultimately show ?thesis
        using False True by (simp add: deadline_wait_ms_def Let_def)
    next
      case short: False
      then have less: "unat d - unat c < 2 ^ 32 - 1"
        using forever diff by (simp add: word_le_nat_alt)
      then have "unat (ucast (d - c) :: u32) = unat d - unat c"
        using diff by (simp add: unsigned_ucast_eq take_bit_eq_mod)
      then show ?thesis
        using False short less by (simp add: deadline_wait_ms_def Let_def)
    qed
  qed
  show ?thesis
    by (auto simp: next_wait_ms_def now_ms_def emit_def State_Monad.update_def Let_def
        nearest_deadline_earliest earliest_Min first_def current_def wait wake_times_def)
qed

end
