(* ===== verification/Coproc_Types.thy ===== *)
theory Coproc_Types
  imports Messages Osal
begin

text \<open>
  The data model of the coprocessor core (coproc-core/include/wlh/coproc.h and
  coproc_internal.h) and the operations it gets from its environment. As in the host model the
  function pointers of the configuration answer from their position in the run, every outside
  call is recorded in \<open>c_trace\<close>, newest first, context pointers are left out, and arrays are
  functions of their index. A backend call records what was passed to the backend and the status
  it returned.
\<close>

section \<open>Constants and enumerations\<close>

definition RPC_BUFFER_SIZE :: nat where "RPC_BUFFER_SIZE = 1536"
definition RAW_HEADER_SIZE :: nat where "RAW_HEADER_SIZE = 8"
definition WLH_COPROC_CONTROL_QUEUE_RESERVE :: u8 where "WLH_COPROC_CONTROL_QUEUE_RESERVE = 4"
definition WLH_COPROC_MAX_SSID_SIZE :: nat where "WLH_COPROC_MAX_SSID_SIZE = 32"
definition WLH_COPROC_CHANNEL_COUNT :: u32 where "WLH_COPROC_CHANNEL_COUNT = 256"
definition WLH_COPROC_MAX_FRAME_SIZE :: nat where "WLH_COPROC_MAX_FRAME_SIZE = 4096"
definition WLH_COPROC_MAX_QUEUE_DEPTH :: nat where "WLH_COPROC_MAX_QUEUE_DEPTH = 64"
definition WLH_COPROC_MAX_HCI_PACKET :: nat where "WLH_COPROC_MAX_HCI_PACKET = 1024"
definition WLH_COPROC_BLUETOOTH_INITIAL_CREDIT :: u32 where "WLH_COPROC_BLUETOOTH_INITIAL_CREDIT = 16"
definition WLH_COPROC_BLUETOOTH_ADV_INITIAL_CREDIT :: u32 where
  "WLH_COPROC_BLUETOOTH_ADV_INITIAL_CREDIT = 4"
definition WLH_COPROC_BLUETOOTH_REASON_MALFORMED_HCI :: u32 where
  "WLH_COPROC_BLUETOOTH_REASON_MALFORMED_HCI = 1"
definition WLH_COPROC_OTA_STREAM_HEADER_SIZE :: nat where "WLH_COPROC_OTA_STREAM_HEADER_SIZE = 16"
definition WLH_COPROC_OTA_CHUNK_SIZE :: nat where "WLH_COPROC_OTA_CHUNK_SIZE = 4048"
definition WLH_COPROC_OTA_ALIGNMENT :: nat where "WLH_COPROC_OTA_ALIGNMENT = 16"
definition WLH_COPROC_OTA_INITIAL_CREDIT :: u32 where "WLH_COPROC_OTA_INITIAL_CREDIT = 4"
definition WLH_COPROC_OTA_RECORD_TYPE :: u8 where "WLH_COPROC_OTA_RECORD_TYPE = 1"
definition WLH_COPROC_KV_MAX_KEY_SIZE :: nat where "WLH_COPROC_KV_MAX_KEY_SIZE = 64"
definition WLH_COPROC_KV_MAX_VALUE_SIZE :: nat where "WLH_COPROC_KV_MAX_VALUE_SIZE = 512"
definition WLH_COPROC_TX_CANCELLED :: int where "WLH_COPROC_TX_CANCELLED = 1"
definition WLH_ETHERNET_CREDIT_BATCH_UNITS :: u32 where "WLH_ETHERNET_CREDIT_BATCH_UNITS = 32"

text \<open>The Bluetooth controller states as they are on the wire.\<close>

definition BT_STATE_UNSPECIFIED :: u32 where "BT_STATE_UNSPECIFIED = 0"
definition BT_STATE_DISABLED :: u32 where "BT_STATE_DISABLED = 1"
definition BT_STATE_ENABLED :: u32 where "BT_STATE_ENABLED = 2"
definition BT_STATE_ERROR :: u32 where "BT_STATE_ERROR = 3"

lemmas bt_states = BT_STATE_UNSPECIFIED_def BT_STATE_DISABLED_def BT_STATE_ENABLED_def
  BT_STATE_ERROR_def

datatype coproc_result =
    WLH_COPROC_OK
  | WLH_COPROC_INVALID_ARGUMENT
  | WLH_COPROC_INVALID_STATE
  | WLH_COPROC_TRANSPORT_ERROR
  | WLH_COPROC_PROTOCOL_ERROR
  | WLH_COPROC_NO_CREDIT
  | WLH_COPROC_NOT_SUPPORTED
  | WLH_COPROC_BACKEND_ERROR

datatype coproc_state =
    WLH_COPROC_STATE_STOPPED
  | WLH_COPROC_STATE_WAITING_FOR_HELLO
  | WLH_COPROC_STATE_READY
  | WLH_COPROC_STATE_CONGESTED
  | WLH_COPROC_STATE_FAILED

datatype ethernet_rx_result =
    ETHERNET_RX_COMPLETE
  | ETHERNET_RX_PENDING
  | ETHERNET_RX_REJECTED

text \<open>\<open>wlh_coproc_service_status_t\<close>: the codes the synchronous backends return.\<close>

definition WLH_COPROC_SERVICE_OK :: int where "WLH_COPROC_SERVICE_OK = 0"
definition WLH_COPROC_SERVICE_INVALID_ARGUMENT :: int where
  "WLH_COPROC_SERVICE_INVALID_ARGUMENT = - 1"
definition WLH_COPROC_SERVICE_NOT_FOUND :: int where "WLH_COPROC_SERVICE_NOT_FOUND = - 2"
definition WLH_COPROC_SERVICE_NOT_SUPPORTED :: int where "WLH_COPROC_SERVICE_NOT_SUPPORTED = - 3"
definition WLH_COPROC_SERVICE_INVALID_STATE :: int where "WLH_COPROC_SERVICE_INVALID_STATE = - 4"
definition WLH_COPROC_SERVICE_NO_SPACE :: int where "WLH_COPROC_SERVICE_NO_SPACE = - 5"
definition WLH_COPROC_SERVICE_INTERNAL :: int where "WLH_COPROC_SERVICE_INTERNAL = - 6"

lemmas service_codes = WLH_COPROC_SERVICE_OK_def WLH_COPROC_SERVICE_INVALID_ARGUMENT_def
  WLH_COPROC_SERVICE_NOT_FOUND_def WLH_COPROC_SERVICE_NOT_SUPPORTED_def
  WLH_COPROC_SERVICE_INVALID_STATE_def WLH_COPROC_SERVICE_NO_SPACE_def
  WLH_COPROC_SERVICE_INTERNAL_def

section \<open>What is passed to the backends\<close>

record wifi_connect =
  wcn_ssid :: "u8 list"
  wcn_credential :: "u8 list"
  wcn_security :: u32

record wifi_ap =
  wap_ssid :: "u8 list"
  wap_credential :: "u8 list"
  wap_security :: u32
  wap_channel :: u32
  wap_max_clients :: u32

record device_info =
  dvi_vendor :: "u8 list"
  dvi_mcu_model :: "u8 list"
  dvi_uid :: "u8 list"
  dvi_uid_size :: nat
  dvi_board_profile :: "u8 list"

record coproc_io_config =
  ioc_pin_id :: u32
  ioc_mode :: u32
  ioc_pull :: u32
  ioc_initial_level :: bool

record io_state =
  ios_level :: bool
  ios_mode :: u32
  ios_pull :: u32

record user_message =
  umg_endpoint_id :: u32
  umg_message_type :: u32
  umg_flags :: u32
  umg_payload :: "u8 list"
  umg_request_id :: u32

record eth_info =
  eti_link_state :: u32
  eti_mac_address :: "u8 list"
  eti_speed :: u32
  eti_duplex :: u32

record bluetooth_info =
  bti_public_address :: "u8 list"
  bti_has_public_address :: bool
  bti_hci_version :: u8
  bti_manufacturer_id :: u16
  bti_feature_bits :: u64
  bti_max_hci_packet :: u32

record coproc_ota_begin_params =
  obp_image_type :: u32
  obp_image_size :: u64
  obp_sha256 :: "u8 list"
  obp_target_version :: "u8 list"
  obp_slot :: "u8 list"
  obp_signature :: "u8 list"

record coproc_bss =
  bss_ssid :: "u8 list option"
  bss_ssid_size :: nat
  bss_bssid :: "u8 list"
  bss_interface_mac :: "u8 list"
  bss_security :: u32
  bss_channel :: u32
  bss_rssi_dbm :: u32

datatype backend_call =
    Wifi_initialize (wi_operation: u32) (wi_flags: u32)
  | Wifi_scan u32
  | Wifi_connect wifi_connect
  | Wifi_disconnect
  | Wifi_start_ap wifi_ap
  | Wifi_stop_ap
  | Bt_initialize u32 u32
  | Bt_enable u32 u32
  | Bt_disable u32
  | Bt_deinitialize u32 bool
  | Bt_get_info u32
  | Bt_hci_send u8 "u8 list"
  | Ota_begin_op u32 u32 coproc_ota_begin_params
  | Ota_write (ow_transfer: u32) (ow_offset: u64) (ow_data: "u8 list")
  | Ota_finalize u32 u32 u64
  | Ota_abort u32 u32
  | Ota_activate u32 u32 bool
  | Eth_get_info u32
  | Device_get_info
  | Io_configure coproc_io_config
  | Io_read_pin u32
  | Io_write u32 bool
  | Adc_read_pin u32
  | Kv_read_key "u8 list"
  | Kv_write "u8 list" "u8 list"
  | Kv_erase "u8 list"
  | User_on_message user_message

datatype coproc_effect =
    CAlloc nat bool
  | CFree
  | CSubmit "u8 list" bool
  | CClock u64
  | CLock bool
  | COsal string bool
  | CEthernetRx u32 u8 "u8 list" ethernet_rx_result
  | CBackend backend_call int
  | CHciTxReady

section \<open>Jobs\<close>

text \<open>\<open>cdj_data\<close> holds the first \<open>size\<close> bytes of the flexible array.\<close>

record coproc_data_job =
  cdj_method_id :: u16
  cdj_service_id :: u16
  cdj_channel :: u8
  cdj_capacity :: nat
  cdj_data :: "u8 list"

datatype coproc_job =
    COPROC_JOB_STOP
  | COPROC_JOB_RX_FRAME coproc_data_job
  | COPROC_JOB_WIFI_INITIALIZED u32 int
  | COPROC_JOB_RPC_EVENT coproc_data_job
  | COPROC_JOB_ETHERNET_TX coproc_data_job
  | COPROC_JOB_TRANSPORT_FAILED
  | COPROC_JOB_BLUETOOTH_COMPLETE u32 int
  | COPROC_JOB_BLUETOOTH_INFO u32 int bluetooth_info
  | COPROC_JOB_BLUETOOTH_TX coproc_data_job
  | COPROC_JOB_BLUETOOTH_FATAL u32
  | COPROC_JOB_OTA_COMPLETE u32 int
  | COPROC_JOB_OTA_WRITE_COMPLETE u32 u64 int
  | COPROC_JOB_ETHERNET_RX_COMPLETE
  | COPROC_JOB_ETH_INFO u32 int eth_info

end
