(* ===== verification/Coproc_Messages.thy ===== *)
theory Coproc_Messages
  imports Coproc_Types
begin

text \<open>
  The protobuf messages the coprocessor core decodes and encodes (the fields it reads or writes),
  and the protobuf library it is linked with as a parameter, \<open>coproc_pb\<close>, with no assumption on
  what its functions return. Character arrays are kept as the bytes of the generated struct,
  \<open>int32_t\<close> fields by their bit pattern.
\<close>

section \<open>Requests\<close>

record hello_request_msg =
  hqm_protocol_majors :: "u32 list"
  hqm_channel_ids :: "u32 list"
  hqm_max_frame_size :: u32

record wifi_connect_msg =
  wcm_ssid :: "u8 list"
  wcm_credential :: "u8 list"
  wcm_security :: u32

record wifi_start_ap_msg =
  wam_ssid :: "u8 list"
  wam_credential :: "u8 list"
  wam_security :: u32
  wam_channel :: u32
  wam_max_clients :: u32

record bluetooth_initialize_msg =
  bin_transport :: u32
  bin_feature_flags :: u32

record ota_begin_msg =
  obm_image_type :: u32
  obm_image_size :: u64
  obm_sha256 :: "u8 list"
  obm_target_version :: "u8 list"
  obm_slot :: "u8 list"
  obm_signature :: "u8 list"

record ota_finalize_msg =
  ofm_transfer_id :: u32
  ofm_bytes_sent :: u64

record ota_activate_msg =
  oam_transfer_id :: u32
  oam_reboot :: bool

record diagnostics_ping_msg =
  dpm_cookie :: u64
  dpm_host_time_us :: u64

record user_send_msg =
  usm_endpoint_id :: u32
  usm_message_type :: u32
  usm_flags :: u32
  usm_payload :: "u8 list"

record io_configure_msg =
  icm_pin_id :: u32
  icm_mode :: u32
  icm_pull :: u32
  icm_initial_level :: bool

record io_write_msg =
  iwm_pin_id :: u32
  iwm_level :: bool

record kv_write_msg =
  kwm_key :: "u8 list"
  kwm_value :: "u8 list"

section \<open>Responses and events\<close>

record heartbeat_msg =
  hbm_session_id :: u32
  hbm_state :: u32
  hbm_uptime_ms :: u64
  hbm_monotonic_ms :: u64

record session_changed_msg =
  scm_old_session_id :: u32
  scm_new_session_id :: u32
  scm_reset_reason :: u32
  scm_boot_id :: u64

record ota_progress_msg =
  opm_transfer_id :: u32
  opm_state :: u32
  opm_bytes_received :: u64

record ping_response_msg =
  prm_cookie :: u64
  prm_host_time_us :: u64
  prm_coprocessor_uptime_us :: u64

record wifi_network_msg =
  wnm_ssid :: "u8 list"
  wnm_bssid :: "u8 list"
  wnm_channel :: u32
  wnm_rssi_dbm :: u32
  wnm_security :: u32

record wifi_link_msg =
  wlm_interface :: u32
  wlm_connected :: bool
  wlm_ssid :: "u8 list"
  wlm_bssid :: "u8 list"
  wlm_mac :: "u8 list"
  wlm_channel :: u32
  wlm_rssi_dbm :: u32
  wlm_security :: u32

record wifi_client_msg =
  wkm_mac :: "u8 list"
  wkm_rssi_dbm :: u32
  wkm_association_id :: u32

record user_result_msg =
  urm_endpoint_id :: u32
  urm_message_type :: u32
  urm_correlation_id :: u32
  urm_result :: u32
  urm_payload :: "u8 list"

datatype coproc_msg =
    CMsg_HelloResponse hello_response
  | CMsg_CreditUpdate credit_update
  | CMsg_Heartbeat heartbeat_msg
  | CMsg_SessionChanged session_changed_msg
  | CMsg_BluetoothStateChanged bluetooth_state_msg
  | CMsg_BluetoothControllerInfo bluetooth_controller_info_msg
  | CMsg_OtaProgress ota_progress_msg
  | CMsg_OtaBeginResponse ota_begin_response
  | CMsg_OtaQueryResponse ota_query_response
  | CMsg_EthInfo eth_info_msg
  | CMsg_EthLinkState eth_link_state_msg
  | CMsg_PingResponse ping_response_msg
  | CMsg_DeviceInfo device_info_msg
  | CMsg_IoState io_state_msg
  | CMsg_AdcSample adc_sample
  | CMsg_KvValue "u8 list"
  | CMsg_WifiScanResult u32 wifi_network_msg
  | CMsg_WifiScanCompleted u32 u32 bool
  | CMsg_WifiConnected wifi_link_msg
  | CMsg_WifiDisconnected u32 u32 bool
  | CMsg_WifiApClientJoined wifi_client_msg
  | CMsg_WifiApClientLeft "u8 list" u32 u32
  | CMsg_UserMessageResult user_result_msg

text \<open>\<open>cpb_encoded_size\<close> is \<open>pb_get_encoded_size\<close>, \<open>cpb_encode\<close> the bytes \<open>pb_encode\<close> writes into a
  buffer of the given capacity, and each decoder \<open>pb_decode\<close> with one descriptor.\<close>

record coproc_pb =
  cpb_encoded_size :: "coproc_msg \<Rightarrow> nat option"
  cpb_encode :: "nat \<Rightarrow> coproc_msg \<Rightarrow> u8 list option"
  cpb_dec_hello_request :: "u8 list \<Rightarrow> hello_request_msg option"
  cpb_dec_credit_update :: "u8 list \<Rightarrow> credit_update option"
  cpb_dec_heartbeat_session :: "u8 list \<Rightarrow> u32 option"
  cpb_dec_wifi_initialize :: "u8 list \<Rightarrow> u32 option"
  cpb_dec_wifi_scan :: "u8 list \<Rightarrow> u32 option"
  cpb_dec_wifi_connect :: "u8 list \<Rightarrow> wifi_connect_msg option"
  cpb_dec_wifi_start_ap :: "u8 list \<Rightarrow> wifi_start_ap_msg option"
  cpb_dec_bluetooth_initialize :: "u8 list \<Rightarrow> bluetooth_initialize_msg option"
  cpb_dec_bluetooth_enable :: "u8 list \<Rightarrow> u32 option"
  cpb_dec_bluetooth_deinitialize :: "u8 list \<Rightarrow> bool option"
  cpb_dec_ota_begin :: "u8 list \<Rightarrow> ota_begin_msg option"
  cpb_dec_ota_finalize :: "u8 list \<Rightarrow> ota_finalize_msg option"
  cpb_dec_ota_abort :: "u8 list \<Rightarrow> u32 option"
  cpb_dec_ota_activate :: "u8 list \<Rightarrow> ota_activate_msg option"
  cpb_dec_eth_get_info :: "u8 list \<Rightarrow> unit option"
  cpb_dec_diagnostics_ping :: "u8 list \<Rightarrow> diagnostics_ping_msg option"
  cpb_dec_user_send :: "u8 list \<Rightarrow> user_send_msg option"
  cpb_dec_io_configure :: "u8 list \<Rightarrow> io_configure_msg option"
  cpb_dec_io_read :: "u8 list \<Rightarrow> u32 option"
  cpb_dec_io_write :: "u8 list \<Rightarrow> io_write_msg option"
  cpb_dec_adc_read :: "u8 list \<Rightarrow> u32 option"
  cpb_dec_kv_read :: "u8 list \<Rightarrow> u8 list option"
  cpb_dec_kv_write :: "u8 list \<Rightarrow> kv_write_msg option"
  cpb_dec_kv_erase :: "u8 list \<Rightarrow> u8 list option"

end
