(* ===== verification/Coproc_State.thy ===== *)
theory Coproc_State
  imports Coproc_Messages
begin

text \<open>
  Configuration and state of the coprocessor core, and the operations of its environment: the
  allocator, the transport, the clock, the backends, the OS layer's queue and semaphore.
\<close>

section \<open>Configuration\<close>

text \<open>\<open>None\<close> is the NULL pointer. The backends that fill a struct answer with its contents after
  the call.\<close>

record coproc_config =
  ccfg_submit_tx :: "(nat \<Rightarrow> int) option"
  ccfg_ethernet_sta_rx :: "(nat \<Rightarrow> ethernet_rx_result) option"
  ccfg_ethernet_ap_rx :: "(nat \<Rightarrow> ethernet_rx_result) option"
  ccfg_ethernet_eth_rx :: "(nat \<Rightarrow> ethernet_rx_result) option"
  ccfg_wifi_initialize :: "(nat \<Rightarrow> int) option"
  ccfg_wifi_scan :: "(nat \<Rightarrow> int) option"
  ccfg_wifi_connect :: "(nat \<Rightarrow> int) option"
  ccfg_wifi_disconnect :: "(nat \<Rightarrow> int) option"
  ccfg_wifi_start_ap :: "(nat \<Rightarrow> int) option"
  ccfg_wifi_stop_ap :: "(nat \<Rightarrow> int) option"
  ccfg_device_get_info :: "(nat \<Rightarrow> int \<times> device_info) option"
  ccfg_io_configure :: "(nat \<Rightarrow> int) option"
  ccfg_io_read :: "(nat \<Rightarrow> int \<times> io_state) option"
  ccfg_io_write :: "(nat \<Rightarrow> int) option"
  ccfg_adc_read :: "(nat \<Rightarrow> int \<times> u32) option"
  ccfg_kv_read :: "(nat \<Rightarrow> int \<times> u8 list \<times> nat) option"
  ccfg_kv_write :: "(nat \<Rightarrow> int) option"
  ccfg_kv_erase :: "(nat \<Rightarrow> int) option"
  ccfg_user_on_message :: "(nat \<Rightarrow> int) option"
  ccfg_eth_get_info :: "(nat \<Rightarrow> int) option"
  ccfg_bluetooth_initialize :: "(nat \<Rightarrow> int) option"
  ccfg_bluetooth_enable :: "(nat \<Rightarrow> int) option"
  ccfg_bluetooth_disable :: "(nat \<Rightarrow> int) option"
  ccfg_bluetooth_deinitialize :: "(nat \<Rightarrow> int) option"
  ccfg_bluetooth_get_info :: "(nat \<Rightarrow> int) option"
  ccfg_bluetooth_hci_send :: "(nat \<Rightarrow> int) option"
  ccfg_bluetooth_hci_tx_ready :: "unit option"
  ccfg_ota_begin :: "(nat \<Rightarrow> int) option"
  ccfg_ota_write :: "(nat \<Rightarrow> int) option"
  ccfg_ota_finalize :: "(nat \<Rightarrow> int) option"
  ccfg_ota_abort :: "(nat \<Rightarrow> int) option"
  ccfg_ota_activate :: "(nat \<Rightarrow> int) option"
  ccfg_alloc :: "(nat \<Rightarrow> bool) option"
  ccfg_free :: "unit option"
  ccfg_osal :: osal_ops
  ccfg_max_frame_size :: u32
  ccfg_heartbeat_interval_ms :: u32
  ccfg_initial_credit :: u32
  ccfg_initial_session_id :: u32
  ccfg_core_queue_depth :: u8
  ccfg_ethernet_tx_depth :: u8
  ccfg_ethernet_tx_aggregation_limit :: u8
  ccfg_stop_timeout_ms :: u32
  ccfg_implementation_version :: "u8 list"

section \<open>State\<close>

record coproc_diagnostics =
  cd_state :: coproc_state
  cd_session_id :: u32
  cd_tx_frames :: u32
  cd_rx_frames :: u32
  cd_checksum_errors :: u32
  cd_sequence_gaps :: u32
  cd_rpc_requests :: u32
  cd_peer_resets :: u32
  cd_hci_malformed :: u32
  cd_hci_drops :: u32
  cd_hci_adv_drops :: u32
  cd_bluetooth_mismatches :: u32
  cd_ethernet_rx_rejected :: u32
  cd_ethernet_rx_failed :: u32
  cd_last_peer_activity_ms :: u64

text \<open>An outstanding backend submission and the request it answers. The Wi-Fi and the wired
  Ethernet one have no method field; it stays zero.\<close>

record backend_pending =
  bp_active :: bool
  bp_operation_id :: u32
  bp_session_id :: u32
  bp_request_id :: u32
  bp_method_id :: u16

definition no_pending :: backend_pending where
  "no_pending = \<lparr>bp_active = False, bp_operation_id = 0, bp_session_id = 0, bp_request_id = 0,
    bp_method_id = 0\<rparr>"

record coproc =
  c_config :: coproc_config
  c_state :: coproc_state
  c_session_id :: u32
  c_next_session_id :: u32
  c_tx_sequence :: "u8 \<Rightarrow> u32"
  c_rx_sequence :: "u8 \<Rightarrow> u32"
  c_tx_credit :: "u8 \<Rightarrow> u32"
  c_rx_sequence_valid :: "u8 \<Rightarrow> bool"
  c_started_ms :: u64
  c_last_heartbeat_ms :: u64
  c_diagnostics :: coproc_diagnostics
  c_core_queue :: "coproc_job list"
  c_ethernet_tx_slots :: nat
  c_ethernet_rx_pending_credit :: "nat \<Rightarrow> u32"
  c_ethernet_rx_pending_failures :: u32
  c_ethernet_rx_wake_queued :: bool
  c_worker_started :: bool
  c_worker_stopping :: bool
  c_next_backend_operation_id :: u32
  c_wifi_initialize_pending :: backend_pending
  c_bluetooth_pending :: backend_pending
  c_eth_pending :: backend_pending
  c_bluetooth_state :: u32
  c_bluetooth_tx_inflight :: u32
  c_bluetooth_adv_tx_inflight :: u32
  c_bluetooth_adv_channel :: bool
  c_bluetooth_hci_stopped :: bool
  c_ota_pending :: backend_pending
  c_ota_state :: u32
  c_ota_transfer_id :: u32
  c_next_ota_transfer_id :: u32
  c_ota_image_size :: u64
  c_ota_bytes_accepted :: u64
  c_ota_bytes_received :: u64
  c_ota_progress_reported_bytes :: u64
  c_ota_target_version :: "u8 list"
  c_deferred_job :: "coproc_job option"
  c_pb :: coproc_pb
  c_trace :: "coproc_effect list"

section \<open>Operations of the environment\<close>

definition coproc_emit :: "coproc_effect \<Rightarrow> (coproc, unit) state" where
  "coproc_emit e = modify (\<lambda>s. s\<lparr>c_trace := e # c_trace s\<rparr>)"

text \<open>\<open>buffers.alloc\<close>: whether a buffer was returned. The size recorded is that of the byte array;
  the fixed part of a job or message struct is not counted.\<close>

definition coproc_alloc :: "nat \<Rightarrow> (coproc, bool) state" where
  "coproc_alloc n = do {
    s \<leftarrow> State_Monad.get;
    let ok = the (ccfg_alloc (c_config s)) (length (c_trace s));
    coproc_emit (CAlloc n ok);
    ret ok
  }"

definition coproc_free :: "(coproc, unit) state" where
  "coproc_free = coproc_emit CFree"

definition coproc_submit_tx :: "u8 list \<Rightarrow> (coproc, bool) state" where
  "coproc_submit_tx frame = do {
    s \<leftarrow> State_Monad.get;
    let ok = (the (ccfg_submit_tx (c_config s)) (length (c_trace s)) = 0);
    coproc_emit (CSubmit frame ok);
    ret ok
  }"

definition coproc_now_ms :: "(coproc, u64) state" where
  "coproc_now_ms = do {
    s \<leftarrow> State_Monad.get;
    let t = osal_monotonic_time_ms (ccfg_osal (c_config s)) (length (c_trace s));
    coproc_emit (CClock t);
    ret t
  }"

text \<open>A backend call through a pointer known not to be NULL, and the idiom
  \<open>op != NULL ? op(...) : -1\<close> of the Wi-Fi service.\<close>

definition backend :: "(coproc_config \<Rightarrow> (nat \<Rightarrow> int) option) \<Rightarrow> backend_call \<Rightarrow> (coproc, int) state" where
  "backend op call = do {
    s \<leftarrow> State_Monad.get;
    let status = the (op (c_config s)) (length (c_trace s));
    coproc_emit (CBackend call status);
    ret status
  }"

definition optional_backend ::
  "(coproc_config \<Rightarrow> (nat \<Rightarrow> int) option) \<Rightarrow> int \<Rightarrow> backend_call \<Rightarrow> (coproc, int) state" where
  "optional_backend op missing call = do {
    s \<leftarrow> State_Monad.get;
    if op (c_config s) = None then ret missing else backend op call
  }"

text \<open>A backend call with a result besides its status.\<close>

definition backend_value ::
  "(coproc_config \<Rightarrow> (nat \<Rightarrow> int \<times> 'a) option) \<Rightarrow> backend_call \<Rightarrow> (coproc, int \<times> 'a) state" where
  "backend_value op call = do {
    s \<leftarrow> State_Monad.get;
    let (status, value) = the (op (c_config s)) (length (c_trace s));
    coproc_emit (CBackend call status);
    ret (status, value)
  }"

text \<open>The counting semaphore \<open>ethernet_tx_slots\<close>, bounded by its maximum, and the core queue.\<close>

definition coproc_semaphore_give :: "(coproc, unit) state" where
  "coproc_semaphore_give = modify (\<lambda>s.
    if c_ethernet_tx_slots s < unat (ccfg_ethernet_tx_depth (c_config s))
    then s\<lparr>c_ethernet_tx_slots := c_ethernet_tx_slots s + 1\<rparr> else s)"

definition coproc_semaphore_take :: "(coproc, bool) state" where
  "coproc_semaphore_take = do {
    s \<leftarrow> State_Monad.get;
    if c_ethernet_tx_slots s = 0 then ret False
    else do {
      modify (\<lambda>s. s\<lparr>c_ethernet_tx_slots := c_ethernet_tx_slots s - 1\<rparr>);
      ret True
    }
  }"

definition coproc_queue_receive :: "(coproc, coproc_job option) state" where
  "coproc_queue_receive = do {
    s \<leftarrow> State_Monad.get;
    case c_core_queue s of
      [] \<Rightarrow> ret None
    | job # jobs \<Rightarrow> do {
        modify (\<lambda>s. s\<lparr>c_core_queue := jobs\<rparr>);
        ret (Some job)
      }
  }"

text \<open>\<open>True\<close> for the return value 0. A send with a timeout is a step taken when there is room or,
  failing, when the timeout has passed.\<close>

definition coproc_enqueue_job :: "coproc_job \<Rightarrow> (coproc, bool) state" where
  "coproc_enqueue_job job = do {
    s \<leftarrow> State_Monad.get;
    if \<not> c_worker_started s then ret False
    else if length (c_core_queue s) < unat (ccfg_core_queue_depth (c_config s))
    then do {
      modify (\<lambda>s. s\<lparr>c_core_queue := c_core_queue s @ [job]\<rparr>);
      ret True
    }
    else ret False
  }"

definition coproc_diag :: "(coproc_diagnostics \<Rightarrow> coproc_diagnostics) \<Rightarrow> (coproc, unit) state" where
  "coproc_diag f = modify (\<lambda>s. s\<lparr>c_diagnostics := f (c_diagnostics s)\<rparr>)"

section \<open>State changes\<close>

definition coproc_state_name :: "coproc_state \<Rightarrow> string" where
  "coproc_state_name st = (case st of
      WLH_COPROC_STATE_STOPPED \<Rightarrow> ''STOPPED''
    | WLH_COPROC_STATE_WAITING_FOR_HELLO \<Rightarrow> ''WAITING_FOR_HELLO''
    | WLH_COPROC_STATE_READY \<Rightarrow> ''READY''
    | WLH_COPROC_STATE_CONGESTED \<Rightarrow> ''CONGESTED''
    | WLH_COPROC_STATE_FAILED \<Rightarrow> ''FAILED'')"

definition coproc_set_state :: "coproc_state \<Rightarrow> (coproc, unit) state" where
  "coproc_set_state st = modify (\<lambda>s.
    if c_state s = st then s
    else s\<lparr>c_state := st, c_diagnostics := (c_diagnostics s)\<lparr>cd_state := st\<rparr>\<rparr>)"

text \<open>\<open>next_backend_operation_id++\<close>, again when it was zero.\<close>

definition next_operation_id :: "(coproc, u32) state" where
  "next_operation_id = do {
    operation_id \<leftarrow> gets c_next_backend_operation_id;
    modify (\<lambda>s. s\<lparr>c_next_backend_operation_id := c_next_backend_operation_id s + 1\<rparr>);
    if operation_id = 0 then do {
      operation_id \<leftarrow> gets c_next_backend_operation_id;
      modify (\<lambda>s. s\<lparr>c_next_backend_operation_id := c_next_backend_operation_id s + 1\<rparr>);
      ret operation_id
    }
    else ret operation_id
  }"

definition bluetooth_backend_present :: "coproc \<Rightarrow> bool" where
  "bluetooth_backend_present s \<longleftrightarrow> ccfg_bluetooth_hci_send (c_config s) \<noteq> None"

definition ota_backend_present :: "coproc \<Rightarrow> bool" where
  "ota_backend_present s \<longleftrightarrow> ccfg_ota_write (c_config s) \<noteq> None"

definition eth_backend_present :: "coproc \<Rightarrow> bool" where
  "eth_backend_present s \<longleftrightarrow> ccfg_eth_get_info (c_config s) \<noteq> None \<or>
    ccfg_ethernet_eth_rx (c_config s) \<noteq> None"

end
