(* ===== verification/Coproc_Wire.thy ===== *)
theory Coproc_Wire
  imports Coproc_State
begin

text \<open>
  Sending from the coprocessor: frames, RPC envelopes, credit updates and status responses
  (coproc-core/src/coproc_wire.c), and the queued events (\<open>send_event_message\<close> of coproc_rpc.c).
\<close>

section \<open>Frames\<close>

definition coproc_ethernet_channel :: "u8 \<Rightarrow> bool" where
  "coproc_ethernet_channel channel \<longleftrightarrow> channel = WLH_CHANNEL_ETHERNET_STA \<or>
    channel = WLH_CHANNEL_ETHERNET_AP \<or> channel = WLH_CHANNEL_ETHERNET_ETH"

text \<open>The transport's completion of a frame, from the adapter's task.\<close>

definition coproc_tx_complete :: "u8 list \<Rightarrow> int \<Rightarrow> (coproc, unit) state" where
  "coproc_tx_complete frame status = do {
    let ethernet_frame =
      (length frame \<ge> WLH_FRAME_HEADER_SIZE \<and> coproc_ethernet_channel (frame ! 4));
    coproc_free;
    whenM ethernet_frame coproc_semaphore_give;
    (if status \<noteq> 0 \<and> status \<noteq> WLH_COPROC_TX_CANCELLED
     then do { _ \<leftarrow> coproc_enqueue_job COPROC_JOB_TRANSPORT_FAILED; ret () }
     else ret ())
  }"

definition coproc_send_payload_units ::
  "u8 \<Rightarrow> u8 list \<Rightarrow> u32 \<Rightarrow> (coproc, coproc_result) state" where
  "coproc_send_payload_units channel payload credit_units = do {
    s \<leftarrow> State_Monad.get;
    if length payload + WLH_FRAME_HEADER_SIZE > unat (ccfg_max_frame_size (c_config s)) \<or>
      credit_units = 0
    then ret WLH_COPROC_INVALID_ARGUMENT
    else if channel \<noteq> WLH_CHANNEL_LINK_CONTROL \<and> c_tx_credit s channel < credit_units then do {
      coproc_set_state WLH_COPROC_STATE_CONGESTED;
      ret WLH_COPROC_NO_CREDIT
    }
    else do {
      frame \<leftarrow> coproc_alloc (WLH_FRAME_HEADER_SIZE + length payload);
      if \<not> frame then ret WLH_COPROC_BACKEND_ERROR
      else do {
        let header = (wlh_frame_header_init channel)
          \<lparr>fh_session_id := c_session_id s, fh_sequence := c_tx_sequence s channel\<rparr>;
        let (wire, bytes) =
          frame_encode_buf (WLH_FRAME_HEADER_SIZE + length payload) header payload;
        if wire \<noteq> WLH_WIRE_OK then do {
          coproc_free;
          ret WLH_COPROC_PROTOCOL_ERROR
        }
        else do {
          accepted \<leftarrow> coproc_submit_tx bytes;
          if \<not> accepted then do {
            coproc_free;
            ret WLH_COPROC_TRANSPORT_ERROR
          }
          else do {
            modify (\<lambda>s. s\<lparr>c_tx_sequence :=
              (c_tx_sequence s)(channel := c_tx_sequence s channel + 1)\<rparr>);
            whenM (channel \<noteq> WLH_CHANNEL_LINK_CONTROL) (modify (\<lambda>s. s\<lparr>c_tx_credit :=
              (c_tx_credit s)(channel := c_tx_credit s channel - credit_units)\<rparr>));
            coproc_diag (\<lambda>d. d\<lparr>cd_tx_frames := cd_tx_frames d + 1\<rparr>);
            ret WLH_COPROC_OK
          }
        }
      }
    }
  }"

definition coproc_send_payload :: "u8 \<Rightarrow> u8 list \<Rightarrow> (coproc, coproc_result) state" where
  "coproc_send_payload channel payload = coproc_send_payload_units channel payload 1"

section \<open>RPC messages\<close>

definition coproc_send_rpc ::
  "u16 \<Rightarrow> u16 \<Rightarrow> u32 \<Rightarrow> u8 \<Rightarrow> u16 \<Rightarrow> i16 \<Rightarrow> u8 list \<Rightarrow> (coproc, coproc_result) state" where
  "coproc_send_rpc service_id method_id request_id kind status_domain status_code payload = (
    if length payload > RPC_BUFFER_SIZE - WLH_RPC_ENVELOPE_SIZE
    then ret WLH_COPROC_INVALID_ARGUMENT
    else do {
      let rpc_capacity = WLH_RPC_ENVELOPE_SIZE + length payload;
      rpc \<leftarrow> coproc_alloc rpc_capacity;
      if \<not> rpc then ret WLH_COPROC_BACKEND_ERROR
      else do {
        let envelope = empty_envelope\<lparr>re_service_id := service_id, re_method_id := method_id,
          re_request_id := request_id, re_kind := kind, re_status_domain := status_domain,
          re_status_code := status_code\<rparr>;
        let (wire, bytes) = rpc_encode_buf rpc_capacity envelope payload;
        if wire \<noteq> WLH_WIRE_OK then do {
          coproc_free;
          ret WLH_COPROC_PROTOCOL_ERROR
        }
        else do {
          result \<leftarrow> coproc_send_payload
            (if service_id = WLH_SERVICE_LINK then WLH_CHANNEL_LINK_CONTROL
             else WLH_CHANNEL_CONTROL_RPC) bytes;
          coproc_free;
          ret result
        }
      }
    })"

text \<open>The encoder into a buffer of the given capacity.\<close>

definition encode_message :: "coproc_pb \<Rightarrow> nat \<Rightarrow> coproc_msg \<Rightarrow> bool \<times> u8 list" where
  "encode_message pb capacity message = (case cpb_encode pb capacity message of
      None \<Rightarrow> (False, [])
    | Some bs \<Rightarrow> (True, bs))"

definition coproc_send_rpc_message ::
  "u16 \<Rightarrow> u16 \<Rightarrow> u32 \<Rightarrow> u8 \<Rightarrow> u16 \<Rightarrow> i16 \<Rightarrow> coproc_msg \<Rightarrow> (coproc, coproc_result) state" where
  "coproc_send_rpc_message service_id method_id request_id kind status_domain status_code message =
    do {
      pb \<leftarrow> gets c_pb;
      case cpb_encoded_size pb message of
        None \<Rightarrow> ret WLH_COPROC_PROTOCOL_ERROR
      | Some payload_size \<Rightarrow>
          if payload_size > RPC_BUFFER_SIZE - WLH_RPC_ENVELOPE_SIZE
          then ret WLH_COPROC_PROTOCOL_ERROR
          else if payload_size = 0
          then coproc_send_rpc service_id method_id request_id kind status_domain status_code []
          else do {
            payload \<leftarrow> coproc_alloc payload_size;
            if \<not> payload then ret WLH_COPROC_BACKEND_ERROR
            else do {
              let (encoded, bytes) = encode_message pb payload_size message;
              if \<not> encoded \<or> length bytes \<noteq> payload_size then do {
                coproc_free;
                ret WLH_COPROC_PROTOCOL_ERROR
              }
              else do {
                result \<leftarrow>
                  coproc_send_rpc service_id method_id request_id kind status_domain status_code bytes;
                coproc_free;
                ret result
              }
            }
          }
    }"

definition coproc_send_credit_update :: "u8 \<Rightarrow> u32 \<Rightarrow> (coproc, coproc_result) state" where
  "coproc_send_credit_update channel units =
    (if units = 0 then ret WLH_COPROC_OK
     else coproc_send_rpc_message WLH_SERVICE_LINK WLH_LINK_METHOD_CREDIT_UPDATE 0
       WLH_RPC_KIND_EVENT 0 0
       (CMsg_CreditUpdate \<lparr>cu_channel_id = ucast channel, cu_units = units\<rparr>))"

section \<open>Status responses\<close>

text \<open>A response without a message, to the request with this service, method and number.\<close>

definition send_empty_response ::
  "rpc_envelope \<Rightarrow> u16 \<Rightarrow> i16 \<Rightarrow> (coproc, coproc_result) state" where
  "send_empty_response request status_domain status_code =
    coproc_send_rpc (re_service_id request) (re_method_id request) (re_request_id request)
      WLH_RPC_KIND_RESPONSE status_domain status_code []"

definition send_status :: "rpc_envelope \<Rightarrow> int \<Rightarrow> (coproc, coproc_result) state" where
  "send_status request backend_status =
    coproc_send_rpc (re_service_id request) (re_method_id request) (re_request_id request)
      WLH_RPC_KIND_RESPONSE
      (if backend_status = 0 then WLH_STATUS_DOMAIN_NONE else WLH_STATUS_DOMAIN_WIFI)
      (if backend_status = 0 then WLH_STATUS_OK else WLH_STATUS_INTERNAL) []"

definition service_status_to_wire :: "int \<Rightarrow> i16" where
  "service_status_to_wire status =
    (if status = WLH_COPROC_SERVICE_OK then WLH_STATUS_OK
     else if status = WLH_COPROC_SERVICE_INVALID_ARGUMENT then WLH_STATUS_INVALID_ARGUMENT
     else if status = WLH_COPROC_SERVICE_NOT_FOUND then WLH_STATUS_NOT_FOUND
     else if status = WLH_COPROC_SERVICE_NOT_SUPPORTED then WLH_STATUS_NOT_SUPPORTED
     else if status = WLH_COPROC_SERVICE_INVALID_STATE then WLH_STATUS_NOT_READY
     else if status = WLH_COPROC_SERVICE_NO_SPACE then WLH_STATUS_RESOURCE_EXHAUSTED
     else WLH_STATUS_INTERNAL)"

definition send_service_error :: "rpc_envelope \<Rightarrow> u16 \<Rightarrow> int \<Rightarrow> (coproc, coproc_result) state" where
  "send_service_error request status_domain status =
    coproc_send_rpc (re_service_id request) (re_method_id request) (re_request_id request)
      WLH_RPC_KIND_RESPONSE status_domain (service_status_to_wire status) []"

text \<open>The answer of every service to a method it does not know.\<close>

definition send_not_supported :: "rpc_envelope \<Rightarrow> (coproc, coproc_result) state" where
  "send_not_supported request =
    send_empty_response request WLH_STATUS_DOMAIN_PROTOCOL WLH_STATUS_NOT_SUPPORTED"

section \<open>Queued events\<close>

definition send_event_message :: "u16 \<Rightarrow> u16 \<Rightarrow> coproc_msg \<Rightarrow> (coproc, coproc_result) state" where
  "send_event_message service_id method_id message = do {
    pb \<leftarrow> gets c_pb;
    case cpb_encoded_size pb message of
      None \<Rightarrow> ret WLH_COPROC_PROTOCOL_ERROR
    | Some event_size \<Rightarrow>
        if event_size > RPC_BUFFER_SIZE then ret WLH_COPROC_PROTOCOL_ERROR
        else do {
          job \<leftarrow> coproc_alloc event_size;
          if \<not> job then ret WLH_COPROC_BACKEND_ERROR
          else do {
            let (encoded, bytes) = encode_message pb event_size message;
            if \<not> encoded \<or> length bytes \<noteq> event_size then do {
              coproc_free;
              ret WLH_COPROC_PROTOCOL_ERROR
            }
            else do {
              queued \<leftarrow> coproc_enqueue_job (COPROC_JOB_RPC_EVENT
                \<lparr>cdj_method_id = method_id, cdj_service_id = service_id, cdj_channel = 0,
                 cdj_capacity = 0, cdj_data = bytes\<rparr>);
              if \<not> queued then do {
                coproc_free;
                ret WLH_COPROC_BACKEND_ERROR
              }
              else ret WLH_COPROC_OK
            }
          }
        }
  }"

text \<open>The ingress calls of the backends: copy the result into a job and queue it.\<close>

definition enqueue_completion :: "coproc_job \<Rightarrow> (coproc, coproc_result) state" where
  "enqueue_completion completed = do {
    job \<leftarrow> coproc_alloc 0;
    if \<not> job then ret WLH_COPROC_BACKEND_ERROR
    else do {
      queued \<leftarrow> coproc_enqueue_job completed;
      if \<not> queued then do {
        coproc_free;
        ret WLH_COPROC_BACKEND_ERROR
      }
      else ret WLH_COPROC_OK
    }
  }"

end
