(* ===== verification/Coproc_Ethernet.thy ===== *)
theory Coproc_Ethernet
  imports Coproc_Wire
begin

text \<open>
  The Ethernet data path of the coprocessor: credits held back for received records, their
  completion by the backend and their return (coproc-core/src/coproc_frame.c), sending
  (coproc-core/src/coproc_ethernet.c) and the aggregation of queued records (coproc.c).
\<close>

section \<open>Held-back credits\<close>

definition coproc_ethernet_channel_index :: "u8 \<Rightarrow> nat option" where
  "coproc_ethernet_channel_index channel =
    (if channel = WLH_CHANNEL_ETHERNET_STA then Some 0
     else if channel = WLH_CHANNEL_ETHERNET_AP then Some 1
     else if channel = WLH_CHANNEL_ETHERNET_ETH then Some 2 else None)"

definition reset_ethernet_rx_completions :: "coproc \<Rightarrow> coproc" where
  "reset_ethernet_rx_completions s = s\<lparr>
    c_ethernet_rx_pending_credit := (c_ethernet_rx_pending_credit s)(0 := 0, 1 := 0, 2 := 0),
    c_ethernet_rx_pending_failures := 0, c_ethernet_rx_wake_queued := False\<rparr>"

definition flush_channels :: "(nat \<times> u8) list" where
  "flush_channels =
    [(0, WLH_CHANNEL_ETHERNET_STA), (1, WLH_CHANNEL_ETHERNET_AP), (2, WLH_CHANNEL_ETHERNET_ETH)]"

fun flush_completion_loop :: "bool \<Rightarrow> (nat \<times> u8) list \<Rightarrow> (coproc, bool) state" where
  "flush_completion_loop retry [] = ret retry"
| "flush_completion_loop retry ((index, channel) # rest) = do {
    units \<leftarrow> gets (\<lambda>s. c_ethernet_rx_pending_credit s index);
    if units = 0 then flush_completion_loop retry rest
    else do {
      modify (\<lambda>s. s\<lparr>c_ethernet_rx_pending_credit :=
        (c_ethernet_rx_pending_credit s)(index := 0)\<rparr>);
      session \<leftarrow> gets c_session_id;
      result \<leftarrow> (if session = 0 then ret WLH_COPROC_INVALID_STATE
        else coproc_send_credit_update channel units);
      if result \<noteq> WLH_COPROC_OK then do {
        modify (\<lambda>s. s\<lparr>c_ethernet_rx_pending_credit := (c_ethernet_rx_pending_credit s)
          (index := sat_add (c_ethernet_rx_pending_credit s index) units)\<rparr>);
        flush_completion_loop True rest
      }
      else flush_completion_loop retry rest
    }
  }"

definition flush_ethernet_rx_completions :: "(coproc, bool) state" where
  "flush_ethernet_rx_completions = do {
    modify (\<lambda>s. s\<lparr>c_ethernet_rx_wake_queued := False\<rparr>);
    failures \<leftarrow> gets c_ethernet_rx_pending_failures;
    whenM (failures \<noteq> 0) (do {
      coproc_diag (\<lambda>d. d\<lparr>cd_ethernet_rx_failed := cd_ethernet_rx_failed d + failures\<rparr>);
      modify (\<lambda>s. s\<lparr>c_ethernet_rx_pending_failures := 0\<rparr>)
    });
    flush_completion_loop False flush_channels
  }"

definition wake_batch_units :: "coproc \<Rightarrow> u32" where
  "wake_batch_units s = (let batch_units = ccfg_initial_credit (c_config s) in
    if batch_units = 0 \<or> batch_units > WLH_ETHERNET_CREDIT_BATCH_UNITS
    then WLH_ETHERNET_CREDIT_BATCH_UNITS else batch_units)"

definition wlh_coproc_ethernet_rx_complete ::
  "u32 \<Rightarrow> u8 \<Rightarrow> u32 \<Rightarrow> int \<Rightarrow> (coproc, coproc_result) state" where
  "wlh_coproc_ethernet_rx_complete session_id channel units backend_status =
    (case coproc_ethernet_channel_index channel of
      None \<Rightarrow> ret WLH_COPROC_INVALID_ARGUMENT
    | Some index \<Rightarrow>
        if units = 0 then ret WLH_COPROC_INVALID_ARGUMENT
        else do {
          s \<leftarrow> State_Monad.get;
          locked \<leftarrow> (if c_worker_started s then do {
              let ok = (osal_mutex_lock (ccfg_osal (c_config s)) (length (c_trace s)) = 0);
              coproc_emit (CLock ok);
              ret ok
            } else ret False);
          if \<not> locked then ret WLH_COPROC_INVALID_STATE
          else if c_session_id s = 0 \<or> session_id \<noteq> c_session_id s
          then ret WLH_COPROC_INVALID_STATE
          else do {
            modify (\<lambda>s. s\<lparr>c_ethernet_rx_pending_credit := (c_ethernet_rx_pending_credit s)
              (index := sat_add (c_ethernet_rx_pending_credit s index) units)\<rparr>);
            whenM (backend_status \<noteq> 0) (modify (\<lambda>s.
              if c_ethernet_rx_pending_failures s < UINT32_MAX
              then s\<lparr>c_ethernet_rx_pending_failures := c_ethernet_rx_pending_failures s + 1\<rparr>
              else s));
            s \<leftarrow> State_Monad.get;
            (if \<not> c_ethernet_rx_wake_queued s \<and>
                c_ethernet_rx_pending_credit s index \<ge> wake_batch_units s
             then do {
               modify (\<lambda>s. s\<lparr>c_ethernet_rx_wake_queued := True\<rparr>);
               _ \<leftarrow> coproc_enqueue_job COPROC_JOB_ETHERNET_RX_COMPLETE;
               ret ()
             }
             else ret ());
            ret WLH_COPROC_OK
          }
        })"

section \<open>Sending\<close>

text \<open>\<open>None\<close> for a NULL frame.\<close>

definition coproc_ethernet_send :: "u8 \<Rightarrow> u8 list option \<Rightarrow> (coproc, coproc_result) state" where
  "coproc_ethernet_send channel frame = do {
    started \<leftarrow> gets c_worker_started;
    case frame of
      None \<Rightarrow> ret WLH_COPROC_INVALID_ARGUMENT
    | Some frame \<Rightarrow>
        if length frame + RAW_HEADER_SIZE > WLH_COPROC_MAX_FRAME_SIZE - WLH_FRAME_HEADER_SIZE \<or>
          \<not> started
        then ret WLH_COPROC_INVALID_ARGUMENT
        else do {
          slot \<leftarrow> coproc_semaphore_take;
          if \<not> slot then ret WLH_COPROC_BACKEND_ERROR
          else do {
            job \<leftarrow> coproc_alloc (RAW_HEADER_SIZE + length frame);
            if \<not> job then do {
              coproc_semaphore_give;
              ret WLH_COPROC_BACKEND_ERROR
            }
            else do {
              let (wire, record_data) = record_encode_buf (RAW_HEADER_SIZE + length frame) 1 0 frame;
              if wire \<noteq> WLH_WIRE_OK then do {
                coproc_free;
                coproc_semaphore_give;
                ret WLH_COPROC_INVALID_ARGUMENT
              }
              else do {
                queued \<leftarrow> coproc_enqueue_job (COPROC_JOB_ETHERNET_TX
                  \<lparr>cdj_method_id = 0, cdj_service_id = 0, cdj_channel = channel,
                   cdj_capacity = length record_data, cdj_data = record_data\<rparr>);
                if \<not> queued then do {
                  coproc_free;
                  coproc_semaphore_give;
                  ret WLH_COPROC_BACKEND_ERROR
                }
                else ret WLH_COPROC_OK
              }
            }
          }
        }
  }"

definition wlh_coproc_ethernet_sta_send :: "u8 list option \<Rightarrow> (coproc, coproc_result) state" where
  "wlh_coproc_ethernet_sta_send frame = coproc_ethernet_send WLH_CHANNEL_ETHERNET_STA frame"

definition wlh_coproc_ethernet_ap_send :: "u8 list option \<Rightarrow> (coproc, coproc_result) state" where
  "wlh_coproc_ethernet_ap_send frame = coproc_ethernet_send WLH_CHANNEL_ETHERNET_AP frame"

definition wlh_coproc_ethernet_eth_send :: "u8 list option \<Rightarrow> (coproc, coproc_result) state" where
  "wlh_coproc_ethernet_eth_send frame = coproc_ethernet_send WLH_CHANNEL_ETHERNET_ETH frame"

section \<open>Aggregation\<close>

text \<open>Grow the first job to a full payload; \<open>None\<close> when the allocation fails.\<close>

definition coproc_grow_job :: "nat \<Rightarrow> coproc_data_job \<Rightarrow> (coproc, coproc_data_job option) state" where
  "coproc_grow_job payload_capacity data =
    (if cdj_capacity data < payload_capacity then do {
       expanded \<leftarrow> coproc_alloc payload_capacity;
       if \<not> expanded then ret None
       else do {
         coproc_free;
         ret (Some \<lparr>cdj_method_id = 0, cdj_service_id = 0, cdj_channel = cdj_channel data,
           cdj_capacity = payload_capacity, cdj_data = cdj_data data\<rparr>)
       }
     }
     else ret (Some data))"

text \<open>The loop ends when the queue is empty at the latest; the fuel is the number of jobs in it.
  A limit of zero means no limit but the frame size.\<close>

fun coproc_aggregate_loop ::
  "nat \<Rightarrow> nat \<Rightarrow> coproc_data_job \<Rightarrow> u32 \<Rightarrow> (coproc, coproc_data_job \<times> u32) state" where
  "coproc_aggregate_loop 0 payload_capacity data credit_units = ret (data, credit_units)"
| "coproc_aggregate_loop (Suc fuel) payload_capacity data credit_units = do {
    s \<leftarrow> State_Monad.get;
    if (ccfg_ethernet_tx_aggregation_limit (c_config s) = 0 \<or>
        credit_units < ucast (ccfg_ethernet_tx_aggregation_limit (c_config s))) \<and>
      c_deferred_job s = None
    then do {
      next_job \<leftarrow> coproc_queue_receive;
      case next_job of
        None \<Rightarrow> ret (data, credit_units)
      | Some (COPROC_JOB_ETHERNET_TX candidate) \<Rightarrow>
          if cdj_channel candidate \<noteq> cdj_channel data \<or>
            length (cdj_data data) > payload_capacity \<or>
            length (cdj_data candidate) > payload_capacity - length (cdj_data data)
          then do {
            modify (\<lambda>s. s\<lparr>c_deferred_job := Some (COPROC_JOB_ETHERNET_TX candidate)\<rparr>);
            ret (data, credit_units)
          }
          else do {
            grown \<leftarrow> coproc_grow_job payload_capacity data;
            case grown of
              None \<Rightarrow> do {
                modify (\<lambda>s. s\<lparr>c_deferred_job := Some (COPROC_JOB_ETHERNET_TX candidate)\<rparr>);
                ret (data, credit_units)
              }
            | Some data \<Rightarrow> do {
                coproc_semaphore_give;
                coproc_free;
                coproc_aggregate_loop fuel payload_capacity
                  (data\<lparr>cdj_data := cdj_data data @ cdj_data candidate\<rparr>) (credit_units + 1)
              }
          }
      | Some job \<Rightarrow> do {
          modify (\<lambda>s. s\<lparr>c_deferred_job := Some job\<rparr>);
          ret (data, credit_units)
        }
    }
    else ret (data, credit_units)
  }"

definition coproc_aggregate_ethernet_jobs ::
  "coproc_data_job \<Rightarrow> (coproc, coproc_data_job \<times> u32) state" where
  "coproc_aggregate_ethernet_jobs data = do {
    s \<leftarrow> State_Monad.get;
    let payload_capacity = unat (ccfg_max_frame_size (c_config s)) - WLH_FRAME_HEADER_SIZE;
    coproc_aggregate_loop (length (c_core_queue s)) payload_capacity data 1
  }"

end
