(* ===== verification/Coproc_Ota.thy ===== *)
theory Coproc_Ota
  imports Coproc_Wire
begin

text \<open>
  The OTA service of the coprocessor (coproc-core/src/coproc_ota.c): the transfer state machine,
  the requests BEGIN, FINALIZE, ABORT, ACTIVATE and QUERY, the firmware chunks of the OTA_STREAM
  channel and the completions of the backend.
\<close>

section \<open>States\<close>

definition OTA_STATE_UNSPECIFIED :: u32 where "OTA_STATE_UNSPECIFIED = 0"
definition OTA_STATE_IDLE :: u32 where "OTA_STATE_IDLE = 1"
definition OTA_STATE_RECEIVING :: u32 where "OTA_STATE_RECEIVING = 2"
definition OTA_STATE_VERIFYING :: u32 where "OTA_STATE_VERIFYING = 3"
definition OTA_STATE_READY_TO_ACTIVATE :: u32 where "OTA_STATE_READY_TO_ACTIVATE = 4"
definition OTA_STATE_FAILED :: u32 where "OTA_STATE_FAILED = 5"

lemmas ota_states = OTA_STATE_UNSPECIFIED_def OTA_STATE_IDLE_def OTA_STATE_RECEIVING_def
  OTA_STATE_VERIFYING_def OTA_STATE_READY_TO_ACTIVATE_def OTA_STATE_FAILED_def

definition OTA_PROGRESS_INTERVAL_BYTES :: u64 where "OTA_PROGRESS_INTERVAL_BYTES = 65536"

definition ota_state_is_idle :: "u32 \<Rightarrow> bool" where
  "ota_state_is_idle st \<longleftrightarrow>
    st = OTA_STATE_UNSPECIFIED \<or> st = OTA_STATE_IDLE \<or> st = OTA_STATE_FAILED"

definition ota_emit_progress :: "(coproc, unit) state" where
  "ota_emit_progress = do {
    s \<leftarrow> State_Monad.get;
    modify (\<lambda>s. s\<lparr>c_ota_progress_reported_bytes := c_ota_bytes_received s\<rparr>);
    _ \<leftarrow> send_event_message WLH_SERVICE_OTA WLH_OTA_EVENT_PROGRESS
      (CMsg_OtaProgress \<lparr>opm_transfer_id = c_ota_transfer_id s, opm_state = c_ota_state s,
        opm_bytes_received = c_ota_bytes_received s\<rparr>);
    ret ()
  }"

definition ota_set_state :: "u32 \<Rightarrow> (coproc, unit) state" where
  "ota_set_state st = do {
    cur \<leftarrow> gets c_ota_state;
    if cur = st then ret ()
    else do {
      modify (\<lambda>s. s\<lparr>c_ota_state := st\<rparr>);
      ota_emit_progress
    }
  }"

definition ota_reset :: "(coproc, unit) state" where
  "ota_reset = do {
    s \<leftarrow> State_Monad.get;
    let in_progress = (c_ota_state s = OTA_STATE_RECEIVING \<or> c_ota_state s = OTA_STATE_VERIFYING \<or>
      c_ota_state s = OTA_STATE_READY_TO_ACTIVATE);
    (if in_progress \<and> ota_backend_present s \<and> ccfg_ota_abort (c_config s) \<noteq> None then do {
       _ \<leftarrow> backend ccfg_ota_abort (Ota_abort 0 (c_ota_transfer_id s));
       ret ()
     }
     else ret ());
    modify (\<lambda>s. s\<lparr>c_ota_pending := no_pending, c_ota_state := OTA_STATE_IDLE,
      c_ota_transfer_id := 0, c_ota_image_size := 0, c_ota_bytes_accepted := 0,
      c_ota_bytes_received := 0, c_ota_progress_reported_bytes := 0,
      c_ota_target_version := replicate 33 0\<rparr>)
  }"

section \<open>Requests\<close>

definition send_ota_status :: "u16 \<Rightarrow> u32 \<Rightarrow> i16 \<Rightarrow> (coproc, coproc_result) state" where
  "send_ota_status method_id request_id status_code =
    coproc_send_rpc WLH_SERVICE_OTA method_id request_id WLH_RPC_KIND_RESPONSE
      (if status_code = WLH_STATUS_OK then WLH_STATUS_DOMAIN_NONE else WLH_STATUS_DOMAIN_OTA)
      status_code []"

definition ota_begin_operation :: "rpc_envelope \<Rightarrow> (coproc, u32) state" where
  "ota_begin_operation request = do {
    operation_id \<leftarrow> next_operation_id;
    modify (\<lambda>s. s\<lparr>c_ota_pending := \<lparr>bp_active = True, bp_operation_id = operation_id,
      bp_session_id = c_session_id s, bp_request_id = re_request_id request,
      bp_method_id = re_method_id request\<rparr>\<rparr>);
    ret operation_id
  }"

definition ota_submit_result :: "rpc_envelope \<Rightarrow> int \<Rightarrow> (coproc, coproc_result) state" where
  "ota_submit_result request status =
    (if status \<noteq> 0 then do {
       modify (\<lambda>s. s\<lparr>c_ota_pending := no_pending\<rparr>);
       send_ota_status (re_method_id request) (re_request_id request) WLH_STATUS_INTERNAL
     }
     else ret WLH_COPROC_OK)"

definition ota_next_transfer_id :: "(coproc, u32) state" where
  "ota_next_transfer_id = do {
    transfer_id \<leftarrow> gets c_next_ota_transfer_id;
    modify (\<lambda>s. s\<lparr>c_next_ota_transfer_id := c_next_ota_transfer_id s + 1\<rparr>);
    if transfer_id = 0 then do {
      transfer_id \<leftarrow> gets c_next_ota_transfer_id;
      modify (\<lambda>s. s\<lparr>c_next_ota_transfer_id := c_next_ota_transfer_id s + 1\<rparr>);
      ret transfer_id
    }
    else ret transfer_id
  }"

text \<open>A character array of \<open>n\<close> bytes copied without its last byte into a cleared one.\<close>

definition copy_chars :: "nat \<Rightarrow> u8 list \<Rightarrow> u8 list" where
  "copy_chars n src = take (n - 1) src @ [0]"

definition handle_ota_begin :: "rpc_envelope \<Rightarrow> u8 list \<Rightarrow> (coproc, coproc_result) state" where
  "handle_ota_begin request payload = do {
    s \<leftarrow> State_Monad.get;
    if bp_active (c_ota_pending s)
    then send_ota_status (re_method_id request) (re_request_id request) WLH_STATUS_BUSY
    else if \<not> ota_state_is_idle (c_ota_state s)
    then send_ota_status (re_method_id request) (re_request_id request) WLH_STATUS_BUSY
    else do {
      buffer \<leftarrow> coproc_alloc 0;
      if \<not> buffer then ret WLH_COPROC_BACKEND_ERROR
      else case cpb_dec_ota_begin (c_pb s) payload of
        None \<Rightarrow> do {
          coproc_free;
          ret WLH_COPROC_PROTOCOL_ERROR
        }
      | Some message \<Rightarrow>
          if obm_image_size message = 0 \<or> length (obm_sha256 message) \<noteq> 32 then do {
            coproc_free;
            send_ota_status (re_method_id request) (re_request_id request)
              WLH_STATUS_INVALID_ARGUMENT
          }
          else do {
            transfer_id \<leftarrow> ota_next_transfer_id;
            modify (\<lambda>s. s\<lparr>c_ota_transfer_id := transfer_id,
              c_ota_image_size := obm_image_size message, c_ota_bytes_accepted := 0,
              c_ota_bytes_received := 0, c_ota_progress_reported_bytes := 0,
              c_ota_target_version := copy_chars 33 (obm_target_version message)\<rparr>);
            operation_id \<leftarrow> ota_begin_operation request;
            status \<leftarrow> backend ccfg_ota_begin (Ota_begin_op operation_id transfer_id
              \<lparr>obp_image_type = obm_image_type message, obp_image_size = obm_image_size message,
               obp_sha256 = obm_sha256 message,
               obp_target_version = copy_chars 33 (obm_target_version message),
               obp_slot = copy_chars 17 (obm_slot message),
               obp_signature = obm_signature message\<rparr>);
            coproc_free;
            ota_submit_result request status
          }
    }
  }"

definition handle_ota_finalize :: "rpc_envelope \<Rightarrow> u8 list \<Rightarrow> (coproc, coproc_result) state" where
  "handle_ota_finalize request payload = do {
    s \<leftarrow> State_Monad.get;
    case cpb_dec_ota_finalize (c_pb s) payload of
      None \<Rightarrow> ret WLH_COPROC_PROTOCOL_ERROR
    | Some message \<Rightarrow>
        if bp_active (c_ota_pending s)
        then send_ota_status (re_method_id request) (re_request_id request) WLH_STATUS_BUSY
        else if c_ota_state s \<noteq> OTA_STATE_RECEIVING
        then send_ota_status (re_method_id request) (re_request_id request) WLH_STATUS_NOT_READY
        else if ofm_transfer_id message \<noteq> c_ota_transfer_id s
        then send_ota_status (re_method_id request) (re_request_id request) WLH_STATUS_NOT_FOUND
        else do {
          operation_id \<leftarrow> ota_begin_operation request;
          ota_set_state OTA_STATE_VERIFYING;
          status \<leftarrow> backend ccfg_ota_finalize
            (Ota_finalize operation_id (c_ota_transfer_id s) (ofm_bytes_sent message));
          ota_submit_result request status
        }
  }"

definition handle_ota_abort :: "rpc_envelope \<Rightarrow> u8 list \<Rightarrow> (coproc, coproc_result) state" where
  "handle_ota_abort request payload = do {
    s \<leftarrow> State_Monad.get;
    case cpb_dec_ota_abort (c_pb s) payload of
      None \<Rightarrow> ret WLH_COPROC_PROTOCOL_ERROR
    | Some transfer_id \<Rightarrow>
        if bp_active (c_ota_pending s)
        then send_ota_status (re_method_id request) (re_request_id request) WLH_STATUS_BUSY
        else if ota_state_is_idle (c_ota_state s)
        then send_ota_status (re_method_id request) (re_request_id request) WLH_STATUS_OK
        else if transfer_id \<noteq> c_ota_transfer_id s
        then send_ota_status (re_method_id request) (re_request_id request) WLH_STATUS_NOT_FOUND
        else if ccfg_ota_abort (c_config s) = None then do {
          ota_set_state OTA_STATE_IDLE;
          modify (\<lambda>s. s\<lparr>c_ota_transfer_id := 0\<rparr>);
          send_ota_status (re_method_id request) (re_request_id request) WLH_STATUS_OK
        }
        else do {
          operation_id \<leftarrow> ota_begin_operation request;
          status \<leftarrow> backend ccfg_ota_abort (Ota_abort operation_id (c_ota_transfer_id s));
          ota_submit_result request status
        }
  }"

definition handle_ota_activate :: "rpc_envelope \<Rightarrow> u8 list \<Rightarrow> (coproc, coproc_result) state" where
  "handle_ota_activate request payload = do {
    s \<leftarrow> State_Monad.get;
    case cpb_dec_ota_activate (c_pb s) payload of
      None \<Rightarrow> ret WLH_COPROC_PROTOCOL_ERROR
    | Some message \<Rightarrow>
        if bp_active (c_ota_pending s)
        then send_ota_status (re_method_id request) (re_request_id request) WLH_STATUS_BUSY
        else if c_ota_state s \<noteq> OTA_STATE_READY_TO_ACTIVATE
        then send_ota_status (re_method_id request) (re_request_id request) WLH_STATUS_NOT_READY
        else if oam_transfer_id message \<noteq> c_ota_transfer_id s
        then send_ota_status (re_method_id request) (re_request_id request) WLH_STATUS_NOT_FOUND
        else do {
          operation_id \<leftarrow> ota_begin_operation request;
          status \<leftarrow> backend ccfg_ota_activate
            (Ota_activate operation_id (c_ota_transfer_id s) (oam_reboot message));
          ota_submit_result request status
        }
  }"

definition handle_ota_query :: "rpc_envelope \<Rightarrow> (coproc, coproc_result) state" where
  "handle_ota_query request = do {
    s \<leftarrow> State_Monad.get;
    coproc_send_rpc_message WLH_SERVICE_OTA WLH_OTA_METHOD_QUERY (re_request_id request)
      WLH_RPC_KIND_RESPONSE WLH_STATUS_DOMAIN_NONE WLH_STATUS_OK
      (CMsg_OtaQueryResponse
        \<lparr>oq_state = (if c_ota_state s = OTA_STATE_UNSPECIFIED then OTA_STATE_IDLE
           else c_ota_state s),
         oq_transfer_id = c_ota_transfer_id s, oq_image_size = c_ota_image_size s,
         oq_bytes_received = c_ota_bytes_received s,
         oq_target_version = copy_chars 33 (c_ota_target_version s)\<rparr>)
  }"

definition handle_ota :: "rpc_envelope \<Rightarrow> u8 list \<Rightarrow> (coproc, coproc_result) state" where
  "handle_ota request payload =
    (if re_method_id request = WLH_OTA_METHOD_BEGIN then handle_ota_begin request payload
     else if re_method_id request = WLH_OTA_METHOD_FINALIZE then handle_ota_finalize request payload
     else if re_method_id request = WLH_OTA_METHOD_ABORT then handle_ota_abort request payload
     else if re_method_id request = WLH_OTA_METHOD_ACTIVATE then handle_ota_activate request payload
     else if re_method_id request = WLH_OTA_METHOD_QUERY then handle_ota_query request
     else send_not_supported request)"

section \<open>Firmware chunks\<close>

definition ota_read_u64le :: "u8 list \<Rightarrow> nat \<Rightarrow> u64" where
  "ota_read_u64le p i = ucast (p ! i) OR push_bit 8 (ucast (p ! (i + 1))) OR
    push_bit 16 (ucast (p ! (i + 2))) OR push_bit 24 (ucast (p ! (i + 3))) OR
    push_bit 32 (ucast (p ! (i + 4))) OR push_bit 40 (ucast (p ! (i + 5))) OR
    push_bit 48 (ucast (p ! (i + 6))) OR push_bit 56 (ucast (p ! (i + 7)))"

definition ota_read_u32le :: "u8 list \<Rightarrow> nat \<Rightarrow> u32" where
  "ota_read_u32le p i = ucast (p ! i) OR push_bit 8 (ucast (p ! (i + 1))) OR
    push_bit 16 (ucast (p ! (i + 2))) OR push_bit 24 (ucast (p ! (i + 3)))"

definition ota_read_u16le :: "u8 list \<Rightarrow> nat \<Rightarrow> u16" where
  "ota_read_u16le p i = ucast (p ! i) OR push_bit 8 (ucast (p ! (i + 1)))"

definition ota_fail_transfer :: "(coproc, unit) state" where
  "ota_fail_transfer = ota_set_state OTA_STATE_FAILED"

text \<open>The single record of a chunk frame, \<open>None\<close> where the code jumps to \<open>reject\<close>: the first
  record exists and is a chunk, and nothing follows it.\<close>

definition ota_chunk_record :: "u8 list \<Rightarrow> u8 list option" where
  "ota_chunk_record payload =
    (if payload = [] then None
     else case raw_records payload of
       ([(record_type, flags, p)], result) \<Rightarrow>
         if record_type \<noteq> WLH_COPROC_OTA_RECORD_TYPE \<or>
           length p < WLH_COPROC_OTA_STREAM_HEADER_SIZE \<or> result \<noteq> WLH_WIRE_END
         then None else Some p
     | _ \<Rightarrow> None)"

text \<open>The two checks of a chunk against the transfer. The sums and comparisons are on \<open>uint64_t\<close>.\<close>

definition ota_chunk_ok :: "coproc \<Rightarrow> u8 list \<Rightarrow> bool" where
  "ota_chunk_ok s header = (
    let transfer_id = ota_read_u32le header 0;
        offset = ota_read_u64le header 4;
        data_size = ota_read_u16le header 12;
        data_len = length header - WLH_COPROC_OTA_STREAM_HEADER_SIZE;
        last_chunk = (offset + of_nat data_len = c_ota_image_size s)
    in \<not> (c_ota_state s \<noteq> OTA_STATE_RECEIVING \<or> transfer_id \<noteq> c_ota_transfer_id s \<or>
          unat data_size \<noteq> data_len \<or> data_len = 0 \<or> data_len > WLH_COPROC_OTA_CHUNK_SIZE \<or>
          offset \<noteq> c_ota_bytes_accepted s \<or> offset > c_ota_image_size s \<or>
          of_nat data_len > c_ota_image_size s - offset) \<and>
      \<not> (unat offset mod WLH_COPROC_OTA_ALIGNMENT \<noteq> 0 \<or>
          (\<not> last_chunk \<and> data_len mod WLH_COPROC_OTA_ALIGNMENT \<noteq> 0)))"

definition ota_reject_chunk :: "(coproc, coproc_result) state" where
  "ota_reject_chunk = do {
    st \<leftarrow> gets c_ota_state;
    whenM (st = OTA_STATE_RECEIVING \<or> st = OTA_STATE_VERIFYING) ota_fail_transfer;
    _ \<leftarrow> coproc_send_credit_update WLH_CHANNEL_OTA_STREAM 1;
    ret WLH_COPROC_PROTOCOL_ERROR
  }"

definition coproc_process_ota_frame :: "u8 list \<Rightarrow> (coproc, coproc_result) state" where
  "coproc_process_ota_frame payload = do {
    s \<leftarrow> State_Monad.get;
    if \<not> ota_backend_present s then ret WLH_COPROC_PROTOCOL_ERROR
    else case ota_chunk_record payload of
      None \<Rightarrow> ota_reject_chunk
    | Some header \<Rightarrow>
        if \<not> ota_chunk_ok s header then ota_reject_chunk
        else do {
          let data = drop WLH_COPROC_OTA_STREAM_HEADER_SIZE header;
          status \<leftarrow> backend ccfg_ota_write
            (Ota_write (c_ota_transfer_id s) (ota_read_u64le header 4) data);
          if status \<noteq> 0 then do {
            ota_fail_transfer;
            _ \<leftarrow> coproc_send_credit_update WLH_CHANNEL_OTA_STREAM 1;
            ret WLH_COPROC_BACKEND_ERROR
          }
          else do {
            modify (\<lambda>s. s\<lparr>c_ota_bytes_accepted := c_ota_bytes_accepted s + of_nat (length data)\<rparr>);
            ret WLH_COPROC_OK
          }
        }
  }"

section \<open>Completions\<close>

definition ota_operation_completed :: "u32 \<Rightarrow> int \<Rightarrow> (coproc, unit) state" where
  "ota_operation_completed operation_id backend_status = do {
    s \<leftarrow> State_Monad.get;
    let pending = c_ota_pending s;
    if \<not> bp_active pending \<or> operation_id \<noteq> bp_operation_id pending \<or>
      bp_session_id pending \<noteq> c_session_id s
    then ret ()
    else do {
      let method_id = bp_method_id pending;
      let request_id = bp_request_id pending;
      modify (\<lambda>s. s\<lparr>c_ota_pending := no_pending\<rparr>);
      if backend_status \<noteq> 0 then do {
        whenM (method_id \<noteq> WLH_OTA_METHOD_ABORT) (ota_set_state OTA_STATE_FAILED);
        _ \<leftarrow> send_ota_status method_id request_id WLH_STATUS_INTERNAL;
        ret ()
      }
      else if method_id = WLH_OTA_METHOD_BEGIN then do {
        ota_set_state OTA_STATE_RECEIVING;
        transfer_id \<leftarrow> gets c_ota_transfer_id;
        _ \<leftarrow> coproc_send_rpc_message WLH_SERVICE_OTA WLH_OTA_METHOD_BEGIN request_id
          WLH_RPC_KIND_RESPONSE WLH_STATUS_DOMAIN_NONE WLH_STATUS_OK
          (CMsg_OtaBeginResponse \<lparr>ob_transfer_id = transfer_id,
            ob_stream_chunk_size = of_nat WLH_COPROC_OTA_CHUNK_SIZE,
            ob_stream_alignment = of_nat WLH_COPROC_OTA_ALIGNMENT\<rparr>);
        ret ()
      }
      else if method_id = WLH_OTA_METHOD_FINALIZE then do {
        ota_set_state OTA_STATE_READY_TO_ACTIVATE;
        _ \<leftarrow> send_ota_status WLH_OTA_METHOD_FINALIZE request_id WLH_STATUS_OK;
        ret ()
      }
      else if method_id = WLH_OTA_METHOD_ABORT then do {
        _ \<leftarrow> send_ota_status WLH_OTA_METHOD_ABORT request_id WLH_STATUS_OK;
        ota_set_state OTA_STATE_IDLE;
        modify (\<lambda>s. s\<lparr>c_ota_transfer_id := 0, c_ota_bytes_accepted := 0,
          c_ota_bytes_received := 0\<rparr>)
      }
      else if method_id = WLH_OTA_METHOD_ACTIVATE then do {
        _ \<leftarrow> send_ota_status WLH_OTA_METHOD_ACTIVATE request_id WLH_STATUS_OK;
        ret ()
      }
      else ret ()
    }
  }"

definition ota_write_completed :: "u32 \<Rightarrow> u64 \<Rightarrow> int \<Rightarrow> (coproc, unit) state" where
  "ota_write_completed transfer_id bytes_received backend_status = do {
    _ \<leftarrow> coproc_send_credit_update WLH_CHANNEL_OTA_STREAM 1;
    s \<leftarrow> State_Monad.get;
    if transfer_id \<noteq> c_ota_transfer_id s \<or> c_ota_state s \<noteq> OTA_STATE_RECEIVING then ret ()
    else if backend_status \<noteq> 0 then ota_fail_transfer
    else do {
      modify (\<lambda>s. if bytes_received > c_ota_bytes_received s
        then s\<lparr>c_ota_bytes_received := bytes_received\<rparr> else s);
      s \<leftarrow> State_Monad.get;
      whenM (c_ota_bytes_received s = c_ota_image_size s \<or>
          c_ota_bytes_received s - c_ota_progress_reported_bytes s \<ge> OTA_PROGRESS_INTERVAL_BYTES)
        ota_emit_progress
    }
  }"

section \<open>Ingress\<close>

definition ota_enqueue_complete :: "u32 \<Rightarrow> int \<Rightarrow> (coproc, coproc_result) state" where
  "ota_enqueue_complete operation_id backend_status = do {
    started \<leftarrow> gets c_worker_started;
    if operation_id = 0 \<or> \<not> started then ret WLH_COPROC_INVALID_ARGUMENT
    else enqueue_completion (COPROC_JOB_OTA_COMPLETE operation_id backend_status)
  }"

definition wlh_coproc_ota_begin_complete :: "u32 \<Rightarrow> int \<Rightarrow> (coproc, coproc_result) state" where
  "wlh_coproc_ota_begin_complete operation_id status = ota_enqueue_complete operation_id status"

definition wlh_coproc_ota_finalize_complete :: "u32 \<Rightarrow> int \<Rightarrow> (coproc, coproc_result) state" where
  "wlh_coproc_ota_finalize_complete operation_id status = ota_enqueue_complete operation_id status"

definition wlh_coproc_ota_abort_complete :: "u32 \<Rightarrow> int \<Rightarrow> (coproc, coproc_result) state" where
  "wlh_coproc_ota_abort_complete operation_id status = ota_enqueue_complete operation_id status"

definition wlh_coproc_ota_activate_complete :: "u32 \<Rightarrow> int \<Rightarrow> (coproc, coproc_result) state" where
  "wlh_coproc_ota_activate_complete operation_id status = ota_enqueue_complete operation_id status"

definition wlh_coproc_ota_write_complete :: "u32 \<Rightarrow> u64 \<Rightarrow> int \<Rightarrow> (coproc, coproc_result) state" where
  "wlh_coproc_ota_write_complete transfer_id bytes_received backend_status = do {
    started \<leftarrow> gets c_worker_started;
    if \<not> started then ret WLH_COPROC_INVALID_ARGUMENT
    else enqueue_completion
      (COPROC_JOB_OTA_WRITE_COMPLETE transfer_id bytes_received backend_status)
  }"

end
