(* ===== verification/Coproc_Bluetooth.thy ===== *)
theory Coproc_Bluetooth
  imports Coproc_Wire
begin

text \<open>
  The Bluetooth controller service of the coprocessor (coproc-core/src/coproc_bluetooth.c): the
  lifecycle requests and their completions, HCI packets in both directions, the ERROR latch.
\<close>

section \<open>Responses and operations\<close>

definition send_bluetooth_status :: "u16 \<Rightarrow> u32 \<Rightarrow> i16 \<Rightarrow> (coproc, coproc_result) state" where
  "send_bluetooth_status method_id request_id status_code =
    coproc_send_rpc WLH_SERVICE_BLUETOOTH method_id request_id WLH_RPC_KIND_RESPONSE
      (if status_code = WLH_STATUS_OK then WLH_STATUS_DOMAIN_NONE else WLH_STATUS_DOMAIN_BLUETOOTH)
      status_code []"

definition bluetooth_enter_error :: "u32 \<Rightarrow> (coproc, unit) state" where
  "bluetooth_enter_error reason = do {
    modify (\<lambda>s. s\<lparr>c_bluetooth_state := BT_STATE_ERROR, c_bluetooth_hci_stopped := True\<rparr>);
    _ \<leftarrow> coproc_send_rpc_message WLH_SERVICE_BLUETOOTH WLH_BLUETOOTH_EVENT_STATE_CHANGED 0
      WLH_RPC_KIND_EVENT WLH_STATUS_DOMAIN_NONE WLH_STATUS_OK
      (CMsg_BluetoothStateChanged \<lparr>bs_state = BT_STATE_ERROR, bs_reason = reason\<rparr>);
    ret ()
  }"

definition bluetooth_begin_operation :: "rpc_envelope \<Rightarrow> (coproc, u32) state" where
  "bluetooth_begin_operation request = do {
    operation_id \<leftarrow> next_operation_id;
    modify (\<lambda>s. s\<lparr>c_bluetooth_pending := \<lparr>bp_active = True, bp_operation_id = operation_id,
      bp_session_id = c_session_id s, bp_request_id = re_request_id request,
      bp_method_id = re_method_id request\<rparr>\<rparr>);
    ret operation_id
  }"

definition bluetooth_submit_result :: "rpc_envelope \<Rightarrow> int \<Rightarrow> (coproc, coproc_result) state" where
  "bluetooth_submit_result request status =
    (if status \<noteq> 0 then do {
       modify (\<lambda>s. s\<lparr>c_bluetooth_pending := no_pending\<rparr>);
       send_bluetooth_status (re_method_id request) (re_request_id request) WLH_STATUS_INTERNAL
     }
     else ret WLH_COPROC_OK)"

section \<open>Requests\<close>

text \<open>The value of \<open>BLUETOOTH_TRANSPORT_HCI\<close>.\<close>

definition BLUETOOTH_TRANSPORT_HCI :: u32 where "BLUETOOTH_TRANSPORT_HCI = 1"

definition handle_bt_initialize :: "rpc_envelope \<Rightarrow> u8 list \<Rightarrow> (coproc, coproc_result) state" where
  "handle_bt_initialize request payload = do {
    s \<leftarrow> State_Monad.get;
    case cpb_dec_bluetooth_initialize (c_pb s) payload of
      None \<Rightarrow> ret WLH_COPROC_PROTOCOL_ERROR
    | Some message \<Rightarrow>
        if bin_transport message \<noteq> BLUETOOTH_TRANSPORT_HCI
        then send_bluetooth_status (re_method_id request) (re_request_id request)
          WLH_STATUS_NOT_SUPPORTED
        else if bp_active (c_bluetooth_pending s)
        then send_bluetooth_status (re_method_id request) (re_request_id request) WLH_STATUS_BUSY
        else if c_bluetooth_state s \<noteq> BT_STATE_UNSPECIFIED
        then send_bluetooth_status (re_method_id request) (re_request_id request) WLH_STATUS_OK
        else do {
          operation_id \<leftarrow> bluetooth_begin_operation request;
          status \<leftarrow> backend ccfg_bluetooth_initialize
            (Bt_initialize operation_id (bin_feature_flags message));
          bluetooth_submit_result request status
        }
  }"

definition handle_bt_enable :: "rpc_envelope \<Rightarrow> u8 list \<Rightarrow> (coproc, coproc_result) state" where
  "handle_bt_enable request payload = do {
    s \<leftarrow> State_Monad.get;
    case cpb_dec_bluetooth_enable (c_pb s) payload of
      None \<Rightarrow> ret WLH_COPROC_PROTOCOL_ERROR
    | Some mode_flags \<Rightarrow>
        if bp_active (c_bluetooth_pending s)
        then send_bluetooth_status (re_method_id request) (re_request_id request) WLH_STATUS_BUSY
        else if c_bluetooth_state s = BT_STATE_UNSPECIFIED \<or> c_bluetooth_state s = BT_STATE_ERROR
        then send_bluetooth_status (re_method_id request) (re_request_id request)
          WLH_STATUS_NOT_READY
        else if c_bluetooth_state s = BT_STATE_ENABLED
        then send_bluetooth_status (re_method_id request) (re_request_id request) WLH_STATUS_OK
        else do {
          operation_id \<leftarrow> bluetooth_begin_operation request;
          status \<leftarrow> backend ccfg_bluetooth_enable (Bt_enable operation_id mode_flags);
          bluetooth_submit_result request status
        }
  }"

definition handle_bt_disable :: "rpc_envelope \<Rightarrow> (coproc, coproc_result) state" where
  "handle_bt_disable request = do {
    s \<leftarrow> State_Monad.get;
    if bp_active (c_bluetooth_pending s)
    then send_bluetooth_status (re_method_id request) (re_request_id request) WLH_STATUS_BUSY
    else if c_bluetooth_state s = BT_STATE_UNSPECIFIED \<or> c_bluetooth_state s = BT_STATE_DISABLED
    then send_bluetooth_status (re_method_id request) (re_request_id request) WLH_STATUS_OK
    else do {
      operation_id \<leftarrow> bluetooth_begin_operation request;
      status \<leftarrow> backend ccfg_bluetooth_disable (Bt_disable operation_id);
      bluetooth_submit_result request status
    }
  }"

definition handle_bt_deinitialize :: "rpc_envelope \<Rightarrow> u8 list \<Rightarrow> (coproc, coproc_result) state" where
  "handle_bt_deinitialize request payload = do {
    s \<leftarrow> State_Monad.get;
    case cpb_dec_bluetooth_deinitialize (c_pb s) payload of
      None \<Rightarrow> ret WLH_COPROC_PROTOCOL_ERROR
    | Some release_memory \<Rightarrow>
        if bp_active (c_bluetooth_pending s)
        then send_bluetooth_status (re_method_id request) (re_request_id request) WLH_STATUS_BUSY
        else if c_bluetooth_state s = BT_STATE_UNSPECIFIED
        then send_bluetooth_status (re_method_id request) (re_request_id request) WLH_STATUS_OK
        else do {
          operation_id \<leftarrow> bluetooth_begin_operation request;
          status \<leftarrow> backend ccfg_bluetooth_deinitialize
            (Bt_deinitialize operation_id release_memory);
          bluetooth_submit_result request status
        }
  }"

definition handle_bt_get_info :: "rpc_envelope \<Rightarrow> (coproc, coproc_result) state" where
  "handle_bt_get_info request = do {
    s \<leftarrow> State_Monad.get;
    if bp_active (c_bluetooth_pending s)
    then send_bluetooth_status (re_method_id request) (re_request_id request) WLH_STATUS_BUSY
    else do {
      operation_id \<leftarrow> bluetooth_begin_operation request;
      status \<leftarrow> backend ccfg_bluetooth_get_info (Bt_get_info operation_id);
      bluetooth_submit_result request status
    }
  }"

definition handle_bluetooth :: "rpc_envelope \<Rightarrow> u8 list \<Rightarrow> (coproc, coproc_result) state" where
  "handle_bluetooth request payload =
    (if re_method_id request = WLH_BLUETOOTH_METHOD_INITIALIZE
     then handle_bt_initialize request payload
     else if re_method_id request = WLH_BLUETOOTH_METHOD_ENABLE then handle_bt_enable request payload
     else if re_method_id request = WLH_BLUETOOTH_METHOD_DISABLE then handle_bt_disable request
     else if re_method_id request = WLH_BLUETOOTH_METHOD_DEINITIALIZE
     then handle_bt_deinitialize request payload
     else if re_method_id request = WLH_BLUETOOTH_METHOD_GET_INFO then handle_bt_get_info request
     else send_not_supported request)"

section \<open>Completions\<close>

text \<open>The state change of a lifecycle operation that succeeded.\<close>

definition bluetooth_completed_state :: "u16 \<Rightarrow> coproc \<Rightarrow> coproc" where
  "bluetooth_completed_state method_id s =
    (if method_id = WLH_BLUETOOTH_METHOD_INITIALIZE
     then s\<lparr>c_bluetooth_state := BT_STATE_DISABLED\<rparr>
     else if method_id = WLH_BLUETOOTH_METHOD_ENABLE then s\<lparr>c_bluetooth_state := BT_STATE_ENABLED\<rparr>
     else if method_id = WLH_BLUETOOTH_METHOD_DISABLE
     then s\<lparr>c_bluetooth_state := BT_STATE_DISABLED, c_bluetooth_hci_stopped := False\<rparr>
     else s\<lparr>c_bluetooth_state := BT_STATE_UNSPECIFIED, c_bluetooth_hci_stopped := False\<rparr>)"

definition bluetooth_operation_completed :: "u32 \<Rightarrow> int \<Rightarrow> (coproc, unit) state" where
  "bluetooth_operation_completed operation_id backend_status = do {
    s \<leftarrow> State_Monad.get;
    let pending = c_bluetooth_pending s;
    if \<not> bp_active pending \<or> bp_method_id pending = WLH_BLUETOOTH_METHOD_GET_INFO \<or>
      operation_id \<noteq> bp_operation_id pending \<or> bp_session_id pending \<noteq> c_session_id s
    then coproc_diag (\<lambda>d. d\<lparr>cd_bluetooth_mismatches := cd_bluetooth_mismatches d + 1\<rparr>)
    else do {
      let method_id = bp_method_id pending;
      let request_id = bp_request_id pending;
      modify (\<lambda>s. s\<lparr>c_bluetooth_pending := no_pending\<rparr>);
      if backend_status \<noteq> 0 then do {
        _ \<leftarrow> send_bluetooth_status method_id request_id WLH_STATUS_INTERNAL;
        ret ()
      }
      else do {
        modify (bluetooth_completed_state method_id);
        _ \<leftarrow> send_bluetooth_status method_id request_id WLH_STATUS_OK;
        ret ()
      }
    }
  }"

definition bluetooth_info_completed :: "u32 \<Rightarrow> int \<Rightarrow> bluetooth_info \<Rightarrow> (coproc, unit) state" where
  "bluetooth_info_completed operation_id backend_status info = do {
    s \<leftarrow> State_Monad.get;
    let pending = c_bluetooth_pending s;
    if \<not> bp_active pending \<or> bp_method_id pending \<noteq> WLH_BLUETOOTH_METHOD_GET_INFO \<or>
      operation_id \<noteq> bp_operation_id pending \<or> bp_session_id pending \<noteq> c_session_id s
    then coproc_diag (\<lambda>d. d\<lparr>cd_bluetooth_mismatches := cd_bluetooth_mismatches d + 1\<rparr>)
    else do {
      let request_id = bp_request_id pending;
      modify (\<lambda>s. s\<lparr>c_bluetooth_pending := no_pending\<rparr>);
      if backend_status \<noteq> 0 then do {
        _ \<leftarrow> send_bluetooth_status WLH_BLUETOOTH_METHOD_GET_INFO request_id WLH_STATUS_INTERNAL;
        ret ()
      }
      else do {
        _ \<leftarrow> coproc_send_rpc_message WLH_SERVICE_BLUETOOTH WLH_BLUETOOTH_METHOD_GET_INFO request_id
          WLH_RPC_KIND_RESPONSE WLH_STATUS_DOMAIN_NONE WLH_STATUS_OK
          (CMsg_BluetoothControllerInfo \<lparr>bim_state = c_bluetooth_state s,
            bim_public_address =
              (if bti_has_public_address info then bti_public_address info else []),
            bim_hci_version = ucast (bti_hci_version info),
            bim_manufacturer_id = ucast (bti_manufacturer_id info),
            bim_feature_bits = bti_feature_bits info,
            bim_max_hci_packet = bti_max_hci_packet info\<rparr>);
        ret ()
      }
    }
  }"

section \<open>HCI from the host\<close>

definition hci_length_field :: "u8 list \<Rightarrow> nat" where
  "hci_length_field packet =
    unat ((ucast (packet ! 2) :: u32) OR push_bit 8 (ucast (packet ! 3)))"

definition hci_record_valid :: "raw_record \<Rightarrow> bool" where
  "hci_record_valid record = (case record of (record_type, _, packet) \<Rightarrow>
    if length packet > WLH_COPROC_MAX_HCI_PACKET then False
    else if record_type = WLH_H4_TYPE_COMMAND
    then length packet \<ge> 3 \<and> unat (packet ! 2) + 3 = length packet
    else if record_type = WLH_H4_TYPE_ACL
    then length packet \<ge> 4 \<and> hci_length_field packet + 4 = length packet
    else False)"

text \<open>The validation loop stops at the first bad record; its result is the iterator's last one,
  or \<open>WLH_WIRE_INVALID_ARGUMENT\<close> for a bad record and for an empty payload.\<close>

definition coproc_hci_validate :: "u8 list \<Rightarrow> wire_result" where
  "coproc_hci_validate payload =
    (if payload = [] then WLH_WIRE_INVALID_ARGUMENT
     else case raw_records payload of (records, result) \<Rightarrow>
       if list_all hci_record_valid records then result else WLH_WIRE_INVALID_ARGUMENT)"

text \<open>\<open>False\<close> when the backend rejected a packet.\<close>

fun coproc_hci_deliver :: "raw_record list \<Rightarrow> (coproc, bool) state" where
  "coproc_hci_deliver [] = ret True"
| "coproc_hci_deliver ((record_type, flags, payload) # records) = do {
    status \<leftarrow> backend ccfg_bluetooth_hci_send (Bt_hci_send record_type payload);
    if status \<noteq> 0 then do {
      coproc_diag (\<lambda>d. d\<lparr>cd_hci_drops := cd_hci_drops d + 1\<rparr>);
      ret False
    }
    else coproc_hci_deliver records
  }"

definition coproc_process_hci_frame :: "u8 list \<Rightarrow> (coproc, coproc_result) state" where
  "coproc_process_hci_frame payload = do {
    s \<leftarrow> State_Monad.get;
    if \<not> bluetooth_backend_present s then ret WLH_COPROC_PROTOCOL_ERROR
    else if c_bluetooth_hci_stopped s then do {
      coproc_diag (\<lambda>d. d\<lparr>cd_hci_drops := cd_hci_drops d + 1\<rparr>);
      ret WLH_COPROC_INVALID_STATE
    }
    else if coproc_hci_validate payload \<noteq> WLH_WIRE_END then do {
      coproc_diag (\<lambda>d. d\<lparr>cd_hci_malformed := cd_hci_malformed d + 1\<rparr>);
      bluetooth_enter_error WLH_COPROC_BLUETOOTH_REASON_MALFORMED_HCI;
      ret WLH_COPROC_PROTOCOL_ERROR
    }
    else do {
      delivered \<leftarrow> coproc_hci_deliver (fst (raw_records payload));
      if \<not> delivered then ret WLH_COPROC_BACKEND_ERROR
      else coproc_send_credit_update WLH_CHANNEL_BLUETOOTH_HCI 1
    }
  }"

section \<open>HCI from the controller\<close>

definition bluetooth_release_tx_reservation :: "u8 \<Rightarrow> (coproc, unit) state" where
  "bluetooth_release_tx_reservation channel = modify (\<lambda>s.
    if channel = WLH_CHANNEL_BLUETOOTH_HCI_ADV then
      (if c_bluetooth_adv_tx_inflight s > 0
       then s\<lparr>c_bluetooth_adv_tx_inflight := c_bluetooth_adv_tx_inflight s - 1\<rparr> else s)
    else if c_bluetooth_tx_inflight s > 0
    then s\<lparr>c_bluetooth_tx_inflight := c_bluetooth_tx_inflight s - 1\<rparr> else s)"

text \<open>The shape check of a packet from the controller; \<open>WLH_COPROC_OK\<close> lets it pass.\<close>

definition controller_packet_check :: "u8 \<Rightarrow> u8 list \<Rightarrow> coproc_result" where
  "controller_packet_check h4_type packet =
    (if h4_type = WLH_H4_TYPE_EVENT then
       (if length packet < 2 \<or> unat (packet ! 1) + 2 \<noteq> length packet
        then WLH_COPROC_INVALID_ARGUMENT else WLH_COPROC_OK)
     else if h4_type = WLH_H4_TYPE_ACL then
       (if length packet < 4 \<or> hci_length_field packet + 4 \<noteq> length packet
        then WLH_COPROC_INVALID_ARGUMENT else WLH_COPROC_OK)
     else if h4_type = WLH_H4_TYPE_SCO \<or> h4_type = WLH_H4_TYPE_ISO then WLH_COPROC_NOT_SUPPORTED
     else WLH_COPROC_INVALID_ARGUMENT)"

text \<open>Reserving the credit: the channel the packet takes, or the result the call returns.\<close>

definition reserve_hci_credit :: "u8 \<Rightarrow> u8 list \<Rightarrow> (coproc, coproc_result + u8) state" where
  "reserve_hci_credit h4_type packet = do {
    s \<leftarrow> State_Monad.get;
    if c_bluetooth_hci_stopped s then ret (Inl WLH_COPROC_INVALID_STATE)
    else if h4_type = WLH_H4_TYPE_EVENT \<and> c_bluetooth_adv_channel s \<and>
      wlh_hci_event_is_adv_report (buf_mem packet) (Some 0) (length packet)
    then
      if c_tx_credit s WLH_CHANNEL_BLUETOOTH_HCI_ADV \<le> c_bluetooth_adv_tx_inflight s then do {
        coproc_diag (\<lambda>d. d\<lparr>cd_hci_adv_drops := cd_hci_adv_drops d + 1\<rparr>);
        ret (Inl WLH_COPROC_OK)
      }
      else do {
        modify (\<lambda>s. s\<lparr>c_bluetooth_adv_tx_inflight := c_bluetooth_adv_tx_inflight s + 1\<rparr>);
        ret (Inr WLH_CHANNEL_BLUETOOTH_HCI_ADV)
      }
    else
      if c_tx_credit s WLH_CHANNEL_BLUETOOTH_HCI \<le> c_bluetooth_tx_inflight s
      then ret (Inl WLH_COPROC_NO_CREDIT)
      else do {
        modify (\<lambda>s. s\<lparr>c_bluetooth_tx_inflight := c_bluetooth_tx_inflight s + 1\<rparr>);
        ret (Inr WLH_CHANNEL_BLUETOOTH_HCI)
      }
  }"

definition wlh_coproc_bluetooth_hci_send ::
  "u8 \<Rightarrow> u8 list option \<Rightarrow> (coproc, coproc_result) state" where
  "wlh_coproc_bluetooth_hci_send h4_type packet = do {
    s \<leftarrow> State_Monad.get;
    case packet of
      None \<Rightarrow> ret WLH_COPROC_INVALID_ARGUMENT
    | Some packet \<Rightarrow>
        if \<not> c_worker_started s \<or> length packet > WLH_COPROC_MAX_HCI_PACKET
        then ret WLH_COPROC_INVALID_ARGUMENT
        else if \<not> bluetooth_backend_present s then ret WLH_COPROC_NOT_SUPPORTED
        else if controller_packet_check h4_type packet \<noteq> WLH_COPROC_OK
        then ret (controller_packet_check h4_type packet)
        else do {
          reserved \<leftarrow> reserve_hci_credit h4_type packet;
          case reserved of
            Inl result \<Rightarrow> ret result
          | Inr channel \<Rightarrow> do {
              job \<leftarrow> coproc_alloc (RAW_HEADER_SIZE + length packet);
              if \<not> job then do {
                bluetooth_release_tx_reservation channel;
                ret WLH_COPROC_BACKEND_ERROR
              }
              else do {
                let (wire, record_data) =
                  record_encode_buf (RAW_HEADER_SIZE + length packet) h4_type 0 packet;
                if wire \<noteq> WLH_WIRE_OK then do {
                  coproc_free;
                  bluetooth_release_tx_reservation channel;
                  ret WLH_COPROC_INVALID_ARGUMENT
                }
                else do {
                  queued \<leftarrow> coproc_enqueue_job (COPROC_JOB_BLUETOOTH_TX
                    \<lparr>cdj_method_id = 0, cdj_service_id = 0, cdj_channel = channel,
                     cdj_capacity = 0, cdj_data = record_data\<rparr>);
                  if \<not> queued then do {
                    coproc_free;
                    bluetooth_release_tx_reservation channel;
                    ret WLH_COPROC_BACKEND_ERROR
                  }
                  else ret WLH_COPROC_OK
                }
              }
            }
        }
  }"

section \<open>Ingress\<close>

definition wlh_coproc_bluetooth_operation_complete ::
  "u32 \<Rightarrow> int \<Rightarrow> (coproc, coproc_result) state" where
  "wlh_coproc_bluetooth_operation_complete operation_id backend_status = do {
    started \<leftarrow> gets c_worker_started;
    if operation_id = 0 \<or> \<not> started then ret WLH_COPROC_INVALID_ARGUMENT
    else enqueue_completion (COPROC_JOB_BLUETOOTH_COMPLETE operation_id backend_status)
  }"

definition zero_bluetooth_info :: bluetooth_info where
  "zero_bluetooth_info = \<lparr>bti_public_address = replicate 6 0, bti_has_public_address = False,
    bti_hci_version = 0, bti_manufacturer_id = 0, bti_feature_bits = 0, bti_max_hci_packet = 0\<rparr>"

definition wlh_coproc_bluetooth_info_result ::
  "u32 \<Rightarrow> int \<Rightarrow> bluetooth_info option \<Rightarrow> (coproc, coproc_result) state" where
  "wlh_coproc_bluetooth_info_result operation_id backend_status info = do {
    started \<leftarrow> gets c_worker_started;
    if operation_id = 0 \<or> \<not> started \<or> (info = None \<and> backend_status = 0)
    then ret WLH_COPROC_INVALID_ARGUMENT
    else enqueue_completion (COPROC_JOB_BLUETOOTH_INFO operation_id backend_status
      (case info of None \<Rightarrow> zero_bluetooth_info | Some info \<Rightarrow> info))
  }"

definition wlh_coproc_bluetooth_fatal_error :: "u32 \<Rightarrow> (coproc, coproc_result) state" where
  "wlh_coproc_bluetooth_fatal_error reason = do {
    started \<leftarrow> gets c_worker_started;
    if \<not> started then ret WLH_COPROC_INVALID_ARGUMENT
    else enqueue_completion (COPROC_JOB_BLUETOOTH_FATAL reason)
  }"

end
