(* ===== verification/Coproc_Link.thy ===== *)
theory Coproc_Link
  imports Coproc_Ethernet Coproc_Ota Coproc_Bluetooth
begin

text \<open>
  Link control of the coprocessor (coproc-core/src/coproc_link.c): the answer to a Hello, which
  starts a session, the heartbeat and the worker's wait.
\<close>

section \<open>Hello\<close>

text \<open>\<open>next_session_id++\<close>, again when it was zero.\<close>

definition select_session :: "(coproc, u32) state" where
  "select_session = do {
    selected_session \<leftarrow> gets c_next_session_id;
    modify (\<lambda>s. s\<lparr>c_next_session_id := c_next_session_id s + 1\<rparr>);
    if selected_session = 0 then do {
      selected_session \<leftarrow> gets c_next_session_id;
      modify (\<lambda>s. s\<lparr>c_next_session_id := c_next_session_id s + 1\<rparr>);
      ret selected_session
    }
    else ret selected_session
  }"

definition hello_implementation :: "u8 list" where
  "hello_implementation = map of_char ''wlh-coproc-core'' @ [0]"

text \<open>\<open>snprintf\<close> of \<open>%s\<close> into 33 bytes: at most 32 characters and the terminator.\<close>

definition hello_version :: "coproc_config \<Rightarrow> u8 list" where
  "hello_version cfg = (let text = takeWhile (\<lambda>b. b \<noteq> 0) (ccfg_implementation_version cfg)
    in take 32 (if text \<noteq> [] then text else map of_char ''0.1.0'') @ [0])"

definition service_v1 :: "u16 \<Rightarrow> service_version_range" where
  "service_v1 service_id = \<lparr>svr_service_id = ucast service_id, svr_major = 1\<rparr>"

definition credit_of :: "u8 \<Rightarrow> u32 \<Rightarrow> initial_credit" where
  "credit_of channel units = \<lparr>ic_channel_id = ucast channel, ic_units = units, ic_unit_bytes = 1\<rparr>"

definition capability_of :: "u8 \<Rightarrow> nat \<Rightarrow> nat \<Rightarrow> channel_capability" where
  "capability_of channel payload alignment = \<lparr>cc_channel_id = ucast channel,
    cc_max_frame_payload = of_nat payload, cc_alignment = of_nat alignment\<rparr>"

text \<open>What the response offers, part by part in the order of the code.\<close>

definition hello_credits_offered :: "coproc \<Rightarrow> initial_credit list" where
  "hello_credits_offered s =
    map (\<lambda>i. credit_of i (ccfg_initial_credit (c_config s))) [0, 1, 2, 3] @
    (if bluetooth_backend_present s then
       credit_of WLH_CHANNEL_BLUETOOTH_HCI WLH_COPROC_BLUETOOTH_INITIAL_CREDIT #
       (if c_bluetooth_adv_channel s
        then [credit_of WLH_CHANNEL_BLUETOOTH_HCI_ADV WLH_COPROC_BLUETOOTH_ADV_INITIAL_CREDIT]
        else [])
     else []) @
    (if ota_backend_present s
     then [credit_of WLH_CHANNEL_OTA_STREAM WLH_COPROC_OTA_INITIAL_CREDIT] else []) @
    (if eth_backend_present s
     then [credit_of WLH_CHANNEL_ETHERNET_ETH (ccfg_initial_credit (c_config s))] else [])"

definition hello_services_offered :: "coproc \<Rightarrow> service_version_range list" where
  "hello_services_offered s =
    (if bluetooth_backend_present s then [service_v1 WLH_SERVICE_BLUETOOTH] else []) @
    (if ota_backend_present s then [service_v1 WLH_SERVICE_OTA] else []) @
    (if eth_backend_present s then [service_v1 WLH_SERVICE_ETH] else [])"

definition hello_channels_offered :: "coproc \<Rightarrow> channel_capability list" where
  "hello_channels_offered s =
    (if bluetooth_backend_present s then
       capability_of WLH_CHANNEL_BLUETOOTH_HCI WLH_COPROC_MAX_HCI_PACKET 1 #
       (if c_bluetooth_adv_channel s
        then [capability_of WLH_CHANNEL_BLUETOOTH_HCI_ADV WLH_COPROC_MAX_HCI_PACKET 1] else [])
     else []) @
    (if ota_backend_present s
     then [capability_of WLH_CHANNEL_OTA_STREAM
       (WLH_COPROC_OTA_STREAM_HEADER_SIZE + WLH_COPROC_OTA_CHUNK_SIZE) WLH_COPROC_OTA_ALIGNMENT]
     else []) @
    (if eth_backend_present s then [capability_of WLH_CHANNEL_ETHERNET_ETH 1600 1] else [])"

text \<open>The coprocessor's own credit of each channel after the response was built.\<close>

definition hello_own_credit :: "coproc \<Rightarrow> (u8 \<Rightarrow> u32) \<Rightarrow> u8 \<Rightarrow> u32" where
  "hello_own_credit s credit = (
    let initial = ccfg_initial_credit (c_config s) in
    credit(0 := initial, 1 := initial, 2 := initial, 3 := initial,
      WLH_CHANNEL_BLUETOOTH_HCI :=
        (if bluetooth_backend_present s then WLH_COPROC_BLUETOOTH_INITIAL_CREDIT else 0),
      WLH_CHANNEL_BLUETOOTH_HCI_ADV :=
        (if bluetooth_backend_present s \<and> c_bluetooth_adv_channel s
         then WLH_COPROC_BLUETOOTH_ADV_INITIAL_CREDIT else 0),
      WLH_CHANNEL_OTA_STREAM := (if ota_backend_present s then WLH_COPROC_OTA_INITIAL_CREDIT else 0),
      WLH_CHANNEL_ETHERNET_ETH := (if eth_backend_present s then initial else 0)))"

definition hello_response_of :: "coproc \<Rightarrow> u32 \<Rightarrow> hello_response" where
  "hello_response_of s selected_session = \<lparr>hr_has_selected_protocol = True, hr_selected_major = 1,
    hr_session_id = selected_session, hr_boot_id = ucast selected_session,
    hr_implementation = hello_implementation,
    hr_implementation_version = hello_version (c_config s),
    hr_max_frame_size = ccfg_max_frame_size (c_config s), hr_alignment = 1, hr_checksum_mode = 1,
    hr_services = hello_services_offered s, hr_channels = hello_channels_offered s,
    hr_initial_credits = hello_credits_offered s\<rparr>"

definition send_hello_response :: "u32 \<Rightarrow> (coproc, coproc_result) state" where
  "send_hello_response request_id = do {
    response \<leftarrow> coproc_alloc 0;
    if \<not> response then ret WLH_COPROC_BACKEND_ERROR
    else do {
      selected_session \<leftarrow> select_session;
      s \<leftarrow> State_Monad.get;
      modify (\<lambda>s. s\<lparr>c_tx_credit := hello_own_credit s (c_tx_credit s), c_session_id := 0\<rparr>);
      result \<leftarrow> coproc_send_rpc_message WLH_SERVICE_LINK WLH_LINK_METHOD_HELLO request_id
        WLH_RPC_KIND_RESPONSE WLH_STATUS_DOMAIN_NONE WLH_STATUS_OK
        (CMsg_HelloResponse (hello_response_of s selected_session));
      coproc_free;
      whenM (result = WLH_COPROC_OK) (do {
        modify (\<lambda>s. s\<lparr>c_session_id := selected_session\<rparr>);
        coproc_set_state WLH_COPROC_STATE_READY
      });
      ret result
    }
  }"

text \<open>What an acceptable Hello resets before it is answered.\<close>

definition reset_session_state :: "coproc \<Rightarrow> coproc" where
  "reset_session_state s = s\<lparr>c_tx_sequence := (\<lambda>_. 0), c_rx_sequence_valid := (\<lambda>_. False),
    c_wifi_initialize_pending := no_pending, c_bluetooth_pending := no_pending,
    c_eth_pending := no_pending, c_bluetooth_state := BT_STATE_UNSPECIFIED,
    c_bluetooth_tx_inflight := 0, c_bluetooth_adv_tx_inflight := 0,
    c_bluetooth_hci_stopped := False\<rparr>"

definition handle_hello_request ::
  "frame_header \<Rightarrow> rpc_envelope \<Rightarrow> u8 list \<Rightarrow> (coproc, coproc_result) state" where
  "handle_hello_request frame_header request message = do {
    s \<leftarrow> State_Monad.get;
    buffer \<leftarrow> coproc_alloc 0;
    if \<not> buffer then ret WLH_COPROC_BACKEND_ERROR
    else case (if fh_session_id frame_header \<noteq> 0 then None
        else cpb_dec_hello_request (c_pb s) message) of
      None \<Rightarrow> do {
        coproc_free;
        ret WLH_COPROC_PROTOCOL_ERROR
      }
    | Some hello \<Rightarrow> do {
        let supports_v1 = list_ex (\<lambda>major. major = 1) (hqm_protocol_majors hello);
        modify (\<lambda>s. s\<lparr>c_bluetooth_adv_channel :=
          list_ex (\<lambda>channel. channel = ucast WLH_CHANNEL_BLUETOOTH_HCI_ADV)
            (hqm_channel_ids hello)\<rparr>);
        if \<not> supports_v1 \<or> unat (hqm_max_frame_size hello) < WLH_FRAME_HEADER_SIZE then do {
          coproc_free;
          coproc_send_rpc WLH_SERVICE_LINK WLH_LINK_METHOD_HELLO (re_request_id request)
            WLH_RPC_KIND_RESPONSE WLH_STATUS_DOMAIN_PROTOCOL WLH_STATUS_VERSION_MISMATCH []
        }
        else do {
          coproc_free;
          modify reset_session_state;
          ota_reset;
          modify reset_ethernet_rx_completions;
          send_hello_response (re_request_id request)
        }
      }
  }"

section \<open>Heartbeat\<close>

text \<open>The value of \<open>LINK_STATE_HEALTHY\<close>.\<close>

definition LINK_STATE_HEALTHY :: u32 where "LINK_STATE_HEALTHY = 2"

definition coproc_emit_due_heartbeat :: "(coproc, coproc_result) state" where
  "coproc_emit_due_heartbeat = do {
    now \<leftarrow> coproc_now_ms;
    s \<leftarrow> State_Monad.get;
    (if (c_state s = WLH_COPROC_STATE_READY \<or> c_state s = WLH_COPROC_STATE_CONGESTED) \<and>
        now - c_last_heartbeat_ms s \<ge> ucast (ccfg_heartbeat_interval_ms (c_config s))
     then do {
       heartbeat \<leftarrow> coproc_alloc 0;
       (if heartbeat then do {
          _ \<leftarrow> coproc_send_rpc_message WLH_SERVICE_LINK WLH_LINK_METHOD_HEARTBEAT 0
            WLH_RPC_KIND_EVENT 0 0
            (CMsg_Heartbeat \<lparr>hbm_session_id = c_session_id s, hbm_state = LINK_STATE_HEALTHY,
              hbm_uptime_ms = now - c_started_ms s, hbm_monotonic_ms = now\<rparr>);
          coproc_free
        } else ret ());
       modify (\<lambda>s. s\<lparr>c_last_heartbeat_ms := now\<rparr>)
     }
     else ret ());
    ret WLH_COPROC_OK
  }"

section \<open>The worker's wait\<close>

definition coproc_next_wait_ms :: "(coproc, u32) state" where
  "coproc_next_wait_ms = do {
    s \<leftarrow> State_Monad.get;
    if c_state s \<noteq> WLH_COPROC_STATE_READY then ret WLH_OSAL_WAIT_FOREVER
    else do {
      current \<leftarrow> coproc_now_ms;
      let deadline = c_last_heartbeat_ms s + ucast (ccfg_heartbeat_interval_ms (c_config s));
      ret (if deadline \<le> current then WLH_OSAL_NO_WAIT
           else if deadline - current \<ge> ucast WLH_OSAL_WAIT_FOREVER then WLH_OSAL_WAIT_FOREVER - 1
           else ucast (deadline - current))
    }
  }"

end
