(* ===== verification/Coproc_Services.thy ===== *)
theory Coproc_Services
  imports Coproc_Wire
begin

text \<open>
  The services of the coprocessor answered within one request: wired Ethernet information,
  diagnostics, device information, user messages, IO and ADC (coproc-core/src/coproc_eth.c,
  coproc_diagnostics.c, coproc_device_info.c, coproc_user_passthrough.c, coproc_io.c, coproc_adc.c).
\<close>

section \<open>Wired Ethernet\<close>

definition send_eth_status :: "u32 \<Rightarrow> i16 \<Rightarrow> (coproc, coproc_result) state" where
  "send_eth_status request_id status_code =
    coproc_send_rpc WLH_SERVICE_ETH WLH_ETH_METHOD_GET_INFO request_id WLH_RPC_KIND_RESPONSE
      (if status_code = WLH_STATUS_OK then WLH_STATUS_DOMAIN_NONE else WLH_STATUS_DOMAIN_ETH)
      status_code []"

definition handle_eth :: "rpc_envelope \<Rightarrow> u8 list \<Rightarrow> (coproc, coproc_result) state" where
  "handle_eth request payload =
    (if re_method_id request = WLH_ETH_METHOD_GET_INFO then do {
       s \<leftarrow> State_Monad.get;
       case cpb_dec_eth_get_info (c_pb s) payload of
         None \<Rightarrow> ret WLH_COPROC_PROTOCOL_ERROR
       | Some _ \<Rightarrow>
           if ccfg_eth_get_info (c_config s) = None
           then send_eth_status (re_request_id request) WLH_STATUS_NOT_SUPPORTED
           else if bp_active (c_eth_pending s)
           then send_eth_status (re_request_id request) WLH_STATUS_BUSY
           else do {
             operation_id \<leftarrow> next_operation_id;
             modify (\<lambda>s. s\<lparr>c_eth_pending := \<lparr>bp_active = True, bp_operation_id = operation_id,
               bp_session_id = c_session_id s, bp_request_id = re_request_id request,
               bp_method_id = 0\<rparr>\<rparr>);
             status \<leftarrow> backend ccfg_eth_get_info (Eth_get_info operation_id);
             if status \<noteq> 0 then do {
               modify (\<lambda>s. s\<lparr>c_eth_pending := no_pending\<rparr>);
               send_eth_status (re_request_id request) WLH_STATUS_INTERNAL
             }
             else ret WLH_COPROC_OK
           }
     }
     else send_not_supported request)"

definition eth_info_completed :: "u32 \<Rightarrow> int \<Rightarrow> eth_info \<Rightarrow> (coproc, unit) state" where
  "eth_info_completed operation_id backend_status info = do {
    s \<leftarrow> State_Monad.get;
    let pending = c_eth_pending s;
    if \<not> bp_active pending \<or> operation_id \<noteq> bp_operation_id pending \<or>
      bp_session_id pending \<noteq> c_session_id s
    then ret ()
    else do {
      let request_id = bp_request_id pending;
      modify (\<lambda>s. s\<lparr>c_eth_pending := no_pending\<rparr>);
      if backend_status \<noteq> 0 then do {
        _ \<leftarrow> send_eth_status request_id WLH_STATUS_INTERNAL;
        ret ()
      }
      else do {
        _ \<leftarrow> coproc_send_rpc_message WLH_SERVICE_ETH WLH_ETH_METHOD_GET_INFO request_id
          WLH_RPC_KIND_RESPONSE WLH_STATUS_DOMAIN_NONE WLH_STATUS_OK
          (CMsg_EthInfo \<lparr>ei_has_info = True, ei_link_state = eti_link_state info,
            ei_mac_address = eti_mac_address info, ei_speed = eti_speed info,
            ei_duplex = eti_duplex info\<rparr>);
        ret ()
      }
    }
  }"

definition zero_eth_info :: eth_info where
  "zero_eth_info = \<lparr>eti_link_state = 0, eti_mac_address = replicate 6 0, eti_speed = 0,
    eti_duplex = 0\<rparr>"

definition wlh_coproc_eth_info_ready ::
  "u32 \<Rightarrow> int \<Rightarrow> eth_info option \<Rightarrow> (coproc, coproc_result) state" where
  "wlh_coproc_eth_info_ready operation_id backend_status info = do {
    started \<leftarrow> gets c_worker_started;
    if operation_id = 0 \<or> \<not> started \<or> (info = None \<and> backend_status = 0)
    then ret WLH_COPROC_INVALID_ARGUMENT
    else enqueue_completion (COPROC_JOB_ETH_INFO operation_id backend_status
      (case info of None \<Rightarrow> zero_eth_info | Some info \<Rightarrow> info))
  }"

text \<open>Link states 1 (down) and 2 (up), speeds up to 3, duplex modes up to 2.\<close>

definition wlh_coproc_eth_link_state_changed ::
  "u32 \<Rightarrow> u32 \<Rightarrow> u32 \<Rightarrow> (coproc, coproc_result) state" where
  "wlh_coproc_eth_link_state_changed link_state speed duplex = do {
    started \<leftarrow> gets c_worker_started;
    if \<not> started \<or> (link_state \<noteq> 1 \<and> link_state \<noteq> 2) \<or> speed > 3 \<or> duplex > 2
    then ret WLH_COPROC_INVALID_ARGUMENT
    else send_event_message WLH_SERVICE_ETH WLH_ETH_EVENT_LINK_STATE_CHANGED
      (CMsg_EthLinkState \<lparr>el_link_state = link_state, el_speed = speed, el_duplex = duplex\<rparr>)
  }"

section \<open>Diagnostics\<close>

definition handle_diagnostics_request ::
  "rpc_envelope \<Rightarrow> u8 list \<Rightarrow> (coproc, coproc_result) state" where
  "handle_diagnostics_request request message = do {
    s \<leftarrow> State_Monad.get;
    if re_method_id request \<noteq> WLH_DIAGNOSTICS_METHOD_PING then ret WLH_COPROC_NOT_SUPPORTED
    else case cpb_dec_diagnostics_ping (c_pb s) message of
      None \<Rightarrow> ret WLH_COPROC_PROTOCOL_ERROR
    | Some ping \<Rightarrow> do {
        now \<leftarrow> coproc_now_ms;
        let (encoded, response_data) = encode_message (c_pb s) 64
          (CMsg_PingResponse \<lparr>prm_cookie = dpm_cookie ping,
            prm_host_time_us = dpm_host_time_us ping,
            prm_coprocessor_uptime_us = (now - c_started_ms s) * 1000\<rparr>);
        if \<not> encoded then ret WLH_COPROC_PROTOCOL_ERROR
        else coproc_send_rpc (re_service_id request) (re_method_id request)
          (re_request_id request) WLH_RPC_KIND_RESPONSE WLH_STATUS_DOMAIN_NONE WLH_STATUS_OK
          response_data
      }
  }"

section \<open>Device information\<close>

text \<open>The three strings are terminated in the backend's struct and copied without their last byte
  into a cleared message; the uid is cut to its array.\<close>

definition device_info_response :: "device_info \<Rightarrow> device_info_msg" where
  "device_info_response info = (
    let uid_size = (if dvi_uid_size info > 32 then 32 else dvi_uid_size info)
    in \<lparr>di_vendor = take 32 (dvi_vendor info) @ [0],
        di_mcu_model = take 32 (dvi_mcu_model info) @ [0],
        di_uid = take uid_size (dvi_uid info),
        di_board_profile = take 64 (dvi_board_profile info) @ [0]\<rparr>)"

definition handle_device_info_request :: "rpc_envelope \<Rightarrow> (coproc, coproc_result) state" where
  "handle_device_info_request request = do {
    (status, info) \<leftarrow> backend_value ccfg_device_get_info Device_get_info;
    if status \<noteq> 0
    then send_empty_response request WLH_STATUS_DOMAIN_DEVICE_INFO WLH_STATUS_INTERNAL
    else do {
      response \<leftarrow> coproc_alloc 0;
      if \<not> response then ret WLH_COPROC_BACKEND_ERROR
      else do {
        result \<leftarrow> coproc_send_rpc_message (re_service_id request) (re_method_id request)
          (re_request_id request) WLH_RPC_KIND_RESPONSE WLH_STATUS_DOMAIN_NONE WLH_STATUS_OK
          (CMsg_DeviceInfo (device_info_response info));
        coproc_free;
        ret result
      }
    }
  }"

section \<open>User messages\<close>

definition handle_user_message_request ::
  "rpc_envelope \<Rightarrow> u8 list \<Rightarrow> (coproc, coproc_result) state" where
  "handle_user_message_request request message = do {
    s \<leftarrow> State_Monad.get;
    buffer \<leftarrow> coproc_alloc 0;
    if \<not> buffer then ret WLH_COPROC_BACKEND_ERROR
    else case cpb_dec_user_send (c_pb s) message of
      None \<Rightarrow> do {
        coproc_free;
        ret WLH_COPROC_PROTOCOL_ERROR
      }
    | Some send_request \<Rightarrow> do {
        status \<leftarrow> backend ccfg_user_on_message (User_on_message
          \<lparr>umg_endpoint_id = usm_endpoint_id send_request,
           umg_message_type = usm_message_type send_request, umg_flags = usm_flags send_request,
           umg_payload = usm_payload send_request, umg_request_id = re_request_id request\<rparr>);
        coproc_free;
        send_empty_response request
          (if status = 0 then WLH_STATUS_DOMAIN_NONE else WLH_STATUS_DOMAIN_USER)
          (if status = 0 then WLH_STATUS_OK else WLH_STATUS_INTERNAL)
      }
  }"

definition wlh_coproc_user_message_result ::
  "u32 \<Rightarrow> u32 \<Rightarrow> u32 \<Rightarrow> u32 \<Rightarrow> u8 list option \<Rightarrow> nat \<Rightarrow> (coproc, coproc_result) state" where
  "wlh_coproc_user_message_result endpoint_id message_type correlation_id result payload
      payload_size =
    (if payload_size > 512 \<or> (payload = None \<and> payload_size \<noteq> 0)
     then ret WLH_COPROC_INVALID_ARGUMENT
     else do {
       event \<leftarrow> coproc_alloc 0;
       if \<not> event then ret WLH_COPROC_BACKEND_ERROR
       else do {
         send_result \<leftarrow> send_event_message WLH_SERVICE_USER_PASSTHROUGH
           WLH_USER_PASSTHROUGH_EVENT_RESULT
           (CMsg_UserMessageResult \<lparr>urm_endpoint_id = endpoint_id, urm_message_type = message_type,
             urm_correlation_id = correlation_id, urm_result = result,
             urm_payload = (case payload of None \<Rightarrow> [] | Some p \<Rightarrow> take payload_size p)\<rparr>);
         coproc_free;
         ret send_result
       }
     })"

section \<open>IO\<close>

definition coproc_io_mode_valid :: "u32 \<Rightarrow> bool" where
  "coproc_io_mode_valid mode \<longleftrightarrow> mode = 1 \<or> mode = 2 \<or> mode = 3"

definition coproc_io_pull_valid :: "u32 \<Rightarrow> bool" where
  "coproc_io_pull_valid pull \<longleftrightarrow> pull = 1 \<or> pull = 2 \<or> pull = 3"

text \<open>The answer of the synchronous backends without a value.\<close>

definition send_service_result :: "rpc_envelope \<Rightarrow> u16 \<Rightarrow> int \<Rightarrow> (coproc, coproc_result) state" where
  "send_service_result request domain status =
    (if status = WLH_COPROC_SERVICE_OK
     then send_empty_response request WLH_STATUS_DOMAIN_NONE WLH_STATUS_OK
     else send_service_error request domain status)"

definition handle_io_configure :: "rpc_envelope \<Rightarrow> u8 list \<Rightarrow> (coproc, coproc_result) state" where
  "handle_io_configure request message = do {
    s \<leftarrow> State_Monad.get;
    case cpb_dec_io_configure (c_pb s) message of
      None \<Rightarrow> ret WLH_COPROC_PROTOCOL_ERROR
    | Some configure \<Rightarrow>
        if \<not> coproc_io_mode_valid (icm_mode configure) \<or>
          \<not> coproc_io_pull_valid (icm_pull configure)
        then send_service_error request WLH_STATUS_DOMAIN_PERIPHERAL
          WLH_COPROC_SERVICE_INVALID_ARGUMENT
        else do {
          status \<leftarrow> backend ccfg_io_configure (Io_configure
            \<lparr>ioc_pin_id = icm_pin_id configure, ioc_mode = icm_mode configure,
             ioc_pull = icm_pull configure, ioc_initial_level = icm_initial_level configure\<rparr>);
          send_service_result request WLH_STATUS_DOMAIN_PERIPHERAL status
        }
  }"

definition handle_io_read :: "rpc_envelope \<Rightarrow> u8 list \<Rightarrow> (coproc, coproc_result) state" where
  "handle_io_read request message = do {
    s \<leftarrow> State_Monad.get;
    case cpb_dec_io_read (c_pb s) message of
      None \<Rightarrow> ret WLH_COPROC_PROTOCOL_ERROR
    | Some pin_id \<Rightarrow>
        if ccfg_io_read (c_config s) = None
        then send_service_error request WLH_STATUS_DOMAIN_PERIPHERAL
          WLH_COPROC_SERVICE_NOT_SUPPORTED
        else do {
          (status, st) \<leftarrow> backend_value ccfg_io_read (Io_read_pin pin_id);
          if status \<noteq> WLH_COPROC_SERVICE_OK
          then send_service_error request WLH_STATUS_DOMAIN_PERIPHERAL status
          else if \<not> coproc_io_mode_valid (ios_mode st) \<or> \<not> coproc_io_pull_valid (ios_pull st)
          then send_service_error request WLH_STATUS_DOMAIN_PERIPHERAL
            WLH_COPROC_SERVICE_INTERNAL
          else coproc_send_rpc_message (re_service_id request) (re_method_id request)
            (re_request_id request) WLH_RPC_KIND_RESPONSE WLH_STATUS_DOMAIN_NONE WLH_STATUS_OK
            (CMsg_IoState \<lparr>is_pin_id = pin_id, is_level = ios_level st, is_mode = ios_mode st,
              is_pull = ios_pull st\<rparr>)
        }
  }"

definition handle_io_write :: "rpc_envelope \<Rightarrow> u8 list \<Rightarrow> (coproc, coproc_result) state" where
  "handle_io_write request message = do {
    s \<leftarrow> State_Monad.get;
    case cpb_dec_io_write (c_pb s) message of
      None \<Rightarrow> ret WLH_COPROC_PROTOCOL_ERROR
    | Some write \<Rightarrow>
        if ccfg_io_write (c_config s) = None
        then send_service_error request WLH_STATUS_DOMAIN_PERIPHERAL
          WLH_COPROC_SERVICE_NOT_SUPPORTED
        else do {
          status \<leftarrow> backend ccfg_io_write (Io_write (iwm_pin_id write) (iwm_level write));
          send_service_result request WLH_STATUS_DOMAIN_PERIPHERAL status
        }
  }"

definition handle_io_request :: "rpc_envelope \<Rightarrow> u8 list \<Rightarrow> (coproc, coproc_result) state" where
  "handle_io_request request message =
    (if re_method_id request = WLH_IO_METHOD_CONFIGURE then handle_io_configure request message
     else if re_method_id request = WLH_IO_METHOD_READ then handle_io_read request message
     else if re_method_id request = WLH_IO_METHOD_WRITE then handle_io_write request message
     else send_not_supported request)"

section \<open>ADC\<close>

definition handle_adc_request :: "rpc_envelope \<Rightarrow> u8 list \<Rightarrow> (coproc, coproc_result) state" where
  "handle_adc_request request message =
    (if re_method_id request \<noteq> WLH_ADC_METHOD_READ then send_not_supported request
     else do {
       s \<leftarrow> State_Monad.get;
       case cpb_dec_adc_read (c_pb s) message of
         None \<Rightarrow> ret WLH_COPROC_PROTOCOL_ERROR
       | Some pin_id \<Rightarrow> do {
           (status, millivolts) \<leftarrow> backend_value ccfg_adc_read (Adc_read_pin pin_id);
           if status \<noteq> WLH_COPROC_SERVICE_OK
           then send_service_error request WLH_STATUS_DOMAIN_PERIPHERAL status
           else coproc_send_rpc_message (re_service_id request) (re_method_id request)
             (re_request_id request) WLH_RPC_KIND_RESPONSE WLH_STATUS_DOMAIN_NONE WLH_STATUS_OK
             (CMsg_AdcSample \<lparr>as_pin_id = pin_id, as_millivolts = millivolts\<rparr>)
         }
     })"

end
