(* ===== verification/Coproc_Kv.thy ===== *)
theory Coproc_Kv
  imports Coproc_Wire
begin

text \<open>
  The KV service of the coprocessor (coproc-core/src/coproc_kv.c) with its UTF-8 check.
  \<open>Coproc_Utf8\<close> compares the check with the definition of the encoding, \<open>Coproc_Kv_Spec\<close> states what
  the service passes on to its backend.
\<close>

section \<open>The UTF-8 check\<close>

text \<open>The number of continuation bytes and the bits of the lead byte; \<open>None\<close> for a byte that
  cannot start a character.\<close>

definition utf8_lead :: "u8 \<Rightarrow> (nat \<times> u32) option" where
  "utf8_lead lead =
    (if lead \<ge> 0xc2 \<and> lead \<le> 0xdf then Some (1, ucast (lead AND 0x1f))
     else if lead \<ge> 0xe0 \<and> lead \<le> 0xef then Some (2, ucast (lead AND 0x0f))
     else if lead \<ge> 0xf0 \<and> lead \<le> 0xf4 then Some (3, ucast (lead AND 0x07))
     else None)"

text \<open>The loop over the continuation bytes.\<close>

fun utf8_continue :: "u32 \<Rightarrow> u8 list \<Rightarrow> u32 option" where
  "utf8_continue code_point [] = Some code_point"
| "utf8_continue code_point (continuation # rest) =
    (if continuation AND 0xc0 \<noteq> 0x80 then None
     else utf8_continue (push_bit 6 code_point OR ucast (continuation AND 0x3f)) rest)"

definition utf8_code_point_ok :: "nat \<Rightarrow> u32 \<Rightarrow> bool" where
  "utf8_code_point_ok extra code_point \<longleftrightarrow>
    \<not> (extra = 2 \<and> code_point < 0x800) \<and> \<not> (extra = 3 \<and> code_point < 0x10000) \<and>
    \<not> code_point > 0x10ffff \<and> \<not> (code_point \<ge> 0xd800 \<and> code_point \<le> 0xdfff)"

text \<open>The bytes from position \<open>i\<close> on; \<open>size - i <= extra\<close> is a character cut off by the end.\<close>

fun utf8_valid :: "u8 list \<Rightarrow> bool" where
  "utf8_valid [] = True"
| "utf8_valid (lead # rest) =
    (if lead < 0x80 then utf8_valid rest
     else case utf8_lead lead of
       None \<Rightarrow> False
     | Some (extra, code_point) \<Rightarrow>
         if length (lead # rest) \<le> extra then False
         else case utf8_continue code_point (take extra rest) of
           None \<Rightarrow> False
         | Some code_point \<Rightarrow>
             if \<not> utf8_code_point_ok extra code_point then False
             else utf8_valid (drop extra rest))"

section \<open>Requests\<close>

text \<open>\<open>strlen\<close> of a character array.\<close>

definition char_array_string :: "u8 list \<Rightarrow> u8 list" where
  "char_array_string array = takeWhile (\<lambda>b. b \<noteq> 0) array"

datatype kv_message =
    Kv_message_read "u8 list"
  | Kv_message_write kv_write_msg
  | Kv_message_erase "u8 list"

definition kv_message_key :: "kv_message \<Rightarrow> u8 list" where
  "kv_message_key message = char_array_string (case message of
      Kv_message_read key \<Rightarrow> key | Kv_message_write write \<Rightarrow> kwm_key write
    | Kv_message_erase key \<Rightarrow> key)"

definition decode_kv_message :: "coproc_pb \<Rightarrow> u16 \<Rightarrow> u8 list \<Rightarrow> kv_message option" where
  "decode_kv_message pb method_id message =
    (if method_id = WLH_KV_METHOD_READ then map_option Kv_message_read (cpb_dec_kv_read pb message)
     else if method_id = WLH_KV_METHOD_WRITE
     then map_option Kv_message_write (cpb_dec_kv_write pb message)
     else map_option Kv_message_erase (cpb_dec_kv_erase pb message))"

text \<open>The backend call of the method: its status, and the value to answer with for a READ.\<close>

fun kv_backend :: "kv_message \<Rightarrow> (coproc, int \<times> u8 list option) state" where
  "kv_backend (Kv_message_read key) = do {
    s \<leftarrow> State_Monad.get;
    if ccfg_kv_read (c_config s) = None then ret (WLH_COPROC_SERVICE_NOT_SUPPORTED, None)
    else do {
      (status, value, value_size) \<leftarrow>
        backend_value ccfg_kv_read (Kv_read_key (char_array_string key));
      if status \<noteq> WLH_COPROC_SERVICE_OK then ret (status, None)
      else if value_size > WLH_COPROC_KV_MAX_VALUE_SIZE \<or> \<not> utf8_valid (take value_size value)
      then ret (WLH_COPROC_SERVICE_INTERNAL, None)
      else ret (status, Some (value[value_size := 0]))
    }
  }"
| "kv_backend (Kv_message_write write) =
    (if \<not> utf8_valid (char_array_string (kwm_value write))
     then ret (WLH_COPROC_SERVICE_INVALID_ARGUMENT, None)
     else do {
       status \<leftarrow> optional_backend ccfg_kv_write WLH_COPROC_SERVICE_NOT_SUPPORTED
         (Kv_write (char_array_string (kwm_key write)) (char_array_string (kwm_value write)));
       ret (status, None)
     })"
| "kv_backend (Kv_message_erase key) = do {
    status \<leftarrow> optional_backend ccfg_kv_erase WLH_COPROC_SERVICE_NOT_SUPPORTED
      (Kv_erase (char_array_string key));
    ret (status, None)
  }"

definition handle_kv_request :: "rpc_envelope \<Rightarrow> u8 list \<Rightarrow> (coproc, coproc_result) state" where
  "handle_kv_request request message =
    (if re_method_id request \<noteq> WLH_KV_METHOD_READ \<and> re_method_id request \<noteq> WLH_KV_METHOD_WRITE \<and>
       re_method_id request \<noteq> WLH_KV_METHOD_ERASE
     then send_not_supported request
     else do {
       s \<leftarrow> State_Monad.get;
       buffer \<leftarrow> coproc_alloc 0;
       if \<not> buffer then ret WLH_COPROC_BACKEND_ERROR
       else case decode_kv_message (c_pb s) (re_method_id request) message of
         None \<Rightarrow> do {
           coproc_free;
           ret WLH_COPROC_PROTOCOL_ERROR
         }
       | Some decoded \<Rightarrow>
           if kv_message_key decoded = [] \<or> \<not> utf8_valid (kv_message_key decoded) then do {
             coproc_free;
             send_service_error request WLH_STATUS_DOMAIN_STORAGE
               WLH_COPROC_SERVICE_INVALID_ARGUMENT
           }
           else do {
             (status, value) \<leftarrow> kv_backend decoded;
             case value of
               Some value \<Rightarrow> do {
                 result \<leftarrow> coproc_send_rpc_message (re_service_id request) (re_method_id request)
                   (re_request_id request) WLH_RPC_KIND_RESPONSE WLH_STATUS_DOMAIN_NONE
                   WLH_STATUS_OK (CMsg_KvValue value);
                 coproc_free;
                 ret result
               }
             | None \<Rightarrow> do {
                 coproc_free;
                 if status \<noteq> WLH_COPROC_SERVICE_OK
                 then send_service_error request WLH_STATUS_DOMAIN_STORAGE status
                 else send_empty_response request WLH_STATUS_DOMAIN_NONE WLH_STATUS_OK
               }
           }
     })"

end
