(* ===== verification/Coproc_Wifi.thy ===== *)
theory Coproc_Wifi
  imports Coproc_Wire
begin

text \<open>
  The Wi-Fi service of the coprocessor (coproc-core/src/coproc_wifi.c): requests to the backend
  and the events the backend reports.
\<close>

section \<open>Requests\<close>

definition bss_ssid_valid :: "coproc_bss \<Rightarrow> bool" where
  "bss_ssid_valid bss \<longleftrightarrow> bss_ssid_size bss \<le> WLH_COPROC_MAX_SSID_SIZE \<and>
    (bss_ssid_size bss = 0 \<or> bss_ssid bss \<noteq> None)"

definition handle_wifi_initialize :: "rpc_envelope \<Rightarrow> u8 list \<Rightarrow> (coproc, coproc_result) state" where
  "handle_wifi_initialize request payload = do {
    s \<leftarrow> State_Monad.get;
    case cpb_dec_wifi_initialize (c_pb s) payload of
      None \<Rightarrow> ret WLH_COPROC_PROTOCOL_ERROR
    | Some interface_flags \<Rightarrow>
        if bp_active (c_wifi_initialize_pending s)
        then send_empty_response request WLH_STATUS_DOMAIN_WIFI WLH_STATUS_BUSY
        else do {
          operation_id \<leftarrow> next_operation_id;
          modify (\<lambda>s. s\<lparr>c_wifi_initialize_pending := \<lparr>bp_active = True,
            bp_operation_id = operation_id, bp_session_id = c_session_id s,
            bp_request_id = re_request_id request, bp_method_id = 0\<rparr>\<rparr>);
          status \<leftarrow> optional_backend ccfg_wifi_initialize (- 1)
            (Wifi_initialize operation_id interface_flags);
          if status \<noteq> 0 then do {
            modify (\<lambda>s. s\<lparr>c_wifi_initialize_pending := no_pending\<rparr>);
            send_status request status
          }
          else ret WLH_COPROC_OK
        }
  }"

definition handle_wifi_scan :: "rpc_envelope \<Rightarrow> u8 list \<Rightarrow> (coproc, coproc_result) state" where
  "handle_wifi_scan request payload = do {
    s \<leftarrow> State_Monad.get;
    message \<leftarrow> coproc_alloc 0;
    if \<not> message then ret WLH_COPROC_BACKEND_ERROR
    else case cpb_dec_wifi_scan (c_pb s) payload of
      None \<Rightarrow> do {
        coproc_free;
        ret WLH_COPROC_PROTOCOL_ERROR
      }
    | Some scan_id \<Rightarrow> do {
        coproc_free;
        status \<leftarrow> optional_backend ccfg_wifi_scan (- 1) (Wifi_scan scan_id);
        send_status request status
      }
  }"

definition handle_wifi_connect :: "rpc_envelope \<Rightarrow> u8 list \<Rightarrow> (coproc, coproc_result) state" where
  "handle_wifi_connect request payload = do {
    s \<leftarrow> State_Monad.get;
    buffer \<leftarrow> coproc_alloc 0;
    if \<not> buffer then ret WLH_COPROC_BACKEND_ERROR
    else case cpb_dec_wifi_connect (c_pb s) payload of
      None \<Rightarrow> do {
        coproc_free;
        ret WLH_COPROC_PROTOCOL_ERROR
      }
    | Some message \<Rightarrow> do {
        connect \<leftarrow> coproc_alloc 0;
        if \<not> connect then do {
          coproc_free;
          ret WLH_COPROC_BACKEND_ERROR
        }
        else do {
          coproc_free;
          status \<leftarrow> optional_backend ccfg_wifi_connect (- 1) (Wifi_connect
            \<lparr>wcn_ssid = wcm_ssid message, wcn_credential = wcm_credential message,
             wcn_security = wcm_security message\<rparr>);
          coproc_free;
          send_status request status
        }
      }
  }"

definition handle_wifi_disconnect :: "rpc_envelope \<Rightarrow> (coproc, coproc_result) state" where
  "handle_wifi_disconnect request = do {
    status \<leftarrow> optional_backend ccfg_wifi_disconnect (- 1) Wifi_disconnect;
    send_status request status
  }"

definition handle_wifi_start_ap :: "rpc_envelope \<Rightarrow> u8 list \<Rightarrow> (coproc, coproc_result) state" where
  "handle_wifi_start_ap request payload = do {
    s \<leftarrow> State_Monad.get;
    buffer \<leftarrow> coproc_alloc 0;
    if \<not> buffer then ret WLH_COPROC_BACKEND_ERROR
    else case cpb_dec_wifi_start_ap (c_pb s) payload of
      None \<Rightarrow> do {
        coproc_free;
        ret WLH_COPROC_PROTOCOL_ERROR
      }
    | Some message \<Rightarrow> do {
        ap \<leftarrow> coproc_alloc 0;
        if \<not> ap then do {
          coproc_free;
          ret WLH_COPROC_BACKEND_ERROR
        }
        else do {
          coproc_free;
          status \<leftarrow> optional_backend ccfg_wifi_start_ap (- 1) (Wifi_start_ap
            \<lparr>wap_ssid = wam_ssid message, wap_credential = wam_credential message,
             wap_security = wam_security message, wap_channel = wam_channel message,
             wap_max_clients = wam_max_clients message\<rparr>);
          coproc_free;
          send_status request status
        }
      }
  }"

definition handle_wifi_stop_ap :: "rpc_envelope \<Rightarrow> (coproc, coproc_result) state" where
  "handle_wifi_stop_ap request = do {
    status \<leftarrow> optional_backend ccfg_wifi_stop_ap (- 1) Wifi_stop_ap;
    send_status request status
  }"

definition handle_wifi :: "rpc_envelope \<Rightarrow> u8 list \<Rightarrow> (coproc, coproc_result) state" where
  "handle_wifi request payload =
    (if re_method_id request = WLH_WIFI_METHOD_INITIALIZE then handle_wifi_initialize request payload
     else if re_method_id request = WLH_WIFI_METHOD_SCAN_START then handle_wifi_scan request payload
     else if re_method_id request = WLH_WIFI_METHOD_CONNECT then handle_wifi_connect request payload
     else if re_method_id request = WLH_WIFI_METHOD_DISCONNECT then handle_wifi_disconnect request
     else if re_method_id request = WLH_WIFI_METHOD_START_AP then handle_wifi_start_ap request payload
     else if re_method_id request = WLH_WIFI_METHOD_STOP_AP then handle_wifi_stop_ap request
     else send_not_supported request)"

text \<open>The worker's job for the completion of INITIALIZE.\<close>

definition wifi_initialized_job :: "u32 \<Rightarrow> int \<Rightarrow> (coproc, unit) state" where
  "wifi_initialized_job operation_id backend_status = do {
    s \<leftarrow> State_Monad.get;
    let pending = c_wifi_initialize_pending s;
    if bp_active pending \<and> operation_id = bp_operation_id pending \<and>
      bp_session_id pending = c_session_id s
    then do {
      modify (\<lambda>s. s\<lparr>c_wifi_initialize_pending := no_pending\<rparr>);
      _ \<leftarrow> send_status (empty_envelope\<lparr>re_service_id := WLH_SERVICE_WIFI,
        re_method_id := WLH_WIFI_METHOD_INITIALIZE, re_request_id := bp_request_id pending,
        re_kind := WLH_RPC_KIND_REQUEST\<rparr>) backend_status;
      ret ()
    }
    else ret ()
  }"

section \<open>Events\<close>

definition WIFI_INTERFACE_STA :: u32 where "WIFI_INTERFACE_STA = 1"
definition WIFI_INTERFACE_AP :: u32 where "WIFI_INTERFACE_AP = 2"

definition send_wifi_message :: "u16 \<Rightarrow> coproc_msg \<Rightarrow> (coproc, coproc_result) state" where
  "send_wifi_message method_id message = send_event_message WLH_SERVICE_WIFI method_id message"

definition wlh_coproc_wifi_initialized :: "u32 \<Rightarrow> int \<Rightarrow> (coproc, coproc_result) state" where
  "wlh_coproc_wifi_initialized operation_id backend_status = do {
    started \<leftarrow> gets c_worker_started;
    if operation_id = 0 \<or> \<not> started then ret WLH_COPROC_INVALID_ARGUMENT
    else enqueue_completion (COPROC_JOB_WIFI_INITIALIZED operation_id backend_status)
  }"

text \<open>The SSID bytes copied into a message.\<close>

definition bss_ssid_bytes :: "coproc_bss \<Rightarrow> u8 list" where
  "bss_ssid_bytes bss = (case bss_ssid bss of None \<Rightarrow> [] | Some p \<Rightarrow> take (bss_ssid_size bss) p)"

definition wlh_coproc_wifi_scan_result :: "u32 \<Rightarrow> coproc_bss option \<Rightarrow> (coproc, coproc_result) state" where
  "wlh_coproc_wifi_scan_result scan_id bss = (case bss of
      None \<Rightarrow> ret WLH_COPROC_INVALID_ARGUMENT
    | Some bss \<Rightarrow>
        if \<not> bss_ssid_valid bss then ret WLH_COPROC_INVALID_ARGUMENT
        else do {
          event \<leftarrow> coproc_alloc 0;
          if \<not> event then ret WLH_COPROC_BACKEND_ERROR
          else do {
            result \<leftarrow> send_wifi_message WLH_WIFI_EVENT_SCAN_RESULT (CMsg_WifiScanResult scan_id
              \<lparr>wnm_ssid = bss_ssid_bytes bss, wnm_bssid = bss_bssid bss,
               wnm_channel = bss_channel bss, wnm_rssi_dbm = bss_rssi_dbm bss,
               wnm_security = bss_security bss\<rparr>);
            coproc_free;
            ret result
          }
        })"

definition wlh_coproc_wifi_scan_completed ::
  "u32 \<Rightarrow> u32 \<Rightarrow> bool \<Rightarrow> (coproc, coproc_result) state" where
  "wlh_coproc_wifi_scan_completed scan_id result_count cancelled =
    send_wifi_message WLH_WIFI_EVENT_SCAN_COMPLETED
      (CMsg_WifiScanCompleted scan_id result_count cancelled)"

definition wlh_coproc_wifi_connected :: "coproc_bss option \<Rightarrow> (coproc, coproc_result) state" where
  "wlh_coproc_wifi_connected bss = (case bss of
      None \<Rightarrow> ret WLH_COPROC_INVALID_ARGUMENT
    | Some bss \<Rightarrow>
        if \<not> bss_ssid_valid bss then ret WLH_COPROC_INVALID_ARGUMENT
        else send_wifi_message WLH_WIFI_EVENT_CONNECTED (CMsg_WifiConnected
          \<lparr>wlm_interface = WIFI_INTERFACE_STA, wlm_connected = True,
           wlm_ssid = bss_ssid_bytes bss, wlm_bssid = bss_bssid bss,
           wlm_mac = bss_interface_mac bss, wlm_channel = bss_channel bss,
           wlm_rssi_dbm = bss_rssi_dbm bss, wlm_security = bss_security bss\<rparr>))"

definition wlh_coproc_wifi_disconnected :: "u32 \<Rightarrow> bool \<Rightarrow> (coproc, coproc_result) state" where
  "wlh_coproc_wifi_disconnected reason locally_initiated =
    send_wifi_message WLH_WIFI_EVENT_DISCONNECTED
      (CMsg_WifiDisconnected WIFI_INTERFACE_STA reason locally_initiated)"

definition wlh_coproc_wifi_ap_started :: "coproc_bss option \<Rightarrow> (coproc, coproc_result) state" where
  "wlh_coproc_wifi_ap_started ap = (case ap of
      None \<Rightarrow> ret WLH_COPROC_INVALID_ARGUMENT
    | Some ap \<Rightarrow>
        if \<not> bss_ssid_valid ap then ret WLH_COPROC_INVALID_ARGUMENT
        else send_wifi_message WLH_WIFI_EVENT_CONNECTED (CMsg_WifiConnected
          \<lparr>wlm_interface = WIFI_INTERFACE_AP, wlm_connected = True,
           wlm_ssid = bss_ssid_bytes ap, wlm_bssid = bss_bssid ap,
           wlm_mac = bss_interface_mac ap, wlm_channel = bss_channel ap,
           wlm_rssi_dbm = 0, wlm_security = bss_security ap\<rparr>))"

definition wlh_coproc_wifi_ap_stopped :: "u32 \<Rightarrow> bool \<Rightarrow> (coproc, coproc_result) state" where
  "wlh_coproc_wifi_ap_stopped reason locally_initiated =
    send_wifi_message WLH_WIFI_EVENT_DISCONNECTED
      (CMsg_WifiDisconnected WIFI_INTERFACE_AP reason locally_initiated)"

text \<open>\<open>None\<close> for a NULL address.\<close>

definition wlh_coproc_wifi_ap_client_joined ::
  "u8 list option \<Rightarrow> u32 \<Rightarrow> u32 \<Rightarrow> (coproc, coproc_result) state" where
  "wlh_coproc_wifi_ap_client_joined mac rssi_dbm association_id = (case mac of
      None \<Rightarrow> ret WLH_COPROC_INVALID_ARGUMENT
    | Some mac \<Rightarrow> send_wifi_message WLH_WIFI_EVENT_AP_CLIENT_JOINED (CMsg_WifiApClientJoined
        \<lparr>wkm_mac = mac, wkm_rssi_dbm = rssi_dbm, wkm_association_id = association_id\<rparr>))"

definition wlh_coproc_wifi_ap_client_left ::
  "u8 list option \<Rightarrow> u32 \<Rightarrow> u32 \<Rightarrow> (coproc, coproc_result) state" where
  "wlh_coproc_wifi_ap_client_left mac association_id reason = (case mac of
      None \<Rightarrow> ret WLH_COPROC_INVALID_ARGUMENT
    | Some mac \<Rightarrow> send_wifi_message WLH_WIFI_EVENT_AP_CLIENT_LEFT
        (CMsg_WifiApClientLeft mac association_id reason))"

end
