(* ===== verification/Coproc_Frame.thy ===== *)
theory Coproc_Frame
  imports Coproc_Link Coproc_Services Coproc_Kv Coproc_Wifi
begin

text \<open>
  The receive path of the coprocessor: the RPC dispatch (coproc-core/src/coproc_rpc.c), the frames
  by channel and the ingress (coproc-core/src/coproc_frame.c).
\<close>

section \<open>RPC\<close>

definition handle_credit_message ::
  "frame_header \<Rightarrow> rpc_envelope \<Rightarrow> u8 list \<Rightarrow> (coproc, coproc_result) state" where
  "handle_credit_message frame_header request message = do {
    s \<leftarrow> State_Monad.get;
    case (if fh_session_id frame_header \<noteq> c_session_id s then None
        else cpb_dec_credit_update (c_pb s) message) of
      None \<Rightarrow> ret WLH_COPROC_PROTOCOL_ERROR
    | Some update \<Rightarrow>
        if cu_channel_id update \<ge> WLH_COPROC_CHANNEL_COUNT then ret WLH_COPROC_PROTOCOL_ERROR
        else do {
          let channel = ucast (cu_channel_id update);
          let credit = c_tx_credit s channel;
          if UINT32_MAX - credit < cu_units update then ret WLH_COPROC_PROTOCOL_ERROR
          else do {
            modify (\<lambda>s. s\<lparr>c_tx_credit :=
              (c_tx_credit s)(channel := c_tx_credit s channel + cu_units update)\<rparr>);
            whenM (channel = WLH_CHANNEL_BLUETOOTH_HCI \<and>
                ccfg_bluetooth_hci_tx_ready (c_config s) \<noteq> None \<and>
                credit \<le> c_bluetooth_tx_inflight s \<and>
                credit + cu_units update > c_bluetooth_tx_inflight s)
              (coproc_emit CHciTxReady);
            st \<leftarrow> gets c_state;
            whenM (st = WLH_COPROC_STATE_CONGESTED) (coproc_set_state WLH_COPROC_STATE_READY);
            if re_kind request = WLH_RPC_KIND_REQUEST then send_status request 0
            else ret WLH_COPROC_OK
          }
        }
  }"

definition handle_heartbeat_message ::
  "frame_header \<Rightarrow> rpc_envelope \<Rightarrow> u8 list \<Rightarrow> (coproc, coproc_result) state" where
  "handle_heartbeat_message frame_header request message = do {
    s \<leftarrow> State_Monad.get;
    heartbeat \<leftarrow> coproc_alloc 0;
    if \<not> heartbeat then ret WLH_COPROC_BACKEND_ERROR
    else do {
      let valid = (fh_session_id frame_header = c_session_id s \<and>
        cpb_dec_heartbeat_session (c_pb s) message = Some (c_session_id s));
      coproc_free;
      if \<not> valid then ret WLH_COPROC_PROTOCOL_ERROR
      else if re_kind request = WLH_RPC_KIND_REQUEST then send_status request 0
      else ret WLH_COPROC_OK
    }
  }"

text \<open>The services, once the request is known to be one of the current session.\<close>

definition dispatch_service :: "rpc_envelope \<Rightarrow> u8 list \<Rightarrow> (coproc, coproc_result) state" where
  "dispatch_service request message = do {
    s \<leftarrow> State_Monad.get;
    let service = re_service_id request;
    let method = re_method_id request;
    let cfg = c_config s;
    if service = WLH_SERVICE_WIFI then handle_wifi request message
    else if service = WLH_SERVICE_BLUETOOTH \<and> bluetooth_backend_present s
    then handle_bluetooth request message
    else if service = WLH_SERVICE_OTA \<and> ota_backend_present s then handle_ota request message
    else if service = WLH_SERVICE_ETH \<and> eth_backend_present s then handle_eth request message
    else if service = WLH_SERVICE_DIAGNOSTICS \<and> method = WLH_DIAGNOSTICS_METHOD_PING
    then handle_diagnostics_request request message
    else if service = WLH_SERVICE_DEVICE_INFO \<and> method = WLH_DEVICE_INFO_METHOD_GET_INFO \<and>
      ccfg_device_get_info cfg \<noteq> None
    then handle_device_info_request request
    else if service = WLH_SERVICE_USER_PASSTHROUGH \<and> method = WLH_USER_PASSTHROUGH_METHOD_SEND \<and>
      ccfg_user_on_message cfg \<noteq> None
    then handle_user_message_request request message
    else if service = WLH_SERVICE_IO \<and> ccfg_io_configure cfg \<noteq> None
    then handle_io_request request message
    else if service = WLH_SERVICE_ADC \<and> ccfg_adc_read cfg \<noteq> None
    then handle_adc_request request message
    else if service = WLH_SERVICE_KV \<and> ccfg_kv_read cfg \<noteq> None
    then handle_kv_request request message
    else send_not_supported request
  }"

definition coproc_handle_rpc :: "frame_header \<Rightarrow> u8 list \<Rightarrow> (coproc, coproc_result) state" where
  "coproc_handle_rpc frame_header payload = (
    let (wire, request, message) = rpc_decode_buf RPC_BUFFER_SIZE payload in
    if wire \<noteq> WLH_WIRE_OK then ret WLH_COPROC_PROTOCOL_ERROR
    else if re_service_id request = WLH_SERVICE_LINK \<and>
      re_method_id request = WLH_LINK_METHOD_CREDIT_UPDATE
    then handle_credit_message frame_header request message
    else if re_service_id request = WLH_SERVICE_LINK \<and>
      re_method_id request = WLH_LINK_METHOD_HEARTBEAT
    then handle_heartbeat_message frame_header request message
    else if re_kind request \<noteq> WLH_RPC_KIND_REQUEST then ret WLH_COPROC_PROTOCOL_ERROR
    else do {
      coproc_diag (\<lambda>d. d\<lparr>cd_rpc_requests := cd_rpc_requests d + 1\<rparr>);
      s \<leftarrow> State_Monad.get;
      if re_service_id request = WLH_SERVICE_LINK \<and> re_method_id request = WLH_LINK_METHOD_HELLO
      then handle_hello_request frame_header request message
      else if c_state s \<noteq> WLH_COPROC_STATE_READY \<or> fh_session_id frame_header \<noteq> c_session_id s
      then ret WLH_COPROC_INVALID_STATE
      else dispatch_service request message
    })"

section \<open>Ethernet frames\<close>

definition ethernet_receiver :: "coproc_config \<Rightarrow> u8 \<Rightarrow> (nat \<Rightarrow> ethernet_rx_result) option" where
  "ethernet_receiver cfg channel =
    (if channel = WLH_CHANNEL_ETHERNET_STA then ccfg_ethernet_sta_rx cfg
     else if channel = WLH_CHANNEL_ETHERNET_AP then ccfg_ethernet_ap_rx cfg
     else ccfg_ethernet_eth_rx cfg)"

text \<open>Hand the records to the backend; the result is the number of credits to return at once.\<close>

fun ethernet_receive :: "u8 \<Rightarrow> u32 \<Rightarrow> raw_record list \<Rightarrow> (coproc, u32) state" where
  "ethernet_receive channel immediate_credit_units [] = ret immediate_credit_units"
| "ethernet_receive channel immediate_credit_units ((record_type, flags, payload) # records) = do {
    s \<leftarrow> State_Monad.get;
    case (if record_type \<noteq> 1 then None else ethernet_receiver (c_config s) channel) of
      None \<Rightarrow> ethernet_receive channel (immediate_credit_units + 1) records
    | Some receive \<Rightarrow> do {
        let receive_result = receive (length (c_trace s));
        coproc_emit (CEthernetRx (c_session_id s) channel payload receive_result);
        if receive_result = ETHERNET_RX_PENDING
        then ethernet_receive channel immediate_credit_units records
        else do {
          whenM (receive_result = ETHERNET_RX_REJECTED) (coproc_diag (\<lambda>d.
            d\<lparr>cd_ethernet_rx_rejected := cd_ethernet_rx_rejected d + 1\<rparr>));
          ethernet_receive channel (immediate_credit_units + 1) records
        }
      }
  }"

definition coproc_process_ethernet_frame :: "u8 \<Rightarrow> u8 list \<Rightarrow> (coproc, coproc_result) state" where
  "coproc_process_ethernet_frame channel payload = do {
    let (records, record_result) = raw_records payload;
    let payload_valid = (payload \<noteq> [] \<and> record_result = WLH_WIRE_END);
    units \<leftarrow> (if payload_valid then ethernet_receive channel 0 records else ret 1);
    _ \<leftarrow> coproc_send_credit_update channel units;
    ret (if payload_valid then WLH_COPROC_OK else WLH_COPROC_PROTOCOL_ERROR)
  }"

section \<open>Frames\<close>

text \<open>Sequence accounting; the frames an Ethernet gap skipped are refunded.\<close>

definition coproc_note_frame :: "frame_header \<Rightarrow> (coproc, unit) state" where
  "coproc_note_frame header = do {
    s \<leftarrow> State_Monad.get;
    let channel = fh_channel header;
    whenM (c_rx_sequence_valid s channel \<and> fh_sequence header \<noteq> c_rx_sequence s channel) (do {
      let skipped = fh_sequence header - c_rx_sequence s channel;
      coproc_diag (\<lambda>d. d\<lparr>cd_sequence_gaps := cd_sequence_gaps d + 1\<rparr>);
      (if skipped < 0x80000000 \<and> coproc_ethernet_channel channel then do {
         _ \<leftarrow> coproc_send_credit_update channel skipped;
         ret ()
       }
       else ret ())
    });
    modify (\<lambda>s. s\<lparr>c_rx_sequence := (c_rx_sequence s)(channel := fh_sequence header + 1),
      c_rx_sequence_valid := (c_rx_sequence_valid s)(channel := True)\<rparr>);
    coproc_diag (\<lambda>d. d\<lparr>cd_rx_frames := cd_rx_frames d + 1\<rparr>);
    now \<leftarrow> coproc_now_ms;
    coproc_diag (\<lambda>d. d\<lparr>cd_last_peer_activity_ms := now\<rparr>)
  }"

definition coproc_process_frame :: "u8 list \<Rightarrow> (coproc, coproc_result) state" where
  "coproc_process_frame frame = do {
    s \<leftarrow> State_Monad.get;
    let (wire, header, payload) =
      frame_decode_buf (unat (ccfg_max_frame_size (c_config s))) frame;
    if wire \<noteq> WLH_WIRE_OK then do {
      whenM (wire = WLH_WIRE_CHECKSUM_MISMATCH)
        (coproc_diag (\<lambda>d. d\<lparr>cd_checksum_errors := cd_checksum_errors d + 1\<rparr>));
      ret WLH_COPROC_PROTOCOL_ERROR
    }
    else do {
      coproc_note_frame header;
      s \<leftarrow> State_Monad.get;
      let channel = fh_channel header;
      let in_session = ((c_state s = WLH_COPROC_STATE_READY \<or>
        c_state s = WLH_COPROC_STATE_CONGESTED) \<and> fh_session_id header = c_session_id s);
      if channel = WLH_CHANNEL_LINK_CONTROL \<or> channel = WLH_CHANNEL_CONTROL_RPC then do {
        result \<leftarrow> coproc_handle_rpc header payload;
        (if channel = WLH_CHANNEL_CONTROL_RPC then do {
           _ \<leftarrow> coproc_send_credit_update WLH_CHANNEL_CONTROL_RPC 1;
           ret ()
         }
         else ret ());
        ret result
      }
      else if channel = WLH_CHANNEL_BLUETOOTH_HCI then
        if \<not> in_session then ret WLH_COPROC_INVALID_STATE
        else coproc_process_hci_frame payload
      else if channel = WLH_CHANNEL_OTA_STREAM then
        if \<not> in_session then ret WLH_COPROC_INVALID_STATE
        else coproc_process_ota_frame payload
      else if coproc_ethernet_channel channel then coproc_process_ethernet_frame channel payload
      else ret WLH_COPROC_PROTOCOL_ERROR
    }
  }"

definition wlh_coproc_on_frame :: "u8 list \<Rightarrow> (coproc, coproc_result) state" where
  "wlh_coproc_on_frame frame = do {
    s \<leftarrow> State_Monad.get;
    if length frame < WLH_FRAME_HEADER_SIZE \<or>
      length frame > unat (ccfg_max_frame_size (c_config s)) \<or> \<not> c_worker_started s
    then ret WLH_COPROC_INVALID_ARGUMENT
    else do {
      job \<leftarrow> coproc_alloc (length frame);
      if \<not> job then ret WLH_COPROC_BACKEND_ERROR
      else do {
        queued \<leftarrow> coproc_enqueue_job (COPROC_JOB_RX_FRAME
          \<lparr>cdj_method_id = 0, cdj_service_id = 0, cdj_channel = 0, cdj_capacity = 0,
           cdj_data = frame\<rparr>);
        if \<not> queued then do {
          coproc_free;
          ret WLH_COPROC_BACKEND_ERROR
        }
        else ret WLH_COPROC_OK
      }
    }
  }"

end
