(* ===== verification/Coproc_Worker.thy ===== *)
theory Coproc_Worker
  imports Coproc_Frame
begin

text \<open>
  The worker task of the coprocessor core, its lifecycle, diagnostics and test hooks
  (coproc-core/src/coproc.c). A turn of the loop is one step, the regions under the state mutex are
  atomic, and the calls of other tasks run between the steps.
\<close>

section \<open>Jobs\<close>

definition coproc_ethernet_tx_job :: "coproc_data_job \<Rightarrow> (coproc, unit) state" where
  "coproc_ethernet_tx_job data = do {
    (data, credit_units) \<leftarrow> coproc_aggregate_ethernet_jobs data;
    result \<leftarrow> coproc_send_payload_units (cdj_channel data) (cdj_data data) credit_units;
    whenM (result \<noteq> WLH_COPROC_OK) coproc_semaphore_give;
    coproc_free
  }"

definition bluetooth_tx_job :: "coproc_data_job \<Rightarrow> (coproc, unit) state" where
  "bluetooth_tx_job data = do {
    bluetooth_release_tx_reservation (cdj_channel data);
    stopped \<leftarrow> gets c_bluetooth_hci_stopped;
    (if stopped then coproc_diag (\<lambda>d. d\<lparr>cd_hci_drops := cd_hci_drops d + 1\<rparr>)
     else do {
       _ \<leftarrow> coproc_send_payload (cdj_channel data) (cdj_data data);
       ret ()
     });
    coproc_free
  }"

definition coproc_run_job :: "coproc_job \<Rightarrow> (coproc, unit) state" where
  "coproc_run_job job = (case job of
      COPROC_JOB_STOP \<Rightarrow> modify (\<lambda>s. s\<lparr>c_worker_stopping := True\<rparr>)
    | COPROC_JOB_RX_FRAME data \<Rightarrow> do {
        _ \<leftarrow> coproc_process_frame (cdj_data data);
        coproc_free
      }
    | COPROC_JOB_WIFI_INITIALIZED operation_id backend_status \<Rightarrow> do {
        wifi_initialized_job operation_id backend_status;
        coproc_free
      }
    | COPROC_JOB_RPC_EVENT data \<Rightarrow> do {
        _ \<leftarrow> coproc_send_rpc (cdj_service_id data) (cdj_method_id data) 0 WLH_RPC_KIND_EVENT 0 0
          (cdj_data data);
        coproc_free
      }
    | COPROC_JOB_ETHERNET_TX data \<Rightarrow> coproc_ethernet_tx_job data
    | COPROC_JOB_BLUETOOTH_COMPLETE operation_id backend_status \<Rightarrow> do {
        bluetooth_operation_completed operation_id backend_status;
        coproc_free
      }
    | COPROC_JOB_BLUETOOTH_INFO operation_id backend_status info \<Rightarrow> do {
        bluetooth_info_completed operation_id backend_status info;
        coproc_free
      }
    | COPROC_JOB_BLUETOOTH_TX data \<Rightarrow> bluetooth_tx_job data
    | COPROC_JOB_BLUETOOTH_FATAL reason \<Rightarrow> do {
        bluetooth_enter_error reason;
        coproc_free
      }
    | COPROC_JOB_OTA_COMPLETE operation_id backend_status \<Rightarrow> do {
        ota_operation_completed operation_id backend_status;
        coproc_free
      }
    | COPROC_JOB_OTA_WRITE_COMPLETE transfer_id bytes_received backend_status \<Rightarrow> do {
        ota_write_completed transfer_id bytes_received backend_status;
        coproc_free
      }
    | COPROC_JOB_ETH_INFO operation_id backend_status info \<Rightarrow> do {
        eth_info_completed operation_id backend_status info;
        coproc_free
      }
    | COPROC_JOB_TRANSPORT_FAILED \<Rightarrow> coproc_set_state WLH_COPROC_STATE_FAILED
    | COPROC_JOB_ETHERNET_RX_COMPLETE \<Rightarrow> ret ())"

section \<open>The worker\<close>

definition coproc_worker_start :: "(coproc, unit) state" where
  "coproc_worker_start = do {
    coproc_set_state WLH_COPROC_STATE_WAITING_FOR_HELLO;
    modify reset_ethernet_rx_completions;
    now \<leftarrow> coproc_now_ms;
    modify (\<lambda>s. s\<lparr>c_started_ms := now, c_last_heartbeat_ms := now\<rparr>)
  }"

text \<open>The deferred job goes before the queue. The result is the wait of this turn; a receive that
  finds the queue empty is the timeout of that wait.\<close>

definition coproc_take_job :: "(coproc, coproc_job option) state" where
  "coproc_take_job = do {
    deferred \<leftarrow> gets c_deferred_job;
    case deferred of
      Some job \<Rightarrow> do {
        modify (\<lambda>s. s\<lparr>c_deferred_job := None\<rparr>);
        ret (Some job)
      }
    | None \<Rightarrow> coproc_queue_receive
  }"

definition coproc_worker_turn :: "(coproc, u32) state" where
  "coproc_worker_turn = do {
    retry_ethernet_credit \<leftarrow> flush_ethernet_rx_completions;
    _ \<leftarrow> coproc_emit_due_heartbeat;
    wait_ms \<leftarrow> (if retry_ethernet_credit then ret 1 else coproc_next_wait_ms);
    job \<leftarrow> coproc_take_job;
    (case job of None \<Rightarrow> ret () | Some job \<Rightarrow> coproc_run_job job);
    ret wait_ms
  }"

definition coproc_worker_exit :: "(coproc, unit) state" where
  "coproc_worker_exit = do {
    coproc_set_state WLH_COPROC_STATE_STOPPED;
    modify (\<lambda>s. reset_ethernet_rx_completions (s\<lparr>c_session_id := 0\<rparr>))
  }"

section \<open>Lifecycle\<close>

definition zero_coproc_diagnostics :: coproc_diagnostics where
  "zero_coproc_diagnostics = \<lparr>cd_state = WLH_COPROC_STATE_STOPPED, cd_session_id = 0,
    cd_tx_frames = 0, cd_rx_frames = 0, cd_checksum_errors = 0, cd_sequence_gaps = 0,
    cd_rpc_requests = 0, cd_peer_resets = 0, cd_hci_malformed = 0, cd_hci_drops = 0,
    cd_hci_adv_drops = 0, cd_bluetooth_mismatches = 0, cd_ethernet_rx_rejected = 0,
    cd_ethernet_rx_failed = 0, cd_last_peer_activity_ms = 0\<rparr>"

definition zero_coproc :: "coproc_config \<Rightarrow> coproc_pb \<Rightarrow> coproc" where
  "zero_coproc cfg pb = \<lparr>c_config = cfg, c_state = WLH_COPROC_STATE_STOPPED, c_session_id = 0,
    c_next_session_id = 0, c_tx_sequence = (\<lambda>_. 0), c_rx_sequence = (\<lambda>_. 0),
    c_tx_credit = (\<lambda>_. 0), c_rx_sequence_valid = (\<lambda>_. False), c_started_ms = 0,
    c_last_heartbeat_ms = 0, c_diagnostics = zero_coproc_diagnostics, c_core_queue = [],
    c_ethernet_tx_slots = 0, c_ethernet_rx_pending_credit = (\<lambda>_. 0),
    c_ethernet_rx_pending_failures = 0, c_ethernet_rx_wake_queued = False,
    c_worker_started = False, c_worker_stopping = False, c_next_backend_operation_id = 0,
    c_wifi_initialize_pending = no_pending, c_bluetooth_pending = no_pending,
    c_eth_pending = no_pending, c_bluetooth_state = BT_STATE_UNSPECIFIED,
    c_bluetooth_tx_inflight = 0, c_bluetooth_adv_tx_inflight = 0,
    c_bluetooth_adv_channel = False, c_bluetooth_hci_stopped = False,
    c_ota_pending = no_pending, c_ota_state = OTA_STATE_UNSPECIFIED, c_ota_transfer_id = 0,
    c_next_ota_transfer_id = 0, c_ota_image_size = 0, c_ota_bytes_accepted = 0,
    c_ota_bytes_received = 0, c_ota_progress_reported_bytes = 0,
    c_ota_target_version = replicate 33 0, c_deferred_job = None, c_pb = pb, c_trace = []\<rparr>"

text \<open>The backend tables that must be complete or absent.\<close>

definition bluetooth_ops_partial :: "coproc_config \<Rightarrow> bool" where
  "bluetooth_ops_partial c \<longleftrightarrow>
    (ccfg_bluetooth_initialize c \<noteq> None \<or> ccfg_bluetooth_enable c \<noteq> None \<or>
     ccfg_bluetooth_disable c \<noteq> None \<or> ccfg_bluetooth_deinitialize c \<noteq> None \<or>
     ccfg_bluetooth_get_info c \<noteq> None \<or> ccfg_bluetooth_hci_send c \<noteq> None) \<and>
    (ccfg_bluetooth_initialize c = None \<or> ccfg_bluetooth_enable c = None \<or>
     ccfg_bluetooth_disable c = None \<or> ccfg_bluetooth_deinitialize c = None \<or>
     ccfg_bluetooth_get_info c = None \<or> ccfg_bluetooth_hci_send c = None)"

definition ota_ops_partial :: "coproc_config \<Rightarrow> bool" where
  "ota_ops_partial c \<longleftrightarrow>
    (ccfg_ota_begin c \<noteq> None \<or> ccfg_ota_write c \<noteq> None \<or> ccfg_ota_finalize c \<noteq> None \<or>
     ccfg_ota_activate c \<noteq> None \<or> ccfg_ota_abort c \<noteq> None) \<and>
    (ccfg_ota_begin c = None \<or> ccfg_ota_write c = None \<or> ccfg_ota_finalize c = None \<or>
     ccfg_ota_activate c = None)"

text \<open>On the queue and Ethernet depth errors the code has already cleared the object and stored
  the configuration.\<close>

definition wlh_coproc_init :: "coproc \<Rightarrow> coproc_config option \<Rightarrow> coproc_result \<times> coproc" where
  "wlh_coproc_init coproc config = (case config of
      None \<Rightarrow> (WLH_COPROC_INVALID_ARGUMENT, coproc)
    | Some c \<Rightarrow>
        if ccfg_submit_tx c = None \<or> ccfg_alloc c = None \<or> ccfg_free c = None \<or>
          \<not> wlh_osal_ops_valid (Some (ccfg_osal c)) \<or> ccfg_heartbeat_interval_ms c = 0 \<or>
          unat (ccfg_max_frame_size c) < WLH_FRAME_HEADER_SIZE \<or>
          unat (ccfg_max_frame_size c) > WLH_COPROC_MAX_FRAME_SIZE
        then (WLH_COPROC_INVALID_ARGUMENT, coproc)
        else if bluetooth_ops_partial c then (WLH_COPROC_INVALID_ARGUMENT, coproc)
        else if ota_ops_partial c then (WLH_COPROC_INVALID_ARGUMENT, coproc)
        else
          let c = (if ccfg_core_queue_depth c = 0 then c\<lparr>ccfg_core_queue_depth := 16\<rparr> else c) in
          if unat (ccfg_core_queue_depth c) > WLH_COPROC_MAX_QUEUE_DEPTH
          then (WLH_COPROC_INVALID_ARGUMENT, zero_coproc c (c_pb coproc))
          else
            let c = (if ccfg_ethernet_tx_depth c = 0 then c\<lparr>ccfg_ethernet_tx_depth :=
              (if ccfg_core_queue_depth c > WLH_COPROC_CONTROL_QUEUE_RESERVE
               then ccfg_core_queue_depth c - WLH_COPROC_CONTROL_QUEUE_RESERVE else 1)\<rparr> else c) in
            if ccfg_ethernet_tx_depth c > ccfg_core_queue_depth c
            then (WLH_COPROC_INVALID_ARGUMENT, zero_coproc c (c_pb coproc))
            else
              let c = (if ccfg_stop_timeout_ms c = 0 then c\<lparr>ccfg_stop_timeout_ms := 3000\<rparr> else c)
              in (WLH_COPROC_OK, (zero_coproc c (c_pb coproc))\<lparr>
                c_next_session_id :=
                  (if ccfg_initial_session_id c \<noteq> 0 then ccfg_initial_session_id c else 1),
                c_next_backend_operation_id := 1, c_next_ota_transfer_id := 1,
                c_ota_state := OTA_STATE_IDLE\<rparr>))"

definition coproc_osal_call :: "string \<Rightarrow> (osal_ops \<Rightarrow> nat \<Rightarrow> int) \<Rightarrow> (coproc, bool) state" where
  "coproc_osal_call name f = do {
    s \<leftarrow> State_Monad.get;
    let ok = (f (ccfg_osal (c_config s)) (length (c_trace s)) = 0);
    coproc_emit (COsal name ok);
    ret ok
  }"

definition coproc_osal_destroy :: "string \<Rightarrow> (coproc, unit) state" where
  "coproc_osal_destroy name = coproc_emit (COsal name True)"

text \<open>Creating the queue empties it and creating the semaphore sets its count.\<close>

definition wlh_coproc_start :: "(coproc, coproc_result) state" where
  "wlh_coproc_start = do {
    st \<leftarrow> gets c_state;
    if st \<noteq> WLH_COPROC_STATE_STOPPED then ret WLH_COPROC_INVALID_STATE
    else do {
      mutex \<leftarrow> coproc_osal_call ''mutex_create'' osal_mutex_create;
      if \<not> mutex then ret WLH_COPROC_INVALID_STATE
      else do {
        queue \<leftarrow> coproc_osal_call ''queue_create'' osal_queue_create;
        if \<not> queue then do {
          coproc_osal_destroy ''mutex_destroy'';
          ret WLH_COPROC_INVALID_STATE
        }
        else do {
          modify (\<lambda>s. s\<lparr>c_core_queue := []\<rparr>);
          semaphore \<leftarrow> coproc_osal_call ''semaphore_create'' osal_semaphore_create;
          if \<not> semaphore then do {
            coproc_osal_destroy ''queue_destroy'';
            coproc_osal_destroy ''mutex_destroy'';
            ret WLH_COPROC_INVALID_STATE
          }
          else do {
            modify (\<lambda>s. s\<lparr>c_ethernet_tx_slots := unat (ccfg_ethernet_tx_depth (c_config s)),
              c_worker_stopping := False, c_worker_started := True\<rparr>);
            task \<leftarrow> coproc_osal_call ''task_create'' osal_task_create;
            if \<not> task then do {
              modify (\<lambda>s. s\<lparr>c_worker_started := False\<rparr>);
              coproc_osal_destroy ''queue_destroy'';
              coproc_osal_destroy ''semaphore_destroy'';
              coproc_osal_destroy ''mutex_destroy'';
              ret WLH_COPROC_INVALID_STATE
            }
            else ret WLH_COPROC_OK
          }
        }
      }
    }
  }"

text \<open>\<open>wlh_coproc_stop\<close> up to the join, and what it does once the worker has ended (or the join has
  timed out); the worker's turns run in between.\<close>

definition wlh_coproc_stop_request :: "(coproc, coproc_result) state" where
  "wlh_coproc_stop_request = do {
    queued \<leftarrow> coproc_enqueue_job COPROC_JOB_STOP;
    ret (if queued then WLH_COPROC_OK else WLH_COPROC_INVALID_STATE)
  }"

definition wlh_coproc_stop_join :: "(coproc, coproc_result) state" where
  "wlh_coproc_stop_join = do {
    joined \<leftarrow> coproc_osal_call ''task_join'' osal_task_join;
    if \<not> joined then ret WLH_COPROC_BACKEND_ERROR
    else do {
      modify (\<lambda>s. s\<lparr>c_worker_started := False\<rparr>);
      coproc_osal_destroy ''queue_destroy'';
      coproc_osal_destroy ''semaphore_destroy'';
      coproc_osal_destroy ''mutex_destroy'';
      ret WLH_COPROC_OK
    }
  }"

definition wlh_coproc_get_diagnostics :: "coproc \<Rightarrow> coproc_diagnostics" where
  "wlh_coproc_get_diagnostics s =
    (c_diagnostics s)\<lparr>cd_state := c_state s, cd_session_id := c_session_id s\<rparr>"

section \<open>Test hooks\<close>

definition wlh_coproc_test_set_credit :: "u8 \<Rightarrow> u32 \<Rightarrow> (coproc, unit) state" where
  "wlh_coproc_test_set_credit channel credit = modify (\<lambda>s.
    if c_worker_started s then s\<lparr>c_tx_credit := (c_tx_credit s)(channel := credit)\<rparr> else s)"

definition wlh_coproc_test_reset_channel :: "u8 \<Rightarrow> (coproc, unit) state" where
  "wlh_coproc_test_reset_channel channel = modify (\<lambda>s.
    if c_worker_started s then s\<lparr>c_tx_sequence := (c_tx_sequence s)(channel := 0),
      c_rx_sequence := (c_rx_sequence s)(channel := 0),
      c_rx_sequence_valid := (c_rx_sequence_valid s)(channel := False)\<rparr>
    else s)"

definition wlh_coproc_test_reset_session :: "u32 \<Rightarrow> (coproc, unit) state" where
  "wlh_coproc_test_reset_session reason = do {
    s \<leftarrow> State_Monad.get;
    if \<not> c_worker_started s then ret ()
    else do {
      (if c_state s = WLH_COPROC_STATE_READY then
         case encode_message (c_pb s) 64 (CMsg_SessionChanged
           \<lparr>scm_old_session_id = c_session_id s, scm_new_session_id = c_next_session_id s,
            scm_reset_reason = reason, scm_boot_id = ucast (c_next_session_id s)\<rparr>) of
           (encoded, payload) \<Rightarrow>
             if encoded then do {
               _ \<leftarrow> coproc_send_rpc WLH_SERVICE_LINK WLH_LINK_EVENT_SESSION_CHANGED 0
                 WLH_RPC_KIND_EVENT 0 0 payload;
               ret ()
             }
             else ret ()
       else ret ());
      coproc_diag (\<lambda>d. d\<lparr>cd_peer_resets := cd_peer_resets d + 1\<rparr>);
      modify (\<lambda>s. reset_ethernet_rx_completions (s\<lparr>c_session_id := 0\<rparr>));
      modify (\<lambda>s. s\<lparr>c_bluetooth_pending := no_pending, c_eth_pending := no_pending,
        c_bluetooth_state := BT_STATE_UNSPECIFIED, c_bluetooth_tx_inflight := 0,
        c_bluetooth_hci_stopped := False\<rparr>);
      coproc_set_state WLH_COPROC_STATE_WAITING_FOR_HELLO
    }
  }"

end
