(* ===== verification/Coproc_Logic.thy ===== *)
theory Coproc_Logic
  imports Coproc_Worker
begin

text \<open>
  What each environment operation does to the state of the coprocessor core, as weakest
  preconditions, and the relations every operation obeys. \<open>coproc_base\<close> states what a preorder on
  states must allow: updates of the fields outside the OTA and the Bluetooth state, calls of the
  environment other than the OTA and HCI ones, and the submission of a frame. Its extensions
  \<open>ota_free\<close> and \<open>bluetooth_free\<close> also allow the OTA and Bluetooth state to change freely, and
  \<open>coproc_core\<close> carries a relation that the OTA and Bluetooth operations obey to every step.
\<close>

section \<open>Weakest preconditions of the environment\<close>

lemma wp_coproc_emit [wp_simps]: "wp (coproc_emit e) Q s = Q () (s\<lparr>c_trace := e # c_trace s\<rparr>)"
  by (simp add: coproc_emit_def wp_simps)

lemma wp_coproc_diag [wp_simps]:
  "wp (coproc_diag f) Q s = Q () (s\<lparr>c_diagnostics := f (c_diagnostics s)\<rparr>)"
  by (simp add: coproc_diag_def wp_simps)

lemma wp_coproc_free [wp_simps]: "wp coproc_free Q s = Q () (s\<lparr>c_trace := CFree # c_trace s\<rparr>)"
  by (simp add: coproc_free_def wp_simps)

lemma wp_coproc_destroy [wp_simps]:
  "wp (coproc_osal_destroy n) Q s = Q () (s\<lparr>c_trace := COsal n True # c_trace s\<rparr>)"
  by (simp add: coproc_osal_destroy_def wp_simps)

text \<open>Whatever the environment answers, the operation records the answer and returns it.\<close>

lemma wp_coproc_alloc:
  "(\<And>ok. Q ok (s\<lparr>c_trace := CAlloc n ok # c_trace s\<rparr>)) \<Longrightarrow> wp (coproc_alloc n) Q s"
  by (simp add: coproc_alloc_def wp_simps Let_def)

lemma wp_coproc_submit_tx:
  "(\<And>ok. Q ok (s\<lparr>c_trace := CSubmit f ok # c_trace s\<rparr>)) \<Longrightarrow> wp (coproc_submit_tx f) Q s"
  by (simp add: coproc_submit_tx_def wp_simps Let_def)

lemma wp_coproc_now_ms: "(\<And>t. Q t (s\<lparr>c_trace := CClock t # c_trace s\<rparr>)) \<Longrightarrow> wp coproc_now_ms Q s"
  by (simp add: coproc_now_ms_def wp_simps Let_def)

lemma wp_backend:
  "(\<And>status. Q status (s\<lparr>c_trace := CBackend call status # c_trace s\<rparr>)) \<Longrightarrow>
    wp (backend op call) Q s"
  by (simp add: backend_def wp_simps Let_def)

lemma wp_optional_backend:
  "Q missing s \<Longrightarrow> (\<And>status. Q status (s\<lparr>c_trace := CBackend call status # c_trace s\<rparr>)) \<Longrightarrow>
    wp (optional_backend op missing call) Q s"
  by (simp add: optional_backend_def wp_simps wp_backend)

lemma wp_backend_value:
  "(\<And>status value. Q (status, value) (s\<lparr>c_trace := CBackend call status # c_trace s\<rparr>)) \<Longrightarrow>
    wp (backend_value op call) Q s"
  by (simp add: backend_value_def wp_simps split: prod.split)

lemma wp_coproc_osal_call:
  "(\<And>ok. Q ok (s\<lparr>c_trace := COsal n ok # c_trace s\<rparr>)) \<Longrightarrow> wp (coproc_osal_call n f) Q s"
  by (simp add: coproc_osal_call_def wp_simps Let_def)

lemmas wp_coproc_env = wp_coproc_alloc wp_coproc_submit_tx wp_coproc_now_ms wp_backend
  wp_optional_backend wp_backend_value wp_coproc_osal_call

section \<open>The parts of the state\<close>

definition ota_view :: "coproc \<Rightarrow> u32 \<times> u32 \<times> u64 \<times> u64 \<times> u64 \<times> backend_pending" where
  "ota_view s = (c_ota_state s, c_ota_transfer_id s, c_ota_image_size s, c_ota_bytes_accepted s,
    c_ota_bytes_received s, c_ota_pending s)"

definition bluetooth_view :: "coproc \<Rightarrow> u32 \<times> bool \<times> backend_pending" where
  "bluetooth_view s = (c_bluetooth_state s, c_bluetooth_hci_stopped s, c_bluetooth_pending s)"

fun ota_call :: "backend_call \<Rightarrow> bool" where
  "ota_call (Ota_begin_op _ _ _) = True"
| "ota_call (Ota_write _ _ _) = True"
| "ota_call (Ota_finalize _ _ _) = True"
| "ota_call (Ota_abort _ _) = True"
| "ota_call (Ota_activate _ _ _) = True"
| "ota_call _ = False"

fun bluetooth_call :: "backend_call \<Rightarrow> bool" where
  "bluetooth_call (Bt_initialize _ _) = True"
| "bluetooth_call (Bt_enable _ _) = True"
| "bluetooth_call (Bt_disable _) = True"
| "bluetooth_call (Bt_deinitialize _ _) = True"
| "bluetooth_call (Bt_get_info _) = True"
| "bluetooth_call (Bt_hci_send _ _) = True"
| "bluetooth_call _ = False"

fun plain_effect :: "coproc_effect \<Rightarrow> bool" where
  "plain_effect (CSubmit _ _) = False"
| "plain_effect (CBackend call _) = (\<not> ota_call call \<and> \<not> bluetooth_call call)"
| "plain_effect _ = True"

section \<open>Operations outside OTA and Bluetooth\<close>

locale coproc_base = state_rel R for R :: "coproc \<Rightarrow> coproc \<Rightarrow> bool" +
  assumes quiet: "c_config t = c_config s \<Longrightarrow> c_trace t = c_trace s \<Longrightarrow> ota_view t = ota_view s \<Longrightarrow>
      bluetooth_view t = bluetooth_view s \<Longrightarrow> R s t"
    and call: "plain_effect e \<Longrightarrow> R s (s\<lparr>c_trace := e # c_trace s\<rparr>)"
    and sent: "state_io_rel R (coproc_send_payload_units ch p u)"
begin

lemma quiet_update:
  "(\<And>s. c_config (f s) = c_config s \<and> c_trace (f s) = c_trace s \<and> ota_view (f s) = ota_view s \<and>
    bluetooth_view (f s) = bluetooth_view s) \<Longrightarrow> state_io_rel R (modify f)"
  by (rule rel_update) (simp add: quiet)

lemma emit_rel: "plain_effect e \<Longrightarrow> state_io_rel R (coproc_emit e)"
  by (rule rel_wpI) (simp add: wp_simps call)

lemma env_rel:
  "state_io_rel R coproc_free" "state_io_rel R (coproc_alloc n)" "state_io_rel R coproc_now_ms"
  "state_io_rel R (coproc_osal_call name g)" "state_io_rel R (coproc_osal_destroy name)"
  "\<not> ota_call c \<Longrightarrow> \<not> bluetooth_call c \<Longrightarrow> state_io_rel R (backend op c)"
  "\<not> ota_call c \<Longrightarrow> \<not> bluetooth_call c \<Longrightarrow> state_io_rel R (optional_backend op missing c)"
  "\<not> ota_call c \<Longrightarrow> \<not> bluetooth_call c \<Longrightarrow> state_io_rel R (backend_value op' c)"
  by (rule rel_wpI, (rule wp_coproc_env)?; simp add: wp_simps call R_refl)+

lemma quiet_rel:
  "state_io_rel R (coproc_diag d)" "state_io_rel R (coproc_set_state st)"
  "state_io_rel R coproc_semaphore_give"
  unfolding coproc_diag_def coproc_set_state_def coproc_semaphore_give_def
  by (rule quiet_update; simp add: ota_view_def bluetooth_view_def)+

lemmas base = emit_rel env_rel quiet_rel quiet_update rel_rules sent

lemma queue_rel:
  "state_io_rel R (coproc_enqueue_job job)" "state_io_rel R coproc_semaphore_take"
  "state_io_rel R next_operation_id" "state_io_rel R coproc_take_job"
  "state_io_rel R coproc_queue_receive"
proof -
  show receive: "state_io_rel R coproc_queue_receive"
    by (rule rel_wpI) (auto simp: coproc_queue_receive_def wp_simps ota_view_def bluetooth_view_def
        R_refl intro!: quiet split: list.split)
  show "state_io_rel R coproc_take_job"
    unfolding coproc_take_job_def
    by (intro base receive; simp add: ota_view_def bluetooth_view_def)
qed (unfold coproc_enqueue_job_def coproc_semaphore_take_def next_operation_id_def,
    (intro base; simp add: ota_view_def bluetooth_view_def)+)

lemma send_rel:
  "state_io_rel R (coproc_send_payload ch p)"
  "state_io_rel R (coproc_send_rpc sv m r k d c p)"
  "state_io_rel R (coproc_send_rpc_message sv m r k d c msg)"
  "state_io_rel R (coproc_send_credit_update ch u)"
  "state_io_rel R (send_empty_response q d c)" "state_io_rel R (send_status q st)"
  "state_io_rel R (send_service_error q d st)" "state_io_rel R (send_not_supported q)"
  "state_io_rel R (send_event_message sv m msg)" "state_io_rel R (enqueue_completion job)"
proof -
  show payload: "state_io_rel R (coproc_send_payload ch p)" for ch p
    unfolding coproc_send_payload_def by (rule sent)
  show rpc: "state_io_rel R (coproc_send_rpc sv m r k d c p)" for sv m r k d c p
    unfolding coproc_send_rpc_def Let_def by (intro base payload)
  show message: "state_io_rel R (coproc_send_rpc_message sv m r k d c msg)" for sv m r k d c msg
    unfolding coproc_send_rpc_message_def by (intro base rpc)
  show "state_io_rel R (coproc_send_credit_update ch u)"
    unfolding coproc_send_credit_update_def by (intro base message)
  show response: "state_io_rel R (send_empty_response q d c)" for q d c
    unfolding send_empty_response_def by (rule rpc)
  show "state_io_rel R (send_not_supported q)"
    unfolding send_not_supported_def by (rule response)
  show "state_io_rel R (send_status q st)" "state_io_rel R (send_service_error q d st)"
    unfolding send_status_def send_service_error_def by (rule rpc)+
qed (unfold send_event_message_def enqueue_completion_def, (intro base queue_rel)+)

lemmas sends = base queue_rel send_rel

text \<open>The Ethernet data path.\<close>

lemma flush_rel: "state_io_rel R (flush_completion_loop retry chs)"
proof (induction chs arbitrary: retry)
  case (Cons ch chs)
  then show ?case
    by (cases ch) (simp, intro sends Cons; simp add: ota_view_def bluetooth_view_def)
qed (simp add: rel_return)

lemma grow_rel: "state_io_rel R (coproc_grow_job n data)"
  unfolding coproc_grow_job_def by (intro sends)

lemma aggregate_rel: "state_io_rel R (coproc_aggregate_loop fuel n data units)"
proof (induction fuel arbitrary: data units)
  case (Suc fuel)
  have job: "state_io_rel R (case job of
      None \<Rightarrow> ret (data, units) | Some (COPROC_JOB_ETHERNET_TX candidate) \<Rightarrow> k candidate
    | Some j \<Rightarrow> k' j)" if "\<And>c. state_io_rel R (k c)" "\<And>j. state_io_rel R (k' j)" for job k k'
    using that by (auto split: option.split coproc_job.split intro: rel_return)
  show ?case
    by (simp, intro sends job grow_rel Suc; simp add: ota_view_def bluetooth_view_def)
qed (simp add: rel_return)

lemma ethernet_rel:
  "state_io_rel R flush_ethernet_rx_completions"
  "state_io_rel R (wlh_coproc_ethernet_rx_complete sid ch u st)"
  "state_io_rel R (coproc_ethernet_send ch frame)" "state_io_rel R (coproc_tx_complete f st)"
  "state_io_rel R (coproc_ethernet_tx_job data)"
  unfolding flush_ethernet_rx_completions_def wlh_coproc_ethernet_rx_complete_def
    coproc_ethernet_send_def coproc_tx_complete_def coproc_ethernet_tx_job_def
    coproc_aggregate_ethernet_jobs_def Let_def
  by (intro sends flush_rel aggregate_rel; simp add: ota_view_def bluetooth_view_def)+

lemma ethernet_receive_rel: "state_io_rel R (ethernet_receive ch u records)"
proof (induction records arbitrary: u)
  case (Cons r records)
  show ?case
    by (cases r) (simp only: ethernet_receive.simps, intro sends Cons; simp)
qed (simp add: rel_return)

lemma process_ethernet_rel: "state_io_rel R (coproc_process_ethernet_frame ch p)"
  unfolding coproc_process_ethernet_frame_def Let_def
  by (intro sends ethernet_receive_rel)

text \<open>The services.\<close>

lemma service_rel:
  "state_io_rel R (handle_eth q p)" "state_io_rel R (eth_info_completed oid st ei)"
  "state_io_rel R (handle_diagnostics_request q p)" "state_io_rel R (handle_device_info_request q)"
  "state_io_rel R (handle_user_message_request q p)" "state_io_rel R (handle_io_request q p)"
  "state_io_rel R (handle_adc_request q p)"
  unfolding handle_eth_def eth_info_completed_def send_eth_status_def handle_diagnostics_request_def
    handle_device_info_request_def handle_user_message_request_def handle_io_request_def
    handle_io_configure_def handle_io_read_def handle_io_write_def send_service_result_def
    handle_adc_request_def Let_def
  by (intro sends; simp add: ota_view_def bluetooth_view_def)+

lemma kv_backend_rel: "state_io_rel R (kv_backend msg)"
  by (cases msg) (simp_all only: kv_backend.simps, (intro sends; simp)+)

lemma kv_rel: "state_io_rel R (handle_kv_request q p)"
  unfolding handle_kv_request_def by (intro sends kv_backend_rel)

lemma wifi_rel: "state_io_rel R (handle_wifi q p)" "state_io_rel R (wifi_initialized_job oid st)"
  unfolding handle_wifi_def handle_wifi_initialize_def handle_wifi_scan_def handle_wifi_connect_def
    handle_wifi_disconnect_def handle_wifi_start_ap_def handle_wifi_stop_ap_def
    wifi_initialized_job_def Let_def
  by (intro sends; simp add: ota_view_def bluetooth_view_def)+

end

end
