(* ===== verification/Coproc_Relations.thy ===== *)
theory Coproc_Relations
  imports Coproc_Logic
begin

text \<open>
  Relations kept by the OTA and the Bluetooth operations, by the worker, and by every call the
  application and the backends may make.
\<close>

section \<open>Relations that do not look at the OTA state\<close>

locale ota_free = coproc_base +
  assumes ota_update: "c_config t = c_config s \<Longrightarrow> c_trace t = c_trace s \<Longrightarrow>
      bluetooth_view t = bluetooth_view s \<Longrightarrow> R s t"
    and ota_called: "ota_call c \<Longrightarrow> R s (s\<lparr>c_trace := CBackend c st # c_trace s\<rparr>)"
begin

lemma ota_modify:
  "(\<And>s. c_config (f s) = c_config s \<and> c_trace (f s) = c_trace s \<and>
    bluetooth_view (f s) = bluetooth_view s) \<Longrightarrow> state_io_rel R (modify f)"
  by (rule rel_update) (simp add: ota_update)

lemma ota_backend_rel: "ota_call c \<Longrightarrow> state_io_rel R (backend op c)"
  by (rule rel_wpI, rule wp_backend) (rule ota_called)

lemmas ota_sends = rel_rules ota_modify ota_backend_rel env_rel queue_rel send_rel

lemma ota_state_rel: "state_io_rel R ota_emit_progress" "state_io_rel R (ota_set_state st)"
  unfolding ota_set_state_def ota_emit_progress_def
  by (intro ota_sends; simp add: bluetooth_view_def)+

lemma ota_rel:
  "state_io_rel R (handle_ota q p)" "state_io_rel R (coproc_process_ota_frame p)"
  "state_io_rel R (ota_operation_completed oid st)"
  "state_io_rel R (ota_write_completed tid n st)" "state_io_rel R ota_reset"
  unfolding handle_ota_def handle_ota_begin_def handle_ota_finalize_def handle_ota_abort_def
    handle_ota_activate_def handle_ota_query_def send_ota_status_def ota_begin_operation_def
    ota_submit_result_def ota_next_transfer_id_def coproc_process_ota_frame_def ota_reject_chunk_def
    ota_fail_transfer_def ota_operation_completed_def ota_write_completed_def ota_reset_def Let_def
  by (intro ota_sends ota_state_rel; simp add: bluetooth_view_def)+

end

section \<open>Relations that do not look at the Bluetooth state\<close>

locale bluetooth_free = coproc_base +
  assumes bluetooth_update: "c_config t = c_config s \<Longrightarrow> c_trace t = c_trace s \<Longrightarrow>
      ota_view t = ota_view s \<Longrightarrow> R s t"
    and bluetooth_called: "bluetooth_call c \<Longrightarrow> R s (s\<lparr>c_trace := CBackend c st # c_trace s\<rparr>)"
begin

lemma bluetooth_modify:
  "(\<And>s. c_config (f s) = c_config s \<and> c_trace (f s) = c_trace s \<and> ota_view (f s) = ota_view s) \<Longrightarrow>
    state_io_rel R (modify f)"
  by (rule rel_update) (simp add: bluetooth_update)

lemma bluetooth_backend_rel: "bluetooth_call c \<Longrightarrow> state_io_rel R (backend op c)"
  by (rule rel_wpI, rule wp_backend) (rule bluetooth_called)

lemmas bluetooth_sends = rel_rules bluetooth_modify bluetooth_backend_rel env_rel quiet_rel
  queue_rel send_rel

lemma enter_error_rel: "state_io_rel R (bluetooth_enter_error reason)"
  unfolding bluetooth_enter_error_def by (intro bluetooth_sends; simp add: ota_view_def)

lemma hci_deliver_rel: "state_io_rel R (coproc_hci_deliver records)"
proof (induction records)
  case (Cons r records)
  show ?case
    by (cases r) (simp only: coproc_hci_deliver.simps, intro bluetooth_sends Cons; simp)
qed (simp add: rel_return)

lemma bluetooth_rel:
  "state_io_rel R (handle_bluetooth q p)" "state_io_rel R (bluetooth_operation_completed oid st)"
  "state_io_rel R (bluetooth_info_completed oid st bi)"
  "state_io_rel R (bluetooth_enter_error reason)" "state_io_rel R (coproc_process_hci_frame p)"
  "state_io_rel R (modify reset_session_state)"
  unfolding handle_bluetooth_def handle_bt_initialize_def handle_bt_enable_def
    handle_bt_disable_def handle_bt_deinitialize_def handle_bt_get_info_def
    send_bluetooth_status_def bluetooth_begin_operation_def bluetooth_submit_result_def
    bluetooth_operation_completed_def bluetooth_completed_state_def bluetooth_info_completed_def
    coproc_process_hci_frame_def reset_session_state_def Let_def
  by (intro bluetooth_sends enter_error_rel hci_deliver_rel; simp add: ota_view_def)+

end

section \<open>Every operation\<close>

locale coproc_core = coproc_base +
  assumes ota_ops:
    "state_io_rel R (handle_ota q p)" "state_io_rel R (coproc_process_ota_frame p)"
    "state_io_rel R (ota_operation_completed oid st)"
    "state_io_rel R (ota_write_completed tid n st)" "state_io_rel R ota_reset"
    and bluetooth_ops:
    "state_io_rel R (handle_bluetooth q p)" "state_io_rel R (bluetooth_operation_completed oid st)"
    "state_io_rel R (bluetooth_info_completed oid st bi)"
    "state_io_rel R (bluetooth_enter_error reason)" "state_io_rel R (coproc_process_hci_frame p)"
    "state_io_rel R (modify reset_session_state)"
begin

lemmas views = ota_view_def bluetooth_view_def

lemma hello_rel: "state_io_rel R (handle_hello_request h q p)"
  unfolding handle_hello_request_def send_hello_response_def select_session_def
    reset_ethernet_rx_completions_def
  by (intro sends ota_ops bluetooth_ops; simp add: views)

lemma heartbeat_rel: "state_io_rel R coproc_emit_due_heartbeat" "state_io_rel R coproc_next_wait_ms"
  unfolding coproc_emit_due_heartbeat_def coproc_next_wait_ms_def Let_def
  by (intro sends; simp add: views)+

lemma rpc_rel: "state_io_rel R (coproc_handle_rpc h p)"
  unfolding coproc_handle_rpc_def dispatch_service_def handle_credit_message_def
    handle_heartbeat_message_def Let_def
  by (intro sends hello_rel service_rel kv_rel wifi_rel ota_ops bluetooth_ops; simp add: views)

lemma frame_rel: "state_io_rel R (coproc_process_frame f)"
  unfolding coproc_process_frame_def coproc_note_frame_def Let_def
  by (intro sends rpc_rel process_ethernet_rel ota_ops bluetooth_ops; simp add: views)

lemma run_job_rel: "state_io_rel R (coproc_run_job job)"
  by (cases job) (simp_all only: coproc_run_job_def coproc_job.case bluetooth_tx_job_def
      bluetooth_release_tx_reservation_def,
    (intro sends frame_rel ethernet_rel service_rel wifi_rel ota_ops bluetooth_ops;
      simp add: views)+)

lemma worker_rel:
  "state_io_rel R coproc_worker_start" "state_io_rel R coproc_worker_turn"
  "state_io_rel R coproc_worker_exit" "state_io_rel R wlh_coproc_start"
  "state_io_rel R wlh_coproc_stop_request"
  unfolding coproc_worker_start_def coproc_worker_turn_def coproc_worker_exit_def
    wlh_coproc_start_def wlh_coproc_stop_request_def reset_ethernet_rx_completions_def
  by (intro sends heartbeat_rel ethernet_rel run_job_rel; simp add: views)+

end

section \<open>The calls of the application and of the backends\<close>

inductive coproc_call :: "(coproc, coproc_result) state \<Rightarrow> bool" where
  "coproc_call (wlh_coproc_on_frame frame)"
| "coproc_call (wlh_coproc_ethernet_sta_send p)"
| "coproc_call (wlh_coproc_ethernet_ap_send p)"
| "coproc_call (wlh_coproc_ethernet_eth_send p)"
| "coproc_call (wlh_coproc_ethernet_rx_complete sid ch u st)"
| "coproc_call (wlh_coproc_bluetooth_hci_send ty packet)"
| "coproc_call (wlh_coproc_bluetooth_operation_complete oid st)"
| "coproc_call (wlh_coproc_bluetooth_info_result oid st bi)"
| "coproc_call (wlh_coproc_bluetooth_fatal_error reason)"
| "coproc_call (wlh_coproc_ota_begin_complete oid st)"
| "coproc_call (wlh_coproc_ota_finalize_complete oid st)"
| "coproc_call (wlh_coproc_ota_abort_complete oid st)"
| "coproc_call (wlh_coproc_ota_activate_complete oid st)"
| "coproc_call (wlh_coproc_ota_write_complete tid n st)"
| "coproc_call (wlh_coproc_eth_info_ready oid st ei)"
| "coproc_call (wlh_coproc_eth_link_state_changed ls sp du)"
| "coproc_call (wlh_coproc_user_message_result ep ty cid res p n)"
| "coproc_call (wlh_coproc_wifi_initialized oid st)"
| "coproc_call (wlh_coproc_wifi_scan_result scan bss)"
| "coproc_call (wlh_coproc_wifi_scan_completed scan count cancelled)"
| "coproc_call (wlh_coproc_wifi_connected bss)"
| "coproc_call (wlh_coproc_wifi_disconnected reason local)"
| "coproc_call (wlh_coproc_wifi_ap_started bss)"
| "coproc_call (wlh_coproc_wifi_ap_stopped reason local)"
| "coproc_call (wlh_coproc_wifi_ap_client_joined mac rssi aid)"
| "coproc_call (wlh_coproc_wifi_ap_client_left mac aid reason)"

lemmas call_defs = wlh_coproc_on_frame_def wlh_coproc_ethernet_sta_send_def
  wlh_coproc_ethernet_ap_send_def wlh_coproc_ethernet_eth_send_def
  wlh_coproc_bluetooth_hci_send_def reserve_hci_credit_def bluetooth_release_tx_reservation_def
  wlh_coproc_bluetooth_operation_complete_def wlh_coproc_bluetooth_info_result_def
  wlh_coproc_bluetooth_fatal_error_def wlh_coproc_ota_begin_complete_def
  wlh_coproc_ota_finalize_complete_def wlh_coproc_ota_abort_complete_def
  wlh_coproc_ota_activate_complete_def ota_enqueue_complete_def wlh_coproc_ota_write_complete_def
  wlh_coproc_eth_info_ready_def wlh_coproc_eth_link_state_changed_def
  wlh_coproc_user_message_result_def wlh_coproc_wifi_initialized_def
  wlh_coproc_wifi_scan_result_def wlh_coproc_wifi_scan_completed_def wlh_coproc_wifi_connected_def
  wlh_coproc_wifi_disconnected_def wlh_coproc_wifi_ap_started_def wlh_coproc_wifi_ap_stopped_def
  wlh_coproc_wifi_ap_client_joined_def wlh_coproc_wifi_ap_client_left_def send_wifi_message_def

context coproc_base
begin

lemma call_rel: "coproc_call m \<Longrightarrow> state_io_rel R m"
  by (induction rule: coproc_call.induct) (unfold call_defs Let_def,
    (intro sends ethernet_rel; simp add: ota_view_def bluetooth_view_def)+)

end

end
