(* ===== verification/Coproc_Ledger.thy ===== *)
theory Coproc_Ledger
  imports Coproc_Relations
begin

text \<open>
  Bookkeeping of the coprocessor's buffers: allocations less releases and hand-overs to the
  transport, less what waits in the queue and the deferred job. Every operation keeps this balance,
  apart from a job, which adds the buffer it was given.
\<close>

section \<open>The balance\<close>

fun buffer_weight :: "coproc_effect \<Rightarrow> int" where
  "buffer_weight (CAlloc _ ok) = (if ok then 1 else 0)"
| "buffer_weight CFree = - 1"
| "buffer_weight (CSubmit _ ok) = (if ok then - 1 else 0)"
| "buffer_weight _ = 0"

fun coproc_job_buffers :: "coproc_job \<Rightarrow> nat" where
  "coproc_job_buffers COPROC_JOB_STOP = 0"
| "coproc_job_buffers COPROC_JOB_TRANSPORT_FAILED = 0"
| "coproc_job_buffers COPROC_JOB_ETHERNET_RX_COMPLETE = 0"
| "coproc_job_buffers _ = 1"

definition waiting_coproc_jobs :: "coproc \<Rightarrow> coproc_job list" where
  "waiting_coproc_jobs s =
    (case c_deferred_job s of None \<Rightarrow> [] | Some j \<Rightarrow> [j]) @ c_core_queue s"

definition buffer_books :: "coproc \<Rightarrow> int" where
  "buffer_books s = sum_list (map buffer_weight (c_trace s)) -
    int (sum_list (map coproc_job_buffers (waiting_coproc_jobs s)))"

definition job_weight_opt :: "coproc_job option \<Rightarrow> int" where
  "job_weight_opt job = (case job of None \<Rightarrow> 0 | Some j \<Rightarrow> int (coproc_job_buffers j))"

lemma job_weight_opt_simps [simp]:
  "job_weight_opt None = 0" "job_weight_opt (Some j) = int (coproc_job_buffers j)"
  by (simp_all add: job_weight_opt_def)

text \<open>The balance looks at three fields only.\<close>

lemma buffer_books_frame [simp]:
  "buffer_books (s\<lparr>c_state := x0\<rparr>) = buffer_books s"
  "buffer_books (s\<lparr>c_session_id := x1\<rparr>) = buffer_books s"
  "buffer_books (s\<lparr>c_next_session_id := x2\<rparr>) = buffer_books s"
  "buffer_books (s\<lparr>c_tx_sequence := x3\<rparr>) = buffer_books s"
  "buffer_books (s\<lparr>c_rx_sequence := x4\<rparr>) = buffer_books s"
  "buffer_books (s\<lparr>c_tx_credit := x5\<rparr>) = buffer_books s"
  "buffer_books (s\<lparr>c_rx_sequence_valid := x6\<rparr>) = buffer_books s"
  "buffer_books (s\<lparr>c_started_ms := x7\<rparr>) = buffer_books s"
  "buffer_books (s\<lparr>c_last_heartbeat_ms := x8\<rparr>) = buffer_books s"
  "buffer_books (s\<lparr>c_diagnostics := x9\<rparr>) = buffer_books s"
  "buffer_books (s\<lparr>c_ethernet_tx_slots := x10\<rparr>) = buffer_books s"
  "buffer_books (s\<lparr>c_ethernet_rx_pending_credit := x11\<rparr>) = buffer_books s"
  "buffer_books (s\<lparr>c_ethernet_rx_pending_failures := x12\<rparr>) = buffer_books s"
  "buffer_books (s\<lparr>c_ethernet_rx_wake_queued := x13\<rparr>) = buffer_books s"
  "buffer_books (s\<lparr>c_worker_started := x14\<rparr>) = buffer_books s"
  "buffer_books (s\<lparr>c_worker_stopping := x15\<rparr>) = buffer_books s"
  "buffer_books (s\<lparr>c_next_backend_operation_id := x16\<rparr>) = buffer_books s"
  "buffer_books (s\<lparr>c_wifi_initialize_pending := x17\<rparr>) = buffer_books s"
  "buffer_books (s\<lparr>c_bluetooth_pending := x18\<rparr>) = buffer_books s"
  "buffer_books (s\<lparr>c_eth_pending := x19\<rparr>) = buffer_books s"
  "buffer_books (s\<lparr>c_bluetooth_state := x20\<rparr>) = buffer_books s"
  "buffer_books (s\<lparr>c_bluetooth_tx_inflight := x21\<rparr>) = buffer_books s"
  "buffer_books (s\<lparr>c_bluetooth_adv_tx_inflight := x22\<rparr>) = buffer_books s"
  "buffer_books (s\<lparr>c_bluetooth_adv_channel := x23\<rparr>) = buffer_books s"
  "buffer_books (s\<lparr>c_bluetooth_hci_stopped := x24\<rparr>) = buffer_books s"
  "buffer_books (s\<lparr>c_ota_pending := x25\<rparr>) = buffer_books s"
  "buffer_books (s\<lparr>c_ota_state := x26\<rparr>) = buffer_books s"
  "buffer_books (s\<lparr>c_ota_transfer_id := x27\<rparr>) = buffer_books s"
  "buffer_books (s\<lparr>c_next_ota_transfer_id := x28\<rparr>) = buffer_books s"
  "buffer_books (s\<lparr>c_ota_image_size := x29\<rparr>) = buffer_books s"
  "buffer_books (s\<lparr>c_ota_bytes_accepted := x30\<rparr>) = buffer_books s"
  "buffer_books (s\<lparr>c_ota_bytes_received := x31\<rparr>) = buffer_books s"
  "buffer_books (s\<lparr>c_ota_progress_reported_bytes := x32\<rparr>) = buffer_books s"
  "buffer_books (s\<lparr>c_ota_target_version := x33\<rparr>) = buffer_books s"
  by (simp_all add: buffer_books_def waiting_coproc_jobs_def)

lemma buffer_books_trace [simp]:
  "buffer_books (s\<lparr>c_trace := e # t\<rparr>) = buffer_books (s\<lparr>c_trace := t\<rparr>) + buffer_weight e"
  "buffer_books (s\<lparr>c_trace := c_trace s\<rparr>) = buffer_books s"
  by (simp_all add: buffer_books_def waiting_coproc_jobs_def)

lemma buffer_books_deferred [simp]:
  "c_deferred_job s = None \<Longrightarrow> buffer_books (s\<lparr>c_deferred_job := Some job\<rparr>) =
    buffer_books s - int (coproc_job_buffers job)"
  "c_deferred_job s = Some job \<Longrightarrow> buffer_books (s\<lparr>c_deferred_job := None\<rparr>) =
    buffer_books s + int (coproc_job_buffers job)"
  by (simp_all add: buffer_books_def waiting_coproc_jobs_def)

lemma buffer_books_queue:
  "buffer_books (s\<lparr>c_core_queue := c_core_queue s @ [job]\<rparr>) =
    buffer_books s - int (coproc_job_buffers job)"
  "c_core_queue s = job # jobs \<Longrightarrow> buffer_books (s\<lparr>c_core_queue := jobs\<rparr>) =
    buffer_books s + int (coproc_job_buffers job)"
  by (simp_all add: buffer_books_def waiting_coproc_jobs_def)

named_theorems coproc_books \<open>what each operation adds to the balance\<close>

abbreviation adds :: "(coproc, 'a) state \<Rightarrow> ('a \<Rightarrow> int) \<Rightarrow> bool" where
  "adds \<equiv> delta buffer_books"

section \<open>The environment and the queue\<close>

lemma env_adds [coproc_books]:
  "adds (coproc_alloc n) (\<lambda>ok. if ok then 1 else 0)" "adds coproc_now_ms (\<lambda>_. 0)"
  "adds (coproc_submit_tx f) (\<lambda>ok. if ok then - 1 else 0)" "adds (backend op c) (\<lambda>_. 0)"
  "adds (optional_backend op missing c) (\<lambda>_. 0)" "adds (backend_value op' c) (\<lambda>_. 0)"
  "adds (coproc_osal_call name g) (\<lambda>_. 0)"
  by (rule deltaI, rule wp_coproc_env; simp)+

lemma quiet_adds [coproc_books]:
  "adds (coproc_diag d) (\<lambda>_. 0)" "adds (coproc_set_state st) (\<lambda>_. 0)"
  "adds coproc_semaphore_give (\<lambda>_. 0)" "adds coproc_semaphore_take (\<lambda>_. 0)"
  "adds next_operation_id (\<lambda>_. 0)"
  by (rule deltaI, auto simp: coproc_set_state_def coproc_semaphore_give_def
      coproc_semaphore_take_def next_operation_id_def wp_simps)+

lemma queue_adds [coproc_books]:
  "adds (coproc_enqueue_job job) (\<lambda>ok. if ok then - int (coproc_job_buffers job) else 0)"
  "adds coproc_queue_receive job_weight_opt"
  "adds coproc_take_job job_weight_opt"
proof -
  show "adds (coproc_enqueue_job job) (\<lambda>ok. if ok then - int (coproc_job_buffers job) else 0)"
    by (rule deltaI) (simp add: coproc_enqueue_job_def wp_simps buffer_books_queue)
  show receive: "adds coproc_queue_receive job_weight_opt"
    by (rule deltaI) (auto simp: coproc_queue_receive_def wp_simps buffer_books_queue
        split: list.split)
  show "adds coproc_take_job job_weight_opt"
    by (rule deltaI) (auto simp: coproc_take_job_def wp_simps split: option.split
        intro!: delta_wp [OF receive])
qed

section \<open>Sending\<close>

lemma send_units_adds [coproc_books]: "adds (coproc_send_payload_units ch p u) (\<lambda>_. 0)"
  by (rule deltaI) (auto simp: coproc_send_payload_units_def wp_simps Let_def
      split: prod.split if_splits intro!: coproc_books [THEN delta_wp])

lemma send_payload_adds [coproc_books]: "adds (coproc_send_payload ch p) (\<lambda>_. 0)"
  unfolding coproc_send_payload_def by (rule coproc_books)

lemma send_rpc_adds [coproc_books]: "adds (coproc_send_rpc sv m r k d c p) (\<lambda>_. 0)"
  by (rule deltaI) (auto simp: coproc_send_rpc_def wp_simps Let_def split: prod.split if_splits
      intro!: coproc_books [THEN delta_wp])

lemma send_message_adds [coproc_books]: "adds (coproc_send_rpc_message sv m r k d c msg) (\<lambda>_. 0)"
  by (rule deltaI) (auto simp: coproc_send_rpc_message_def wp_simps Let_def
      split: option.split prod.split if_splits intro!: coproc_books [THEN delta_wp])

lemma send_credit_adds [coproc_books]: "adds (coproc_send_credit_update ch u) (\<lambda>_. 0)"
  by (rule deltaI) (auto simp: coproc_send_credit_update_def wp_simps
      intro!: coproc_books [THEN delta_wp])

lemma respond_adds [coproc_books]:
  "adds (send_empty_response q d c) (\<lambda>_. 0)" "adds (send_status q st) (\<lambda>_. 0)"
  "adds (send_service_error q d st) (\<lambda>_. 0)" "adds (send_not_supported q) (\<lambda>_. 0)"
  "adds (send_bluetooth_status m r c) (\<lambda>_. 0)" "adds (send_ota_status m r c) (\<lambda>_. 0)"
  "adds (send_eth_status r c) (\<lambda>_. 0)" "adds (send_service_result q d st) (\<lambda>_. 0)"
  unfolding send_not_supported_def send_empty_response_def send_status_def send_service_error_def
    send_bluetooth_status_def send_ota_status_def send_eth_status_def send_service_result_def
  by (intro coproc_books delta_if)+

lemma event_adds [coproc_books]: "adds (send_event_message sv m msg) (\<lambda>_. 0)"
  by (rule deltaI) (auto simp: send_event_message_def wp_simps Let_def
      split: option.split prod.split intro!: coproc_books [THEN delta_wp])

lemma enqueue_completion_adds:
  "coproc_job_buffers job = 1 \<Longrightarrow> adds (enqueue_completion job) (\<lambda>_. 0)"
  by (rule deltaI) (auto simp: enqueue_completion_def wp_simps intro!: coproc_books [THEN delta_wp])

section \<open>OTA and Bluetooth\<close>

lemma ota_state_adds [coproc_books]:
  "adds ota_emit_progress (\<lambda>_. 0)" "adds (ota_set_state st) (\<lambda>_. 0)"
proof -
  show progress: "adds ota_emit_progress (\<lambda>_. 0)"
    by (rule deltaI) (auto simp: ota_emit_progress_def wp_simps intro!: coproc_books [THEN delta_wp])
  show "adds (ota_set_state st) (\<lambda>_. 0)"
    by (rule deltaI) (auto simp: ota_set_state_def wp_simps intro!: delta_wp [OF progress])
qed

lemma operation_adds [coproc_books]:
  "adds (ota_begin_operation q) (\<lambda>_. 0)" "adds (bluetooth_begin_operation q) (\<lambda>_. 0)"
  "adds (ota_submit_result q st) (\<lambda>_. 0)" "adds (bluetooth_submit_result q st) (\<lambda>_. 0)"
  "adds ota_next_transfer_id (\<lambda>_. 0)" "adds ota_reset (\<lambda>_. 0)"
  "adds (bluetooth_enter_error reason) (\<lambda>_. 0)"
  by (rule deltaI, auto simp: ota_begin_operation_def bluetooth_begin_operation_def
      ota_submit_result_def bluetooth_submit_result_def ota_next_transfer_id_def ota_reset_def
      bluetooth_enter_error_def wp_simps Let_def intro!: coproc_books [THEN delta_wp])+

lemma ota_request_adds [coproc_books]:
  "adds (handle_ota_begin q p) (\<lambda>_. 0)" "adds (handle_ota_finalize q p) (\<lambda>_. 0)"
  "adds (handle_ota_abort q p) (\<lambda>_. 0)" "adds (handle_ota_activate q p) (\<lambda>_. 0)"
  "adds (handle_ota_query q) (\<lambda>_. 0)"
  by (rule deltaI, auto simp: handle_ota_begin_def handle_ota_finalize_def handle_ota_abort_def
      handle_ota_activate_def handle_ota_query_def wp_simps split: option.split
      intro!: coproc_books [THEN delta_wp])+

lemma ota_adds [coproc_books]:
  "adds (handle_ota q p) (\<lambda>_. 0)" "adds (coproc_process_ota_frame p) (\<lambda>_. 0)"
  "adds (ota_operation_completed oid st) (\<lambda>_. 0)" "adds (ota_write_completed tid n st) (\<lambda>_. 0)"
proof -
  show "adds (handle_ota q p) (\<lambda>_. 0)"
    unfolding handle_ota_def by (intro coproc_books delta_if)
qed (rule deltaI, auto simp: coproc_process_ota_frame_def ota_reject_chunk_def ota_fail_transfer_def
    ota_operation_completed_def ota_write_completed_def wp_simps Let_def split: option.split
    intro!: coproc_books [THEN delta_wp])+

lemma bluetooth_request_adds [coproc_books]:
  "adds (handle_bt_initialize q p) (\<lambda>_. 0)" "adds (handle_bt_enable q p) (\<lambda>_. 0)"
  "adds (handle_bt_disable q) (\<lambda>_. 0)" "adds (handle_bt_deinitialize q p) (\<lambda>_. 0)"
  "adds (handle_bt_get_info q) (\<lambda>_. 0)"
  by (rule deltaI, auto simp: handle_bt_initialize_def handle_bt_enable_def handle_bt_disable_def
      handle_bt_deinitialize_def handle_bt_get_info_def wp_simps split: option.split
      intro!: coproc_books [THEN delta_wp])+

lemma completed_state_books [simp]:
  "buffer_books (bluetooth_completed_state m s) = buffer_books s"
  by (simp add: bluetooth_completed_state_def)

lemma hci_deliver_adds [coproc_books]: "adds (coproc_hci_deliver records) (\<lambda>_. 0)"
proof (induction records)
  case (Cons r records)
  show ?case
    by (cases r, rule deltaI) (auto simp: wp_simps
      intro!: Cons [THEN delta_wp] coproc_books [THEN delta_wp])
qed (simp add: delta_return)

lemma bluetooth_adds [coproc_books]:
  "adds (handle_bluetooth q p) (\<lambda>_. 0)" "adds (bluetooth_operation_completed oid st) (\<lambda>_. 0)"
  "adds (bluetooth_info_completed oid st bi) (\<lambda>_. 0)" "adds (coproc_process_hci_frame p) (\<lambda>_. 0)"
  "adds (bluetooth_release_tx_reservation ch) (\<lambda>_. 0)"
proof -
  show "adds (handle_bluetooth q p) (\<lambda>_. 0)"
    unfolding handle_bluetooth_def by (intro coproc_books delta_if)
qed (rule deltaI, auto simp: bluetooth_operation_completed_def bluetooth_info_completed_def
    coproc_process_hci_frame_def bluetooth_release_tx_reservation_def wp_simps Let_def
    intro!: coproc_books [THEN delta_wp])+

section \<open>The services\<close>

lemma eth_adds [coproc_books]:
  "adds (handle_eth q p) (\<lambda>_. 0)" "adds (eth_info_completed oid st ei) (\<lambda>_. 0)"
  by (rule deltaI, auto simp: handle_eth_def eth_info_completed_def wp_simps Let_def
      split: option.split intro!: coproc_books [THEN delta_wp])+

lemma small_service_adds [coproc_books]:
  "adds (handle_diagnostics_request q p) (\<lambda>_. 0)" "adds (handle_device_info_request q) (\<lambda>_. 0)"
  "adds (handle_user_message_request q p) (\<lambda>_. 0)" "adds (handle_adc_request q p) (\<lambda>_. 0)"
  "adds (handle_io_configure q p) (\<lambda>_. 0)" "adds (handle_io_read q p) (\<lambda>_. 0)"
  "adds (handle_io_write q p) (\<lambda>_. 0)"
  by (rule deltaI, auto simp: handle_diagnostics_request_def handle_device_info_request_def
      handle_user_message_request_def handle_adc_request_def handle_io_configure_def
      handle_io_read_def handle_io_write_def wp_simps Let_def split: option.split prod.split
      intro!: coproc_books [THEN delta_wp])+

lemma io_adds [coproc_books]: "adds (handle_io_request q p) (\<lambda>_. 0)"
  unfolding handle_io_request_def by (intro coproc_books delta_if)

lemma kv_adds [coproc_books]: "adds (handle_kv_request q p) (\<lambda>_. 0)"
proof -
  have "adds (kv_backend msg) (\<lambda>_. 0)" for msg
    by (rule deltaI, cases msg) (auto simp: wp_simps split: prod.split
      intro!: coproc_books [THEN delta_wp])
  then show ?thesis
    by (intro deltaI) (auto simp: handle_kv_request_def wp_simps split: option.split prod.split
      intro!: coproc_books [THEN delta_wp] delta_wp [of buffer_books "kv_backend _" "\<lambda>_. 0"])
qed

lemma wifi_request_adds [coproc_books]:
  "adds (handle_wifi_initialize q p) (\<lambda>_. 0)" "adds (handle_wifi_scan q p) (\<lambda>_. 0)"
  "adds (handle_wifi_connect q p) (\<lambda>_. 0)" "adds (handle_wifi_disconnect q) (\<lambda>_. 0)"
  "adds (handle_wifi_start_ap q p) (\<lambda>_. 0)" "adds (handle_wifi_stop_ap q) (\<lambda>_. 0)"
  "adds (wifi_initialized_job oid st) (\<lambda>_. 0)"
  by (rule deltaI, auto simp: handle_wifi_initialize_def handle_wifi_scan_def
      handle_wifi_connect_def handle_wifi_disconnect_def handle_wifi_start_ap_def
      handle_wifi_stop_ap_def wifi_initialized_job_def wp_simps Let_def split: option.split
      intro!: coproc_books [THEN delta_wp])+

lemma wifi_adds [coproc_books]: "adds (handle_wifi q p) (\<lambda>_. 0)"
  unfolding handle_wifi_def by (intro coproc_books delta_if)

section \<open>Link, frames and Ethernet\<close>

lemma hello_adds [coproc_books]: "adds (handle_hello_request h q p) (\<lambda>_. 0)"
  by (rule deltaI) (auto simp: handle_hello_request_def send_hello_response_def select_session_def
      reset_session_state_def reset_ethernet_rx_completions_def wp_simps split: option.split
      intro!: coproc_books [THEN delta_wp])

lemma link_adds [coproc_books]:
  "adds (handle_credit_message h q p) (\<lambda>_. 0)" "adds (handle_heartbeat_message h q p) (\<lambda>_. 0)"
  "adds coproc_emit_due_heartbeat (\<lambda>_. 0)" "adds coproc_next_wait_ms (\<lambda>_. 0)"
  by (rule deltaI, auto simp: handle_credit_message_def handle_heartbeat_message_def
      coproc_emit_due_heartbeat_def coproc_next_wait_ms_def wp_simps Let_def split: option.split
      intro!: coproc_books [THEN delta_wp])+

lemma dispatch_adds [coproc_books]: "adds (dispatch_service q p) (\<lambda>_. 0)"
  unfolding dispatch_service_def Let_def by (intro delta_get_bind delta_if coproc_books)

lemma rpc_adds [coproc_books]: "adds (coproc_handle_rpc h p) (\<lambda>_. 0)"
  by (rule deltaI) (auto simp: coproc_handle_rpc_def wp_simps Let_def split: prod.split
      intro!: coproc_books [THEN delta_wp])

lemma ethernet_receive_adds [coproc_books]: "adds (ethernet_receive ch u records) (\<lambda>_. 0)"
proof (induction records arbitrary: u)
  case (Cons r records)
  show ?case
    by (cases r, rule deltaI) (auto simp: wp_simps Let_def split: option.split
      intro!: Cons [THEN delta_wp] coproc_books [THEN delta_wp])
qed (simp add: delta_return)

lemma frame_adds [coproc_books]:
  "adds (coproc_process_ethernet_frame ch p) (\<lambda>_. 0)" "adds (coproc_note_frame h) (\<lambda>_. 0)"
  "adds (coproc_process_frame f) (\<lambda>_. 0)"
proof -
  show ethernet: "adds (coproc_process_ethernet_frame ch p) (\<lambda>_. 0)" for ch p
    by (rule deltaI) (auto simp: coproc_process_ethernet_frame_def wp_simps Let_def
      split: prod.split intro!: coproc_books [THEN delta_wp])
  show noted: "adds (coproc_note_frame h) (\<lambda>_. 0)" for h
    by (rule deltaI) (auto simp: coproc_note_frame_def wp_simps Let_def
      intro!: coproc_books [THEN delta_wp])
  show "adds (coproc_process_frame f) (\<lambda>_. 0)"
    by (rule deltaI) (auto simp: coproc_process_frame_def wp_simps Let_def split: prod.split
      intro!: delta_wp [OF ethernet] delta_wp [OF noted] coproc_books [THEN delta_wp])
qed

lemma flush_loop_adds [coproc_books]: "adds (flush_completion_loop retry chs) (\<lambda>_. 0)"
proof (induction chs arbitrary: retry)
  case (Cons ch chs)
  show ?case
    by (cases ch, rule deltaI) (auto simp: wp_simps
      intro!: Cons [THEN delta_wp] coproc_books [THEN delta_wp])
qed (simp add: delta_return)

lemma ethernet_adds [coproc_books]:
  "adds flush_ethernet_rx_completions (\<lambda>_. 0)"
  "adds (wlh_coproc_ethernet_rx_complete sid ch u st) (\<lambda>_. 0)"
  "adds (coproc_ethernet_send ch p) (\<lambda>_. 0)"
  by (rule deltaI, auto simp: flush_ethernet_rx_completions_def wlh_coproc_ethernet_rx_complete_def
      coproc_ethernet_send_def wp_simps Let_def split: option.split prod.split
      intro!: coproc_books [THEN delta_wp])+

lemma tx_complete_adds: "adds (coproc_tx_complete f st) (\<lambda>_. - 1)"
  by (rule deltaI) (auto simp: coproc_tx_complete_def wp_simps Let_def
      intro!: coproc_books [THEN delta_wp])

text \<open>Growing a job replaces its buffer and leaves the deferred job alone.\<close>

lemma grow_adds:
  "(\<And>r t. buffer_books t = buffer_books s \<Longrightarrow> c_deferred_job t = c_deferred_job s \<Longrightarrow> Q r t) \<Longrightarrow>
    wp (coproc_grow_job n data) Q s"
  by (auto simp: coproc_grow_job_def wp_simps intro!: wp_coproc_alloc)

lemma aggregate_adds: "adds (coproc_aggregate_loop fuel n data units) (\<lambda>_. 0)"
proof (induction fuel arbitrary: data units)
  case (Suc fuel)
  show ?case
  proof (rule deltaI)
    fix s
    show "wp (coproc_aggregate_loop (Suc fuel) n data units)
      (\<lambda>_ t. buffer_books t = buffer_books s + 0) s"
    proof (cases "c_core_queue s")
      case Nil
      then show ?thesis
        by (auto simp: coproc_queue_receive_def wp_simps)
    next
      case (Cons job jobs)
      show ?thesis
        by (cases job) (auto simp: coproc_queue_receive_def wp_simps Cons buffer_books_queue
            split: option.split intro!: grow_adds Suc [THEN delta_wp] quiet_adds [THEN delta_wp])
    qed
  qed
qed (simp add: delta_return)

section \<open>The worker and the calls\<close>

lemma ethernet_job_adds [coproc_books]: "adds (coproc_ethernet_tx_job data) (\<lambda>_. - 1)"
  by (rule deltaI) (auto simp: coproc_ethernet_tx_job_def coproc_aggregate_ethernet_jobs_def
      wp_simps Let_def intro!: delta_wp [OF aggregate_adds] coproc_books [THEN delta_wp])

lemma run_job_adds [coproc_books]:
  "adds (coproc_run_job job) (\<lambda>_. - int (coproc_job_buffers job))"
  by (rule deltaI, cases job) (auto simp: coproc_run_job_def bluetooth_tx_job_def wp_simps
      intro!: coproc_books [THEN delta_wp])

lemma worker_adds:
  "adds coproc_worker_start (\<lambda>_. 0)" "adds coproc_worker_turn (\<lambda>_. 0)"
  "adds coproc_worker_exit (\<lambda>_. 0)" "adds wlh_coproc_stop_request (\<lambda>_. 0)"
  by (rule deltaI, auto simp: coproc_worker_start_def coproc_worker_turn_def
      coproc_worker_exit_def wlh_coproc_stop_request_def reset_ethernet_rx_completions_def
      wp_simps job_weight_opt_def split: option.split intro!: coproc_books [THEN delta_wp])+

lemma call_adds: "coproc_call m \<Longrightarrow> adds m (\<lambda>_. 0)"
  by (induction rule: coproc_call.induct; rule deltaI) (auto simp: call_defs wp_simps Let_def
      split: option.split prod.split sum.split
      intro!: coproc_books [THEN delta_wp] delta_wp [OF enqueue_completion_adds])

end
