(* ===== verification/Coproc_System.thy ===== *)
theory Coproc_System
  imports Coproc_Ledger
begin

text \<open>
  The coprocessor core in its environment: its state, the frames the transport holds and the life
  of its worker. A step is a call of the application or of a backend, a turn of the worker, or a
  completion of the transport. What the books say of single operations becomes an invariant of the
  reachable states.
\<close>

section \<open>The system\<close>

record coproc_system =
  cs_core :: coproc
  cs_frames :: "u8 list list"
  cs_worker :: worker_phase

fun taken_frame :: "coproc_effect \<Rightarrow> u8 list list" where
  "taken_frame (CSubmit f True) = [f]"
| "taken_frame _ = []"

definition new_effects :: "coproc \<Rightarrow> coproc \<Rightarrow> coproc_effect list" where
  "new_effects s t = take (length (c_trace t) - length (c_trace s)) (c_trace t)"

definition run_coproc :: "(coproc, 'a) state \<Rightarrow> coproc_system \<Rightarrow> coproc_system" where
  "run_coproc m sys = (let t = snd (run_state m (cs_core sys)) in
    sys\<lparr>cs_core := t,
      cs_frames := cs_frames sys @ concat (map taken_frame (rev (new_effects (cs_core sys) t)))\<rparr>)"

inductive coproc_step :: "coproc_system \<Rightarrow> coproc_system \<Rightarrow> bool" where
  coproc_step_call: "coproc_call m \<Longrightarrow> coproc_step sys (run_coproc m sys)"
| coproc_step_start: "cs_worker sys = Worker_new \<Longrightarrow>
    coproc_step sys ((run_coproc coproc_worker_start sys)\<lparr>cs_worker := Worker_running\<rparr>)"
| coproc_step_turn: "cs_worker sys = Worker_running \<Longrightarrow> \<not> c_worker_stopping (cs_core sys) \<Longrightarrow>
    coproc_step sys (run_coproc coproc_worker_turn sys)"
| coproc_step_exit: "cs_worker sys = Worker_running \<Longrightarrow> c_worker_stopping (cs_core sys) \<Longrightarrow>
    coproc_step sys ((run_coproc coproc_worker_exit sys)\<lparr>cs_worker := Worker_done\<rparr>)"
| coproc_step_tx_complete: "i < length (cs_frames sys) \<Longrightarrow>
    coproc_step sys (run_coproc (coproc_tx_complete (cs_frames sys ! i) status)
      (sys\<lparr>cs_frames := take i (cs_frames sys) @ drop (Suc i) (cs_frames sys)\<rparr>))"
| coproc_step_stop: "coproc_step sys (run_coproc wlh_coproc_stop_request sys)"

text \<open>The initial states: the object has been initialised and started.\<close>

inductive coproc_initial :: "coproc_system \<Rightarrow> bool" where
  "wlh_coproc_init c (Some cfg) = (WLH_COPROC_OK, s0) \<Longrightarrow>
    run_state wlh_coproc_start s0 = (WLH_COPROC_OK, s1) \<Longrightarrow>
    coproc_initial \<lparr>cs_core = s1, cs_frames = [], cs_worker = Worker_new\<rparr>"

definition reachable_coproc :: "coproc_system \<Rightarrow> bool" where
  "reachable_coproc = reachable coproc_initial coproc_step"

section \<open>Invariants from relations\<close>

lemma run_coproc_core: "cs_core (run_coproc m sys) = snd (run_state m (cs_core sys))"
  by (simp add: run_coproc_def Let_def)

context coproc_core
begin

lemma run_coproc_R: "state_io_rel R m \<Longrightarrow> R (cs_core sys) (cs_core (run_coproc m sys))"
  by (simp add: run_coproc_core state_io_rel_def split_beta)

lemma coproc_step_R: "coproc_step sys sys' \<Longrightarrow> R (cs_core sys) (cs_core sys')"
proof (induction rule: coproc_step.induct)
  case (coproc_step_tx_complete i sys status)
  show ?case
    using run_coproc_R [OF ethernet_rel(4), of "sys\<lparr>cs_frames := take i (cs_frames sys) @
      drop (Suc i) (cs_frames sys)\<rparr>"] by simp
qed (auto intro!: run_coproc_R worker_rel call_rel)

lemma coproc_initial_R:
  assumes "coproc_initial sys"
  obtains c cfg s0 where "wlh_coproc_init c (Some cfg) = (WLH_COPROC_OK, s0)" and "R s0 (cs_core sys)"
  using assms
proof cases
  case (1 c cfg s0 s1)
  then show ?thesis
    using rel_wpD [OF worker_rel(4), of s0] that by (simp add: wp_def)
qed

end

fun osal_effect :: "coproc_effect \<Rightarrow> bool" where
  "osal_effect (COsal _ _) = True"
| "osal_effect _ = False"

text \<open>What an initialised object looks like.\<close>

lemma coproc_init_state:
  assumes "wlh_coproc_init c (Some cfg) = (WLH_COPROC_OK, s0)"
  obtains cfg' sid where "s0 = (zero_coproc cfg' (c_pb c))\<lparr>c_next_session_id := sid,
      c_next_backend_operation_id := 1, c_next_ota_transfer_id := 1, c_ota_state := OTA_STATE_IDLE\<rparr>"
  using assms by (auto simp: wlh_coproc_init_def Let_def split: if_splits)

lemma coproc_initial_state:
  assumes "coproc_initial sys"
  obtains es where "c_trace (cs_core sys) = es" "\<forall>e \<in> set es. osal_effect e"
    "c_core_queue (cs_core sys) = []" "c_deferred_job (cs_core sys) = None"
    "cs_frames sys = []"
    "ota_view (cs_core sys) = (OTA_STATE_IDLE, 0, 0, 0, 0, no_pending)"
    "bluetooth_view (cs_core sys) = (BT_STATE_UNSPECIFIED, False, no_pending)"
  using assms
proof cases
  case (1 c cfg s0 s1)
  obtain cfg' sid where s0: "s0 = (zero_coproc cfg' (c_pb c))\<lparr>c_next_session_id := sid,
      c_next_backend_operation_id := 1, c_next_ota_transfer_id := 1, c_ota_state := OTA_STATE_IDLE\<rparr>"
    by (rule coproc_init_state [OF 1(2)])
  have started: "wp wlh_coproc_start (\<lambda>_ t. (\<forall>e \<in> set (c_trace t). osal_effect e) \<and>
      c_core_queue t = [] \<and> c_deferred_job t = None \<and>
      ota_view t = (OTA_STATE_IDLE, 0, 0, 0, 0, no_pending) \<and>
      bluetooth_view t = (BT_STATE_UNSPECIFIED, False, no_pending)) s0"
    by (auto simp: s0 zero_coproc_def wlh_coproc_start_def wp_simps ota_view_def bluetooth_view_def
        intro!: wp_coproc_osal_call)
  then show ?thesis
    using that wp_run [OF 1(3) started] by (simp add: 1(1))
qed

section \<open>The trace only grows\<close>

definition coproc_extends :: "coproc \<Rightarrow> coproc \<Rightarrow> bool" where
  "coproc_extends s t \<longleftrightarrow> (\<exists>es. c_trace t = es @ c_trace s)"

lemma coproc_extends_cons [simp]: "coproc_extends s (s\<lparr>c_trace := e # c_trace s\<rparr>)"
  by (simp add: coproc_extends_def)

lemma coproc_extends_same: "c_trace t = c_trace s \<Longrightarrow> coproc_extends s t"
  by (simp add: coproc_extends_def)

lemma coproc_extends_trans:
  "coproc_extends s t \<Longrightarrow> coproc_extends t u \<Longrightarrow> coproc_extends s u"
  unfolding coproc_extends_def by (metis append.assoc)

interpretation cext_rel: state_rel coproc_extends
  by unfold_locales (auto simp: coproc_extends_same intro: coproc_extends_trans)

lemma send_units_extends: "state_io_rel coproc_extends (coproc_send_payload_units ch p u)"
proof -
  have upd: "state_io_rel coproc_extends (modify f)" if "\<And>s. c_trace (f s) = c_trace s" for f
    by (rule cext_rel.rel_update) (simp add: that coproc_extends_same)
  have emit: "state_io_rel coproc_extends (coproc_emit e)" for e
    by (rule cext_rel.rel_wpI) (simp add: wp_simps)
  show ?thesis
    unfolding coproc_send_payload_units_def coproc_diag_def coproc_set_state_def coproc_alloc_def
      coproc_free_def coproc_submit_tx_def Let_def
    by (intro cext_rel.rel_rules emit upd; simp)
qed

interpretation cext_ota: ota_free coproc_extends
  by unfold_locales (auto simp: coproc_extends_same send_units_extends)

interpretation cext_bluetooth: bluetooth_free coproc_extends
  by unfold_locales (auto simp: coproc_extends_same)

interpretation cext: coproc_core coproc_extends
  by unfold_locales (rule cext_ota.ota_rel cext_bluetooth.bluetooth_rel)+

section \<open>Buffers\<close>

definition coproc_allocations :: "coproc_effect list \<Rightarrow> nat" where
  "coproc_allocations tr = length (filter (\<lambda>e. case e of CAlloc _ ok \<Rightarrow> ok | _ \<Rightarrow> False) tr)"

definition coproc_releases :: "coproc_effect list \<Rightarrow> nat" where
  "coproc_releases tr = length (filter (\<lambda>e. e = CFree) tr)"

lemma trace_buffers:
  "sum_list (map buffer_weight tr) + int (length (concat (map taken_frame (rev tr)))) =
    int (coproc_allocations tr) - int (coproc_releases tr)"
proof (induction tr)
  case (Cons e tr)
  then show ?case
    by (cases e rule: taken_frame.cases) (auto simp: coproc_allocations_def coproc_releases_def)
qed (simp add: coproc_allocations_def coproc_releases_def)

text \<open>The balance of the system counts the frames the transport holds.\<close>

definition system_books :: "coproc_system \<Rightarrow> int" where
  "system_books sys = int (coproc_allocations (c_trace (cs_core sys))) -
    int (coproc_releases (c_trace (cs_core sys))) - int (length (cs_frames sys)) -
    int (sum_list (map coproc_job_buffers (waiting_coproc_jobs (cs_core sys))))"

lemma run_coproc_books:
  assumes "adds m f" and "state_io_rel coproc_extends m"
  shows "system_books (run_coproc m sys) =
    system_books sys + f (fst (run_state m (cs_core sys)))"
proof -
  let ?s = "cs_core sys"
  obtain a t where run: "run_state m ?s = (a, t)" by (cases "run_state m ?s")
  define es where "es = new_effects ?s t"
  have t: "c_trace t = es @ c_trace ?s"
    using cext_rel.rel_wpD [OF assms(2), of ?s]
    by (auto simp: wp_def run es_def new_effects_def coproc_extends_def)
  show ?thesis
    using delta_run [OF assms(1) run] trace_buffers [of es]
    by (simp add: run_coproc_def run system_books_def buffer_books_def t es_def [symmetric]
        coproc_allocations_def coproc_releases_def)
qed

definition buffers_settled :: "coproc_system \<Rightarrow> bool" where
  "buffers_settled sys \<longleftrightarrow> system_books sys = 0"

lemma coproc_step_settled:
  assumes "coproc_step sys sys'" and "buffers_settled sys"
  shows "buffers_settled sys'"
  using assms
proof (induction rule: coproc_step.induct)
  case (coproc_step_tx_complete i sys status)
  let ?sys = "sys\<lparr>cs_frames := take i (cs_frames sys) @ drop (Suc i) (cs_frames sys)\<rparr>"
  have "system_books ?sys = system_books sys + 1"
    using coproc_step_tx_complete(1) by (simp add: system_books_def)
  then show ?case
    using coproc_step_tx_complete(2)
      run_coproc_books [OF tx_complete_adds cext_ota.ethernet_rel(4), of "cs_frames sys ! i" status ?sys]
    by (simp add: buffers_settled_def)
qed (auto simp: buffers_settled_def system_books_def [of "_\<lparr>cs_worker := _\<rparr>"]
    system_books_def [symmetric] run_coproc_books [OF call_adds cext_ota.call_rel]
    run_coproc_books [OF worker_adds(1) cext.worker_rel(1)]
    run_coproc_books [OF worker_adds(2) cext.worker_rel(2)]
    run_coproc_books [OF worker_adds(3) cext.worker_rel(3)]
    run_coproc_books [OF worker_adds(4) cext.worker_rel(5)])

lemma coproc_initial_settled:
  assumes "coproc_initial sys"
  shows "buffers_settled sys"
proof -
  have no_buffers: "coproc_allocations es = 0 \<and> coproc_releases es = 0"
    if "\<forall>e \<in> set es. osal_effect e" for es
    using that by (induction es) (auto elim!: osal_effect.elims simp: coproc_allocations_def coproc_releases_def)
  show ?thesis
    by (rule coproc_initial_state [OF assms])
      (auto simp: buffers_settled_def system_books_def waiting_coproc_jobs_def dest: no_buffers)
qed

interpretation coproc_buffers: step_invariant coproc_initial coproc_step buffers_settled
  by unfold_locales (auto intro: coproc_initial_settled coproc_step_settled)

section \<open>A concrete run\<close>

text \<open>An environment that accepts everything; the core is initialised and started, its worker runs
  and one event of a backend waits in the queue.\<close>

definition demo_ccfg :: coproc_config where
  "demo_ccfg = \<lparr>ccfg_submit_tx = Some (\<lambda>_. 0), ccfg_ethernet_sta_rx = Some
    (\<lambda>_. ETHERNET_RX_COMPLETE), ccfg_ethernet_ap_rx = Some (\<lambda>_.
    ETHERNET_RX_COMPLETE), ccfg_ethernet_eth_rx = Some (\<lambda>_. ETHERNET_RX_COMPLETE),
    ccfg_wifi_initialize = Some (\<lambda>_. 0), ccfg_wifi_scan = Some (\<lambda>_. 0),
    ccfg_wifi_connect = Some (\<lambda>_. 0), ccfg_wifi_disconnect = Some (\<lambda>_. 0),
    ccfg_wifi_start_ap = Some (\<lambda>_. 0), ccfg_wifi_stop_ap = Some (\<lambda>_. 0),
    ccfg_device_get_info = None, ccfg_io_configure = Some (\<lambda>_. 0), ccfg_io_read = None,
    ccfg_io_write = Some (\<lambda>_. 0), ccfg_adc_read = None, ccfg_kv_read = None,
    ccfg_kv_write = Some (\<lambda>_. 0), ccfg_kv_erase = Some (\<lambda>_. 0),
    ccfg_user_on_message = Some (\<lambda>_. 0), ccfg_eth_get_info = Some (\<lambda>_. 0),
    ccfg_bluetooth_initialize = Some (\<lambda>_. 0), ccfg_bluetooth_enable = Some (\<lambda>_.
    0), ccfg_bluetooth_disable = Some (\<lambda>_. 0), ccfg_bluetooth_deinitialize = Some
    (\<lambda>_. 0), ccfg_bluetooth_get_info = Some (\<lambda>_. 0), ccfg_bluetooth_hci_send =
    Some (\<lambda>_. 0), ccfg_bluetooth_hci_tx_ready = Some (), ccfg_ota_begin = Some
    (\<lambda>_. 0), ccfg_ota_write = Some (\<lambda>_. 0), ccfg_ota_finalize = Some
    (\<lambda>_. 0), ccfg_ota_abort = Some (\<lambda>_. 0), ccfg_ota_activate = Some
    (\<lambda>_. 0), ccfg_alloc = Some (\<lambda>_. True), ccfg_free = Some (), ccfg_osal =
    demo_osal, ccfg_max_frame_size = 4096, ccfg_heartbeat_interval_ms = 1000,
    ccfg_initial_credit = 8, ccfg_initial_session_id = 0, ccfg_core_queue_depth = 16,
    ccfg_ethernet_tx_depth = 4, ccfg_ethernet_tx_aggregation_limit = 4, ccfg_stop_timeout_ms =
    3000, ccfg_implementation_version = []\<rparr>"

definition demo_cpb :: coproc_pb where
  "demo_cpb = \<lparr>cpb_encoded_size = (\<lambda>_. Some 0), cpb_encode = (\<lambda>_ _. Some
    []), cpb_dec_hello_request = (\<lambda>_. None), cpb_dec_credit_update = (\<lambda>_. None),
    cpb_dec_heartbeat_session = (\<lambda>_. None), cpb_dec_wifi_initialize = (\<lambda>_.
    None), cpb_dec_wifi_scan = (\<lambda>_. None), cpb_dec_wifi_connect = (\<lambda>_. None),
    cpb_dec_wifi_start_ap = (\<lambda>_. None), cpb_dec_bluetooth_initialize = (\<lambda>_.
    None), cpb_dec_bluetooth_enable = (\<lambda>_. None), cpb_dec_bluetooth_deinitialize =
    (\<lambda>_. None), cpb_dec_ota_begin = (\<lambda>_. None), cpb_dec_ota_finalize =
    (\<lambda>_. None), cpb_dec_ota_abort = (\<lambda>_. None), cpb_dec_ota_activate =
    (\<lambda>_. None), cpb_dec_eth_get_info = (\<lambda>_. None), cpb_dec_diagnostics_ping =
    (\<lambda>_. None), cpb_dec_user_send = (\<lambda>_. None), cpb_dec_io_configure =
    (\<lambda>_. None), cpb_dec_io_read = (\<lambda>_. None), cpb_dec_io_write = (\<lambda>_.
    None), cpb_dec_adc_read = (\<lambda>_. None), cpb_dec_kv_read = (\<lambda>_. None),
    cpb_dec_kv_write = (\<lambda>_. None), cpb_dec_kv_erase = (\<lambda>_. None)\<rparr>"

definition demo_core :: coproc where
  "demo_core = (zero_coproc demo_ccfg demo_cpb)\<lparr>c_next_session_id := 1,
    c_next_backend_operation_id := 1, c_next_ota_transfer_id := 1, c_ota_state := OTA_STATE_IDLE\<rparr>"

definition demo_coproc_boot :: coproc_system where
  "demo_coproc_boot = \<lparr>cs_core = snd (run_state wlh_coproc_start demo_core), cs_frames = [],
    cs_worker = Worker_new\<rparr>"

definition demo_coproc :: coproc_system where
  "demo_coproc = run_coproc (wlh_coproc_wifi_scan_completed 1 0 False)
    ((run_coproc coproc_worker_start demo_coproc_boot)\<lparr>cs_worker := Worker_running\<rparr>)"

lemma demo_coproc_init:
  "wlh_coproc_init (zero_coproc demo_ccfg demo_cpb) (Some demo_ccfg) = (WLH_COPROC_OK, demo_core)"
  by (simp add: wlh_coproc_init_def demo_core_def demo_ccfg_def demo_osal_def
      wlh_osal_ops_valid_def wire_consts bluetooth_ops_partial_def ota_ops_partial_def
      WLH_COPROC_MAX_FRAME_SIZE_def WLH_COPROC_MAX_QUEUE_DEPTH_def zero_coproc_def)

lemma demo_coproc_start: "fst (run_state wlh_coproc_start demo_core) = WLH_COPROC_OK"
proof -
  have "wp wlh_coproc_start (\<lambda>r _. r = WLH_COPROC_OK) demo_core"
    by (simp add: demo_core_def zero_coproc_def wlh_coproc_start_def coproc_osal_call_def wp_simps
        Let_def demo_ccfg_def demo_osal_def)
  then show ?thesis
    by (simp add: wp_def split_beta)
qed

lemma demo_coproc_reachable: "reachable_coproc demo_coproc"
proof -
  have "coproc_initial demo_coproc_boot"
    unfolding demo_coproc_boot_def using demo_coproc_init demo_coproc_start
    by (intro coproc_initial.intros) (auto simp: prod_eq_iff)
  moreover have "coproc_step demo_coproc_boot
      ((run_coproc coproc_worker_start demo_coproc_boot)\<lparr>cs_worker := Worker_running\<rparr>)"
    by (rule coproc_step_start) (simp add: demo_coproc_boot_def)
  moreover have "coproc_step
      ((run_coproc coproc_worker_start demo_coproc_boot)\<lparr>cs_worker := Worker_running\<rparr>) demo_coproc"
    unfolding demo_coproc_def by (rule coproc_step_call) (rule coproc_call.intros)
  ultimately show ?thesis
    unfolding reachable_coproc_def by (blast intro: reachable.intros)
qed



end
