(* ===== verification/Coproc_Ota_Spec.thy ===== *)
theory Coproc_Ota_Spec
  imports Coproc_System
begin

text \<open>
  An abstract firmware transfer and the proof that the coprocessor implements it. The abstract
  machine knows the phase, the operation waiting for the backend, the announced size and the chunks
  the backend has taken since the transfer began; its steps are what a host may cause. Every step of
  the coprocessor is a sequence of such steps, so that what holds of the abstract machine - the
  chunks are a gapless, aligned prefix of an image of the announced size - holds of the code.
\<close>

section \<open>The abstract transfer\<close>

datatype ota_phase = Phase_idle | Phase_receiving | Phase_verifying | Phase_ready | Phase_failed

type_synonym ota_chunk = "u32 \<times> u64 \<times> u8 list"

record ota_spec =
  os_phase :: ota_phase
  os_pending :: "u16 option"
  os_transfer :: u32
  os_size :: u64
  os_accepted :: u64
  os_chunks :: "ota_chunk list"

text \<open>A chunk continues the image: it starts where the last one ended, at a multiple of the
  alignment, stays within the image, and is a multiple of the alignment itself unless it is the
  last one.\<close>

definition chunk_fits :: "ota_spec \<Rightarrow> ota_chunk \<Rightarrow> bool" where
  "chunk_fits s chunk = (case chunk of (transfer, offset, data) \<Rightarrow>
    transfer = os_transfer s \<and> offset = os_accepted s \<and> data \<noteq> [] \<and>
    length data \<le> WLH_COPROC_OTA_CHUNK_SIZE \<and> unat offset + length data \<le> unat (os_size s) \<and>
    WLH_COPROC_OTA_ALIGNMENT dvd unat offset \<and>
    (WLH_COPROC_OTA_ALIGNMENT dvd length data \<or> unat offset + length data = unat (os_size s)))"

inductive ota_step :: "ota_spec \<Rightarrow> ota_spec \<Rightarrow> bool" where
  os_begin: "os_phase s \<in> {Phase_idle, Phase_failed} \<Longrightarrow> os_pending s = None \<Longrightarrow> transfer \<noteq> 0 \<Longrightarrow>
    image_size \<noteq> 0 \<Longrightarrow> ota_step s (s\<lparr>os_pending := Some WLH_OTA_METHOD_BEGIN,
      os_transfer := transfer, os_size := image_size, os_accepted := 0, os_chunks := []\<rparr>)"
| os_begun: "os_pending s = Some WLH_OTA_METHOD_BEGIN \<Longrightarrow>
    ota_step s (s\<lparr>os_phase := Phase_receiving, os_pending := None\<rparr>)"
| os_chunk: "os_phase s = Phase_receiving \<Longrightarrow> chunk_fits s (transfer, offset, data) \<Longrightarrow>
    ota_step s (s\<lparr>os_accepted := offset + of_nat (length data),
      os_chunks := os_chunks s @ [(transfer, offset, data)]\<rparr>)"
| os_fail: "os_phase s \<in> {Phase_receiving, Phase_verifying} \<Longrightarrow>
    ota_step s (s\<lparr>os_phase := Phase_failed\<rparr>)"
| os_finalize: "os_phase s = Phase_receiving \<Longrightarrow> os_pending s = None \<Longrightarrow>
    ota_step s (s\<lparr>os_phase := Phase_verifying, os_pending := Some WLH_OTA_METHOD_FINALIZE\<rparr>)"
| os_verified: "os_pending s = Some WLH_OTA_METHOD_FINALIZE \<Longrightarrow>
    ota_step s (s\<lparr>os_phase := Phase_ready, os_pending := None\<rparr>)"
| os_activate: "os_phase s = Phase_ready \<Longrightarrow> os_pending s = None \<Longrightarrow>
    ota_step s (s\<lparr>os_pending := Some WLH_OTA_METHOD_ACTIVATE\<rparr>)"
| os_abort: "os_phase s \<in> {Phase_receiving, Phase_verifying, Phase_ready} \<Longrightarrow> os_pending s = None \<Longrightarrow>
    ota_step s (s\<lparr>os_pending := Some WLH_OTA_METHOD_ABORT\<rparr>)"
| os_aborted: "os_pending s = Some WLH_OTA_METHOD_ABORT \<Longrightarrow>
    ota_step s (s\<lparr>os_phase := Phase_idle, os_pending := None, os_transfer := 0, os_accepted := 0\<rparr>)"
| os_dropped: "os_phase s \<in> {Phase_receiving, Phase_verifying, Phase_ready} \<Longrightarrow> os_pending s = None \<Longrightarrow>
    ota_step s (s\<lparr>os_phase := Phase_idle, os_transfer := 0\<rparr>)"
| os_answered: "ota_step s (s\<lparr>os_pending := None\<rparr>)"
| os_op_failed: "os_pending s = Some method_id \<Longrightarrow> method_id \<noteq> WLH_OTA_METHOD_ABORT \<Longrightarrow>
    ota_step s (s\<lparr>os_phase := Phase_failed, os_pending := None\<rparr>)"
| os_reset: "ota_step s (s\<lparr>os_phase := Phase_idle, os_pending := None, os_transfer := 0, os_size := 0,
    os_accepted := 0\<rparr>)"

definition ota_initial :: ota_spec where
  "ota_initial = \<lparr>os_phase = Phase_idle, os_pending = None, os_transfer = 0, os_size = 0,
    os_accepted = 0, os_chunks = []\<rparr>"

section \<open>What the abstract machine guarantees\<close>

text \<open>The chunks follow each other without a gap from offset zero.\<close>

fun contiguous :: "nat \<Rightarrow> ota_chunk list \<Rightarrow> bool" where
  "contiguous start [] = True"
| "contiguous start ((transfer, offset, data) # chunks) \<longleftrightarrow>
    unat offset = start \<and> data \<noteq> [] \<and> contiguous (start + length data) chunks"

definition image_bytes :: "ota_chunk list \<Rightarrow> u8 list" where
  "image_bytes chunks = concat (map (\<lambda>(_, _, data). data) chunks)"

lemma contiguous_append:
  "contiguous start (xs @ ys) \<longleftrightarrow>
    contiguous start xs \<and> contiguous (start + length (image_bytes xs)) ys"
  by (induction start xs rule: contiguous.induct) (auto simp: image_bytes_def add.assoc)

lemma image_bytes_simps [simp]:
  "image_bytes [] = []" "image_bytes (xs @ ys) = image_bytes xs @ image_bytes ys"
  "image_bytes ((transfer, offset, data) # xs) = data @ image_bytes xs"
  by (simp_all add: image_bytes_def)

text \<open>\<open>transfer_live\<close>: the chunks belong to the transfer that is or has been running.\<close>

definition transfer_live :: "ota_spec \<Rightarrow> bool" where
  "transfer_live s \<longleftrightarrow> os_phase s \<noteq> Phase_idle \<or> os_pending s = Some WLH_OTA_METHOD_BEGIN"

definition transfer_inv :: "ota_spec \<Rightarrow> bool" where
  "transfer_inv s \<longleftrightarrow> contiguous 0 (os_chunks s) \<and>
    (\<forall>(transfer, offset, data) \<in> set (os_chunks s). WLH_COPROC_OTA_ALIGNMENT dvd unat offset \<and>
      length data \<le> WLH_COPROC_OTA_CHUNK_SIZE) \<and>
    (transfer_live s \<longrightarrow> unat (os_accepted s) = length (image_bytes (os_chunks s)) \<and>
      length (image_bytes (os_chunks s)) \<le> unat (os_size s) \<and>
      (\<forall>chunk \<in> set (os_chunks s). fst chunk = os_transfer s)) \<and>
    (\<forall>method_id. os_pending s = Some method_id \<longrightarrow> method_id \<noteq> WLH_OTA_METHOD_BEGIN \<longrightarrow>
      method_id \<noteq> WLH_OTA_METHOD_ABORT \<longrightarrow> os_phase s \<noteq> Phase_idle)"

lemma chunk_fits_end:
  assumes "chunk_fits s (transfer, offset, data)"
  shows "unat (offset + of_nat (length data)) = unat offset + length data"
proof -
  have "unat offset + length data < 2 ^ 64"
    using assms unsigned_less [of "os_size s", where 'a = nat] by (auto simp: chunk_fits_def)
  then show ?thesis
    by (simp add: unat_word_ariths(1) unat_of_nat)
qed

lemma ota_step_inv: "ota_step s t \<Longrightarrow> transfer_inv s \<Longrightarrow> transfer_inv t"
proof (induction rule: ota_step.induct)
  case (os_chunk s transfer offset data)
  then show ?case
    using chunk_fits_end [OF os_chunk(2)]
    by (auto simp: transfer_inv_def transfer_live_def chunk_fits_def contiguous_append)
qed (auto simp: transfer_inv_def transfer_live_def id_consts)

lemma ota_initial_inv: "transfer_inv ota_initial"
  by (simp add: transfer_inv_def ota_initial_def transfer_live_def)

lemma ota_steps_inv: "ota_step\<^sup>*\<^sup>* s t \<Longrightarrow> transfer_inv s \<Longrightarrow> transfer_inv t"
  by (induction rule: rtranclp_induct) (auto intro: ota_step_inv)

section \<open>The abstraction\<close>

text \<open>The value left over is \<open>OTA_STATE_READY_TO_ACTIVATE\<close>.\<close>

definition ota_phase_of :: "u32 \<Rightarrow> ota_phase" where
  "ota_phase_of st = (if st = OTA_STATE_RECEIVING then Phase_receiving
    else if st = OTA_STATE_VERIFYING then Phase_verifying
    else if st = OTA_STATE_FAILED then Phase_failed
    else if ota_state_is_idle st then Phase_idle else Phase_ready)"

text \<open>The chunks the backend has taken since it was last asked to begin, oldest first.\<close>

fun ota_chunks :: "coproc_effect list \<Rightarrow> ota_chunk list" where
  "ota_chunks [] = []"
| "ota_chunks (CBackend (Ota_begin_op _ _ _) _ # tr) = []"
| "ota_chunks (CBackend (Ota_write transfer offset data) st # tr) =
    (if st = 0 then ota_chunks tr @ [(transfer, offset, data)] else ota_chunks tr)"
| "ota_chunks (e # tr) = ota_chunks tr"

definition pending_method :: "backend_pending \<Rightarrow> u16 option" where
  "pending_method p = (if bp_active p then Some (bp_method_id p) else None)"

definition ota_abs :: "coproc \<Rightarrow> ota_spec" where
  "ota_abs s = \<lparr>os_phase = ota_phase_of (c_ota_state s),
    os_pending = pending_method (c_ota_pending s), os_transfer = c_ota_transfer_id s,
    os_size = c_ota_image_size s, os_accepted = c_ota_bytes_accepted s,
    os_chunks = ota_chunks (c_trace s)\<rparr>"

lemma ota_abs_simps [simp]:
  "os_phase (ota_abs s) = ota_phase_of (c_ota_state s)"
  "os_pending (ota_abs s) = pending_method (c_ota_pending s)"
  "os_transfer (ota_abs s) = c_ota_transfer_id s" "os_size (ota_abs s) = c_ota_image_size s"
  "os_accepted (ota_abs s) = c_ota_bytes_accepted s"
  "os_chunks (ota_abs s) = ota_chunks (c_trace s)"
  by (simp_all add: ota_abs_def)

lemma pending_method_simps [simp]:
  "pending_method no_pending = None"
  "pending_method \<lparr>bp_active = True, bp_operation_id = oid, bp_session_id = sid,
    bp_request_id = rid, bp_method_id = m\<rparr> = Some m"
  by (simp_all add: pending_method_def no_pending_def)

lemma plain_ota_chunks: "plain_effect e \<Longrightarrow> ota_chunks (e # tr) = ota_chunks tr"
proof (cases e)
  case (CBackend call st)
  then show "plain_effect e \<Longrightarrow> ?thesis"
    by (cases call) auto
qed auto

lemma bluetooth_ota_chunks: "bluetooth_call c \<Longrightarrow> ota_chunks (CBackend c st # tr) = ota_chunks tr"
  by (cases c) auto

section \<open>Operations that leave the transfer alone\<close>

definition ota_same :: "coproc \<Rightarrow> coproc \<Rightarrow> bool" where
  "ota_same s t \<longleftrightarrow> c_config t = c_config s \<and> ota_view t = ota_view s \<and>
    ota_chunks (c_trace t) = ota_chunks (c_trace s)"

interpretation same_rel: state_rel ota_same
  by unfold_locales (auto simp: ota_same_def)

lemma send_units_same: "state_io_rel ota_same (coproc_send_payload_units ch p u)"
proof -
  have upd: "state_io_rel ota_same (modify f)" if "\<And>s. c_trace (f s) = c_trace s \<and>
      c_config (f s) = c_config s \<and> ota_view (f s) = ota_view s" for f
    by (rule same_rel.rel_update) (simp add: that ota_same_def)
  have emit: "state_io_rel ota_same (coproc_emit e)" if "\<And>tr. ota_chunks (e # tr) = ota_chunks tr" for e
    by (rule same_rel.rel_wpI) (simp add: wp_simps ota_same_def that ota_view_def)
  show ?thesis
    unfolding coproc_send_payload_units_def coproc_diag_def coproc_set_state_def coproc_alloc_def
      coproc_free_def coproc_submit_tx_def Let_def
    by (intro same_rel.rel_rules emit upd; simp add: ota_view_def)
qed

interpretation same: bluetooth_free ota_same
  by unfold_locales (auto simp: ota_same_def plain_ota_chunks bluetooth_ota_chunks send_units_same
      simp: ota_view_def)

lemma ota_same_fields:
  assumes "ota_same s t"
  shows "c_ota_state t = c_ota_state s" "c_ota_transfer_id t = c_ota_transfer_id s"
    "c_ota_image_size t = c_ota_image_size s" "c_ota_bytes_accepted t = c_ota_bytes_accepted s"
    "c_ota_pending t = c_ota_pending s" "ota_chunks (c_trace t) = ota_chunks (c_trace s)"
    "c_config t = c_config s" "ota_abs t = ota_abs s"
  using assms by (auto simp: ota_same_def ota_view_def ota_abs_def)

section \<open>The OTA operations are steps of the abstract machine\<close>

lemma progress_same: "state_io_rel ota_same ota_emit_progress"
  unfolding ota_emit_progress_def
  by (intro same.send_rel same.quiet_update same_rel.rel_rules; simp add: ota_view_def bluetooth_view_def)

lemma ota_set_state_wp:
  "(\<And>t. ota_same (s\<lparr>c_ota_state := st\<rparr>) t \<Longrightarrow> Q () t) \<Longrightarrow> wp (ota_set_state st) Q s"
  by (auto simp: ota_set_state_def wp_simps same_rel.R_refl intro!: same_rel.rel_wp [OF progress_same])

lemma ota_status_same: "state_io_rel ota_same (send_ota_status m r c)"
  unfolding send_ota_status_def by (rule same.send_rel)

lemmas same_wp = same_rel.rel_wp [OF ota_status_same] same_rel.rel_wp [OF same.send_rel(3)]
  same_rel.rel_wp [OF same.send_rel(4)] same_rel.rel_wp [OF same.send_rel(8)]
  same_rel.rel_wp [OF same.queue_rel(3)] same_rel.rel_wp [OF progress_same] ota_set_state_wp

definition ota_reach :: "coproc \<Rightarrow> coproc \<Rightarrow> bool" where
  "ota_reach s t \<longleftrightarrow> ota_step\<^sup>*\<^sup>* (ota_abs s) (ota_abs t)"

lemma ota_same_reach: "ota_same s t \<Longrightarrow> ota_reach s t"
  by (simp add: ota_reach_def ota_same_fields(8))

interpretation reach_rel: state_rel ota_reach
  by unfold_locales (auto simp: ota_reach_def)

lemma same_reach: "state_io_rel ota_same m \<Longrightarrow> state_io_rel ota_reach m"
  using ota_same_reach by (auto simp: state_io_rel_def split: prod.splits)

lemma ota_reach_step: "ota_step (ota_abs s) a \<Longrightarrow> ota_abs t = a \<Longrightarrow> ota_reach s t"
  by (simp add: ota_reach_def r_into_rtranclp)

lemma ota_reach_to:
  "ota_step (ota_abs s) a \<Longrightarrow> ota_same u t \<Longrightarrow> ota_abs u = a \<Longrightarrow> ota_reach s t"
  by (metis ota_reach_step ota_same_fields(8))

text \<open>The two checks of a chunk are the condition of the abstract machine.\<close>

lemma chunk_ok_fits:
  assumes "ota_chunk_ok s header"
  shows "c_ota_state s = OTA_STATE_RECEIVING"
    and "chunk_fits (ota_abs s) (c_ota_transfer_id s, ota_read_u64le header 4,
      drop WLH_COPROC_OTA_STREAM_HEADER_SIZE header)"
proof -
  let ?off = "ota_read_u64le header 4" and ?n = "length header - WLH_COPROC_OTA_STREAM_HEADER_SIZE"
  note ok = assms [unfolded ota_chunk_ok_def Let_def]
  show "c_ota_state s = OTA_STATE_RECEIVING"
    using ok by simp
  have n: "0 < ?n" "?n \<le> 4048" and off: "?off = c_ota_bytes_accepted s" "?off \<le> c_ota_image_size s"
    and room: "of_nat ?n \<le> c_ota_image_size s - ?off"
    using ok by (auto simp: WLH_COPROC_OTA_CHUNK_SIZE_def not_less)
  have n64: "unat (of_nat ?n :: u64) = ?n"
  proof -
    have "unat (of_nat n :: u64) = n" if "n \<le> 4048" for n
      using that by (simp add: unat_of_nat)
    then show ?thesis
      using n(2) by blast
  qed
  have fits: "unat ?off + ?n \<le> unat (c_ota_image_size s)"
    using room off(2) by (simp add: word_le_nat_alt n64 unat_sub)
  have last: "?off + of_nat ?n = c_ota_image_size s \<Longrightarrow> unat ?off + ?n = unat (c_ota_image_size s)"
  proof -
    have "unat ?off + ?n < 2 ^ 64"
      using fits unsigned_less [of "c_ota_image_size s", where 'a = nat] by auto
    then have "unat (?off + of_nat ?n) = unat ?off + ?n"
      by (simp add: unat_word_ariths(1) n64)
    then show "?off + of_nat ?n = c_ota_image_size s \<Longrightarrow> unat ?off + ?n = unat (c_ota_image_size s)"
      by simp
  qed
  show "chunk_fits (ota_abs s) (c_ota_transfer_id s, ?off,
      drop WLH_COPROC_OTA_STREAM_HEADER_SIZE header)"
    using ok n off fits last
    by (auto simp: chunk_fits_def ota_abs_def WLH_COPROC_OTA_CHUNK_SIZE_def mod_eq_0_iff_dvd)
qed

lemma fail_reach:
  "c_ota_state s = OTA_STATE_RECEIVING \<or> c_ota_state s = OTA_STATE_VERIFYING \<Longrightarrow>
    ota_same (s\<lparr>c_ota_state := OTA_STATE_FAILED\<rparr>) t \<Longrightarrow> ota_reach s t"
  by (rule ota_reach_to [OF os_fail]) (auto simp: ota_abs_def ota_phase_of_def ota_states)

lemma fail_reach2:
  "c_ota_state s = OTA_STATE_RECEIVING \<or> c_ota_state s = OTA_STATE_VERIFYING \<Longrightarrow>
    ota_same (s\<lparr>c_ota_state := OTA_STATE_FAILED\<rparr>) t \<Longrightarrow> ota_same t u \<Longrightarrow> ota_reach s u"
  by (blast intro: fail_reach same_rel.R_trans)

lemma write_failed:
  assumes "ota_chunk_ok s header" and "st \<noteq> 0"
    and "ota_same (s\<lparr>c_trace := CBackend (Ota_write tr off data) st # c_trace s,
      c_ota_state := OTA_STATE_FAILED\<rparr>) t" and "ota_same t u"
  shows "ota_reach s u"
proof (rule fail_reach2)
  show "ota_same (s\<lparr>c_ota_state := OTA_STATE_FAILED\<rparr>) t"
    using assms by (auto simp: ota_same_def ota_view_def)
qed (use assms chunk_ok_fits(1) in auto)

lemma write_taken:
  assumes "ota_chunk_ok s header"
  shows "ota_reach s (s\<lparr>c_trace := CBackend (Ota_write (c_ota_transfer_id s) (ota_read_u64le header 4)
      (drop WLH_COPROC_OTA_STREAM_HEADER_SIZE header)) 0 # c_trace s,
    c_ota_bytes_accepted := c_ota_bytes_accepted s +
      of_nat (length header - WLH_COPROC_OTA_STREAM_HEADER_SIZE)\<rparr>)"
  by (rule ota_reach_step [OF os_chunk [OF _ chunk_ok_fits(2) [OF assms]]])
    (use chunk_ok_fits [OF assms] in \<open>simp_all add: ota_abs_def ota_phase_of_def ota_states chunk_fits_def\<close>)

lemma reject_reach: "wp ota_reject_chunk (\<lambda>_ t. ota_reach s t) s"
  by (auto simp: ota_reject_chunk_def ota_fail_transfer_def wp_simps intro!: same_wp
      intro: fail_reach2 ota_same_reach)

lemma ota_frame_reach: "state_io_rel ota_reach (coproc_process_ota_frame p)"
proof (rule reach_rel.rel_wpI)
  fix s
  show "wp (coproc_process_ota_frame p) (\<lambda>_ t. ota_reach s t) s"
    by (auto simp: coproc_process_ota_frame_def ota_fail_transfer_def wp_simps reach_rel.R_refl Let_def
        split: option.split intro!: reject_reach write_taken wp_backend same_wp)
      (rule write_failed; assumption)
qed

text \<open>An operation is recorded, and dropped again when the backend refuses it.\<close>

lemma begin_operation_wp:
  "(\<And>oid p t. pending_method p = Some (re_method_id q) \<Longrightarrow> ota_same (s\<lparr>c_ota_pending := p\<rparr>) t \<Longrightarrow>
    Q oid t) \<Longrightarrow> wp (ota_begin_operation q) Q s"
  unfolding ota_begin_operation_def
  by (auto simp: wp_simps ota_same_def ota_view_def intro!: same_wp)

lemma submit_result_reach: "state_io_rel ota_reach (ota_submit_result q st)"
proof (rule reach_rel.rel_wpI)
  have "ota_same (s\<lparr>c_ota_pending := no_pending\<rparr>) t \<Longrightarrow> ota_reach s t" for s t
    by (erule ota_reach_to [OF os_answered]) (simp add: ota_abs_def)
  then show "wp (ota_submit_result q st) (\<lambda>_ t. ota_reach s t) s" for s
    by (auto simp: ota_submit_result_def wp_simps reach_rel.R_refl intro!: same_wp)
qed

lemma ota_reach_via:
  "ota_reach t u \<Longrightarrow> ota_step (ota_abs s) a \<Longrightarrow> ota_abs t = a \<Longrightarrow> ota_reach s u"
  unfolding ota_reach_def by (simp add: converse_rtranclp_into_rtranclp)

lemmas operation_wp = begin_operation_wp wp_backend same_wp
  reach_rel.rel_wp [OF submit_result_reach]

lemmas spec_simps = ota_abs_def ota_phase_of_def ota_states ota_state_is_idle_def
  pending_method_def ota_same_def ota_view_def

lemma ota_finalize_reach:
  assumes "re_method_id q = WLH_OTA_METHOD_FINALIZE"
  shows "wp (handle_ota_finalize q p) (\<lambda>_ t. ota_reach s t) s"
  by (auto simp: handle_ota_finalize_def wp_simps assms reach_rel.R_refl split: option.split
      intro!: operation_wp intro: ota_same_reach)
    (erule ota_reach_via, rule os_finalize, auto simp: spec_simps assms split: if_splits)

lemma ota_abort_reach:
  assumes "re_method_id q = WLH_OTA_METHOD_ABORT"
  shows "wp (handle_ota_abort q p) (\<lambda>_ t. ota_reach s t) s"
proof -
  have dropped: "ota_reach s u" if "\<not> bp_active (c_ota_pending s)" "\<not> ota_state_is_idle (c_ota_state s)"
      "ota_same (s\<lparr>c_ota_state := OTA_STATE_IDLE\<rparr>) t" "ota_same (t\<lparr>c_ota_transfer_id := 0\<rparr>) u" for t u
    by (rule ota_reach_to [OF os_dropped that(4)]) (use that in \<open>auto simp: spec_simps\<close>)
  show ?thesis
    by (auto simp: handle_ota_abort_def wp_simps assms reach_rel.R_refl split: option.split
        intro!: operation_wp intro: ota_same_reach dropped)
      (erule ota_reach_via, rule os_abort, auto simp: spec_simps assms split: if_splits)
qed

lemma ota_activate_reach:
  assumes "re_method_id q = WLH_OTA_METHOD_ACTIVATE"
  shows "wp (handle_ota_activate q p) (\<lambda>_ t. ota_reach s t) s"
  by (auto simp: handle_ota_activate_def wp_simps assms reach_rel.R_refl split: option.split
      intro!: operation_wp intro: ota_same_reach)
    (erule ota_reach_via, rule os_activate, auto simp: spec_simps assms split: if_splits)

lemma next_transfer_wp:
  "(\<And>transfer t. transfer \<noteq> 0 \<Longrightarrow> ota_same s t \<Longrightarrow> Q transfer t) \<Longrightarrow> wp ota_next_transfer_id Q s"
  by (auto simp: ota_next_transfer_id_def wp_simps ota_same_def ota_view_def)

lemma ota_abs_reach: "ota_abs t = ota_abs s \<Longrightarrow> ota_reach s t"
  by (simp add: ota_reach_def)

lemma free_same: "ota_same s (s\<lparr>c_trace := CFree # c_trace s\<rparr>)"
  by (simp add: ota_same_def ota_view_def)

lemma ota_begin_reach:
  assumes "re_method_id q = WLH_OTA_METHOD_BEGIN"
  shows "wp (handle_ota_begin q p) (\<lambda>_ t. ota_reach s t) s"
proof -
  have begun: "ota_reach s v"
    if "ota_state_is_idle (c_ota_state s)" "\<not> bp_active (c_ota_pending s)" "transfer \<noteq> 0"
      "image_size \<noteq> 0" "ota_same s t" "ota_same t t'"
      "pending_method pa = Some WLH_OTA_METHOD_BEGIN"
      "ota_same (t'\<lparr>c_ota_transfer_id := transfer, c_ota_image_size := image_size,
        c_ota_bytes_accepted := 0, c_ota_bytes_received := 0, c_ota_progress_reported_bytes := 0,
        c_ota_target_version := version, c_ota_pending := pa\<rparr>) u"
      "ota_reach (u\<lparr>c_trace := CFree # CBackend (Ota_begin_op oid transfer params) st # c_trace u\<rparr>) v"
    for transfer image_size t t' pa version u oid params st v
    by (rule ota_reach_via [OF that(9)], rule os_begin [where transfer = transfer and image_size = image_size])
      (use that(1-8) in \<open>auto simp: spec_simps split: if_splits\<close>)
  have same: "ota_reach s u"
    if "ota_same s t" "ota_same (t\<lparr>c_trace := CFree # c_trace t\<rparr>) u" for t u
    by (rule ota_abs_reach) (use that in \<open>auto simp: spec_simps\<close>)
  have free: "ota_reach s (t\<lparr>c_trace := CFree # c_trace t\<rparr>)" if "ota_same s t" for t
    by (rule ota_abs_reach) (use that in \<open>auto simp: spec_simps\<close>)
  show ?thesis
    by (auto simp: handle_ota_begin_def wp_simps assms split: option.split
        intro!: operation_wp same_rel.rel_wp [OF same.env_rel(2)] next_transfer_wp
        intro: ota_same_reach same free)
      (erule ota_same_reach, (rule begun; assumption))
qed

lemma ota_handle_reach: "state_io_rel ota_reach (handle_ota q p)"
proof (rule reach_rel.rel_wpI)
  have other: "wp (handle_ota_query q) (\<lambda>_ t. ota_reach s t) s"
    "wp (send_not_supported q) (\<lambda>_ t. ota_reach s t) s" for s
    by (auto simp: handle_ota_query_def wp_simps intro!: same_wp intro: ota_same_reach)
  show "wp (handle_ota q p) (\<lambda>_ t. ota_reach s t) s" for s
    by (auto simp: handle_ota_def wp_simps other
        intro: ota_begin_reach ota_finalize_reach ota_abort_reach ota_activate_reach)
qed

lemma ota_methods_distinct:
  "WLH_OTA_METHOD_BEGIN \<noteq> WLH_OTA_METHOD_FINALIZE" "WLH_OTA_METHOD_BEGIN \<noteq> WLH_OTA_METHOD_ABORT"
  "WLH_OTA_METHOD_BEGIN \<noteq> WLH_OTA_METHOD_ACTIVATE" "WLH_OTA_METHOD_FINALIZE \<noteq> WLH_OTA_METHOD_ABORT"
  "WLH_OTA_METHOD_FINALIZE \<noteq> WLH_OTA_METHOD_ACTIVATE" "WLH_OTA_METHOD_ABORT \<noteq> WLH_OTA_METHOD_ACTIVATE"
  by (simp_all add: id_consts)

lemma ota_completed_reach: "state_io_rel ota_reach (ota_operation_completed oid st)"
proof (rule reach_rel.rel_wpI)
  fix s
  show "wp (ota_operation_completed oid st) (\<lambda>_ t. ota_reach s t) s"
  proof (cases "bp_active (c_ota_pending s)")
    case True
    define m where "m = bp_method_id (c_ota_pending s)"
    have pending: "os_pending (ota_abs s) = Some m"
      by (simp add: ota_abs_def pending_method_def m_def True)
    have answered: "ota_reach s t" if "ota_same (s\<lparr>c_ota_pending := no_pending\<rparr>) t" for t
      by (rule ota_reach_to [OF os_answered that]) (simp add: ota_abs_def)
    have failed: "ota_reach s u" if "m \<noteq> WLH_OTA_METHOD_ABORT"
      "ota_same (s\<lparr>c_ota_pending := no_pending, c_ota_state := OTA_STATE_FAILED\<rparr>) t" "ota_same t u" for t u
      by (rule ota_reach_to [OF os_op_failed [OF pending that(1)] same_rel.R_trans [OF that(2,3)]])
        (simp add: ota_abs_def ota_phase_of_def ota_states)
    have begun: "ota_reach s u" if "m = WLH_OTA_METHOD_BEGIN"
      "ota_same (s\<lparr>c_ota_pending := no_pending, c_ota_state := OTA_STATE_RECEIVING\<rparr>) t" "ota_same t u" for t u
      by (rule ota_reach_to [OF os_begun same_rel.R_trans [OF that(2,3)]])
        (simp_all add: pending [simplified] that(1), simp add: ota_abs_def ota_phase_of_def)
    have verified: "ota_reach s u" if "m = WLH_OTA_METHOD_FINALIZE"
      "ota_same (s\<lparr>c_ota_pending := no_pending, c_ota_state := OTA_STATE_READY_TO_ACTIVATE\<rparr>) t"
      "ota_same t u" for t u
      by (rule ota_reach_to [OF os_verified same_rel.R_trans [OF that(2,3)]])
        (simp_all add: pending [simplified] that(1), simp add: ota_abs_def ota_phase_of_def ota_states
          ota_state_is_idle_def)
    have aborted: "ota_reach s (u\<lparr>c_ota_transfer_id := 0, c_ota_bytes_accepted := 0,
        c_ota_bytes_received := 0\<rparr>)" if "m = WLH_OTA_METHOD_ABORT"
      "ota_same (s\<lparr>c_ota_pending := no_pending\<rparr>) t" "ota_same (t\<lparr>c_ota_state := OTA_STATE_IDLE\<rparr>) u"
      for t u
      by (rule ota_reach_step [OF os_aborted])
        (simp add: pending [simplified] that(1), use that(2,3) in \<open>auto simp: spec_simps no_pending_def\<close>)
    show ?thesis
      using True by (auto simp: ota_operation_completed_def wp_simps Let_def m_def [symmetric]
          reach_rel.R_refl ota_methods_distinct ota_methods_distinct [symmetric]
          intro!: same_wp intro: answered begun verified answered [OF same_rel.R_refl])
        ((rule failed, simp add: ota_methods_distinct ota_methods_distinct [symmetric], assumption+)
          | (rule aborted, assumption+))+
  qed (simp add: ota_operation_completed_def wp_simps reach_rel.R_refl)
qed

lemma ota_written_reach: "state_io_rel ota_reach (ota_write_completed tid n st)"
proof (rule reach_rel.rel_wpI)
  fix s
  have failed: "ota_reach s u" if "ota_same s t" "c_ota_state t = OTA_STATE_RECEIVING"
    "ota_same (t\<lparr>c_ota_state := OTA_STATE_FAILED\<rparr>) u" for t u
    by (rule reach_rel.R_trans [OF ota_same_reach [OF that(1)] fail_reach [OF _ that(3)]])
      (simp add: that)
  have written: "ota_reach s u" if "ota_same s t" "ota_same (t\<lparr>c_ota_bytes_received := n\<rparr>) u" for t u n
    by (rule ota_abs_reach) (use that in \<open>auto simp: spec_simps\<close>)
  have written': "ota_reach s (t\<lparr>c_ota_bytes_received := n\<rparr>)" if "ota_same s t" for t n
    by (rule ota_abs_reach) (use that in \<open>auto simp: spec_simps\<close>)
  have same2: "ota_same s t \<Longrightarrow> ota_same t u \<Longrightarrow> ota_reach s u" for t u
    by (blast intro: ota_same_reach same_rel.R_trans)
  show "wp (ota_write_completed tid n st) (\<lambda>_ t. ota_reach s t) s"
    by (auto simp: ota_write_completed_def ota_fail_transfer_def wp_simps
        intro!: same_wp intro: failed written written' ota_same_reach same2)
qed

lemma ota_reset_reach: "state_io_rel ota_reach ota_reset"
proof (rule reach_rel.rel_wpI)
  have abs: "ota_chunks (c_trace t) = ota_chunks (c_trace s) \<Longrightarrow>
      ota_reach s (t\<lparr>c_ota_pending := no_pending, c_ota_state := OTA_STATE_IDLE,
      c_ota_transfer_id := 0, c_ota_image_size := 0, c_ota_bytes_accepted := 0,
      c_ota_bytes_received := 0, c_ota_progress_reported_bytes := 0,
      c_ota_target_version := replicate 33 0\<rparr>)" for s t
    by (rule ota_reach_step [OF os_reset]) (simp add: ota_abs_def ota_phase_of_def ota_states
      ota_state_is_idle_def)
  show "wp ota_reset (\<lambda>_ t. ota_reach s t) s" for s
    by (auto simp: ota_reset_def wp_simps intro!: wp_backend abs)
qed

lemma send_units_reach: "state_io_rel ota_reach (coproc_send_payload_units ch p u)"
  by (rule same_reach) (rule send_units_same)

interpretation reach_base: bluetooth_free ota_reach
proof
  show "ota_reach s t" if "c_config t = c_config s" "c_trace t = c_trace s" "ota_view t = ota_view s"
    for s t
    using that by (intro ota_same_reach) (simp add: ota_same_def)
  show "ota_reach s (s\<lparr>c_trace := e # c_trace s\<rparr>)" if "plain_effect e" for e s
    by (rule ota_abs_reach) (simp add: ota_abs_def plain_ota_chunks [OF that])
  show "ota_reach s (s\<lparr>c_trace := CBackend c st # c_trace s\<rparr>)" if "bluetooth_call c" for c s st
    by (rule ota_abs_reach) (simp add: ota_abs_def bluetooth_ota_chunks [OF that])
qed (auto simp: ota_same_def intro: ota_same_reach send_units_reach)

interpretation reach: coproc_core ota_reach
  by unfold_locales (rule ota_handle_reach ota_frame_reach ota_completed_reach ota_written_reach
    ota_reset_reach reach_base.bluetooth_rel)+

section \<open>The coprocessor implements the transfer\<close>


lemma coproc_initial_ota:
  assumes "coproc_initial sys"
  shows "ota_abs (cs_core sys) = ota_initial"
proof -
  have no_chunks: "ota_chunks es = []" if "\<forall>e \<in> set es. osal_effect e" for es
    using that by (induction es) (auto elim!: osal_effect.elims)
  show ?thesis
    by (rule coproc_initial_state [OF assms])
      (auto simp: ota_abs_def ota_view_def ota_initial_def ota_phase_of_def ota_states
        ota_state_is_idle_def no_chunks)
qed

interpretation transfer: step_invariant coproc_initial coproc_step "\<lambda>sys. transfer_inv (ota_abs (cs_core sys))"
  by unfold_locales (auto simp: coproc_initial_ota ota_initial_inv
    intro: ota_steps_inv [OF reach.coproc_step_R [unfolded ota_reach_def]])

text \<open>C12: The firmware image reaches the backend without gaps. In every reachable state the chunks
  the backend has taken since it was last asked to begin follow each other from offset zero, each
  aligned and within the chunk size; while the transfer is being received, verified or ready, they
  belong to it, add up to the accepted bytes and stay within the announced size.\<close>

theorem ota_image_contiguous:
  assumes "reachable_coproc sys"
  shows "let s = cs_core sys; chunks = ota_chunks (c_trace s) in
    contiguous 0 chunks \<and>
    (\<forall>(transfer, offset, data) \<in> set chunks.
      WLH_COPROC_OTA_ALIGNMENT dvd unat offset \<and> length data \<le> WLH_COPROC_OTA_CHUNK_SIZE) \<and>
    (c_ota_state s \<in> {OTA_STATE_RECEIVING, OTA_STATE_VERIFYING, OTA_STATE_READY_TO_ACTIVATE} \<longrightarrow>
      length (image_bytes chunks) = unat (c_ota_bytes_accepted s) \<and>
      unat (c_ota_bytes_accepted s) \<le> unat (c_ota_image_size s) \<and>
      (\<forall>chunk \<in> set chunks. fst chunk = c_ota_transfer_id s))"
proof -
  obtain s where s: "s = cs_core sys" by simp
  have inv: "transfer_inv (ota_abs s)"
    using transfer.reachable_I assms by (simp add: reachable_coproc_def s)
  have live: "c_ota_state s \<in> {OTA_STATE_RECEIVING, OTA_STATE_VERIFYING, OTA_STATE_READY_TO_ACTIVATE}
      \<Longrightarrow> transfer_live (ota_abs s)"
    by (auto simp: transfer_live_def ota_phase_of_def ota_states ota_state_is_idle_def)
  show ?thesis
    unfolding Let_def s [symmetric] using inv live by (auto simp: transfer_inv_def)
qed


theorem ota_image_contiguous_witness:
  "contiguous 0 (ota_chunks (c_trace (cs_core demo_coproc)))"
  using ota_image_contiguous [OF demo_coproc_reachable] by (simp add: Let_def)

end
