(* ===== verification/Coproc_Sending.thy ===== *)
theory Coproc_Sending
  imports Coproc_Ota_Spec
begin

text \<open>
  What the coprocessor sends: the exact effect of sending one payload, and the form of every frame
  handed to the transport in a reachable run.
\<close>

section \<open>One payload\<close>

definition coproc_out_frame :: "coproc \<Rightarrow> u8 \<Rightarrow> u8 list \<Rightarrow> u8 list" where
  "coproc_out_frame s ch p = frame_bytes ((wlh_frame_header_init ch)
    \<lparr>fh_session_id := c_session_id s, fh_sequence := c_tx_sequence s ch\<rparr>) p"

definition coproc_oversize :: "coproc \<Rightarrow> u8 list \<Rightarrow> bool" where
  "coproc_oversize s p \<longleftrightarrow> 24 + length p > unat (ccfg_max_frame_size (c_config s))"

definition with_effects :: "coproc_effect list \<Rightarrow> coproc \<Rightarrow> coproc" where
  "with_effects es s = s\<lparr>c_trace := es @ c_trace s\<rparr>"

definition in_state :: "coproc_state \<Rightarrow> coproc \<Rightarrow> coproc" where
  "in_state st s = (if c_state s = st then s
    else s\<lparr>c_state := st, c_diagnostics := (c_diagnostics s)\<lparr>cd_state := st\<rparr>\<rparr>)"

text \<open>The state after the transport took the frame.\<close>

definition coproc_sent :: "coproc \<Rightarrow> u8 \<Rightarrow> u8 list \<Rightarrow> u32 \<Rightarrow> coproc" where
  "coproc_sent s ch p u = s\<lparr>
    c_tx_sequence := (c_tx_sequence s)(ch := c_tx_sequence s ch + 1),
    c_tx_credit := (if ch = WLH_CHANNEL_LINK_CONTROL then c_tx_credit s
      else (c_tx_credit s)(ch := c_tx_credit s ch - u)),
    c_diagnostics := (c_diagnostics s)\<lparr>cd_tx_frames := cd_tx_frames (c_diagnostics s) + 1\<rparr>,
    c_trace := [CSubmit (coproc_out_frame s ch p) True, CAlloc (24 + length p) True] @ c_trace s\<rparr>"

lemma coproc_encode:
  "frame_encode_buf (WLH_FRAME_HEADER_SIZE + length p) ((wlh_frame_header_init ch)
    \<lparr>fh_session_id := c_session_id s, fh_sequence := c_tx_sequence s ch\<rparr>) p =
    (if length p > 65535 then (WLH_WIRE_INVALID_LENGTH, []) else (WLH_WIRE_OK, coproc_out_frame s ch p))"
  by (simp add: frame_encode_buf_eq coproc_out_frame_def header_valid_def wlh_frame_header_init_def
      wire_consts)

lemma set_state_eq: "run_state (coproc_set_state st) s = ((), in_state st s)"
  by (simp add: coproc_set_state_def in_state_def State_Monad.update_def)

lemma wp_set_state [wp_simps]: "wp (coproc_set_state st) Q s = Q () (in_state st s)"
  by (simp add: wp_def set_state_eq)

lemma coproc_send_units_effect:
  "case run_state (coproc_send_payload_units ch p u) s of (r, t) \<Rightarrow>
    (if coproc_oversize s p \<or> u = 0 then r = WLH_COPROC_INVALID_ARGUMENT \<and> t = s
     else if ch \<noteq> WLH_CHANNEL_LINK_CONTROL \<and> c_tx_credit s ch < u then
       r = WLH_COPROC_NO_CREDIT \<and> t = in_state WLH_COPROC_STATE_CONGESTED s
     else
       (r = WLH_COPROC_BACKEND_ERROR \<and> t = with_effects [CAlloc (24 + length p) False] s) \<or>
       (r = WLH_COPROC_PROTOCOL_ERROR \<and> length p > 65535 \<and>
         t = with_effects [CFree, CAlloc (24 + length p) True] s) \<or>
       (r = WLH_COPROC_TRANSPORT_ERROR \<and> t = with_effects
         [CFree, CSubmit (coproc_out_frame s ch p) False, CAlloc (24 + length p) True] s) \<or>
       (r = WLH_COPROC_OK \<and> t = coproc_sent s ch p u \<and> length p \<le> 65535 \<and>
         (ch = WLH_CHANNEL_LINK_CONTROL \<or> u \<le> c_tx_credit s ch)))"
  (is "case run_state _ s of (r, t) \<Rightarrow> ?P r t")
proof -
  have "wp (coproc_send_payload_units ch p u) ?P s"
    unfolding coproc_send_payload_units_def
    by (auto simp: wp_simps Let_def coproc_encode [unfolded WLH_FRAME_HEADER_SIZE_def]
        WLH_FRAME_HEADER_SIZE_def coproc_oversize_def with_effects_def
        coproc_sent_def not_less intro!: wp_coproc_alloc wp_coproc_submit_tx)
  then show ?thesis
    by (simp add: wp_def)
qed

text \<open>C17: Sending one payload (\<open>coproc_send_payload_units\<close>), on every branch. A payload that does
  not fit the configured frame size and a count of zero units are refused without any effect. Off
  the link control channel, too little credit changes nothing but the state, to \<open>CONGESTED\<close>.
  Otherwise the frame with the channel's sequence number and the session is built; without a buffer,
  with a payload the header cannot describe, or when the transport refuses it, every counter stays
  and the buffer is freed; when the transport takes it, the sequence number goes up by one and
  exactly the units are taken from a credit that was large enough - none on link control.\<close>

theorem coproc_send_payload_units_correct:
  "case run_state (coproc_send_payload_units ch p u) s of (r, t) \<Rightarrow>
    (if coproc_oversize s p \<or> u = 0 then r = WLH_COPROC_INVALID_ARGUMENT \<and> t = s
     else if ch \<noteq> WLH_CHANNEL_LINK_CONTROL \<and> c_tx_credit s ch < u then
       r = WLH_COPROC_NO_CREDIT \<and> t = in_state WLH_COPROC_STATE_CONGESTED s
     else
       (r = WLH_COPROC_BACKEND_ERROR \<and> t = with_effects [CAlloc (24 + length p) False] s) \<or>
       (r = WLH_COPROC_PROTOCOL_ERROR \<and> length p > 65535 \<and>
         t = with_effects [CFree, CAlloc (24 + length p) True] s) \<or>
       (r = WLH_COPROC_TRANSPORT_ERROR \<and> t = with_effects
         [CFree, CSubmit (coproc_out_frame s ch p) False, CAlloc (24 + length p) True] s) \<or>
       (r = WLH_COPROC_OK \<and> t = coproc_sent s ch p u \<and> length p \<le> 65535 \<and>
         (ch = WLH_CHANNEL_LINK_CONTROL \<or> u \<le> c_tx_credit s ch)))"
  (is "case run_state _ s of (r, t) \<Rightarrow> ?P r t")
  by (rule coproc_send_units_effect)

lemma coproc_send_units_wp:
  assumes "coproc_oversize s p \<or> u = 0 \<Longrightarrow> Q WLH_COPROC_INVALID_ARGUMENT s"
    and "Q WLH_COPROC_NO_CREDIT (in_state WLH_COPROC_STATE_CONGESTED s)"
    and "\<And>r es. \<forall>e \<in> set es. plain_effect e \<Longrightarrow> r \<noteq> WLH_COPROC_OK \<Longrightarrow> Q r (with_effects es s)"
    and "\<not> coproc_oversize s p \<Longrightarrow> Q WLH_COPROC_TRANSPORT_ERROR (with_effects
      [CFree, CSubmit (coproc_out_frame s ch p) False, CAlloc (24 + length p) True] s)"
    and "\<not> coproc_oversize s p \<Longrightarrow> Q WLH_COPROC_OK (coproc_sent s ch p u)"
  shows "wp (coproc_send_payload_units ch p u) Q s"
  unfolding wp_def using coproc_send_units_effect [where ch = ch and p = p and u = u and s = s] assms
  by (auto split: prod.splits if_splits)

section \<open>The frames of a run\<close>

fun offered_frame :: "coproc_effect \<Rightarrow> u8 list list" where
  "offered_frame (CSubmit f _) = [f]"
| "offered_frame _ = []"

definition offered_frames :: "coproc_effect list \<Rightarrow> u8 list list" where
  "offered_frames tr = concat (map offered_frame (rev tr))"

lemma offered_frames_simps [simp]:
  "offered_frames [] = []" "offered_frames (e # tr) = offered_frames tr @ offered_frame e"
  "offered_frames (es @ tr) = offered_frames tr @ offered_frames es"
  by (simp_all add: offered_frames_def)

lemma plain_offered: "plain_effect e \<Longrightarrow> offered_frame e = []"
  by (cases e) auto

lemma plain_offers: "\<forall>e \<in> set es. plain_effect e \<Longrightarrow> offered_frames es = []"
  by (induction es) (auto simp: plain_offered)

definition well_framed :: "coproc \<Rightarrow> bool" where
  "well_framed s \<longleftrightarrow> unat (ccfg_max_frame_size (c_config s)) \<le> WLH_FRAME_MAX_SIZE \<and>
    list_all (frame_ok (unat (ccfg_max_frame_size (c_config s)))) (offered_frames (c_trace s))"

definition keeps_framed :: "coproc \<Rightarrow> coproc \<Rightarrow> bool" where
  "keeps_framed s t \<longleftrightarrow> (well_framed s \<longrightarrow> well_framed t)"

lemma well_framed_cong:
  "c_config t = c_config s \<Longrightarrow> offered_frames (c_trace t) = offered_frames (c_trace s) \<Longrightarrow>
    well_framed t = well_framed s"
  by (simp add: well_framed_def)

lemma coproc_out_frame_ok:
  assumes "\<not> coproc_oversize s p"
    and "unat (ccfg_max_frame_size (c_config s)) \<le> WLH_FRAME_MAX_SIZE"
  shows "frame_ok (unat (ccfg_max_frame_size (c_config s))) (coproc_out_frame s ch p)"
  unfolding coproc_out_frame_def using assms
  by (intro frame_bytes_ok) (simp_all add: coproc_oversize_def header_valid_def
    wlh_frame_header_init_def wire_consts)

interpretation framed_ota: ota_free keeps_framed
proof
  show "keeps_framed s t" if "c_config t = c_config s" "c_trace t = c_trace s" for s t
    using that by (simp add: keeps_framed_def well_framed_cong [of t s])
  show "state_io_rel keeps_framed (coproc_send_payload_units ch p u)" for ch p u
  proof -
    have "wp (coproc_send_payload_units ch p u) (\<lambda>_ t. keeps_framed s t) s" for s
      by (rule coproc_send_units_wp) (auto simp: keeps_framed_def well_framed_def with_effects_def
          in_state_def coproc_sent_def coproc_out_frame_ok plain_offers)
    then show ?thesis
      by (simp add: state_io_rel_def wp_snd split_beta)
  qed
qed (auto simp: keeps_framed_def well_framed_def plain_offered)

interpretation framed_bluetooth: bluetooth_free keeps_framed
  by unfold_locales (auto simp: keeps_framed_def well_framed_def)

interpretation framed: coproc_core keeps_framed
  by unfold_locales (rule framed_ota.ota_rel framed_bluetooth.bluetooth_rel)+

interpretation frames: step_invariant coproc_initial coproc_step "\<lambda>sys. well_framed (cs_core sys)"
proof
  show "well_framed (cs_core sys)" if "coproc_initial sys" for sys
  proof -
    from that obtain c cfg s0 where init: "wlh_coproc_init c (Some cfg) = (WLH_COPROC_OK, s0)"
      and R: "keeps_framed s0 (cs_core sys)"
      by (rule framed.coproc_initial_R)
    from init have "well_framed s0"
      by (auto simp: wlh_coproc_init_def zero_coproc_def Let_def well_framed_def wire_consts
          WLH_COPROC_MAX_FRAME_SIZE_def split: if_splits)
    with R show ?thesis
      by (simp add: keeps_framed_def)
  qed
  show "well_framed (cs_core sys')" if "coproc_step sys sys'" "well_framed (cs_core sys)" for sys sys'
    using framed.coproc_step_R [OF that(1)] that(2) by (simp add: keeps_framed_def)
qed

text \<open>C18: Every frame the coprocessor hands to the transport is well formed: the frame decoder, run
  with the configured frame size, accepts each of them and yields its header and its payload.\<close>

theorem coproc_offered_frames_decode:
  assumes "reachable_coproc sys"
  defines "limit \<equiv> unat (ccfg_max_frame_size (c_config (cs_core sys)))"
  shows "map (frame_decode_buf limit) (offered_frames (c_trace (cs_core sys))) =
    map (\<lambda>f. (WLH_WIRE_OK, parse_header f, drop 24 f)) (offered_frames (c_trace (cs_core sys)))"
  using frames.reachable_I [OF assms(1) [unfolded reachable_coproc_def]]
  by (auto simp: well_framed_def list_all_iff frame_decode_buf_ok limit_def)

theorem coproc_offered_frames_decode_witness:
  "map (frame_decode_buf (unat (ccfg_max_frame_size (c_config (cs_core demo_coproc)))))
      (offered_frames (c_trace (cs_core demo_coproc))) =
    map (\<lambda>f. (WLH_WIRE_OK, parse_header f, drop 24 f)) (offered_frames (c_trace (cs_core demo_coproc)))"
  by (rule coproc_offered_frames_decode [OF demo_coproc_reachable])

end
