(* ===== verification/Coproc_Session.thy ===== *)
theory Coproc_Session
  imports Coproc_Sending
begin

text \<open>
  The start of a session: what an accepted Hello leaves behind, and that the credits the response
  announces to the host are the ones the coprocessor keeps.
\<close>

section \<open>A message that was sent\<close>

definition submitted_since :: "coproc \<Rightarrow> coproc \<Rightarrow> u8 list \<Rightarrow> bool" where
  "submitted_since s t f \<longleftrightarrow> (\<exists>es. c_trace t = es @ c_trace s \<and> CSubmit f True \<in> set es)"

text \<open>\<open>sent_over s ch p t\<close>: going from \<open>s\<close> to \<open>t\<close>, the transport took one frame with the payload
  \<open>p\<close> on the channel, and only its number, its credit and the counters changed.\<close>

definition sent_over :: "coproc \<Rightarrow> u8 \<Rightarrow> u8 list \<Rightarrow> coproc \<Rightarrow> bool" where
  "sent_over s ch p t \<longleftrightarrow> submitted_since s t (coproc_out_frame s ch p) \<and>
    t = s\<lparr>c_tx_sequence := (c_tx_sequence s)(ch := c_tx_sequence s ch + 1),
      c_tx_credit := (if ch = WLH_CHANNEL_LINK_CONTROL then c_tx_credit s
        else (c_tx_credit s)(ch := c_tx_credit s ch - 1)),
      c_diagnostics := c_diagnostics t, c_trace := c_trace t\<rparr>"

lemma coproc_sent_over: "sent_over s ch p (coproc_sent s ch p 1)"
  by (auto simp: sent_over_def coproc_sent_def submitted_since_def)

text \<open>Buffers allocated before and freed after do not matter.\<close>

lemma sent_over_alloc:
  assumes "sent_over (s\<lparr>c_trace := es @ c_trace s\<rparr>) ch p t"
  shows "sent_over s ch p (t\<lparr>c_trace := es' @ c_trace t\<rparr>)"
proof -
  have out: "coproc_out_frame (s\<lparr>c_trace := es @ c_trace s\<rparr>) ch p = coproc_out_frame s ch p"
    by (simp add: coproc_out_frame_def)
  obtain fs where "c_trace t = fs @ es @ c_trace s" "CSubmit (coproc_out_frame s ch p) True \<in> set fs"
    using assms by (auto simp: sent_over_def submitted_since_def out)
  then have "submitted_since s (t\<lparr>c_trace := es' @ c_trace t\<rparr>) (coproc_out_frame s ch p)"
    unfolding submitted_since_def by (intro exI [of _ "es' @ fs @ es"]) simp
  moreover have "t\<lparr>c_trace := u\<rparr> = s\<lparr>c_tx_sequence := (c_tx_sequence s)(ch := c_tx_sequence s ch + 1),
      c_tx_credit := (if ch = WLH_CHANNEL_LINK_CONTROL then c_tx_credit s
        else (c_tx_credit s)(ch := c_tx_credit s ch - 1)),
      c_diagnostics := c_diagnostics t, c_trace := u\<rparr>" for u
    using assms by (subst (1) conjunct2 [OF assms [unfolded sent_over_def]]) simp
  ultimately show ?thesis
    by (simp add: sent_over_def)
qed

definition kept :: "coproc \<Rightarrow> coproc \<Rightarrow> bool" where
  "kept s t \<longleftrightarrow> (\<exists>es. t = with_effects es s)"

lemma kept_refl: "kept s s"
  by (auto simp: kept_def with_effects_def intro: exI [of _ "[]"])

lemma kept_with_effects: "kept s (with_effects es s)"
  by (auto simp: kept_def)

lemma kept_alloc:
  assumes "kept (s\<lparr>c_trace := es @ c_trace s\<rparr>) t"
  shows "kept s (t\<lparr>c_trace := es' @ c_trace t\<rparr>)"
proof -
  obtain fs where "t = with_effects fs (s\<lparr>c_trace := es @ c_trace s\<rparr>)" using assms by (auto simp: kept_def)
  then have "t\<lparr>c_trace := es' @ c_trace t\<rparr> = with_effects (es' @ fs @ es) s" by (simp add: with_effects_def)
  then show ?thesis by (simp add: kept_with_effects)
qed

text \<open>On the link control channel a payload is sent, or nothing happens but calls of the environment.\<close>

definition link_outcome :: "coproc \<Rightarrow> u8 list \<Rightarrow> coproc_result \<Rightarrow> coproc \<Rightarrow> bool" where
  "link_outcome s p r t \<longleftrightarrow>
    (if r = WLH_COPROC_OK then sent_over s WLH_CHANNEL_LINK_CONTROL p t else kept s t)"

lemma link_outcome_alloc:
  "link_outcome (s\<lparr>c_trace := es @ c_trace s\<rparr>) p r t \<Longrightarrow> link_outcome s p r (t\<lparr>c_trace := es' @ c_trace t\<rparr>)"
  by (auto simp: link_outcome_def kept_alloc sent_over_alloc split: if_splits)

lemmas link_outcome_alloc1 = link_outcome_alloc [where es = "[_]" and es' = "[_]", simplified]

lemma link_payload: "wp (coproc_send_payload WLH_CHANNEL_LINK_CONTROL p) (link_outcome s p) s"
  unfolding coproc_send_payload_def wp_def
  using coproc_send_units_effect [where ch = WLH_CHANNEL_LINK_CONTROL and p = p and u = 1 and s = s]
  by (auto simp: link_outcome_def kept_refl kept_with_effects coproc_sent_over split: if_splits prod.splits)

definition coproc_envelope :: "u16 \<Rightarrow> u16 \<Rightarrow> u32 \<Rightarrow> u8 \<Rightarrow> u16 \<Rightarrow> i16 \<Rightarrow> rpc_envelope" where
  "coproc_envelope sv m rid kind d c = empty_envelope\<lparr>re_service_id := sv, re_method_id := m,
    re_request_id := rid, re_kind := kind, re_status_domain := d, re_status_code := c\<rparr>"

text \<open>An encoding that succeeds yields the envelope with the payload.\<close>

lemma rpc_encode_fits:
  "(case rpc_encode_buf (WLH_RPC_ENVELOPE_SIZE + length p) e p of
      (wire, bytes) \<Rightarrow> wire = WLH_WIRE_OK \<longrightarrow> bytes = rpc_bytes e p)"
  by (auto simp: rpc_encode_buf_eq WLH_RPC_ENVELOPE_SIZE_def envelope_validate_ok split: if_splits)

lemma link_failed: "r \<noteq> WLH_COPROC_OK \<Longrightarrow> kept s t \<Longrightarrow> link_outcome s p r t"
  by (simp add: link_outcome_def)

lemma kept_traces [simp]:
  "kept s (s\<lparr>c_trace := e # c_trace s\<rparr>)" "kept s (s\<lparr>c_trace := e' # e # c_trace s\<rparr>)"
  using kept_with_effects [of s "[e]"] kept_with_effects [of s "[e', e]"] by (simp_all add: with_effects_def)

lemma wp_free_ret [wp_simps]:
  "wp (State_Monad.bind coproc_free (\<lambda>_. ret a)) Q = (\<lambda>s. Q a (s\<lparr>c_trace := CFree # c_trace s\<rparr>))"
  by (rule ext) (simp add: wp_simps)

lemma link_rpc:
  "wp (coproc_send_rpc WLH_SERVICE_LINK m rid kind d c p)
    (link_outcome s (rpc_bytes (coproc_envelope WLH_SERVICE_LINK m rid kind d c) p)) s"
proof -
  have send: "wp (coproc_send_payload WLH_CHANNEL_LINK_CONTROL p)
      (\<lambda>r t. link_outcome s p r (t\<lparr>c_trace := CFree # c_trace t\<rparr>)) (s\<lparr>c_trace := CAlloc n ok # c_trace s\<rparr>)"
    for p n ok
    by (rule wp_call [OF link_payload]) (rule link_outcome_alloc1)
  show ?thesis
    unfolding coproc_send_rpc_def coproc_envelope_def [symmetric]
    using rpc_encode_fits [where p = p and e = "coproc_envelope WLH_SERVICE_LINK m rid kind d c"]
    by (auto simp: wp_simps Let_def send link_failed kept_refl split: prod.split if_splits intro!: wp_coproc_alloc)
qed

text \<open>A message that was sent is the encoder's output in an envelope.\<close>

definition encodes :: "coproc_pb \<Rightarrow> coproc_msg \<Rightarrow> u8 list \<Rightarrow> bool" where
  "encodes pb msg bytes \<longleftrightarrow> cpb_encoded_size pb msg = Some (length bytes) \<and>
    (bytes \<noteq> [] \<longrightarrow> cpb_encode pb (length bytes) msg = Some bytes)"

definition message_outcome :: "coproc \<Rightarrow> rpc_envelope \<Rightarrow> coproc_msg \<Rightarrow> coproc_result \<Rightarrow> coproc \<Rightarrow> bool" where
  "message_outcome s e msg r t \<longleftrightarrow> (if r = WLH_COPROC_OK then \<exists>bytes. encodes (c_pb s) msg bytes \<and>
      sent_over s WLH_CHANNEL_LINK_CONTROL (rpc_bytes e bytes) t
    else kept s t)"

lemma message_outcomeI:
  "link_outcome s (rpc_bytes e bytes) r t \<Longrightarrow> encodes (c_pb s) msg bytes \<Longrightarrow> message_outcome s e msg r t"
  by (auto simp: link_outcome_def message_outcome_def split: if_splits)

lemma message_failed: "r \<noteq> WLH_COPROC_OK \<Longrightarrow> kept s t \<Longrightarrow> message_outcome s e msg r t"
  by (simp add: message_outcome_def)

lemma link_message:
  "wp (coproc_send_rpc_message WLH_SERVICE_LINK m rid kind d c msg)
    (message_outcome s (coproc_envelope WLH_SERVICE_LINK m rid kind d c) msg) s"
proof -
  have send: "wp (coproc_send_rpc WLH_SERVICE_LINK m rid kind d c bytes)
      (\<lambda>r t. message_outcome s (coproc_envelope WLH_SERVICE_LINK m rid kind d c) msg r
        (t\<lparr>c_trace := CFree # c_trace t\<rparr>)) (s\<lparr>c_trace := CAlloc n ok # c_trace s\<rparr>)"
    if "encodes (c_pb s) msg bytes" for bytes n ok
    by (rule wp_call [OF link_rpc]) (rule message_outcomeI [OF link_outcome_alloc1 that])
  have empty: "wp (coproc_send_rpc WLH_SERVICE_LINK m rid kind d c [])
      (message_outcome s (coproc_envelope WLH_SERVICE_LINK m rid kind d c) msg) s"
    if "encodes (c_pb s) msg []"
    by (rule wp_call [OF link_rpc]) (rule message_outcomeI [OF _ that])
  show ?thesis
    unfolding coproc_send_rpc_message_def encode_message_def
    by (auto simp: wp_simps Let_def kept_refl message_failed encodes_def split: option.split
        intro!: wp_coproc_alloc send empty)
qed

section \<open>The start of a session\<close>

text \<open>The fields that only the Hello resets.\<close>

definition session_view :: "coproc \<Rightarrow> _" where
  "session_view s = (c_rx_sequence_valid s, c_wifi_initialize_pending s, c_bluetooth_pending s,
    c_eth_pending s, c_ota_pending s, c_ota_state s, c_ota_transfer_id s, c_bluetooth_tx_inflight s,
    c_bluetooth_adv_tx_inflight s, c_bluetooth_hci_stopped s)"

definition fresh_session :: "coproc \<Rightarrow> bool" where
  "fresh_session s \<longleftrightarrow> session_view s = (\<lambda>_. False, no_pending, no_pending, no_pending, no_pending,
    OTA_STATE_IDLE, 0, 0, 0, False)"

lemma sent_over_fields:
  assumes "sent_over s WLH_CHANNEL_LINK_CONTROL p t"
  shows "c_state t = c_state s" "c_session_id t = c_session_id s" "c_tx_credit t = c_tx_credit s"
    "c_tx_sequence t = (c_tx_sequence s)(0 := c_tx_sequence s 0 + 1)" "session_view t = session_view s"
    "c_config t = c_config s"
  by (subst conjunct2 [OF assms [unfolded sent_over_def]], simp add: session_view_def id_consts)+

lemma kept_fields:
  assumes "kept s t"
  shows "c_state t = c_state s" "c_session_id t = c_session_id s"
  using assms by (auto simp: kept_def with_effects_def)

lemma select_session_wp:
  "(\<And>selected n. selected \<noteq> 0 \<Longrightarrow> Q selected (s\<lparr>c_next_session_id := n\<rparr>)) \<Longrightarrow> wp select_session Q s"
  by (auto simp: select_session_def wp_simps)

lemma in_state_fields [simp]:
  "c_state (in_state st s) = st" "c_session_id (in_state st s) = c_session_id s"
  "c_tx_credit (in_state st s) = c_tx_credit s" "c_tx_sequence (in_state st s) = c_tx_sequence s"
  "c_trace (in_state st s) = c_trace s" "session_view (in_state st s) = session_view s"
  by (simp_all add: in_state_def session_view_def)

lemma session_view_upd [simp]:
  "session_view (t\<lparr>c_trace := tr, c_session_id := n\<rparr>) = session_view t"
  by (simp add: session_view_def)

text \<open>The credits of the response are the ones the coprocessor keeps.\<close>

lemma hello_credits_agree:
  "\<forall>credit \<in> set (hello_credits_offered s).
    hello_own_credit s before (ucast (ic_channel_id credit)) = ic_units credit"
  by (auto simp: hello_credits_offered_def hello_own_credit_def credit_of_def Let_def id_consts)

text \<open>What the host gets: the response with the session, in a frame of session 0.\<close>

definition hello_answer :: "rpc_envelope \<Rightarrow> u32 \<Rightarrow> u8 list \<Rightarrow> u8 list" where
  "hello_answer request sequence bytes = frame_bytes ((wlh_frame_header_init WLH_CHANNEL_LINK_CONTROL)
      \<lparr>fh_session_id := 0, fh_sequence := sequence\<rparr>)
    (rpc_bytes (coproc_envelope WLH_SERVICE_LINK WLH_LINK_METHOD_HELLO (re_request_id request)
      WLH_RPC_KIND_RESPONSE WLH_STATUS_DOMAIN_NONE WLH_STATUS_OK) bytes)"

definition session_started :: "coproc \<Rightarrow> rpc_envelope \<Rightarrow> coproc \<Rightarrow> bool" where
  "session_started s request t \<longleftrightarrow> c_state t = WLH_COPROC_STATE_READY \<and> c_session_id t \<noteq> 0 \<and>
    c_config t = c_config s \<and> (\<exists>offer bytes. c_config offer = c_config s \<and>
      encodes (c_pb s) (CMsg_HelloResponse (hello_response_of offer (c_session_id t))) bytes \<and>
      submitted_since s t (hello_answer request 0 bytes) \<and>
      (\<forall>credit \<in> set (hello_credits_offered offer).
        c_tx_credit t (ucast (ic_channel_id credit)) = ic_units credit))"

lemma submitted_more:
  "submitted_since s t f \<Longrightarrow> c_trace u = es @ c_trace t \<Longrightarrow> c_trace s = es' @ c_trace s' \<Longrightarrow> submitted_since s' u f"
  unfolding submitted_since_def by (metis Un_iff append_assoc set_append)

definition hello_outcome :: "coproc \<Rightarrow> rpc_envelope \<Rightarrow> coproc_result \<Rightarrow> coproc \<Rightarrow> bool" where
  "hello_outcome s request r t \<longleftrightarrow>
    (if r = WLH_COPROC_OK then session_started s request t \<and> session_view t = session_view s \<and>
      c_tx_sequence t = (c_tx_sequence s)(0 := 1)
    else c_state t = c_state s \<and> c_session_id t \<in> {0, c_session_id s})"

lemma hello_sent:
  fixes s0 :: coproc and selected :: u32
  defines "s1 \<equiv> s0\<lparr>c_tx_credit := hello_own_credit s0 (c_tx_credit s0), c_session_id := 0\<rparr>"
  assumes sent: "message_outcome s1 (coproc_envelope WLH_SERVICE_LINK WLH_LINK_METHOD_HELLO
      (re_request_id request) WLH_RPC_KIND_RESPONSE WLH_STATUS_DOMAIN_NONE WLH_STATUS_OK)
      (CMsg_HelloResponse (hello_response_of s0 selected)) WLH_COPROC_OK t"
    and s0: "c_trace s0 = es @ c_trace s" "c_pb s0 = c_pb s" "c_tx_sequence s0 = c_tx_sequence s"
      "session_view s0 = session_view s" "c_config s0 = c_config s"
    and selected: "selected \<noteq> 0" and seq: "c_tx_sequence s 0 = 0"
  shows "hello_outcome s request WLH_COPROC_OK
    (in_state WLH_COPROC_STATE_READY (t\<lparr>c_trace := CFree # c_trace t, c_session_id := selected\<rparr>))"
proof -
  let ?u = "in_state WLH_COPROC_STATE_READY (t\<lparr>c_trace := CFree # c_trace t, c_session_id := selected\<rparr>)"
  obtain bytes where enc: "encodes (c_pb s) (CMsg_HelloResponse (hello_response_of s0 selected)) bytes"
    and over: "sent_over s1 WLH_CHANNEL_LINK_CONTROL (rpc_bytes (coproc_envelope WLH_SERVICE_LINK
      WLH_LINK_METHOD_HELLO (re_request_id request) WLH_RPC_KIND_RESPONSE WLH_STATUS_DOMAIN_NONE
      WLH_STATUS_OK) bytes) t"
    using sent s0(2) by (auto simp: message_outcome_def s1_def)
  have "submitted_since s1 t (hello_answer request 0 bytes)"
    using over s0(3) seq
    by (simp add: sent_over_def coproc_out_frame_def hello_answer_def s1_def id_consts)
  then have "submitted_since s ?u (hello_answer request 0 bytes)"
    by (rule submitted_more [where es = "[CFree]" and es' = es]) (simp_all add: s1_def s0)
  moreover have "\<forall>credit \<in> set (hello_credits_offered s0).
      c_tx_credit ?u (ucast (ic_channel_id credit)) = ic_units credit"
    using hello_credits_agree [of s0 "c_tx_credit s0"] by (simp add: sent_over_fields [OF over] s1_def)
  moreover have "c_config ?u = c_config s"
    using sent_over_fields(6) [OF over] s0(5) by (simp add: in_state_def s1_def)
  ultimately have "session_started s request ?u"
    unfolding session_started_def using selected enc s0(5)
    by (auto intro!: exI [of _ s0] exI [of _ bytes])
  moreover have "session_view ?u = session_view s"
    using sent_over_fields(5) [OF over] s0(4) by (simp, simp add: session_view_def s1_def)
  moreover have "c_tx_sequence ?u = (c_tx_sequence s)(0 := 1)"
    using seq s0(3) by (simp add: sent_over_fields [OF over] s1_def)
  ultimately show ?thesis by (simp add: hello_outcome_def)
qed

lemma hello_response_wp:
  assumes "c_tx_sequence s 0 = 0"
  shows "wp (send_hello_response (re_request_id request)) (hello_outcome s request) s"
proof -
  let ?e = "coproc_envelope WLH_SERVICE_LINK WLH_LINK_METHOD_HELLO (re_request_id request)
    WLH_RPC_KIND_RESPONSE WLH_STATUS_DOMAIN_NONE WLH_STATUS_OK"
  have failed: "hello_outcome s request r (s\<lparr>c_trace := es @ c_trace s\<rparr>)" if "r \<noteq> WLH_COPROC_OK" for r es
    using that by (simp add: hello_outcome_def)
  have send: "wp (coproc_send_rpc_message WLH_SERVICE_LINK WLH_LINK_METHOD_HELLO (re_request_id request)
      WLH_RPC_KIND_RESPONSE WLH_STATUS_DOMAIN_NONE WLH_STATUS_OK
      (CMsg_HelloResponse (hello_response_of s0 selected)))
      (\<lambda>r t. if r = WLH_COPROC_OK
        then hello_outcome s request WLH_COPROC_OK
          (in_state WLH_COPROC_STATE_READY (t\<lparr>c_trace := CFree # c_trace t, c_session_id := selected\<rparr>))
        else hello_outcome s request r (t\<lparr>c_trace := CFree # c_trace t\<rparr>))
      (s0\<lparr>c_tx_credit := hello_own_credit s0 (c_tx_credit s0), c_session_id := 0\<rparr>)"
    if s0: "s0 = s\<lparr>c_trace := es @ c_trace s, c_next_session_id := n\<rparr>" and "selected \<noteq> 0" for s0 es n selected
  proof (rule wp_call [OF link_message])
    fix r t
    assume out: "message_outcome (s0\<lparr>c_tx_credit := hello_own_credit s0 (c_tx_credit s0), c_session_id := 0\<rparr>)
      ?e (CMsg_HelloResponse (hello_response_of s0 selected)) r t"
    show "if r = WLH_COPROC_OK
        then hello_outcome s request WLH_COPROC_OK
          (in_state WLH_COPROC_STATE_READY (t\<lparr>c_trace := CFree # c_trace t, c_session_id := selected\<rparr>))
        else hello_outcome s request r (t\<lparr>c_trace := CFree # c_trace t\<rparr>)"
    proof (cases "r = WLH_COPROC_OK")
      case True
      have "session_view s0 = session_view s" by (simp add: s0 session_view_def)
      with True show ?thesis
        using hello_sent [OF out [unfolded True], of es s] that assms by (simp add: s0)
    next
      case False
      then show ?thesis
        using out kept_fields by (fastforce simp: message_outcome_def hello_outcome_def s0)
    qed
  qed
  let ?s = "\<lambda>n. s\<lparr>c_trace := CAlloc 0 True # c_trace s, c_next_session_id := n\<rparr>"
  have send': "wp (coproc_send_rpc_message WLH_SERVICE_LINK WLH_LINK_METHOD_HELLO (re_request_id request)
      WLH_RPC_KIND_RESPONSE WLH_STATUS_DOMAIN_NONE WLH_STATUS_OK
      (CMsg_HelloResponse (hello_response_of (?s n) selected)))
      (\<lambda>a. wp (State_Monad.bind coproc_free (\<lambda>_. State_Monad.bind (whenM (a = WLH_COPROC_OK)
          (State_Monad.bind (modify (\<lambda>s. s\<lparr>c_session_id := selected\<rparr>))
            (\<lambda>_. coproc_set_state WLH_COPROC_STATE_READY))) (\<lambda>_. ret a))) (hello_outcome s request))
      ((?s n)\<lparr>c_tx_credit := hello_own_credit (?s n) (c_tx_credit s), c_session_id := 0\<rparr>)"
    if "selected \<noteq> 0" for n selected
  proof (rule wp_call)
    show "wp (coproc_send_rpc_message WLH_SERVICE_LINK WLH_LINK_METHOD_HELLO (re_request_id request)
      WLH_RPC_KIND_RESPONSE WLH_STATUS_DOMAIN_NONE WLH_STATUS_OK
      (CMsg_HelloResponse (hello_response_of (?s n) selected)))
      (\<lambda>r t. if r = WLH_COPROC_OK
        then hello_outcome s request WLH_COPROC_OK
          (in_state WLH_COPROC_STATE_READY (t\<lparr>c_trace := CFree # c_trace t, c_session_id := selected\<rparr>))
        else hello_outcome s request r (t\<lparr>c_trace := CFree # c_trace t\<rparr>))
      ((?s n)\<lparr>c_tx_credit := hello_own_credit (?s n) (c_tx_credit s), c_session_id := 0\<rparr>)"
      using send [where ?s0.0 = "?s n" and es = "[CAlloc 0 True]" and n = n and selected = selected] that by simp
  qed (auto simp: wp_simps split: if_splits)
  show ?thesis
    unfolding send_hello_response_def
    using failed [of _ "[CAlloc 0 False]"]
    by (auto simp: wp_simps send' intro!: wp_coproc_alloc select_session_wp)
qed

lemma hello_outcome_from:
  assumes "hello_outcome u request r t" and "c_pb u = c_pb s" "c_config u = c_config s"
    "c_trace u = es @ c_trace s"
    and "c_state u = c_state s" "c_session_id u = c_session_id s"
    and "fresh_session u" "c_tx_sequence u = (\<lambda>_. 0)"
  shows "if r = WLH_COPROC_OK
    then session_started s request t \<and> fresh_session t \<and> c_tx_sequence t = (\<lambda>_. 0)(0 := 1)
    else c_state t = c_state s \<and> c_session_id t \<in> {0, c_session_id s}"
proof -
  have "submitted_since u t f \<Longrightarrow> submitted_since s t f" for f
    using submitted_more [where es = "[]" and es' = es, of u t f t s] assms(4) by simp
  then have "session_started u request t \<Longrightarrow> session_started s request t"
    unfolding session_started_def assms(2,3) by blast
  then show ?thesis
    using assms by (auto simp: hello_outcome_def fresh_session_def)
qed

definition hello_reset :: "coproc \<Rightarrow> coproc \<Rightarrow> bool" where
  "hello_reset s u \<longleftrightarrow> c_pb u = c_pb s \<and> c_config u = c_config s \<and> (\<exists>es. c_trace u = es @ c_trace s) \<and> c_state u = c_state s \<and>
    c_session_id u = c_session_id s \<and> fresh_session u \<and> c_tx_sequence u = (\<lambda>_. 0)"

lemma ota_reset_fresh:
  assumes "c_pb u = c_pb s" "c_config u = c_config s" "c_trace u = es @ c_trace s" "c_state u = c_state s"
    "c_session_id u = c_session_id s"
  shows "wp ota_reset (\<lambda>_ v. hello_reset s (reset_ethernet_rx_completions v)) (reset_session_state u)"
  unfolding ota_reset_def
  by (auto simp: wp_simps Let_def hello_reset_def reset_session_state_def reset_ethernet_rx_completions_def
      fresh_session_def session_view_def assms intro!: wp_backend)

lemma hello_request_session:
  "case run_state (handle_hello_request header request message) s of (r, t) \<Rightarrow>
    let hello = (if fh_session_id header \<noteq> 0 then None else cpb_dec_hello_request (c_pb s) message);
      acceptable = (case hello of None \<Rightarrow> False
        | Some h \<Rightarrow> 1 \<in> set (hqm_protocol_majors h) \<and> 24 \<le> unat (hqm_max_frame_size h))
    in if r = WLH_COPROC_OK \<and> acceptable
      then session_started s request t \<and> fresh_session t \<and> c_tx_sequence t = (\<lambda>_. 0)(0 := 1)
      else c_state t = c_state s \<and> c_session_id t \<in> {0, c_session_id s}"
proof -
  have started: "wp (send_hello_response (re_request_id request)) (\<lambda>r t. if r = WLH_COPROC_OK
      then session_started s request t \<and> fresh_session t \<and> c_tx_sequence t = (\<lambda>_. 0)(0 := 1)
      else c_state t = c_state s \<and> c_session_id t \<in> {0, c_session_id s}) u" if "hello_reset s u" for u
    by (rule wp_call [OF hello_response_wp])
      (use that in \<open>auto simp: hello_reset_def elim: hello_outcome_from split del: if_split\<close>)
  define unchanged where "unchanged t \<longleftrightarrow> c_state t = c_state s \<and> c_session_id t \<in> {0, c_session_id s}" for t :: coproc
  have trace: "unchanged (s\<lparr>c_trace := tr\<rparr>)" for tr by (simp add: unchanged_def)
  have rejected: "wp (coproc_send_rpc WLH_SERVICE_LINK m rid kind d c p) (\<lambda>_. unchanged) u"
    if "c_state u = c_state s" "c_session_id u = c_session_id s" for m rid kind d c p u
    by (rule wp_call [OF link_rpc])
      (use that in \<open>auto simp: unchanged_def link_outcome_def kept_fields sent_over_fields split: if_splits\<close>)
  define after where "after r t \<longleftrightarrow> (if r = WLH_COPROC_OK
    then session_started s request t \<and> fresh_session t \<and> c_tx_sequence t = (\<lambda>_. 0)(0 := 1)
    else unchanged t)" for r t
  have failed: "after WLH_COPROC_BACKEND_ERROR (s\<lparr>c_trace := tr\<rparr>)" for tr
    by (simp add: after_def trace)
  have started': "wp (send_hello_response (re_request_id request)) after u" if "hello_reset s u" for u
    by (rule wp_call [OF started [OF that]]) (simp add: after_def unchanged_def split: if_splits)
  let ?hello = "if fh_session_id header \<noteq> 0 then None else cpb_dec_hello_request (c_pb s) message"
  have none: "wp (handle_hello_request header request message) (\<lambda>_. unchanged) s" if "?hello = None"
    unfolding handle_hello_request_def using that
    by (cases "fh_session_id header = 0") (auto simp: wp_simps trace intro!: wp_coproc_alloc)
  have bad: "wp (handle_hello_request header request message) (\<lambda>_. unchanged) s"
    if "fh_session_id header = 0 \<and> cpb_dec_hello_request (c_pb s) message = Some h" "\<not> (1 \<in> set (hqm_protocol_majors h) \<and> 24 \<le> unat (hqm_max_frame_size h))" for h
    unfolding handle_hello_request_def
    using that(2)
    by (auto simp: wp_simps Let_def that(1) trace list_ex_iff WLH_FRAME_HEADER_SIZE_def
        intro!: wp_coproc_alloc rejected)
  have good: "wp (handle_hello_request header request message) after s"
    if "fh_session_id header = 0 \<and> cpb_dec_hello_request (c_pb s) message = Some h" "1 \<in> set (hqm_protocol_majors h)" "24 \<le> unat (hqm_max_frame_size h)" for h
    unfolding handle_hello_request_def
    using that(2,3)
    by (auto simp: wp_simps Let_def that(1) failed list_ex_iff WLH_FRAME_HEADER_SIZE_def
        intro!: wp_coproc_alloc started' wp_call [OF ota_reset_fresh])
  show ?thesis
  proof (cases ?hello)
    case None
    from none [OF this] show ?thesis by (auto simp: wp_def None unchanged_def Let_def)
  next
    case (Some h)
    then have "fh_session_id header = 0 \<and> cpb_dec_hello_request (c_pb s) message = Some h"
      by (simp split: if_splits)
    from bad [OF this] good [OF this] show ?thesis
      by (cases "1 \<in> set (hqm_protocol_majors h) \<and> 24 \<le> unat (hqm_max_frame_size h)")
         (auto simp: wp_def Some unchanged_def after_def Let_def split: if_splits)
  qed
qed


end
