(* ===== verification/Coproc_Utf8.thy ===== *)
theory Coproc_Utf8
  imports Coproc_Kv
begin

text \<open>
  The UTF-8 check of the KV service against the definition of the encoding: \<open>utf8_encode\<close> writes
  one Unicode scalar value as RFC 3629 does, and the check accepts exactly the sequences of encoded
  scalar values.
\<close>

section \<open>The encoding\<close>

definition scalar_value :: "nat \<Rightarrow> bool" where
  "scalar_value c \<longleftrightarrow> c \<le> 0x10FFFF \<and> \<not> (0xD800 \<le> c \<and> c \<le> 0xDFFF)"

definition utf8_encode :: "nat \<Rightarrow> u8 list" where
  "utf8_encode c = map of_nat
    (if c < 0x80 then [c]
     else if c < 0x800 then [0xC0 + c div 64, 0x80 + c mod 64]
     else if c < 0x10000 then [0xE0 + c div 4096, 0x80 + c div 64 mod 64, 0x80 + c mod 64]
     else [0xF0 + c div 262144, 0x80 + c div 4096 mod 64, 0x80 + c div 64 mod 64, 0x80 + c mod 64])"

section \<open>Bytes as numbers\<close>

lemma all_bytes: "list_all (\<lambda>n. P (of_nat n :: u8)) [0..<256] \<Longrightarrow> P b"
proof -
  assume "list_all (\<lambda>n. P (of_nat n :: u8)) [0..<256]"
  moreover have "unat b < 256"
    using unsigned_less [of b, where ?'a = nat] by simp
  ultimately have "P (of_nat (unat b))"
    unfolding list_all_iff by (elim bspec) simp
  then show "P b" by simp
qed

definition lead_of :: "nat \<Rightarrow> (nat \<times> u32) option" where
  "lead_of n = (if 194 \<le> n \<and> n \<le> 223 then Some (1, of_nat (n - 192))
    else if 224 \<le> n \<and> n \<le> 239 then Some (2, of_nat (n - 224))
    else if 240 \<le> n \<and> n \<le> 244 then Some (3, of_nat (n - 240)) else None)"

lemma utf8_lead_nat: "utf8_lead b = lead_of (unat b)"
  by (rule all_bytes [where P = "\<lambda>b. utf8_lead b = lead_of (unat b)"]) code_simp

lemma continuation_nat:
  "b AND 0xc0 = 0x80 \<longleftrightarrow> 128 \<le> unat b \<and> unat b < 192"
  "b AND 0x3f = of_nat (unat b mod 64)" for b :: u8
  by (rule all_bytes [where P = "\<lambda>b. b AND 0xc0 = 0x80 \<longleftrightarrow> 128 \<le> unat b \<and> unat b < 192"], code_simp)
    (rule all_bytes [where P = "\<lambda>b. b AND 0x3f = of_nat (unat b mod 64)"], code_simp)

lemma shift_in: "r < 64 \<Longrightarrow> push_bit 6 (of_nat x :: u32) OR of_nat r = of_nat (x * 64 + r)"
proof -
  assume "r < 64"
  have low: "take_bit 6 (of_nat r :: u32) = of_nat r"
  proof -
    have "take_bit 6 r = r"
      using \<open>r < 64\<close> by (simp add: take_bit_nat_eq_self)
    then show ?thesis
      by (metis of_nat_take_bit)
  qed
  have "bit (of_nat r :: u32) n \<Longrightarrow> n < 6" for n
    using low by (metis bit_take_bit_iff)
  then have "push_bit 6 (of_nat x :: u32) OR of_nat r = push_bit 6 (of_nat x) + of_nat r"
    by (intro disjunctive_add [symmetric]) (metis bit_push_bit_iff not_le)
  then show ?thesis
    by (simp add: push_bit_eq_mult)
qed

definition tail_byte :: "u8 \<Rightarrow> bool" where
  "tail_byte b \<longleftrightarrow> 128 \<le> unat b \<and> unat b < 192"

lemma utf8_continue_step:
  "utf8_continue (of_nat x) (b # bs) =
    (if tail_byte b then utf8_continue (of_nat (x * 64 + (unat b - 128))) bs else None)"
proof -
  have "x mod 64 = x - 128" if "128 \<le> x" "x < 192" for x :: nat
  proof -
    have "(x - 128 + 2 * 64) mod 64 = x - 128"
      unfolding mod_mult_self1 using that by simp
    with that show ?thesis by simp
  qed
  then have "unat b mod 64 = unat b - 128" if "tail_byte b"
    using that by (simp add: tail_byte_def)
  moreover have "take_bit 8 (unat b - 128) = unat b - 128"
    using unsigned_less [of b, where ?'a = nat] by (intro take_bit_nat_eq_self) (simp add: less_imp_diff_less)
  moreover have "unat b mod 64 < 64"
    by simp
  ultimately show ?thesis
    using shift_in [of "unat b mod 64" x]
    by (cases "tail_byte b")
      (simp_all add: continuation_nat tail_byte_def [symmetric] unsigned_of_nat)
qed

section \<open>One character\<close>

text \<open>What the check does with the bytes after the lead, and how many there are.\<close>

lemma utf8_continue_nil: "utf8_continue x [] = Some x"
  by simp

lemmas continue_steps = utf8_continue_step utf8_continue_nil

lemma code_point_ok:
  assumes "x < 2 ^ 32"
  shows "utf8_code_point_ok extra (of_nat x) \<longleftrightarrow>
    \<not> (extra = 2 \<and> x < 0x800) \<and> \<not> (extra = 3 \<and> x < 0x10000) \<and> scalar_value x"
proof -
  have "unat (of_nat x :: u32) = x"
    using assms by (simp add: unsigned_of_nat take_bit_nat_eq_self)
  then show ?thesis
    by (auto simp: utf8_code_point_ok_def scalar_value_def word_less_nat_alt word_le_nat_alt)
qed

lemma lead_of_cases:
  "lead_of n = Some (extra, x) \<longleftrightarrow>
    (extra = 1 \<and> 194 \<le> n \<and> n \<le> 223 \<and> x = of_nat (n - 192)) \<or>
    (extra = 2 \<and> 224 \<le> n \<and> n \<le> 239 \<and> x = of_nat (n - 224)) \<or>
    (extra = 3 \<and> 240 \<le> n \<and> n \<le> 244 \<and> x = of_nat (n - 240))"
  by (auto simp: lead_of_def)

text \<open>The bytes as numbers: the lead's and the tails' bits put together.\<close>

lemma utf8_char2:
  assumes "194 \<le> l" "l \<le> 223" "128 \<le> a" "a < 192"
  shows "utf8_encode ((l - 192) * 64 + (a - 128)) = [of_nat l, of_nat a]"
    and "scalar_value ((l - 192) * 64 + (a - 128))"
proof -
  define i j where "i = l - 192" and "j = a - 128"
  then have l: "l = 192 + i" and a: "a = 128 + j" and ij: "2 \<le> i" "i < 32" "j < 64"
    using assms by simp_all
  have parts: "(i * 64 + j) div 64 = i" "(i * 64 + j) mod 64 = j"
    using ij(3) by simp_all
  have range: "128 \<le> i * 64 + j" "i * 64 + j < 2048"
    using ij by simp_all
  show "utf8_encode ((l - 192) * 64 + (a - 128)) = [of_nat l, of_nat a]"
    using range ij by (simp add: utf8_encode_def l a parts)
  show "scalar_value ((l - 192) * 64 + (a - 128))"
    using range by (simp add: l a scalar_value_def)
qed

lemma div_mod_64:
  "k < 64 \<Longrightarrow> (x * 64 + k) div 64 = x" "k < 64 \<Longrightarrow> (x * 64 + k) mod 64 = k" for x k :: nat
  by simp_all

lemma utf8_char3:
  assumes "224 \<le> l" "l \<le> 239" "128 \<le> a" "a < 192" "128 \<le> b" "b < 192"
    and "c = ((l - 224) * 64 + (a - 128)) * 64 + (b - 128)" and "0x800 \<le> c"
  shows "utf8_encode c = [of_nat l, of_nat a, of_nat b]"
proof -
  define i j k where "i = l - 224" and "j = a - 128" and "k = b - 128"
  then have l: "l = 224 + i" and a: "a = 128 + j" and b: "b = 128 + k" and ijk: "i < 16" "j < 64" "k < 64"
    using assms(1-6) by simp_all
  have c: "c = (i * 64 + j) * 64 + k"
    using assms(7) by (simp add: l a b)
  have parts: "c div 64 = i * 64 + j" "c mod 64 = k" "(i * 64 + j) div 64 = i" "(i * 64 + j) mod 64 = j"
    unfolding c by (simp_all only: div_mod_64 [OF ijk(2)] div_mod_64 [OF ijk(3)])
  have "c div 4096 = c div 64 div 64"
    by (simp add: div_mult2_eq [symmetric])
  then have "c div 4096 = i"
    by (simp add: parts)
  moreover have "c < 0x10000"
    using ijk by (simp add: c)
  ultimately show ?thesis
    using assms(8) parts by (simp add: utf8_encode_def l a b)
qed

lemma utf8_char4:
  assumes "240 \<le> l" "l \<le> 244" "128 \<le> a" "a < 192" "128 \<le> b" "b < 192" "128 \<le> d" "d < 192"
    and "c = (((l - 240) * 64 + (a - 128)) * 64 + (b - 128)) * 64 + (d - 128)" and "0x10000 \<le> c"
  shows "utf8_encode c = [of_nat l, of_nat a, of_nat b, of_nat d]"
proof -
  define i j k m where "i = l - 240" and "j = a - 128" and "k = b - 128" and "m = d - 128"
  then have l: "l = 240 + i" and a: "a = 128 + j" and b: "b = 128 + k" and d: "d = 128 + m"
    and ijk: "j < 64" "k < 64" "m < 64"
    using assms(1-8) by simp_all
  have c: "c = ((i * 64 + j) * 64 + k) * 64 + m"
    using assms(9) by (simp add: l a b d)
  have parts: "c div 64 = (i * 64 + j) * 64 + k" "c mod 64 = m"
    "((i * 64 + j) * 64 + k) div 64 = i * 64 + j" "((i * 64 + j) * 64 + k) mod 64 = k"
    "(i * 64 + j) div 64 = i" "(i * 64 + j) mod 64 = j"
    unfolding c
    by (simp_all only: div_mod_64 [OF ijk(1)] div_mod_64 [OF ijk(2)] div_mod_64 [OF ijk(3)])
  have "c div 4096 = c div 64 div 64" "c div 262144 = c div 64 div 64 div 64"
    by (simp_all add: div_mult2_eq [symmetric])
  then have "c div 4096 = i * 64 + j" "c div 262144 = i"
    by (simp_all only: parts)
  then show ?thesis
    using assms(10) parts by (simp add: utf8_encode_def l a b d)
qed

section \<open>Encodings are accepted\<close>

lemma unat_of_byte: "n < 256 \<Longrightarrow> unat (of_nat n :: u8) = n"
  by (simp add: unsigned_of_nat take_bit_nat_eq_self)

lemma tail_of_nat [simp]: "r < 64 \<Longrightarrow> tail_byte (of_nat (128 + r))"
    "r < 64 \<Longrightarrow> unat (of_nat (128 + r) :: u8) - 128 = r"
  using unat_of_byte [of "128 + r"] by (simp_all add: tail_byte_def del: of_nat_add)

lemma ascii_byte: "b < 0x80 \<longleftrightarrow> unat b < 128" for b :: u8
  by (simp add: word_less_nat_alt)

lemma utf8_valid_lead:
  "128 \<le> unat l \<Longrightarrow> utf8_valid (l # rest) =
    (case lead_of (unat l) of None \<Rightarrow> False | Some (extra, x) \<Rightarrow> extra \<le> length rest \<and>
      (case utf8_continue x (take extra rest) of None \<Rightarrow> False
        | Some x \<Rightarrow> utf8_code_point_ok extra x \<and> utf8_valid (drop extra rest)))"
  by (auto simp: ascii_byte utf8_lead_nat not_less split: option.split)

lemma utf8_valid_of:
  "128 \<le> n \<Longrightarrow> n < 256 \<Longrightarrow> utf8_valid (of_nat n # rest) =
    (case lead_of n of None \<Rightarrow> False | Some (extra, x) \<Rightarrow> extra \<le> length rest \<and>
      (case utf8_continue x (take extra rest) of None \<Rightarrow> False
        | Some x \<Rightarrow> utf8_code_point_ok extra x \<and> utf8_valid (drop extra rest)))"
  by (subst utf8_valid_lead) (simp_all add: unat_of_byte)

lemma utf8_valid_encode:
  assumes c: "scalar_value c"
  shows "utf8_valid (utf8_encode c @ rest) = utf8_valid rest"
proof -
  have below: "c < 0x110000"
    using c by (simp add: scalar_value_def)
  note step = utf8_valid_of utf8_continue_step tail_of_nat
  note no = utf8_valid.simps utf8_continue.simps of_nat_add
  consider "c < 0x80" | "0x80 \<le> c" "c < 0x800" | "0x800 \<le> c" "c < 0x10000" | "0x10000 \<le> c"
    by linarith
  then show ?thesis
  proof cases
    case 1
    then show ?thesis
      by (simp add: utf8_encode_def ascii_byte unat_of_byte)
  next
    case 2
    define i where "i = c div 64"
    have i: "2 \<le> i" "i < 32" and ci: "i * 64 + c mod 64 = c"
      using 2 by (simp_all add: i_def)
    have bytes: "utf8_encode c = [of_nat (192 + i), of_nat (128 + c mod 64)]"
      using 2 by (simp add: utf8_encode_def i_def)
    have "lead_of (192 + i) = Some (1, of_nat i)"
      using i by (simp add: lead_of_def)
    then show ?thesis
      using c i below by (simp add: bytes step ci code_point_ok utf8_continue_nil del: no)
  next
    case 3
    define i j where "i = c div 4096" and "j = c div 64 mod 64"
    have i: "i < 16" and j: "j < 64" and ci: "(i * 64 + j) * 64 + c mod 64 = c"
      using 3 by (simp_all add: i_def j_def div_mult2_eq [of c 64 64, simplified])
    have bytes: "utf8_encode c = [of_nat (224 + i), of_nat (128 + j), of_nat (128 + c mod 64)]"
      using 3 by (simp add: utf8_encode_def i_def j_def)
    have "lead_of (224 + i) = Some (2, of_nat i)"
      using i by (simp add: lead_of_def)
    then show ?thesis
      using c i j 3 below ci by (simp add: bytes step code_point_ok utf8_continue_nil del: no)
  next
    case 4
    define i j k where "i = c div 262144" and "j = c div 4096 mod 64" and "k = c div 64 mod 64"
    have i: "i < 5" and jk: "j < 64" "k < 64" and ci: "((i * 64 + j) * 64 + k) * 64 + c mod 64 = c"
      using 4 below by (simp_all add: i_def j_def k_def div_mult2_eq [of c 64 64, simplified]
          div_mult2_eq [of c 64 4096, simplified] div_mult2_eq [of "c div 64" 64 64, simplified])
    have bytes: "utf8_encode c =
        [of_nat (240 + i), of_nat (128 + j), of_nat (128 + k), of_nat (128 + c mod 64)]"
      using 4 by (simp add: utf8_encode_def i_def j_def k_def)
    have "lead_of (240 + i) = Some (3, of_nat i)"
      using i by (simp add: lead_of_def)
    then show ?thesis
      using c i jk 4 below ci by (simp add: bytes step code_point_ok utf8_continue_nil del: no)
  qed
qed

section \<open>What is accepted is an encoding\<close>

lemma utf8_encode_not_Nil [simp]: "utf8_encode c \<noteq> []"
  by (simp add: utf8_encode_def)

lemma of_nat_byte [simp]: "(of_nat (unat b) :: u8) = b"
  by simp

text \<open>An accepted string starts with the encoding of a scalar value.\<close>

lemma utf8_valid_first:
  assumes valid: "utf8_valid (l # bs)"
  obtains c rest where "scalar_value c" "l # bs = utf8_encode c @ rest" "utf8_valid rest"
    "length rest \<le> length bs"
proof (cases "unat l < 128")
  case True
  then show thesis
    using that [of "unat l" bs] valid by (simp add: utf8_encode_def scalar_value_def ascii_byte)
next
  case False
  note lead = valid [unfolded utf8_valid_lead [OF False [unfolded not_less]]]
  then obtain extra x where x: "lead_of (unat l) = Some (extra, x)" and n: "extra \<le> length bs"
    by (auto split: option.splits)
  from x consider (2) "extra = 1" "194 \<le> unat l" "unat l \<le> 223" "x = of_nat (unat l - 192)"
    | (3) "extra = 2" "224 \<le> unat l" "unat l \<le> 239" "x = of_nat (unat l - 224)"
    | (4) "extra = 3" "240 \<le> unat l" "unat l \<le> 244" "x = of_nat (unat l - 240)"
    by (auto simp: lead_of_cases)
  then show thesis
  proof cases
    case 2
    define n where "n = unat l - 192"
    note x' = 2(4) [folded n_def]
    obtain a rest where bs: "bs = a # rest"
      using n 2(1) by (cases bs) auto
    have a: "tail_byte a" and rest: "utf8_valid rest"
      using lead x 2(1) x' by (auto simp: bs utf8_continue_step utf8_continue_nil
      simp del: utf8_continue.simps split: if_splits)
    show thesis
      using that [OF utf8_char2(2), of "unat l" "unat a" rest] utf8_char2(1) [of "unat l" "unat a"]
        2 a rest by (simp add: bs tail_byte_def)
  next
    case 3
    define n where "n = unat l - 224"
    note x' = 3(4) [folded n_def]
    obtain a b rest where bs: "bs = a # b # rest"
      using n 3(1) by (cases bs; cases "tl bs") auto
    define c where "c = (n * 64 + (unat a - 128)) * 64 + (unat b - 128)"
    have tails: "tail_byte a" "tail_byte b" and rest: "utf8_valid rest"
      and ok: "utf8_code_point_ok 2 (of_nat c)"
      using lead x 3(1) x'
      by (auto simp: bs utf8_continue_step utf8_continue_nil c_def simp del: utf8_continue.simps of_nat_add of_nat_mult of_nat_diff
          split: if_splits)
    have "n < 16" "unat a - 128 < 64" "unat b - 128 < 64"
      using 3 tails by (auto simp: n_def tail_byte_def)
    then have "c < 2 ^ 32"
      unfolding c_def by simp
    then have c: "scalar_value c" "0x800 \<le> c"
      using ok by (auto simp: code_point_ok)
    have "utf8_encode c = [l, a, b]"
      using utf8_char3 [OF _ _ _ _ _ _ c_def [unfolded n_def] c(2)] 3 tails by (simp add: tail_byte_def)
    then show thesis
      using that [of c rest] c rest by (simp add: bs)
  next
    case 4
    define n where "n = unat l - 240"
    note x' = 4(4) [folded n_def]
    obtain a b d rest where bs: "bs = a # b # d # rest"
      using n 4(1) by (cases bs; cases "tl bs"; cases "tl (tl bs)") auto
    define c where
      "c = ((n * 64 + (unat a - 128)) * 64 + (unat b - 128)) * 64 + (unat d - 128)"
    have tails: "tail_byte a" "tail_byte b" "tail_byte d" and rest: "utf8_valid rest"
      and ok: "utf8_code_point_ok 3 (of_nat c)"
      using lead x 4(1) x'
      by (auto simp: bs utf8_continue_step utf8_continue_nil c_def simp del: utf8_continue.simps of_nat_add of_nat_mult of_nat_diff
          split: if_splits)
    have "n < 16" "unat a - 128 < 64" "unat b - 128 < 64" "unat d - 128 < 64"
      using 4 tails by (auto simp: n_def tail_byte_def)
    then have "c < 2 ^ 32"
      unfolding c_def by simp
    then have c: "scalar_value c" "0x10000 \<le> c"
      using ok by (auto simp: code_point_ok)
    have "utf8_encode c = [l, a, b, d]"
      using utf8_char4 [OF _ _ _ _ _ _ _ _ c_def [unfolded n_def] c(2)] 4 tails by (simp add: tail_byte_def)
    then show thesis
      using that [of c rest] c rest by (simp add: bs)
  qed
qed

text \<open>C16: The UTF-8 check accepts exactly the well-formed UTF-8 strings: those that are the
  encoding of a sequence of Unicode scalar values, in the shortest form and without surrogates.\<close>

theorem utf8_valid_correct:
  "utf8_valid bs \<longleftrightarrow> (\<exists>cs. list_all scalar_value cs \<and> bs = concat (map utf8_encode cs))"
proof
  show "\<exists>cs. list_all scalar_value cs \<and> bs = concat (map utf8_encode cs)" if "utf8_valid bs"
    using that
  proof (induction "length bs" arbitrary: bs rule: less_induct)
    case less
    show ?case
    proof (cases bs)
      case Nil
      then show ?thesis by (intro exI [of _ "[]"]) simp
    next
      case (Cons l rest)
      obtain c rest' where c: "scalar_value c" "bs = utf8_encode c @ rest'" "utf8_valid rest'"
          "length rest' \<le> length rest"
        using utf8_valid_first less.prems Cons by blast
      then obtain cs where "list_all scalar_value cs" "rest' = concat (map utf8_encode cs)"
        using less.hyps [of rest'] Cons by auto
      with c show ?thesis
        by (intro exI [of _ "c # cs"]) simp
    qed
  qed
next
  have "utf8_valid (concat (map utf8_encode cs))" if "list_all scalar_value cs" for cs
    using that by (induction cs) (simp_all add: utf8_valid_encode)
  then show "\<exists>cs. list_all scalar_value cs \<and> bs = concat (map utf8_encode cs) \<Longrightarrow> utf8_valid bs"
    by auto
qed

end
