(* ===== verification/Coproc_Kv_Spec.thy ===== *)
theory Coproc_Kv_Spec
  imports Coproc_Session Coproc_Utf8
begin

text \<open>
  What the key-value service passes to its backend (coproc-core/src/coproc_kv.c).
\<close>

section \<open>Backend calls of a piece of the run\<close>

fun backend_call_of :: "coproc_effect \<Rightarrow> backend_call list" where
  "backend_call_of (CBackend call _) = [call]"
| "backend_call_of _ = []"

text \<open>Oldest first.\<close>

definition backend_calls :: "coproc_effect list \<Rightarrow> backend_call list" where
  "backend_calls es = concat (map backend_call_of (rev es))"

lemma backend_calls_simps [simp]:
  "backend_calls [] = []" "backend_calls (e # es) = backend_calls es @ backend_call_of e"
  "backend_calls (es @ es') = backend_calls es' @ backend_calls es"
  by (simp_all add: backend_calls_def)

text \<open>\<open>asks calls s t\<close>: from \<open>s\<close> to \<open>t\<close> the backends were asked these calls, in this order.\<close>

definition asks :: "backend_call list \<Rightarrow> coproc \<Rightarrow> coproc \<Rightarrow> bool" where
  "asks calls s t \<longleftrightarrow> (\<exists>es. c_trace t = es @ c_trace s \<and> backend_calls es = calls)"

lemma asks_trans: "asks a s t \<Longrightarrow> asks b t u \<Longrightarrow> asks (a @ b) s u"
  by (fastforce simp: asks_def)

lemma asks_refl: "asks [] s s"
  by (simp add: asks_def)

lemma asks_same: "c_trace t = c_trace s \<Longrightarrow> asks [] s t"
  by (simp add: asks_def)

lemma asks_effect: "backend_call_of e = calls \<Longrightarrow> c_trace t = e # c_trace s \<Longrightarrow> asks calls s t"
  unfolding asks_def by (rule exI [of _ "[e]"]) simp

lemma asks_cons: "backend_call_of e = [] \<Longrightarrow> asks [] s (s\<lparr>c_trace := e # c_trace s\<rparr>)"
  by (rule asks_effect) simp_all

interpretation silent: state_rel "asks []"
  by unfold_locales (use asks_refl asks_trans [of "[]" _ _ "[]"] in auto)

lemma kv_silent_update: "(\<And>s. c_trace (f s) = c_trace s) \<Longrightarrow> state_io_rel (asks []) (modify f)"
  by (rule silent.rel_update) (simp add: asks_same)

lemma silent_prims:
  "state_io_rel (asks []) coproc_free" "state_io_rel (asks []) (coproc_alloc n)"
  "state_io_rel (asks []) (coproc_submit_tx f)" "state_io_rel (asks []) (coproc_diag g)"
  "state_io_rel (asks []) (coproc_set_state st)"
  by (rule silent.rel_wpI, (rule wp_coproc_env)?, simp add: wp_simps asks_cons asks_same in_state_def)+

lemmas silents = silent_prims kv_silent_update silent.rel_rules

lemma silent_sends:
  "state_io_rel (asks []) (coproc_send_payload_units ch p u)"
  "state_io_rel (asks []) (coproc_send_payload ch p)"
  "state_io_rel (asks []) (coproc_send_rpc sv m r k d c p)"
  "state_io_rel (asks []) (coproc_send_rpc_message sv m r k d c msg)"
  "state_io_rel (asks []) (send_empty_response q d c)"
  "state_io_rel (asks []) (send_service_error q d st)"
  "state_io_rel (asks []) (send_not_supported q)"
proof -
  show units: "state_io_rel (asks []) (coproc_send_payload_units ch p u)" for ch p u
    unfolding coproc_send_payload_units_def Let_def by (intro silents; simp)
  show payload: "state_io_rel (asks []) (coproc_send_payload ch p)" for ch p
    unfolding coproc_send_payload_def by (rule units)
  show rpc: "state_io_rel (asks []) (coproc_send_rpc sv m r k d c p)" for sv m r k d c p
    unfolding coproc_send_rpc_def Let_def by (intro silents payload)
  show "state_io_rel (asks []) (coproc_send_rpc_message sv m r k d c msg)"
    unfolding coproc_send_rpc_message_def by (intro silents rpc)
  show response: "state_io_rel (asks []) (send_empty_response q d c)" for q d c
    unfolding send_empty_response_def by (rule rpc)
  show "state_io_rel (asks []) (send_not_supported q)"
    unfolding send_not_supported_def by (rule response)
  show "state_io_rel (asks []) (send_service_error q d st)"
    unfolding send_service_error_def by (rule rpc)
qed

section \<open>The key-value service\<close>

text \<open>What the backend is asked for a request: nothing unless the buffer is granted, the method is known,
  the message decodes, its key is a non-empty UTF-8 string and, for a write, its value is a UTF-8
  string, and the backend has the operation.\<close>

definition kv_asked_for :: "coproc_config \<Rightarrow> kv_message \<Rightarrow> backend_call list" where
  "kv_asked_for c m = (
    if kv_message_key m = [] \<or> \<not> utf8_valid (kv_message_key m) then []
    else case m of
      Kv_message_read key \<Rightarrow>
        (if ccfg_kv_read c = None then [] else [Kv_read_key (char_array_string key)])
    | Kv_message_write w \<Rightarrow>
        (if \<not> utf8_valid (char_array_string (kwm_value w)) \<or> ccfg_kv_write c = None then []
         else [Kv_write (char_array_string (kwm_key w)) (char_array_string (kwm_value w))])
    | Kv_message_erase key \<Rightarrow>
        (if ccfg_kv_erase c = None then [] else [Kv_erase (char_array_string key)]))"

definition kv_asked :: "coproc \<Rightarrow> rpc_envelope \<Rightarrow> u8 list \<Rightarrow> backend_call list" where
  "kv_asked s request message = (
    if re_method_id request \<notin> {WLH_KV_METHOD_READ, WLH_KV_METHOD_WRITE, WLH_KV_METHOD_ERASE} \<or>
      \<not> the (ccfg_alloc (c_config s)) (length (c_trace s)) then []
    else case decode_kv_message (c_pb s) (re_method_id request) message of
      None \<Rightarrow> []
    | Some m \<Rightarrow> kv_asked_for (c_config s) m)"

definition kv_string :: "u8 list \<Rightarrow> bool" where
  "kv_string bs \<longleftrightarrow> 0 \<notin> set bs \<and> utf8_valid bs"

fun kv_call_ok :: "backend_call \<Rightarrow> bool" where
  "kv_call_ok (Kv_read_key key) = (key \<noteq> [] \<and> kv_string key)"
| "kv_call_ok (Kv_write key value) = (key \<noteq> [] \<and> kv_string key \<and> kv_string value)"
| "kv_call_ok (Kv_erase key) = (key \<noteq> [] \<and> kv_string key)"
| "kv_call_ok _ = False"

lemma kv_asked_ok: "list_all kv_call_ok (kv_asked s request message)"
  by (auto simp: kv_asked_def kv_asked_for_def kv_message_key_def kv_string_def char_array_string_def
      dest!: set_takeWhileD split: option.split kv_message.split)

lemma asks_wp:
  assumes "asks a s t" "asks b t u" "c = a @ b"
  shows "asks c s u"
  using asks_trans [OF assms(1,2)] assms(3) by simp

lemma silent_wp: "state_io_rel (asks []) m \<Longrightarrow> asks a s t \<Longrightarrow> wp m (\<lambda>_ u. asks a s u) t"
  by (rule silent.rel_wp) (auto intro: asks_wp)

lemma kv_backend_asks:
  assumes "\<not> (kv_message_key m = [] \<or> \<not> utf8_valid (kv_message_key m))" "asks [] s t" "c_config t = c_config s"
  shows "wp (kv_backend m) (\<lambda>_ u. asks (kv_asked_for (c_config s) m) s u) t"
proof -
  have one: "asks [call] s (t\<lparr>c_trace := CBackend call status # c_trace t\<rparr>)" for call status
    by (rule asks_wp [OF assms(2) asks_effect]) simp_all
  show ?thesis
    using assms
    by (cases m) (auto simp: kv_asked_for_def optional_backend_def wp_simps one
        intro!: wp_backend wp_backend_value)
qed

text \<open>The replies ask nothing, and neither do the buffer's allocation and release.\<close>

lemma kv_replies:
  "asks a s t \<Longrightarrow> wp (send_not_supported request) (\<lambda>_ u. asks a s u) t"
  "asks a s t \<Longrightarrow> wp (send_service_error request d st) (\<lambda>_ u. asks a s u) t"
  "asks a s t \<Longrightarrow> wp (send_empty_response request d c) (\<lambda>_ u. asks a s u) t"
  "asks a s t \<Longrightarrow> wp (coproc_send_rpc_message sv m rid k d c msg) (\<lambda>_ u. asks a s u) t"
  by (rule silent_wp [OF silent_sends(7)] silent_wp [OF silent_sends(6)] silent_wp [OF silent_sends(5)]
      silent_wp [OF silent_sends(4)], assumption)+

abbreviation granted :: "bool \<Rightarrow> coproc \<Rightarrow> coproc" where
  "granted ok s \<equiv> s\<lparr>c_trace := CAlloc 0 ok # c_trace s\<rparr>"

lemma asks_granted: "asks [] s (granted ok s)"
  by (rule asks_cons) simp

lemma asks_free: "asks a s t \<Longrightarrow> asks a s (t\<lparr>c_trace := CFree # c_trace t\<rparr>)"
  by (rule asks_wp [OF _ asks_cons]) simp_all

lemma asks_granted_free: "asks [] s (s\<lparr>c_trace := CFree # CAlloc 0 ok # c_trace s\<rparr>)"
  using asks_free [OF asks_granted [of s ok]] by simp

lemmas kv_request_simps = handle_kv_request_def coproc_alloc_def wp_simps Let_def asks_granted
  asks_granted_free

lemma kv_not_started:
  assumes "\<not> (re_method_id request \<in> {WLH_KV_METHOD_READ, WLH_KV_METHOD_WRITE, WLH_KV_METHOD_ERASE} \<and>
      the (ccfg_alloc (c_config s)) (length (c_trace s)))"
  shows "wp (handle_kv_request request message) (\<lambda>_ t. asks [] s t) s"
  using assms by (auto simp: kv_request_simps kv_replies asks_refl)

lemma kv_started:
  assumes "re_method_id request \<in> {WLH_KV_METHOD_READ, WLH_KV_METHOD_WRITE, WLH_KV_METHOD_ERASE}"
    and "the (ccfg_alloc (c_config s)) (length (c_trace s))"
  shows "wp (handle_kv_request request message) (\<lambda>_ t. asks (case decode_kv_message (c_pb s) (re_method_id request) message of
    None \<Rightarrow> [] | Some m \<Rightarrow> kv_asked_for (c_config s) m) s t) s"
proof (cases "decode_kv_message (c_pb s) (re_method_id request) message")
  case None
  with assms show ?thesis
    by (auto simp: kv_request_simps asks_free)
next
  case (Some m)
  show ?thesis
  proof (cases "kv_message_key m = [] \<or> \<not> utf8_valid (kv_message_key m)")
    case bad: True
    then have "kv_asked_for (c_config s) m = []" by (auto simp: kv_asked_for_def)
    with assms Some bad show ?thesis
      by (auto simp: kv_request_simps asks_free kv_replies)
  next
    case good: False
    have "wp (kv_backend m) (\<lambda>_ u. asks (kv_asked_for (c_config s) m) s u) (granted True s)"
      by (rule kv_backend_asks [OF good asks_granted]) simp
    with assms Some good show ?thesis
      by (auto simp: kv_request_simps intro!: wp_call [OF \<open>wp (kv_backend m) _ _\<close>] kv_replies(2,3)
          asks_free kv_replies(4) [THEN wp_call] split: option.split)
  qed
qed

lemma kv_request_asks: "wp (handle_kv_request request message) (\<lambda>_ t. asks (kv_asked s request message) s t) s"
  using kv_not_started [of request s message] kv_started [of request s message]
  by (cases "re_method_id request \<in> {WLH_KV_METHOD_READ, WLH_KV_METHOD_WRITE, WLH_KV_METHOD_ERASE} \<and>
      the (ccfg_alloc (c_config s)) (length (c_trace s))") (simp_all add: kv_asked_def)

text \<open>C20: What reaches the key-value store (\<open>handle_kv_request\<close>), on every branch. The backend is asked
  exactly once for a request whose method is known, which decodes and whose strings pass the checks, with
  these strings, and not at all for any other one; so whatever the host sends, the keys and
  values the store sees are well-formed UTF-8 strings without NUL and no key is empty.\<close>

theorem coproc_kv_backend_guarded:
  "case run_state (handle_kv_request request message) s of (r, t) \<Rightarrow>
    asks (kv_asked s request message) s t \<and> list_all kv_call_ok (kv_asked s request message)"
  using kv_request_asks [of request message s] kv_asked_ok by (auto simp: wp_def split: prod.splits)

end
