(* ===== verification/Posix_Monitor.thy ===== *)
theory Posix_Monitor
  imports Osal
begin

text \<open>
  The blocking discipline of the POSIX OS layer (common/osal/src/posix_osal.c). Its semaphores,
  event flags and queues are monitors: a call takes the object's mutex within its timeout, tests
  a condition in a loop, sleeps on a condition variable while the test fails, and otherwise acts on
  the object, wakes sleepers and returns. What a thread does between taking the mutex and giving it
  back (or sleeping, which gives it back) is one step, since no other thread can see the object in
  between. \<open>monitor_step\<close> interleaves the steps of any number of threads.

  The answers of pthread and the clock are inputs of the steps; a thread may wake without a signal.
\<close>

section \<open>Deadlines\<close>

text \<open>\<open>clock_ms\<close> of a \<open>timespec\<close>; \<open>cond_timedwait_ms\<close>'s absolute deadline as a \<open>timespec\<close>.\<close>

record timespec =
  tv_sec :: u64
  tv_nsec :: u64

definition clock_ms :: "timespec \<Rightarrow> u64" where
  "clock_ms value = tv_sec value * 1000 + tv_nsec value div 1000000"

definition cond_deadline :: "timespec \<Rightarrow> u32 \<Rightarrow> timespec" where
  "cond_deadline now duration_ms = (
    let deadline_ms = tv_sec now * 1000 + tv_nsec now div 1000000 + ucast duration_ms in
    \<lparr>tv_sec = deadline_ms div 1000, tv_nsec = (deadline_ms mod 1000) * 1000000\<rparr>)"

definition deadline_for_timeout :: "u32 \<Rightarrow> u64 \<Rightarrow> u64" where
  "deadline_for_timeout timeout_ms now = (
    if timeout_ms = WLH_OSAL_WAIT_FOREVER \<or> timeout_ms = WLH_OSAL_NO_WAIT then 0
    else now + ucast timeout_ms)"

section \<open>Taking the mutex\<close>

text \<open>What \<open>pthread_mutex_lock\<close> or \<open>pthread_mutex_trylock\<close> answers.\<close>

datatype lock_answer = Locked | Busy | Lock_error

text \<open>One turn of \<open>lock_with_timeout\<close>; \<open>None\<close> is another turn (a millisecond later for a finite
  timeout, still blocked in \<open>pthread_mutex_lock\<close> for an unlimited one).\<close>

definition lock_turn :: "u32 \<Rightarrow> u64 \<Rightarrow> lock_answer \<Rightarrow> u64 \<Rightarrow> int option" where
  "lock_turn timeout_ms deadline_ms answer now = (
    if timeout_ms = WLH_OSAL_WAIT_FOREVER
    then (case answer of Locked \<Rightarrow> Some 0 | Busy \<Rightarrow> None | Lock_error \<Rightarrow> Some (- 1))
    else if answer = Locked then Some 0
    else if answer \<noteq> Busy \<or> timeout_ms = WLH_OSAL_NO_WAIT \<or> now \<ge> deadline_ms
    then Some (- 1)
    else None)"

text \<open>The whole loop over the answers of its turns and the clock at each; \<open>None\<close>: not returned yet.\<close>

fun lock_with_timeout :: "u32 \<Rightarrow> u64 \<Rightarrow> (lock_answer \<times> u64) list \<Rightarrow> int option" where
  "lock_with_timeout timeout_ms deadline_ms [] = None"
| "lock_with_timeout timeout_ms deadline_ms ((answer, now) # turns) =
    (case lock_turn timeout_ms deadline_ms answer now of
      Some result \<Rightarrow> Some result
    | None \<Rightarrow> lock_with_timeout timeout_ms deadline_ms turns)"

section \<open>Waiting for a condition\<close>

text \<open>\<open>wait_condition\<close> fails at once, or sleeps without or with a limit in milliseconds.\<close>

datatype wait_start = Wait_refused | Wait_unlimited | Wait_timed u32

definition wait_condition :: "u32 \<Rightarrow> u64 \<Rightarrow> u64 \<Rightarrow> wait_start" where
  "wait_condition timeout_ms deadline_ms now = (
    if timeout_ms = WLH_OSAL_WAIT_FOREVER then Wait_unlimited
    else if timeout_ms = WLH_OSAL_NO_WAIT then Wait_refused
    else if now \<ge> deadline_ms then Wait_refused
    else Wait_timed (ucast (deadline_ms - now)))"

section \<open>Critical sections and calls\<close>

datatype 'c wake = No_wake | Signal 'c | Broadcast 'c

text \<open>What a call finds under the mutex: the condition it has to wait for, or the object it leaves
  with its result (\<open>None\<close> is the status -1) and whom it wakes.\<close>

datatype ('o, 'r, 'c) critical = Wait_for 'c | Leave 'o "'r option" "'c wake"

datatype ('r, 'c) call_state = Locking | Asleep 'c | Woken | Returned "'r option"

record ('p, 'r, 'c) call =
  call_op :: 'p
  call_timeout :: u32
  call_deadline :: u64
  call_state :: "('r, 'c) call_state"

text \<open>The loop test and what follows it, with the mutex held at time \<open>now\<close>.\<close>

definition call_body ::
  "('o \<Rightarrow> ('o, 'r, 'c) critical) \<Rightarrow> u32 \<Rightarrow> u64 \<Rightarrow> u64 \<Rightarrow> 'o \<Rightarrow> ('r, 'c) call_state \<times> 'o \<times> 'c wake" where
  "call_body act timeout_ms deadline_ms now object = (case act object of
      Leave object' result wake \<Rightarrow> (Returned result, object', wake)
    | Wait_for c \<Rightarrow>
        (if wait_condition timeout_ms deadline_ms now = Wait_refused
         then (Returned None, object, No_wake)
         else (Asleep c, object, No_wake)))"

definition call_enter ::
  "('o \<Rightarrow> ('o, 'r, 'c) critical) \<Rightarrow> u32 \<Rightarrow> u64 \<Rightarrow> lock_answer \<Rightarrow> u64 \<Rightarrow> 'o \<Rightarrow>
    ('r, 'c) call_state \<times> 'o \<times> 'c wake" where
  "call_enter act timeout_ms deadline_ms answer now object =
    (case lock_turn timeout_ms deadline_ms answer now of
      None \<Rightarrow> (Locking, object, No_wake)
    | Some result \<Rightarrow>
        (if result \<noteq> 0 then (Returned None, object, No_wake)
         else call_body act timeout_ms deadline_ms now object))"

section \<open>Threads\<close>

text \<open>\<open>mon_log\<close> is no state of the program: it lists, newest first, the calls that got as far as the
  mutex with what they returned, in the order in which they acted on the object.\<close>

record ('o, 'p, 'r, 'c) monitor =
  mon_object :: 'o
  mon_log :: "('p \<times> 'r option) list"
  mon_calls :: "nat \<Rightarrow> ('p, 'r, 'c) call option"

text \<open>\<open>pthread_cond_signal\<close> wakes one sleeper if there is one, \<open>pthread_cond_broadcast\<close> all.\<close>

definition asleep_on :: "'c \<Rightarrow> ('p, 'r, 'c) call option \<Rightarrow> bool" where
  "asleep_on c call = (case call of None \<Rightarrow> False | Some k \<Rightarrow> call_state k = Asleep c)"

definition wake_call :: "('p, 'r, 'c) call option \<Rightarrow> ('p, 'r, 'c) call option" where
  "wake_call = map_option (\<lambda>k. k\<lparr>call_state := Woken\<rparr>)"

inductive wakes :: "'c wake \<Rightarrow> (nat \<Rightarrow> ('p, 'r, 'c) call option) \<Rightarrow> (nat \<Rightarrow> ('p, 'r, 'c) call option) \<Rightarrow> bool"
  where
  wakes_none: "wakes No_wake calls calls"
| wakes_nobody: "\<forall>u. \<not> asleep_on c (calls u) \<Longrightarrow> wakes (Signal c) calls calls"
| wakes_one: "asleep_on c (calls u) \<Longrightarrow> wakes (Signal c) calls (calls(u := wake_call (calls u)))"
| wakes_all: "wakes (Broadcast c) calls
    (\<lambda>u. if asleep_on c (calls u) then wake_call (calls u) else calls u)"

text \<open>An object's operations: which calls pass the checks before the mutex is touched (any other call
  returns -1 at once), the timeout a call is made with, and its critical section.\<close>

record ('o, 'p, 'r, 'c) operations =
  op_admits :: "'p \<Rightarrow> bool"
  op_timeout :: "'p \<Rightarrow> u32"
  op_section :: "'p \<Rightarrow> 'o \<Rightarrow> ('o, 'r, 'c) critical"

definition log_call :: "'p \<Rightarrow> ('r, 'c) call_state \<Rightarrow> ('p \<times> 'r option) list \<Rightarrow> ('p \<times> 'r option) list" where
  "log_call p state log = (case state of Returned result \<Rightarrow> (p, result) # log | _ \<Rightarrow> log)"

definition new_call :: "('o, 'p, 'r, 'c) operations \<Rightarrow> 'p \<Rightarrow> u64 \<Rightarrow> ('p, 'r, 'c) call" where
  "new_call ops p now = \<lparr>call_op = p, call_timeout = op_timeout ops p,
    call_deadline = deadline_for_timeout (op_timeout ops p) now,
    call_state = (if op_admits ops p then Locking else Returned None)\<rparr>"

text \<open>A step of one thread.\<close>

inductive monitor_step ::
  "('o, 'p, 'r, 'c) operations \<Rightarrow> ('o, 'p, 'r, 'c) monitor \<Rightarrow> ('o, 'p, 'r, 'c) monitor \<Rightarrow> bool"
  for ops :: "('o, 'p, 'r, 'c) operations" where
  step_call: "mon_calls m t = None \<Longrightarrow>
    monitor_step ops m (m\<lparr>mon_calls := (mon_calls m)(t \<mapsto> new_call ops p now)\<rparr>)"
| step_enter: "mon_calls m t = Some k \<Longrightarrow> call_state k = Locking \<Longrightarrow>
    call_enter (op_section ops (call_op k)) (call_timeout k) (call_deadline k) answer now (mon_object m) =
      (state, object, wake) \<Longrightarrow>
    wakes wake ((mon_calls m)(t \<mapsto> k\<lparr>call_state := state\<rparr>)) calls \<Longrightarrow>
    monitor_step ops m (m\<lparr>mon_object := object,
      mon_log := log_call (call_op k) state (mon_log m), mon_calls := calls\<rparr>)"
| step_spurious: "mon_calls m t = Some k \<Longrightarrow> call_state k = Asleep c \<Longrightarrow>
    monitor_step ops m
      (m\<lparr>mon_calls := (mon_calls m)(t \<mapsto> k\<lparr>call_state := Woken\<rparr>)\<rparr>)"
| step_wait_failed: "mon_calls m t = Some k \<Longrightarrow> call_state k = Asleep c \<Longrightarrow>
    monitor_step ops m
      (m\<lparr>mon_calls := (mon_calls m)(t \<mapsto> k\<lparr>call_state := Returned None\<rparr>)\<rparr>)"
| step_resume: "mon_calls m t = Some k \<Longrightarrow> call_state k = Woken \<Longrightarrow>
    call_body (op_section ops (call_op k)) (call_timeout k) (call_deadline k) now (mon_object m) =
      (state, object, wake) \<Longrightarrow>
    wakes wake ((mon_calls m)(t \<mapsto> k\<lparr>call_state := state\<rparr>)) calls \<Longrightarrow>
    monitor_step ops m (m\<lparr>mon_object := object,
      mon_log := log_call (call_op k) state (mon_log m), mon_calls := calls\<rparr>)"
| step_done: "mon_calls m t = Some k \<Longrightarrow> call_state k = Returned result \<Longrightarrow>
    monitor_step ops m (m\<lparr>mon_calls := (mon_calls m)(t := None)\<rparr>)"

inductive_cases wakes_noneE [elim!]: "wakes No_wake calls calls'"
inductive_cases wakes_signalE: "wakes (Signal c) calls calls'"
inductive_cases wakes_broadcastE: "wakes (Broadcast c) calls calls'"


lemma step_callI:
  assumes "mon_calls m t = None" "m' = m\<lparr>mon_calls := (mon_calls m)(t \<mapsto> new_call ops p now)\<rparr>"
  shows "monitor_step ops m m'"
  using step_call [OF assms(1)] assms(2) by simp

lemma step_enterI:
  assumes "mon_calls m t = Some k" "call_state k = Locking"
    and "call_enter (op_section ops (call_op k)) (call_timeout k) (call_deadline k) answer now (mon_object m) =
      (state, object, wake)"
    and "wakes wake ((mon_calls m)(t \<mapsto> k\<lparr>call_state := state\<rparr>)) calls"
    and "m' = m\<lparr>mon_object := object, mon_log := log_call (call_op k) state (mon_log m), mon_calls := calls\<rparr>"
  shows "monitor_step ops m m'"
  using step_enter [OF assms(1-4)] assms(5) by simp

definition monitor_start :: "('o \<Rightarrow> bool) \<Rightarrow> ('o, 'p, 'r, 'c) monitor \<Rightarrow> bool" where
  "monitor_start created m \<longleftrightarrow> created (mon_object m) \<and> mon_log m = [] \<and> mon_calls m = Map.empty"

lemma wakes_other:
  assumes "wakes w calls calls'" and "\<And>c. \<not> asleep_on c (calls u)"
  shows "calls' u = calls u"
  using assms by (induction rule: wakes.induct) auto

lemma wakes_cases:
  "wakes w calls calls' \<Longrightarrow>
    calls' u = calls u \<or> (\<exists>c. asleep_on c (calls u) \<and> calls' u = wake_call (calls u))"
  by (induction rule: wakes.induct) auto

text \<open>The operation of a call and its other fields stay when it is woken.\<close>

lemma wakes_call:
  assumes "wakes w calls calls'" "calls' u = Some k'"
  obtains k where "calls u = Some k" "k' = k"
  | k c where "calls u = Some k" "call_state k = Asleep c" "k' = k\<lparr>call_state := Woken\<rparr>"
  using wakes_cases [OF assms(1), of u] assms(2)
  by (auto simp: asleep_on_def wake_call_def split: option.splits dest: sym)

section \<open>Every call acts at one point\<close>

text \<open>\<open>replays\<close>: the calls of the log, one after the other, take \<open>a\<close> to \<open>b\<close>.\<close>

fun replays :: "('p \<Rightarrow> 'r option \<Rightarrow> 'a \<Rightarrow> 'a \<Rightarrow> bool) \<Rightarrow> ('p \<times> 'r option) list \<Rightarrow> 'a \<Rightarrow> 'a \<Rightarrow> bool" where
  "replays spec [] a b \<longleftrightarrow> a = b"
| "replays spec ((p, result) # log) a b \<longleftrightarrow> (\<exists>c. replays spec log a c \<and> spec p result c b)"

text \<open>The contract of an object: its critical sections implement \<open>spec\<close> on the abstraction of the
  object, and a call that gives up leaves it alone.\<close>

locale monitor_object =
  fixes ops :: "('o, 'p, 'r, 'c) operations"
    and created inv :: "'o \<Rightarrow> bool"
    and abs :: "'o \<Rightarrow> 'a"
    and spec :: "'p \<Rightarrow> 'r option \<Rightarrow> 'a \<Rightarrow> 'a \<Rightarrow> bool"
  assumes created_inv: "created object \<Longrightarrow> inv object"
    and section_inv: "inv object \<Longrightarrow> op_admits ops p \<Longrightarrow> op_section ops p object = Leave object' result wake \<Longrightarrow>
      inv object'"
    and section_spec: "inv object \<Longrightarrow> op_admits ops p \<Longrightarrow> op_section ops p object = Leave object' result wake \<Longrightarrow>
      spec p result (abs object) (abs object')"
    and spec_gives_up: "spec p None a a"
begin

lemma replays_gives_up: "replays spec log a b \<Longrightarrow> replays spec ((p, None) # log) a b"
  using spec_gives_up by auto

lemma body_spec:
  assumes "call_body (op_section ops p) timeout_ms deadline_ms now object = (state, object', wake)"
    and "inv object" "op_admits ops p" "replays spec log a (abs object)"
  shows "inv object' \<and> replays spec (log_call p state log) a (abs object')"
  using assms section_inv [OF assms(2,3)] section_spec [OF assms(2,3)]
  by (auto simp: call_body_def log_call_def spec_gives_up simp del: replays.simps(2)
      intro: replays_gives_up split: critical.splits if_splits) auto

lemma enter_spec:
  assumes "call_enter (op_section ops p) timeout_ms deadline_ms answer now object = (state, object', wake)"
    and "inv object" "op_admits ops p" "replays spec log a (abs object)"
  shows "inv object' \<and> replays spec (log_call p state log) a (abs object')"
  using assms body_spec [OF _ assms(2,3,4)]
  by (auto simp: call_enter_def log_call_def simp del: replays.simps(2)
      intro: replays_gives_up split: option.splits if_splits)

definition running :: "('p, 'r, 'c) call \<Rightarrow> bool" where
  "running k \<longleftrightarrow> (\<forall>result. call_state k \<noteq> Returned result)"

definition admitted :: "(nat \<Rightarrow> ('p, 'r, 'c) call option) \<Rightarrow> bool" where
  "admitted calls \<longleftrightarrow> (\<forall>t k. calls t = Some k \<longrightarrow> running k \<longrightarrow> op_admits ops (call_op k))"

lemma admitted_upd:
  "admitted calls \<Longrightarrow> (running k \<Longrightarrow> op_admits ops (call_op k)) \<Longrightarrow> admitted (calls(t \<mapsto> k))"
  by (simp add: admitted_def)

lemma admitted_del: "admitted calls \<Longrightarrow> admitted (calls(t := None))"
  by (simp add: admitted_def)

lemma admittedD: "admitted calls \<Longrightarrow> calls t = Some k \<Longrightarrow> running k \<Longrightarrow> op_admits ops (call_op k)"
  by (simp add: admitted_def)

lemma admitted_wakes:
  assumes "wakes w calls calls'" "admitted calls"
  shows "admitted calls'"
  unfolding admitted_def
proof (intro allI impI)
  fix t k'
  assume "calls' t = Some k'" "running k'"
  then show "op_admits ops (call_op k')"
    by (cases rule: wakes_call [OF assms(1)]) (use assms(2) in \<open>auto simp: admitted_def running_def\<close>)
qed

definition consistent :: "'o \<Rightarrow> ('o, 'p, 'r, 'c) monitor \<Rightarrow> bool" where
  "consistent object0 m \<longleftrightarrow> inv (mon_object m) \<and> admitted (mon_calls m) \<and>
    replays spec (mon_log m) (abs object0) (abs (mon_object m))"

lemma step_consistent:
  assumes "monitor_step ops m m'" "consistent object0 m"
  shows "consistent object0 m'"
  using assms
proof (induction rule: monitor_step.induct)
  case (step_enter m t k answer now state object wake calls)
  have adm: "op_admits ops (call_op k)"
    using step_enter by (auto simp: consistent_def running_def intro: admittedD)
  show ?case
    using step_enter.prems enter_spec [OF step_enter.hyps(3) _ adm, of "mon_log m" "abs object0"]
      admitted_wakes [OF step_enter.hyps(4) admitted_upd] adm
    by (simp add: consistent_def)
next
  case (step_resume m t k now state object wake calls)
  have adm: "op_admits ops (call_op k)"
    using step_resume by (auto simp: consistent_def running_def intro: admittedD)
  show ?case
    using step_resume.prems body_spec [OF step_resume.hyps(3) _ adm, of "mon_log m" "abs object0"]
      admitted_wakes [OF step_resume.hyps(4) admitted_upd] adm
    by (simp add: consistent_def)
next
  case (step_spurious m t k c)
  then have "op_admits ops (call_op k)"
    by (auto simp: consistent_def running_def intro: admittedD)
  with step_spurious show ?case by (auto simp: consistent_def intro: admitted_upd)
qed (auto simp: consistent_def running_def new_call_def intro!: admitted_upd admitted_del split: if_splits)

lemma reachable_consistent:
  assumes "reachable (\<lambda>m. monitor_start created m \<and> mon_object m = object0) (monitor_step ops) m"
  shows "consistent object0 m"
  using assms
  by (induction rule: reachable.induct)
    (auto simp: step_consistent, auto simp: consistent_def monitor_start_def created_inv admitted_def)

end

section \<open>No wake-up is lost\<close>

text \<open>Objects whose conditions count something (free places, items, units): \<open>available c\<close> says how
  many calls waiting for \<open>c\<close> could act. A call takes one unit of its own condition, adds at most one
  unit to another and then signals that one.\<close>

definition woken_for :: "('p \<Rightarrow> 'c option) \<Rightarrow> 'c \<Rightarrow> (nat \<Rightarrow> ('p, 'r, 'c) call option) \<Rightarrow> nat set" where
  "woken_for cond c calls =
    {t. \<exists>k. calls t = Some k \<and> cond (call_op k) = Some c \<and> call_state k = Woken}"

locale counted_object = monitor_object ops created inv abs spec
  for ops :: "('o, 'p, 'r, 'c) operations" and created inv :: "'o \<Rightarrow> bool" and abs :: "'o \<Rightarrow> 'a"
    and spec :: "'p \<Rightarrow> 'r option \<Rightarrow> 'a \<Rightarrow> 'a \<Rightarrow> bool" +
  fixes cond :: "'p \<Rightarrow> 'c option"
    and available :: "'c \<Rightarrow> 'o \<Rightarrow> nat"
  assumes blocked: "op_section ops p object = Wait_for c \<Longrightarrow> cond p = Some c \<and> available c object = 0"
    and acted: "inv object \<Longrightarrow> op_admits ops p \<Longrightarrow>
      op_section ops p object = Leave object' result wake \<Longrightarrow>
      available c object' + (if cond p = Some c then 1 else 0) \<le>
        available c object + (if wake = Signal c then 1 else 0)"
begin

text \<open>The calls of the table are finitely many, sleep only on their own condition, and while one sleeps
  the woken ones are at least as many as could act.\<close>

definition sleepers_ok :: "(nat \<Rightarrow> ('p, 'r, 'c) call option) \<Rightarrow> bool" where
  "sleepers_ok calls \<longleftrightarrow> finite (dom calls) \<and>
    (\<forall>t k c. calls t = Some k \<longrightarrow> call_state k = Asleep c \<longrightarrow> cond (call_op k) = Some c)"

definition attended :: "'c \<Rightarrow> 'o \<Rightarrow> (nat \<Rightarrow> ('p, 'r, 'c) call option) \<Rightarrow> bool" where
  "attended c object calls \<longleftrightarrow> ((\<exists>t. asleep_on c (calls t)) \<longrightarrow>
    available c object \<le> card (woken_for cond c calls))"

lemma finite_woken: "finite (dom calls) \<Longrightarrow> finite (woken_for cond c calls)"
  by (erule rev_finite_subset) (auto simp: woken_for_def)

text \<open>A thread that leaves the woken ones lowers their number by at most one, and not at all for the
  conditions it does not wait for.\<close>

lemma card_woken_upd:
  assumes "finite (dom calls)" "calls t = Some k" "call_op k' = call_op k"
  shows "card (woken_for cond c calls) \<le> card (woken_for cond c (calls(t \<mapsto> k'))) +
    (if cond (call_op k) = Some c \<and> call_state k = Woken then 1 else 0)"
proof -
  let ?W = "woken_for cond c calls" and ?W' = "woken_for cond c (calls(t \<mapsto> k'))"
  have fin: "finite ?W'" using assms(1) by (intro finite_woken) simp
  show ?thesis
  proof (cases "cond (call_op k) = Some c \<and> call_state k = Woken")
    case True
    have "?W \<subseteq> insert t ?W'" by (auto simp: woken_for_def)
    then have "card ?W \<le> card (insert t ?W')" using fin by (intro card_mono) simp
    also have "\<dots> \<le> Suc (card ?W')" using fin by (simp add: card_insert_if)
    finally show ?thesis using True by simp
  next
    case False
    then have "?W \<subseteq> ?W'" using assms(2) by (auto simp: woken_for_def)
    then have "card ?W \<le> card ?W'" using fin by (intro card_mono)
    then show ?thesis by simp
  qed
qed

lemma woken_wakes:
  assumes "wakes w calls calls'"
  shows "woken_for cond c calls \<subseteq> woken_for cond c calls'"
proof
  fix u
  assume "u \<in> woken_for cond c calls"
  then show "u \<in> woken_for cond c calls'"
    using wakes_cases [OF assms, of u]
    by (auto simp: woken_for_def asleep_on_def wake_call_def)
qed

lemma asleep_wakes: "wakes w calls calls' \<Longrightarrow> asleep_on c (calls' u) \<Longrightarrow> asleep_on c (calls u)"
  by (cases "calls u") (use wakes_cases [of w calls calls' u] in \<open>auto simp: asleep_on_def wake_call_def\<close>)

lemma dom_wakes: "wakes w calls calls' \<Longrightarrow> dom calls' = dom calls"
proof (rule set_eqI)
  fix u
  assume "wakes w calls calls'"
  then show "u \<in> dom calls' \<longleftrightarrow> u \<in> dom calls"
    by (cases "calls u") (use wakes_cases [of w calls calls' u] in \<open>auto simp: wake_call_def asleep_on_def\<close>)
qed

lemma sleepers_wakes:
  assumes "wakes w calls calls'" "sleepers_ok calls"
  shows "sleepers_ok calls'"
  unfolding sleepers_ok_def
proof (intro conjI allI impI)
  show "finite (dom calls')"
    using assms by (simp add: dom_wakes sleepers_ok_def)
next
  fix u k' c
  assume "calls' u = Some k'" "call_state k' = Asleep c"
  then show "cond (call_op k') = Some c"
    by (cases rule: wakes_call [OF assms(1)]) (use assms(2) in \<open>auto simp: sleepers_ok_def\<close>)
qed

text \<open>A signal that finds a sleeper adds a woken one.\<close>

lemma card_woken_signal:
  assumes "wakes (Signal c) calls calls'" "sleepers_ok calls" "asleep_on c (calls' u)"
  shows "Suc (card (woken_for cond c calls)) \<le> card (woken_for cond c calls')"
proof -
  have u: "asleep_on c (calls u)" using asleep_wakes [OF assms(1,3)] .
  obtain v where v: "asleep_on c (calls v)" "calls' = calls(v := wake_call (calls v))"
    using assms(1) u by (auto elim!: wakes_signalE)
  obtain k where k: "calls v = Some k" "call_state k = Asleep c"
    using v(1) by (auto simp: asleep_on_def split: option.splits)
  have "cond (call_op k) = Some c" using assms(2) k by (auto simp: sleepers_ok_def)
  then have "woken_for cond c calls' = insert v (woken_for cond c calls)" "v \<notin> woken_for cond c calls"
    using k v(2) by (auto simp: woken_for_def wake_call_def)
  then show ?thesis
    using finite_woken [of calls] assms(2) by (simp add: sleepers_ok_def)
qed

text \<open>A thread runs its section and what that wakes.\<close>

lemma attended_body:
  assumes body: "call_body (op_section ops (call_op k)) timeout_ms deadline_ms now object = (state, object', w)"
    and wakes: "wakes w (calls(t \<mapsto> k\<lparr>call_state := state\<rparr>)) calls'"
    and calls: "calls t = Some k" "sleepers_ok calls" "attended c object calls"
    and was: "\<not> asleep_on c (calls t)"
    and inv: "inv object" "op_admits ops (call_op k)"
  shows "attended c object' calls' \<and> sleepers_ok calls'"
proof -
  let ?calls = "calls(t \<mapsto> k\<lparr>call_state := state\<rparr>)"
  have state: "state \<noteq> Woken" and sleep: "cond (call_op k) = Some d" if "state = Asleep d" for d
    using body blocked that by (auto simp: call_body_def split: critical.splits if_splits)
  have ok: "sleepers_ok ?calls"
    using calls(1,2) sleep by (auto simp: sleepers_ok_def)
  have ok': "sleepers_ok calls'" by (rule sleepers_wakes [OF wakes ok])
  have "attended c object' calls'"
    unfolding attended_def
  proof
    assume "\<exists>u. asleep_on c (calls' u)"
    then obtain u where u: "asleep_on c (calls' u)" ..
    have u': "asleep_on c (?calls u)" by (rule asleep_wakes [OF wakes u])
    have fin: "finite (dom calls)" using calls(2) by (simp add: sleepers_ok_def)
    have upd: "card (woken_for cond c calls) \<le> card (woken_for cond c ?calls) +
        (if cond (call_op k) = Some c \<and> call_state k = Woken then 1 else 0)"
      by (rule card_woken_upd [OF fin calls(1)]) simp
    have mono: "card (woken_for cond c ?calls) \<le> card (woken_for cond c calls')"
      using ok' by (intro card_mono woken_wakes [OF wakes] finite_woken) (simp add: sleepers_ok_def)
    show "available c object' \<le> card (woken_for cond c calls')"
    proof (cases "op_section ops (call_op k) object")
      case (Wait_for d)
      then have none: "object' = object" and d: "cond (call_op k) = Some d" "available d object = 0"
        using body blocked [OF Wait_for] by (auto simp: call_body_def split: if_splits)
      show ?thesis
      proof (cases "c = d")
        case True
        with none d show ?thesis by simp
      next
        case False
        then have "asleep_on c (calls u)"
          using u' body Wait_for by (auto simp: asleep_on_def call_body_def split: if_splits)
        then have "available c object \<le> card (woken_for cond c calls)"
          using calls(3) by (auto simp: attended_def)
        with none d False upd mono show ?thesis by simp
      qed
    next
      case (Leave object1 result wake1)
      then have leave: "object' = object1" "w = wake1" "state = Returned result"
        using body by (auto simp: call_body_def)
      then have "asleep_on c (calls u)"
        using u' by (auto simp: asleep_on_def split: if_splits)
      then have "available c object \<le> card (woken_for cond c calls)"
        using calls(3) by (auto simp: attended_def)
      moreover have "available c object' + (if cond (call_op k) = Some c then 1 else 0) \<le>
          available c object + (if w = Signal c then 1 else 0)"
        using acted [OF inv Leave, of c] leave by simp
      moreover have "card (woken_for cond c ?calls) + (if w = Signal c then 1 else 0) \<le>
          card (woken_for cond c calls')"
        using card_woken_signal [of c ?calls calls' u] wakes ok u mono by (cases "w = Signal c") auto
      ultimately show ?thesis
        using upd by (auto split: if_splits)
    qed
  qed
  with ok' show ?thesis by simp
qed

lemma attended_mono:
  assumes "attended c object calls \<and> sleepers_ok calls" and "\<And>u. asleep_on c (calls' u) \<Longrightarrow> asleep_on c (calls u)"
    and "woken_for cond c calls \<subseteq> woken_for cond c calls'" and "sleepers_ok calls'"
  shows "attended c object calls' \<and> sleepers_ok calls'"
proof -
  have "card (woken_for cond c calls) \<le> card (woken_for cond c calls')"
    using assms(3,4) by (intro card_mono finite_woken) (simp_all add: sleepers_ok_def)
  with assms show ?thesis by (fastforce simp: attended_def)
qed

text \<open>Steps that leave the object alone and put no one to sleep.\<close>

lemma attended_upd:
  assumes "attended c object calls \<and> sleepers_ok calls"
    and "calls t = Some k" "call_state k \<noteq> Woken \<or> state = Woken" "\<And>d. state \<noteq> Asleep d"
  shows "attended c object (calls(t \<mapsto> k\<lparr>call_state := state\<rparr>)) \<and>
    sleepers_ok (calls(t \<mapsto> k\<lparr>call_state := state\<rparr>))"
  by (rule attended_mono [OF assms(1)])
    (use assms in \<open>auto simp: sleepers_ok_def asleep_on_def woken_for_def split: if_splits\<close>)

lemma step_attended:
  assumes "monitor_step ops m m'" and "consistent object0 m"
    and "attended c (mon_object m) (mon_calls m) \<and> sleepers_ok (mon_calls m)"
  shows "attended c (mon_object m') (mon_calls m') \<and> sleepers_ok (mon_calls m')"
  using assms
proof (induction rule: monitor_step.induct)
  case (step_call m t p now)
  let ?calls = "(mon_calls m)(t \<mapsto> new_call ops p now)"
  have "attended c (mon_object m) ?calls \<and> sleepers_ok ?calls"
    by (rule attended_mono [OF step_call.prems(2)])
      (use step_call in \<open>auto simp: new_call_def sleepers_ok_def asleep_on_def woken_for_def split: if_splits\<close>)
  then show ?case by (simp del: fun_upd_apply split del: if_split)
next
  case (step_enter m t k answer now state object wake calls)
  have was: "\<not> asleep_on c (mon_calls m t)" using step_enter.hyps by (simp add: asleep_on_def)
  have inv: "inv (mon_object m)" "op_admits ops (call_op k)"
    using step_enter.hyps(1,2) step_enter.prems(1)
    by (auto simp: consistent_def running_def intro: admittedD)
  show ?case
  proof (cases "lock_turn (call_timeout k) (call_deadline k) answer now = Some 0")
    case True
    then have "call_body (op_section ops (call_op k)) (call_timeout k) (call_deadline k) now (mon_object m) =
        (state, object, wake)"
      using step_enter.hyps(3) by (simp add: call_enter_def)
    from attended_body [OF this step_enter.hyps(4,1), of c] step_enter.prems(2) was inv show ?thesis by simp
  next
    case False
    then have same: "object = mon_object m" "wake = No_wake" "state = Locking \<or> state = Returned None"
      using step_enter.hyps(3) by (auto simp: call_enter_def split: option.splits if_splits)
    then have "calls = (mon_calls m)(t \<mapsto> k\<lparr>call_state := state\<rparr>)"
      using step_enter.hyps(4) by auto
    moreover have "call_state k \<noteq> Woken \<or> state = Woken" "\<And>d. state \<noteq> Asleep d"
      using step_enter.hyps(2) same(3) by auto
    ultimately show ?thesis
      using attended_upd [OF step_enter.prems(2) step_enter.hyps(1), of state] same(1)
      by (simp del: fun_upd_apply)
  qed
next
  case (step_resume m t k now state object wake calls)
  have "\<not> asleep_on c (mon_calls m t)" using step_resume.hyps by (simp add: asleep_on_def)
  moreover have "inv (mon_object m)" "op_admits ops (call_op k)"
    using step_resume.hyps(1,2) step_resume.prems(1)
    by (auto simp: consistent_def running_def intro: admittedD)
  ultimately show ?case using attended_body [OF step_resume.hyps(3,4,1), of c] step_resume.prems(2) by simp
next
  case (step_spurious m t k d)
  then show ?case using attended_upd [OF step_spurious.prems(2), of t k Woken] by (simp del: fun_upd_apply)
next
  case (step_wait_failed m t k d)
  then show ?case using attended_upd [OF step_wait_failed.prems(2), of t k "Returned None"] by (simp del: fun_upd_apply)
next
  case (step_done m t k result)
  let ?calls = "(mon_calls m)(t := None)"
  have "attended c (mon_object m) ?calls \<and> sleepers_ok ?calls"
    by (rule attended_mono [OF step_done.prems(2)])
      (use step_done in \<open>auto simp: sleepers_ok_def asleep_on_def woken_for_def split: if_splits\<close>)
  then show ?case by (simp del: fun_upd_apply)
qed

lemma reachable_attended:
  assumes "reachable (\<lambda>m. monitor_start created m \<and> mon_object m = object0) (monitor_step ops) m"
  shows "attended c (mon_object m) (mon_calls m)"
proof -
  have "attended c (mon_object m) (mon_calls m) \<and> sleepers_ok (mon_calls m)"
    using assms
  proof (induction rule: reachable.induct)
    case (reach_init m)
    then show ?case by (simp add: monitor_start_def attended_def sleepers_ok_def asleep_on_def)
  next
    case (reach_step m m')
    show ?case
      by (rule step_attended [OF reach_step.hyps(2) reachable_consistent [OF reach_step.hyps(1)] reach_step.IH])
  qed
  then show ?thesis by simp
qed

end

end
