(* ===== verification/Posix_Objects.thy ===== *)
theory Posix_Objects
  imports Posix_Monitor
begin

text \<open>
  The semaphores, event flags and message queues of the POSIX OS layer
  (common/osal/src/posix_osal.c): the state of each object, the critical section of each operation,
  and the laws by which the generic results of \<open>Posix_Monitor\<close> apply to them. The mutex and the
  condition variables of an object are part of the monitor, not of its state.
\<close>

section \<open>Semaphores\<close>

record semaphore_state =
  sem_count :: u32
  sem_maximum :: u32

datatype semaphore_op = Sem_take u32 | Sem_give
datatype semaphore_cond = Sem_condition

definition semaphore_init :: "u32 \<Rightarrow> u32 \<Rightarrow> semaphore_state option" where
  "semaphore_init initial_count maximum_count = (
    if maximum_count = 0 \<or> initial_count > maximum_count then None
    else Some \<lparr>sem_count = initial_count, sem_maximum = maximum_count\<rparr>)"

definition os_semaphore_take :: "semaphore_state \<Rightarrow> (semaphore_state, unit, semaphore_cond) critical" where
  "os_semaphore_take state = (
    if sem_count state = 0 then Wait_for Sem_condition
    else Leave (state\<lparr>sem_count := sem_count state - 1\<rparr>) (Some ()) No_wake)"

definition semaphore_give_common :: "semaphore_state \<Rightarrow> (semaphore_state, unit, semaphore_cond) critical" where
  "semaphore_give_common state = (
    if sem_count state = sem_maximum state then Leave state None No_wake
    else Leave (state\<lparr>sem_count := sem_count state + 1\<rparr>) (Some ()) (Signal Sem_condition))"

fun semaphore_section :: "semaphore_op \<Rightarrow> semaphore_state \<Rightarrow> (semaphore_state, unit, semaphore_cond) critical" where
  "semaphore_section (Sem_take timeout_ms) = os_semaphore_take"
| "semaphore_section Sem_give = semaphore_give_common"

fun semaphore_timeout :: "semaphore_op \<Rightarrow> u32" where
  "semaphore_timeout (Sem_take timeout_ms) = timeout_ms"
| "semaphore_timeout Sem_give = WLH_OSAL_WAIT_FOREVER"

definition semaphore_ops :: "(semaphore_state, semaphore_op, unit, semaphore_cond) operations" where
  "semaphore_ops = \<lparr>op_admits = (\<lambda>_. True), op_timeout = semaphore_timeout, op_section = semaphore_section\<rparr>"

section \<open>Event flags\<close>

text \<open>The state is the word of flags. A wait names the flags, whether all of them are needed and
  whether they are cleared on the way out.\<close>

datatype event_op = Event_wait_op u32 bool bool u32 | Event_set_op u32
datatype event_cond = Event_condition

definition event_matches :: "u32 \<Rightarrow> u32 \<Rightarrow> bool \<Rightarrow> bool" where
  "event_matches value bits wait_all = (if wait_all then value AND bits = bits else value AND bits \<noteq> 0)"

fun event_admits :: "event_op \<Rightarrow> bool" where
  "event_admits (Event_wait_op bits _ _ _) = (bits \<noteq> 0 \<and> bits AND NOT WLH_OSAL_EVENT_BITS_MASK = 0)"
| "event_admits (Event_set_op bits) = (bits \<noteq> 0 \<and> bits AND NOT WLH_OSAL_EVENT_BITS_MASK = 0)"

definition os_event_wait :: "u32 \<Rightarrow> bool \<Rightarrow> bool \<Rightarrow> u32 \<Rightarrow> (u32, u32, event_cond) critical" where
  "os_event_wait bits wait_all clear_on_exit flags = (
    if \<not> event_matches flags bits wait_all then Wait_for Event_condition
    else Leave (if clear_on_exit then flags AND NOT bits else flags) (Some (flags AND bits)) No_wake)"

definition os_event_set :: "u32 \<Rightarrow> u32 \<Rightarrow> (u32, u32, event_cond) critical" where
  "os_event_set bits flags = Leave (flags OR bits) (Some 0) (Broadcast Event_condition)"

fun event_section :: "event_op \<Rightarrow> u32 \<Rightarrow> (u32, u32, event_cond) critical" where
  "event_section (Event_wait_op bits wait_all clear_on_exit timeout_ms) = os_event_wait bits wait_all clear_on_exit"
| "event_section (Event_set_op bits) = os_event_set bits"

fun event_timeout :: "event_op \<Rightarrow> u32" where
  "event_timeout (Event_wait_op bits wait_all clear_on_exit timeout_ms) = timeout_ms"
| "event_timeout (Event_set_op bits) = WLH_OSAL_WAIT_FOREVER"

definition event_ops :: "(u32, event_op, u32, event_cond) operations" where
  "event_ops = \<lparr>op_admits = event_admits, op_timeout = event_timeout, op_section = event_section\<rparr>"

section \<open>Message queues\<close>

text \<open>A ring of \<open>q_capacity\<close> items of \<open>q_item_size\<close> bytes in the caller's storage. Sizes and indices
  are naturals: the storage is an object in memory, so \<open>tail * item_size\<close> stays below \<open>2 ^ 64\<close>.\<close>

record queue_state =
  q_storage :: "u8 list"
  q_item_size :: nat
  q_capacity :: nat
  q_head :: nat
  q_count :: nat

datatype queue_op = Queue_send_op "u8 list" u32 | Queue_receive_op u32
datatype queue_cond = Not_empty | Not_full

definition queue_init :: "u8 list option \<Rightarrow> nat \<Rightarrow> nat \<Rightarrow> queue_state option" where
  "queue_init storage item_size capacity = (case storage of
      None \<Rightarrow> None
    | Some storage \<Rightarrow>
        if item_size = 0 \<or> capacity = 0 then None
        else Some \<lparr>q_storage = storage, q_item_size = item_size, q_capacity = capacity,
          q_head = 0, q_count = 0\<rparr>)"

text \<open>\<open>memcpy\<close> into and out of the storage.\<close>

definition storage_write :: "u8 list \<Rightarrow> nat \<Rightarrow> u8 list \<Rightarrow> u8 list" where
  "storage_write storage offset item = take offset storage @ item @ drop (offset + length item) storage"

definition storage_read :: "u8 list \<Rightarrow> nat \<Rightarrow> nat \<Rightarrow> u8 list" where
  "storage_read storage offset bytes = take bytes (drop offset storage)"

definition os_queue_send :: "u8 list \<Rightarrow> queue_state \<Rightarrow> (queue_state, u8 list, queue_cond) critical" where
  "os_queue_send item state = (
    if q_count state = q_capacity state then Wait_for Not_full
    else
      let tail = (q_head state + q_count state) mod q_capacity state in
      Leave (state\<lparr>q_storage := storage_write (q_storage state) (tail * q_item_size state) item,
          q_count := q_count state + 1\<rparr>)
        (Some []) (Signal Not_empty))"

definition os_queue_receive :: "queue_state \<Rightarrow> (queue_state, u8 list, queue_cond) critical" where
  "os_queue_receive state = (
    if q_count state = 0 then Wait_for Not_empty
    else
      let item = storage_read (q_storage state) (q_head state * q_item_size state) (q_item_size state) in
      Leave (state\<lparr>q_head := (q_head state + 1) mod q_capacity state, q_count := q_count state - 1\<rparr>)
        (Some item) (Signal Not_full))"

fun queue_section :: "queue_op \<Rightarrow> queue_state \<Rightarrow> (queue_state, u8 list, queue_cond) critical" where
  "queue_section (Queue_send_op item timeout_ms) = os_queue_send item"
| "queue_section (Queue_receive_op timeout_ms) = os_queue_receive"

text \<open>A sender passes a pointer to \<open>item_size\<close> bytes.\<close>

fun queue_admits :: "nat \<Rightarrow> queue_op \<Rightarrow> bool" where
  "queue_admits item_size (Queue_send_op item timeout_ms) = (length item = item_size)"
| "queue_admits item_size (Queue_receive_op timeout_ms) = True"

fun queue_timeout :: "queue_op \<Rightarrow> u32" where
  "queue_timeout (Queue_send_op item timeout_ms) = timeout_ms"
| "queue_timeout (Queue_receive_op timeout_ms) = timeout_ms"

definition os_queue_send_from_isr :: "u8 list \<Rightarrow> queue_op" where
  "os_queue_send_from_isr item = Queue_send_op item WLH_OSAL_NO_WAIT"

definition queue_ops :: "nat \<Rightarrow> (queue_state, queue_op, u8 list, queue_cond) operations" where
  "queue_ops item_size = \<lparr>op_admits = queue_admits item_size, op_timeout = queue_timeout,
    op_section = queue_section\<rparr>"

section \<open>The ring is a list\<close>

definition queue_created :: "nat \<Rightarrow> nat \<Rightarrow> queue_state \<Rightarrow> bool" where
  "queue_created item_size capacity state \<longleftrightarrow>
    (\<exists>storage. length storage = item_size * capacity \<and>
      queue_init (Some storage) item_size capacity = Some state)"

definition queue_ok :: "nat \<Rightarrow> nat \<Rightarrow> queue_state \<Rightarrow> bool" where
  "queue_ok item_size capacity state \<longleftrightarrow>
    q_item_size state = item_size \<and> q_capacity state = capacity \<and> capacity > 0 \<and>
    length (q_storage state) = item_size * capacity \<and> q_head state < capacity \<and>
    q_count state \<le> capacity"

definition queue_slot :: "queue_state \<Rightarrow> nat \<Rightarrow> u8 list" where
  "queue_slot state i = storage_read (q_storage state) (i * q_item_size state) (q_item_size state)"

definition queue_items :: "queue_state \<Rightarrow> u8 list list" where
  "queue_items state = map (\<lambda>i. queue_slot state ((q_head state + i) mod q_capacity state))
    [0..<q_count state]"

text \<open>What a bounded queue of items does: a successful send appends below the capacity, a successful
  receive takes the first item, and a call that returns -1 does nothing.\<close>

fun fifo_spec :: "nat \<Rightarrow> queue_op \<Rightarrow> u8 list option \<Rightarrow> u8 list list \<Rightarrow> u8 list list \<Rightarrow> bool" where
  "fifo_spec capacity p None xs ys = (ys = xs)"
| "fifo_spec capacity (Queue_send_op item timeout_ms) (Some r) xs ys = (length xs < capacity \<and> ys = xs @ [item])"
| "fifo_spec capacity (Queue_receive_op timeout_ms) (Some r) xs ys = (xs = r # ys)"

lemma read_write_before:
  assumes "a + n \<le> b" "b \<le> length storage"
  shows "storage_read (storage_write storage b item) a n = storage_read storage a n"
  using assms by (simp add: storage_read_def storage_write_def drop_take)

lemma read_write_after:
  assumes "b + length item \<le> a" "b \<le> length storage"
  shows "storage_read (storage_write storage b item) a n = storage_read storage a n"
  using assms by (simp add: storage_read_def storage_write_def)

lemma read_write_same:
  "b \<le> length storage \<Longrightarrow> length item = n \<Longrightarrow> storage_read (storage_write storage b item) b n = item"
  by (simp add: storage_read_def storage_write_def)

lemma storage_write_other:
  assumes "j \<noteq> i" "length item = n" "length storage = n * m" "i < m"
  shows "storage_read (storage_write storage (i * n) item) (j * n) n = storage_read storage (j * n) n"
proof -
  have b: "i * n \<le> length storage" using assms(3,4) by (simp add: mult.commute)
  from assms(1) consider "Suc j \<le> i" | "Suc i \<le> j" by linarith
  then show ?thesis
  proof cases
    case 1
    then have "Suc j * n \<le> i * n" by (rule mult_le_mono1)
    then show ?thesis using b by (intro read_write_before) (simp_all add: add.commute)
  next
    case 2
    then have "Suc i * n \<le> j * n" by (rule mult_le_mono1)
    then show ?thesis using b assms(2) by (intro read_write_after) (simp_all add: add.commute)
  qed
qed

lemma storage_write_length:
  assumes "length item = n" "length storage = n * m" "i < m"
  shows "length (storage_write storage (i * n) item) = length storage"
proof -
  have "Suc i * n \<le> m * n" using assms(3) by (intro mult_le_mono1) simp
  then show ?thesis using assms by (simp add: storage_write_def mult.commute)
qed

lemma ring_index_inj:
  assumes "(h + i) mod c = (h + j) mod c" "i < c" "j < (c :: nat)"
  shows "i = j"
  using assms
proof (induction i j rule: linorder_wlog)
  case (le i j)
  then have "c dvd (h + j) - (h + i)" by (subst mod_eq_dvd_iff_nat [symmetric]) simp_all
  with le show ?case by (auto dest: dvd_imp_le)
next
  case (sym i j)
  from sym(1) [OF sym(2) [symmetric] sym(4,3)] show ?case by simp
qed

text \<open>Sending appends, receiving takes the first item.\<close>

lemma queue_slot_after_send:
  assumes ok: "queue_ok n c state" and "length item = n" "t < c"
    and "i < c"
  shows "queue_slot (state\<lparr>q_storage := storage_write (q_storage state) (t * n) item, q_count := k\<rparr>) i =
    (if i = t then item else queue_slot state i)"
proof -
  have len: "length (q_storage state) = n * c" and n: "q_item_size state = n"
    using ok by (auto simp: queue_ok_def)
  have "t * n \<le> length (q_storage state)" using len assms(3) by (simp add: mult.commute)
  then show ?thesis
    using storage_write_other [OF _ assms(2) len assms(3), of i] assms(2) n
    by (auto simp: queue_slot_def read_write_same)
qed

lemma queue_send_items:
  assumes ok: "queue_ok n c state" and item: "length item = n"
    and sent: "os_queue_send item state = Leave state' result wake"
  shows "queue_ok n c state'" "q_count state < c" "result = Some []" "wake = Signal Not_empty"
    "queue_items state' = queue_items state @ [item]"
proof -
  let ?t = "(q_head state + q_count state) mod c"
  from ok have c: "0 < c" "q_capacity state = c" "q_item_size state = n" "q_head state < c"
    "q_count state \<le> c" "length (q_storage state) = n * c"
    by (auto simp: queue_ok_def)
  from sent c have count: "q_count state < c"
    and state': "state' = state\<lparr>q_storage := storage_write (q_storage state) (?t * n) item,
      q_count := q_count state + 1\<rparr>"
    and "result = Some []" "wake = Signal Not_empty"
    by (auto simp: os_queue_send_def Let_def split: if_splits)
  then show "q_count state < c" "result = Some []" "wake = Signal Not_empty" by simp_all
  have t: "?t < c" using c(1) by simp
  show "queue_ok n c state'"
    using c count storage_write_length [OF item c(6) t] by (simp add: state' queue_ok_def)
  have slot: "queue_slot state' i = (if i = ?t then item else queue_slot state i)" if "i < c" for i
    unfolding state' by (rule queue_slot_after_send [OF ok item t that])
  have "queue_slot state' ((q_head state + i) mod c) = queue_slot state ((q_head state + i) mod c)"
    if "i < q_count state" for i
    using that count c(1) ring_index_inj [of "q_head state" i c "q_count state"]
    by (subst slot) auto
  moreover have "queue_slot state' ?t = item" using t by (simp add: slot)
  ultimately show "queue_items state' = queue_items state @ [item]"
    using c by (simp add: queue_items_def state')
qed

lemma queue_receive_items:
  assumes ok: "queue_ok n c state"
    and received: "os_queue_receive state = Leave state' result wake"
  obtains item where "queue_ok n c state'" "result = Some item" "wake = Signal Not_full"
    "queue_items state = item # queue_items state'"
proof -
  from ok have c: "0 < c" "q_capacity state = c" "q_item_size state = n" "q_head state < c"
    "q_count state \<le> c" "length (q_storage state) = n * c"
    by (auto simp: queue_ok_def)
  let ?item = "queue_slot state (q_head state)"
  from received c obtain k where k: "q_count state = Suc k"
    and state': "state' = state\<lparr>q_head := (q_head state + 1) mod c, q_count := k\<rparr>"
    and res: "result = Some ?item" "wake = Signal Not_full"
    by (cases "q_count state") (auto simp: os_queue_receive_def queue_slot_def Let_def)
  have ok': "queue_ok n c state'" using c k by (simp add: state' queue_ok_def)
  have idx: "(Suc (q_head state) mod c + i) mod c = Suc (q_head state + i) mod c" for i
    by (simp add: mod_add_left_eq)
  have "queue_items state = ?item # map (\<lambda>i. queue_slot state ((q_head state + Suc i) mod c)) [0..<k]"
    using c by (simp add: queue_items_def k upt_conv_Cons map_Suc_upt [symmetric] del: upt_Suc)
  also have "map (\<lambda>i. queue_slot state ((q_head state + Suc i) mod c)) [0..<k] = queue_items state'"
    using c by (simp add: queue_items_def state' idx queue_slot_def)
  finally show ?thesis using that [OF ok' res] by blast
qed

lemma queue_created_ok: "queue_created n c state \<Longrightarrow> queue_ok n c state \<and> queue_items state = []"
  by (auto simp: queue_created_def queue_init_def queue_ok_def queue_items_def split: if_splits)

section \<open>The objects satisfy the contracts\<close>

lemma operations_simps [simp]:
  "op_section (queue_ops n) = queue_section" "op_admits (queue_ops n) = queue_admits n"
  "op_section semaphore_ops = semaphore_section" "op_section event_ops = event_section"
  "op_admits event_ops = event_admits" "op_admits semaphore_ops = (\<lambda>_. True)"
  by (simp_all add: queue_ops_def semaphore_ops_def event_ops_def)

lemma queue_section_spec:
  assumes "queue_ok n c state" "queue_admits n p" "queue_section p state = Leave state' result wake"
  shows "queue_ok n c state' \<and> fifo_spec c p result (queue_items state) (queue_items state')"
proof (cases p)
  case (Queue_send_op item timeout_ms)
  with assms queue_send_items [OF assms(1), of item state' result wake] show ?thesis
    by (simp add: queue_items_def)
next
  case (Queue_receive_op timeout_ms)
  with assms show ?thesis
    by (auto elim: queue_receive_items [OF assms(1)])
qed

interpretation queue: monitor_object "queue_ops n" "queue_created n c" "queue_ok n c" queue_items "fifo_spec c"
  for n c
  using queue_created_ok queue_section_spec by unfold_locales (fastforce+)

text \<open>How many calls could act: senders for the free places, receivers for the items.\<close>

fun queue_cond_of :: "queue_op \<Rightarrow> queue_cond option" where
  "queue_cond_of (Queue_send_op item timeout_ms) = Some Not_full"
| "queue_cond_of (Queue_receive_op timeout_ms) = Some Not_empty"

fun queue_available :: "queue_cond \<Rightarrow> queue_state \<Rightarrow> nat" where
  "queue_available Not_empty state = q_count state"
| "queue_available Not_full state = q_capacity state - q_count state"

interpretation queue: counted_object "queue_ops n" "queue_created n c" "queue_ok n c" queue_items
  "fifo_spec c" queue_cond_of queue_available
  for n c
proof
  fix p state c'
  assume "op_section (queue_ops n) p state = Wait_for c'"
  then show "queue_cond_of p = Some c' \<and> queue_available c' state = 0"
    by (cases p) (auto simp: os_queue_send_def os_queue_receive_def Let_def split: if_splits)
next
  fix p state state' result wake c'
  assume "queue_ok n c state" "op_section (queue_ops n) p state = Leave state' result wake"
  then show "queue_available c' state' + (if queue_cond_of p = Some c' then 1 else 0) \<le>
      queue_available c' state + (if wake = Signal c' then 1 else 0)"
    by (cases p; cases c')
      (auto simp: queue_ok_def os_queue_send_def os_queue_receive_def Let_def split: if_splits)
qed

definition semaphore_created :: "semaphore_state \<Rightarrow> bool" where
  "semaphore_created state \<longleftrightarrow>
    (\<exists>initial_count maximum_count. semaphore_init initial_count maximum_count = Some state)"

definition semaphore_ok :: "semaphore_state \<Rightarrow> bool" where
  "semaphore_ok state \<longleftrightarrow> sem_count state \<le> sem_maximum state"

text \<open>A counter between zero and a maximum.\<close>

fun counter_spec :: "semaphore_op \<Rightarrow> unit option \<Rightarrow> nat \<times> nat \<Rightarrow> nat \<times> nat \<Rightarrow> bool" where
  "counter_spec p None a b = (b = a)"
| "counter_spec (Sem_take timeout_ms) (Some r) (n, k) b = (0 < n \<and> b = (n - 1, k))"
| "counter_spec Sem_give (Some r) (n, k) b = (n < k \<and> b = (n + 1, k))"

definition semaphore_units :: "semaphore_state \<Rightarrow> nat \<times> nat" where
  "semaphore_units state = (unat (sem_count state), unat (sem_maximum state))"

lemma semaphore_section_spec:
  assumes "semaphore_ok state" "semaphore_section p state = Leave state' result wake"
  shows "semaphore_ok state' \<and> counter_spec p result (semaphore_units state) (semaphore_units state')"
    and "unat (sem_count state') + (if p \<noteq> Sem_give then 1 else 0) \<le>
      unat (sem_count state) + (if wake = Signal Sem_condition then 1 else 0)"
proof -
  have take: "unat (sem_count state - 1) = unat (sem_count state) - 1" "0 < unat (sem_count state)"
    if "sem_count state \<noteq> 0"
    using that by (simp_all add: unat_gt_0 unat_minus_one)
  have give: "unat (sem_count state + 1) = unat (sem_count state) + 1"
    "unat (sem_count state) < unat (sem_maximum state)"
    if "sem_count state \<noteq> sem_maximum state"
  proof -
    have "sem_count state < sem_maximum state"
      using that assms(1) by (simp add: semaphore_ok_def)
    then show less: "unat (sem_count state) < unat (sem_maximum state)"
      by (simp add: word_less_nat_alt)
    then show "unat (sem_count state + 1) = unat (sem_count state) + 1"
      using unat_u32_less [of "sem_maximum state"] by (simp add: unat_word_ariths del: unat_u32_less)
  qed
  show "semaphore_ok state' \<and> counter_spec p result (semaphore_units state) (semaphore_units state')"
    "unat (sem_count state') + (if p \<noteq> Sem_give then 1 else 0) \<le>
      unat (sem_count state) + (if wake = Signal Sem_condition then 1 else 0)"
    using assms take give
    by (cases p; auto simp: semaphore_ok_def semaphore_units_def os_semaphore_take_def word_le_nat_alt
        semaphore_give_common_def split: if_splits)+
qed

fun semaphore_cond_of :: "semaphore_op \<Rightarrow> semaphore_cond option" where
  "semaphore_cond_of (Sem_take timeout_ms) = Some Sem_condition"
| "semaphore_cond_of Sem_give = None"

interpretation semaphore: counted_object semaphore_ops semaphore_created semaphore_ok semaphore_units
  counter_spec semaphore_cond_of "\<lambda>c state. unat (sem_count state)"
proof
  fix p state state' result wake c
  assume "semaphore_ok state" "op_section semaphore_ops p state = Leave state' result wake"
  then show "unat (sem_count state') + (if semaphore_cond_of p = Some c then 1 else 0) \<le>
      unat (sem_count state) + (if wake = Signal c then 1 else 0)"
    using semaphore_section_spec(2) [of state p state' result wake] by (cases c; cases p) auto
next
  fix state
  assume "semaphore_created state"
  then show "semaphore_ok state"
    by (auto simp: semaphore_created_def semaphore_init_def semaphore_ok_def split: if_splits)
next
  fix p state c
  assume "op_section semaphore_ops p state = Wait_for c"
  then show "semaphore_cond_of p = Some c \<and> unat (sem_count state) = 0"
    by (cases p; cases c)
      (auto simp: os_semaphore_take_def semaphore_give_common_def split: if_splits)
qed (use semaphore_section_spec(1) in auto)

text \<open>Event flags: a wait returns the awaited flags that are set, enough of them, and clears the
  awaited ones or none; a set adds flags.\<close>

fun flags_spec :: "event_op \<Rightarrow> u32 option \<Rightarrow> u32 \<Rightarrow> u32 \<Rightarrow> bool" where
  "flags_spec p None a b = (b = a)"
| "flags_spec (Event_wait_op bits wait_all clear_on_exit timeout_ms) (Some r) a b =
    (r = a AND bits \<and> r \<noteq> 0 \<and> (wait_all \<longrightarrow> r = bits) \<and>
     (\<forall>i. bit b i = (bit a i \<and> \<not> (clear_on_exit \<and> bit bits i))))"
| "flags_spec (Event_set_op bits) (Some r) a b = (\<forall>i. bit b i = (bit a i \<or> bit bits i))"

lemma bit_u32_less: "bit (w :: u32) i \<Longrightarrow> i < 32"
  using bit_imp_le_length [of w i] by simp

interpretation event: monitor_object event_ops "\<lambda>flags. flags = 0" "\<lambda>_. True" "\<lambda>flags. flags" flags_spec
proof
  fix p flags flags' result wake
  assume "op_admits event_ops p" "op_section event_ops p flags = Leave flags' result wake"
  then show "flags_spec p result flags flags'"
    by (cases p)
      (auto simp: os_event_wait_def os_event_set_def event_matches_def bit_and_iff bit_or_iff
        bit_not_iff dest: bit_u32_less split: if_splits)
qed auto

section \<open>What the queue and the event flags promise to their users\<close>

abbreviation queue_run :: "nat \<Rightarrow> nat \<Rightarrow> queue_state \<Rightarrow>
    (queue_state, queue_op, u8 list, queue_cond) monitor \<Rightarrow> bool" where
  "queue_run n c q0 \<equiv>
    reachable (\<lambda>m. monitor_start (queue_created n c) m \<and> mon_object m = q0) (monitor_step (queue_ops n))"

text \<open>The items of the successful sends and receives of a log, oldest first.\<close>

fun log_sent :: "(queue_op \<times> u8 list option) list \<Rightarrow> u8 list list" where
  "log_sent [] = []"
| "log_sent ((Queue_send_op item timeout_ms, Some r) # log) = log_sent log @ [item]"
| "log_sent (_ # log) = log_sent log"

fun log_received :: "(queue_op \<times> u8 list option) list \<Rightarrow> u8 list list" where
  "log_received [] = []"
| "log_received ((Queue_receive_op timeout_ms, Some item) # log) = log_received log @ [item]"
| "log_received (_ # log) = log_received log"

lemma replays_fifo:
  "replays (fifo_spec c) log [] items \<Longrightarrow> log_received log @ items = log_sent log \<and> length items \<le> c"
proof (induction log arbitrary: items)
  case (Cons e log)
  obtain p result where e: "e = (p, result)" by force
  from Cons.prems obtain before where
    before: "replays (fifo_spec c) log [] before" "fifo_spec c p result before items"
    by (auto simp: e)
  from Cons.IH [OF before(1)] before(2) show ?case
    by (cases p; cases result) (auto simp: e)
qed simp

text \<open>C14: A queue of the POSIX OS layer is a bounded queue of items, whatever number of threads send
  and receive and however their calls block, time out and wake up: the calls take effect one after
  the other as on a list of at most \<open>c\<close> items, so that the items received, followed by those in the
  ring, are the items sent, in their order.\<close>

theorem posix_queue_refines_fifo:
  assumes "queue_run n c q0 m"
  shows "replays (fifo_spec c) (mon_log m) [] (queue_items (mon_object m)) \<and>
    log_received (mon_log m) @ queue_items (mon_object m) = log_sent (mon_log m) \<and>
    length (queue_items (mon_object m)) \<le> c"
proof -
  have q0: "queue_items q0 = []"
    using assms by (induction rule: reachable.induct) (auto simp: monitor_start_def queue_created_ok)
  have "queue.consistent n c q0 m" by (rule queue.reachable_consistent [OF assms])
  then have "replays (fifo_spec c) (mon_log m) [] (queue_items (mon_object m))"
    by (simp add: queue.consistent_def q0)
  with replays_fifo show ?thesis by blast
qed

text \<open>C15: No wake-up is lost. As long as a receiver sleeps, at least as many receivers have been woken
  and not yet run as there are items in the ring; as long as a sender sleeps, at least as many woken
  senders as there are free places. So the threads never all sleep while one of them could act.\<close>

theorem posix_queue_no_lost_wakeup:
  assumes "queue_run n c q0 m"
  shows "((\<exists>t. asleep_on Not_empty (mon_calls m t)) \<longrightarrow>
      q_count (mon_object m) \<le> card (woken_for queue_cond_of Not_empty (mon_calls m))) \<and>
    ((\<exists>t. asleep_on Not_full (mon_calls m t)) \<longrightarrow>
      c - q_count (mon_object m) \<le> card (woken_for queue_cond_of Not_full (mon_calls m)))"
proof -
  have "queue.consistent n c q0 m" by (rule queue.reachable_consistent [OF assms])
  then have "q_capacity (mon_object m) = c" by (simp add: queue.consistent_def queue_ok_def)
  then show ?thesis
    using queue.reachable_attended [OF assms, of Not_empty] queue.reachable_attended [OF assms, of Not_full]
    by (simp add: queue.attended_def)
qed

text \<open>Three threads on a queue of two bytes: two receivers find it empty and sleep, the sender puts
  an item in and wakes one of them.\<close>

definition demo_queue :: queue_state where
  "demo_queue = \<lparr>q_storage = [0, 0], q_item_size = 1, q_capacity = 2, q_head = 0, q_count = 0\<rparr>"

definition demo_queue_start :: "(queue_state, queue_op, u8 list, queue_cond) monitor" where
  "demo_queue_start = \<lparr>mon_object = demo_queue, mon_log = [], mon_calls = Map.empty\<rparr>"

definition demo_receive :: "(u8 list, queue_cond) call_state \<Rightarrow> (queue_op, u8 list, queue_cond) call" where
  "demo_receive state = \<lparr>call_op = Queue_receive_op WLH_OSAL_WAIT_FOREVER,
    call_timeout = WLH_OSAL_WAIT_FOREVER, call_deadline = 0, call_state = state\<rparr>"

definition demo_send :: "(u8 list, queue_cond) call_state \<Rightarrow> (queue_op, u8 list, queue_cond) call" where
  "demo_send state = \<lparr>call_op = Queue_send_op [7] WLH_OSAL_NO_WAIT,
    call_timeout = WLH_OSAL_NO_WAIT, call_deadline = 0, call_state = state\<rparr>"

definition demo_queue_woken :: "(queue_state, queue_op, u8 list, queue_cond) monitor" where
  "demo_queue_woken = \<lparr>mon_object = demo_queue\<lparr>q_storage := [7, 0], q_count := 1\<rparr>,
    mon_log = [(Queue_send_op [7] WLH_OSAL_NO_WAIT, Some [])],
    mon_calls = [0 \<mapsto> demo_receive Woken, 2 \<mapsto> demo_receive (Asleep Not_empty),
      1 \<mapsto> demo_send (Returned (Some []))]\<rparr>"

lemma demo_queue_run: "queue_run 1 2 demo_queue demo_queue_woken"
proof -
  let ?run = "queue_run 1 2 demo_queue"
  have "queue_created 1 2 demo_queue"
    unfolding queue_created_def by (rule exI [of _ "[0, 0]"]) (simp add: queue_init_def demo_queue_def)
  then have "?run demo_queue_start"
    by (intro reach_init) (simp add: monitor_start_def demo_queue_start_def)
  then have "?run (demo_queue_start\<lparr>mon_calls := [0 \<mapsto> demo_receive Locking]\<rparr>)"
    by (rule reach_step)
      (rule step_callI [where t = 0 and p = "Queue_receive_op WLH_OSAL_WAIT_FOREVER" and now = 0],
        simp_all add: demo_queue_start_def demo_receive_def new_call_def queue_ops_def deadline_for_timeout_def)
  then have "?run (demo_queue_start\<lparr>mon_calls := [0 \<mapsto> demo_receive (Asleep Not_empty)]\<rparr>)"
    by (rule reach_step)
      (rule step_enterI [where t = 0 and k = "demo_receive Locking" and answer = Locked and now = 0
            and state = "Asleep Not_empty" and object = demo_queue, OF _ _ _ wakes_none],
        simp_all add: demo_queue_start_def demo_queue_def demo_receive_def call_enter_def lock_turn_def
          call_body_def os_queue_receive_def wait_condition_def log_call_def)
  then have "?run (demo_queue_start\<lparr>mon_calls := [0 \<mapsto> demo_receive (Asleep Not_empty),
      2 \<mapsto> demo_receive Locking]\<rparr>)"
    by (rule reach_step)
      (rule step_callI [where t = 2 and p = "Queue_receive_op WLH_OSAL_WAIT_FOREVER" and now = 0],
        simp_all add: demo_queue_start_def demo_receive_def new_call_def queue_ops_def deadline_for_timeout_def)
  then have "?run (demo_queue_start\<lparr>mon_calls := [0 \<mapsto> demo_receive (Asleep Not_empty),
      2 \<mapsto> demo_receive (Asleep Not_empty)]\<rparr>)"
    by (rule reach_step)
      (rule step_enterI [where t = 2 and k = "demo_receive Locking" and answer = Locked and now = 0
            and state = "Asleep Not_empty" and object = demo_queue, OF _ _ _ wakes_none],
        simp_all add: demo_queue_start_def demo_queue_def demo_receive_def call_enter_def lock_turn_def
          call_body_def os_queue_receive_def wait_condition_def log_call_def)
  then have "?run (demo_queue_start\<lparr>mon_calls := [0 \<mapsto> demo_receive (Asleep Not_empty),
      2 \<mapsto> demo_receive (Asleep Not_empty), 1 \<mapsto> demo_send Locking]\<rparr>)"
    by (rule reach_step)
      (rule step_callI [where t = 1 and p = "Queue_send_op [7] WLH_OSAL_NO_WAIT" and now = 0],
        simp_all add: demo_queue_start_def demo_send_def new_call_def queue_ops_def deadline_for_timeout_def)
  then show ?thesis
    by (rule reach_step)
      (rule step_enterI [where t = 1 and k = "demo_send Locking" and answer = Locked and now = 0
            and state = "Returned (Some [])" and object = "demo_queue\<lparr>q_storage := [7, 0], q_count := 1\<rparr>",
          OF _ _ _ wakes_one [where u = 0 and c = Not_empty]],
        simp_all add: demo_queue_start_def demo_queue_def demo_receive_def demo_send_def call_enter_def
          lock_turn_def call_body_def os_queue_send_def storage_write_def log_call_def asleep_on_def
          wake_call_def demo_queue_woken_def fun_eq_iff WLH_OSAL_NO_WAIT_def WLH_OSAL_WAIT_FOREVER_def)
qed

theorem posix_queue_refines_fifo_witness:
  "queue_items (mon_object demo_queue_woken) = [[7]] \<and>
    log_received (mon_log demo_queue_woken) @ queue_items (mon_object demo_queue_woken) =
      log_sent (mon_log demo_queue_woken)"
  using posix_queue_refines_fifo [OF demo_queue_run]
  by (simp add: demo_queue_woken_def)

theorem posix_queue_no_lost_wakeup_witness:
  "woken_for queue_cond_of Not_empty (mon_calls demo_queue_woken) = {0} \<and>
    q_count (mon_object demo_queue_woken) = 1 \<and>
    q_count (mon_object demo_queue_woken) \<le> card (woken_for queue_cond_of Not_empty (mon_calls demo_queue_woken))"
proof -
  have "woken_for queue_cond_of Not_empty (mon_calls demo_queue_woken) = {0}"
    by (auto simp: woken_for_def demo_queue_woken_def demo_receive_def demo_send_def split: if_splits)
  moreover have "asleep_on Not_empty (mon_calls demo_queue_woken 2)"
    by (simp add: asleep_on_def demo_queue_woken_def demo_receive_def)
  ultimately show ?thesis
    using posix_queue_no_lost_wakeup [OF demo_queue_run] by (auto simp: demo_queue_woken_def)
qed

end
