(* ===== verification/Posix_Calls.thy ===== *)
theory Posix_Calls
  imports Posix_Objects
begin

text \<open>
  A single call of the POSIX OS layer (common/osal/src/posix_osal.c) on its own: how long it can
  take, and the arithmetic of its deadlines.
\<close>

section \<open>A call as a sequence of turns\<close>

text \<open>What a thread meets at each turn: what the mutex answers while it is trying to take it, whether
  the wait it slept in returned 0, the clock, and the object as the other threads left it.\<close>

record 'o call_turn =
  turn_lock :: lock_answer
  turn_woken :: bool
  turn_clock :: u64
  turn_object :: 'o

text \<open>The call until it returns; \<open>None\<close>: it is still running after these turns.\<close>

fun run_call :: "('o \<Rightarrow> ('o, 'r, 'c) critical) \<Rightarrow> u32 \<Rightarrow> u64 \<Rightarrow> ('r, 'c) call_state \<Rightarrow>
    'o call_turn list \<Rightarrow> 'r option option" where
  "run_call act timeout_ms deadline_ms (Returned result) turns = Some result"
| "run_call act timeout_ms deadline_ms state [] = None"
| "run_call act timeout_ms deadline_ms state (turn # turns) =
    run_call act timeout_ms deadline_ms (fst (case state of
        Locking \<Rightarrow> call_enter act timeout_ms deadline_ms (turn_lock turn) (turn_clock turn) (turn_object turn)
      | _ \<Rightarrow>
          if turn_woken turn then call_body act timeout_ms deadline_ms (turn_clock turn) (turn_object turn)
          else (Returned None, turn_object turn, No_wake))) turns"

text \<open>A turn at or after the deadline is the last one, and so is the first turn of a call that does not
  wait at all.\<close>

definition timed_out :: "u32 \<Rightarrow> u64 \<Rightarrow> u64 \<Rightarrow> bool" where
  "timed_out timeout_ms deadline_ms now \<longleftrightarrow> timeout_ms \<noteq> WLH_OSAL_WAIT_FOREVER \<and>
    (timeout_ms = WLH_OSAL_NO_WAIT \<or> deadline_ms \<le> now)"

lemma body_returns:
  "timed_out timeout_ms deadline_ms now \<Longrightarrow>
    \<exists>result. fst (call_body act timeout_ms deadline_ms now object) = Returned result"
  by (auto simp: timed_out_def call_body_def wait_condition_def split: critical.splits)

lemma enter_returns:
  assumes "timed_out timeout_ms deadline_ms now"
  shows "\<exists>result. fst (call_enter act timeout_ms deadline_ms answer now object) = Returned result"
  using body_returns [OF assms, of act object] assms
  by (cases answer) (auto simp: timed_out_def call_enter_def lock_turn_def)

lemma run_returned [simp]: "run_call act timeout_ms deadline_ms (Returned result) turns = Some result"
  by (cases turns) simp_all

text \<open>C21: A call with a timeout comes back. Whatever the mutex, the condition variable and the other
  threads do, a call that does not wait returns in its first turn, and a call with a finite timeout
  returns no later than its first turn at or after the deadline.\<close>

theorem posix_timed_call_returns:
  assumes "timeout_ms \<noteq> WLH_OSAL_WAIT_FOREVER" and "turns \<noteq> []"
    and "timeout_ms = WLH_OSAL_NO_WAIT \<or> (\<exists>turn \<in> set turns. deadline_ms \<le> turn_clock turn)"
  shows "\<exists>result. run_call act timeout_ms deadline_ms Locking turns = Some result"
proof -
  have "\<exists>result. run_call act timeout_ms deadline_ms state turns = Some result"
    if "\<exists>turn \<in> set turns. timed_out timeout_ms deadline_ms (turn_clock turn)" for state
    using that
  proof (induction turns arbitrary: state)
    case (Cons turn turns)
    let ?next = "case state of
        Locking \<Rightarrow> call_enter act timeout_ms deadline_ms (turn_lock turn) (turn_clock turn) (turn_object turn)
      | _ \<Rightarrow> if turn_woken turn then call_body act timeout_ms deadline_ms (turn_clock turn) (turn_object turn)
          else (Returned None, turn_object turn, No_wake)"
    show ?case
    proof (cases "timed_out timeout_ms deadline_ms (turn_clock turn)")
      case True
      then have "\<exists>result. fst ?next = Returned result"
        using body_returns [OF True] enter_returns [OF True] by (auto split: call_state.split)
      then show ?thesis by (cases state) auto
    next
      case False
      with Cons.prems have "\<exists>turn \<in> set turns. timed_out timeout_ms deadline_ms (turn_clock turn)" by auto
      from Cons.IH [OF this] show ?thesis by (cases state) auto
    qed
  qed simp
  moreover have "\<exists>turn \<in> set turns. timed_out timeout_ms deadline_ms (turn_clock turn)"
    using assms by (cases turns) (auto simp: timed_out_def)
  ultimately show ?thesis by blast
qed

theorem posix_timed_call_returns_witness:
  "\<exists>result. run_call os_queue_receive 5 (deadline_for_timeout 5 100) Locking
    [\<lparr>turn_lock = Locked, turn_woken = False, turn_clock = 100, turn_object = demo_queue\<rparr>,
     \<lparr>turn_lock = Locked, turn_woken = True, turn_clock = 105, turn_object = demo_queue\<rparr>] = Some result"
proof (rule posix_timed_call_returns)
  have "deadline_for_timeout 5 100 \<le> 105" by code_simp
  then show "5 = WLH_OSAL_NO_WAIT \<or> (\<exists>turn \<in> set
    [\<lparr>turn_lock = Locked, turn_woken = False, turn_clock = 100, turn_object = demo_queue\<rparr>,
     \<lparr>turn_lock = Locked, turn_woken = True, turn_clock = 105, turn_object = demo_queue\<rparr>].
      deadline_for_timeout 5 100 \<le> turn_clock turn)"
    by simp
qed (simp_all add: WLH_OSAL_WAIT_FOREVER_def)

section \<open>Mutexes\<close>

definition os_mutex_lock :: "bool \<Rightarrow> u32 \<Rightarrow> u64 \<Rightarrow> (lock_answer \<times> u64) list \<Rightarrow> int option" where
  "os_mutex_lock present timeout_ms start turns = (
    if \<not> present then Some (- 1)
    else lock_with_timeout timeout_ms (deadline_for_timeout timeout_ms start) turns)"

text \<open>A lock with a timeout is decided by the first turn at or after its deadline.\<close>

lemma os_mutex_lock_returns:
  "\<exists>turn \<in> set turns. timed_out timeout_ms (deadline_for_timeout timeout_ms start) (snd turn) \<Longrightarrow>
    \<exists>result. os_mutex_lock present timeout_ms start turns = Some result"
  unfolding os_mutex_lock_def
proof (induction turns)
  case (Cons turn turns)
  then show ?case
    by (cases turn; cases "fst turn")
      (auto simp: lock_turn_def timed_out_def split: option.splits if_splits, (force+)?)
qed simp

section \<open>Deadlines\<close>

lemma unat_u64_less: "unat (w :: u64) < 18446744073709551616"
  using unsigned_less [of w, where ?'a = nat] by simp

text \<open>The absolute time handed to \<open>pthread_cond_timedwait\<close> is a normalised \<open>timespec\<close>, \<open>duration\<close>
  milliseconds after the present one.\<close>

lemma cond_deadline_clock:
  "tv_nsec (cond_deadline ts duration) < 1000000000"
  "clock_ms (cond_deadline ts duration) = clock_ms ts + ucast duration"
proof -
  define d :: u64 where "d = tv_sec ts * 1000 + tv_nsec ts div 1000000 + ucast duration"
  have dm: "unat (d mod 1000) = unat d mod 1000" "unat (d div 1000) = unat d div 1000"
    by (simp_all add: unat_mod unat_div)
  have "unat (d mod 1000) < 1000" by (simp add: dm)
  then have nsec: "unat ((d mod 1000) * 1000000) = unat d mod 1000 * 1000000"
    by (simp add: unat_word_ariths dm)
  then show "tv_nsec (cond_deadline ts duration) < 1000000000"
    by (simp add: cond_deadline_def Let_def d_def [symmetric] word_less_nat_alt)
  have "unat ((d mod 1000) * 1000000 div 1000000) = unat (d mod 1000)"
    by (simp add: unat_div nsec dm)
  then have "(d mod 1000) * 1000000 div 1000000 = d mod 1000" by (rule word_unat_eq_iff [THEN iffD2])
  then have "clock_ms (cond_deadline ts duration) = d div 1000 * 1000 + d mod 1000"
    by (simp add: clock_ms_def cond_deadline_def Let_def d_def [symmetric])
  also have "\<dots> = d" by (simp add: word_mod_div_equality)
  finally show "clock_ms (cond_deadline ts duration) = clock_ms ts + ucast duration"
    by (simp add: d_def clock_ms_def)
qed

text \<open>The wait of a call ends at its deadline, to the millisecond. The deadline of a timeout is the
  time it was made plus the timeout; a wait started before it lasts exactly what is left, which fits the
  32 bits it is passed in and never exceeds the timeout, and the absolute time handed to
  \<open>pthread_cond_timedwait\<close> is normalised and is the deadline.\<close>

theorem posix_wait_ends_at_deadline:
  assumes "timeout_ms \<noteq> WLH_OSAL_WAIT_FOREVER" "timeout_ms \<noteq> WLH_OSAL_NO_WAIT"
    and "unat start + unat timeout_ms < 2 ^ 64" "start \<le> clock_ms ts"
  shows "case wait_condition timeout_ms (deadline_for_timeout timeout_ms start) (clock_ms ts) of
      Wait_refused \<Rightarrow> unat start + unat timeout_ms \<le> unat (clock_ms ts)
    | Wait_unlimited \<Rightarrow> False
    | Wait_timed duration \<Rightarrow>
        unat (clock_ms ts) + unat duration = unat start + unat timeout_ms \<and> duration \<le> timeout_ms \<and>
        tv_nsec (cond_deadline ts duration) < 1000000000 \<and>
        clock_ms (cond_deadline ts duration) = deadline_for_timeout timeout_ms start"
proof -
  let ?deadline = "deadline_for_timeout timeout_ms start" and ?now = "clock_ms ts"
  have deadline: "unat ?deadline = unat start + unat timeout_ms"
    using assms(1-3) by (simp add: deadline_for_timeout_def unat_word_ariths unat_ucast_u32_u64)
  show ?thesis
  proof (cases "?deadline \<le> ?now")
    case True
    with assms(1,2) deadline show ?thesis by (simp add: wait_condition_def word_le_nat_alt)
  next
    case False
    then have le: "?now \<le> ?deadline" by simp
    define d :: u32 where "d = ucast (?deadline - ?now)"
    have left: "unat (?deadline - ?now) = unat start + unat timeout_ms - unat ?now"
      using unat_sub [OF le] deadline by simp
    also have "\<dots> \<le> unat timeout_ms"
      using assms(4) by (simp add: word_le_nat_alt)
    finally have small: "unat (?deadline - ?now) \<le> unat timeout_ms" .
    then have "unat (?deadline - ?now) < 4294967296" using unat_u32_less [of timeout_ms] by linarith
    then have d: "unat d = unat (?deadline - ?now)"
      by (simp add: d_def unsigned_ucast_eq take_bit_nat_eq_self)
    have wide: "(ucast d :: u64) = ?deadline - ?now"
      by (rule word_unat_eq_iff [THEN iffD2]) (simp only: unat_ucast_u32_u64 d)
    have "wait_condition timeout_ms ?deadline ?now = Wait_timed d"
      using assms(1,2) False by (simp add: wait_condition_def d_def)
    moreover have "unat ?now + unat d = unat start + unat timeout_ms"
      using d left le deadline by (simp add: word_le_nat_alt)
    moreover have "d \<le> timeout_ms"
      using d small by (simp add: word_le_nat_alt)
    ultimately show ?thesis
      by (simp add: cond_deadline_clock wide)
  qed
qed

theorem posix_wait_ends_at_deadline_witness:
  "case wait_condition 5 (deadline_for_timeout 5 100) (clock_ms \<lparr>tv_sec = 0, tv_nsec = 102000000\<rparr>) of
      Wait_refused \<Rightarrow> unat (100 :: u64) + unat (5 :: u32) \<le> unat (clock_ms \<lparr>tv_sec = 0, tv_nsec = 102000000\<rparr>)
    | Wait_unlimited \<Rightarrow> False
    | Wait_timed duration \<Rightarrow>
        unat (clock_ms \<lparr>tv_sec = 0, tv_nsec = 102000000\<rparr>) + unat duration = unat (100 :: u64) + unat (5 :: u32) \<and>
        duration \<le> 5 \<and> tv_nsec (cond_deadline \<lparr>tv_sec = 0, tv_nsec = 102000000\<rparr> duration) < 1000000000 \<and>
        clock_ms (cond_deadline \<lparr>tv_sec = 0, tv_nsec = 102000000\<rparr> duration) = deadline_for_timeout 5 100"
  by (rule posix_wait_ends_at_deadline)
    (simp_all add: WLH_OSAL_WAIT_FOREVER_def WLH_OSAL_NO_WAIT_def clock_ms_def)

end
