(* ===== verification/Posix_Lifecycle.thy ===== *)
theory Posix_Lifecycle
  imports Posix_Calls "HOL-Library.Multiset"
begin

text \<open>
  How the objects of the POSIX OS layer come and go (common/osal/src/posix_osal.c): creation with its
  error paths, destruction, tasks and their join, and the timer thread.
\<close>

section \<open>What a program holds of pthread and the heap\<close>

datatype px_resource = Px_heap | Px_mutex | Px_cond | Px_condattr | Px_attr | Px_thread

text \<open>\<open>px_grants n\<close> says whether the \<open>n\<close>-th request succeeds; requests that only set an attribute
  hold nothing.\<close>

record px =
  px_grants :: "nat \<Rightarrow> bool"
  px_requests :: nat
  px_held :: "px_resource multiset"

definition px_request :: "px_resource multiset \<Rightarrow> (px, bool) state" where
  "px_request resources = do {
    s \<leftarrow> State_Monad.get;
    let ok = px_grants s (px_requests s);
    modify (\<lambda>s. s\<lparr>px_requests := px_requests s + 1,
      px_held := (if ok then px_held s + resources else px_held s)\<rparr>);
    ret ok
  }"

definition px_release :: "px_resource \<Rightarrow> (px, unit) state" where
  "px_release resource = modify (\<lambda>s. s\<lparr>px_held := px_held s - {#resource#}\<rparr>)"

lemma wp_px_request:
  "(\<And>n. Q True (s\<lparr>px_requests := n, px_held := px_held s + resources\<rparr>)) \<Longrightarrow>
    (\<And>n. Q False (s\<lparr>px_requests := n\<rparr>)) \<Longrightarrow> wp (px_request resources) Q s"
  by (simp add: px_request_def wp_simps Let_def)

lemma wp_px_release [wp_simps]:
  "wp (px_release r) Q s = Q () (s\<lparr>px_held := px_held s - {#r#}\<rparr>)"
  by (simp add: px_release_def wp_simps)

section \<open>Condition variables\<close>

definition cond_init_monotonic :: "(px, int) state" where
  "cond_init_monotonic = do {
    attr \<leftarrow> px_request {#Px_condattr#};
    if \<not> attr then ret (- 1)
    else do {
      clock \<leftarrow> px_request {#};
      if \<not> clock then do { px_release Px_condattr; ret (- 1) }
      else do {
        rc \<leftarrow> px_request {#Px_cond#};
        px_release Px_condattr;
        ret (if rc then 0 else 1)
      }
    }
  }"

section \<open>Creation and destruction\<close>

text \<open>The constructors return the initial state of the object, or \<open>None\<close> for the status -1. The
  object's address and the storage may be NULL.\<close>

definition os_mutex_create :: "bool \<Rightarrow> (px, unit option) state" where
  "os_mutex_create present = (if \<not> present then ret None else do {
    mutex \<leftarrow> px_request {#Px_mutex#};
    ret (if \<not> mutex then None else Some ())
  })"

definition os_mutex_destroy :: "bool \<Rightarrow> (px, unit) state" where
  "os_mutex_destroy present = whenM present (px_release Px_mutex)"

definition os_semaphore_create :: "bool \<Rightarrow> u32 \<Rightarrow> u32 \<Rightarrow> (px, semaphore_state option) state" where
  "os_semaphore_create present initial_count maximum_count = (
    if \<not> present \<or> semaphore_init initial_count maximum_count = None then ret None
    else do {
      mutex \<leftarrow> px_request {#Px_mutex#};
      if \<not> mutex then ret None
      else do {
        rc \<leftarrow> cond_init_monotonic;
        if rc \<noteq> 0 then do { px_release Px_mutex; ret None }
        else ret (semaphore_init initial_count maximum_count)
      }
    })"

definition os_semaphore_destroy :: "bool \<Rightarrow> (px, unit) state" where
  "os_semaphore_destroy present = whenM present (do { px_release Px_cond; px_release Px_mutex })"

definition os_event_create :: "bool \<Rightarrow> (px, u32 option) state" where
  "os_event_create present = (if \<not> present then ret None else do {
    mutex \<leftarrow> px_request {#Px_mutex#};
    if \<not> mutex then ret None
    else do {
      rc \<leftarrow> cond_init_monotonic;
      if rc \<noteq> 0 then do { px_release Px_mutex; ret None }
      else ret (Some 0)
    }
  })"

definition os_event_destroy :: "bool \<Rightarrow> (px, unit) state" where
  "os_event_destroy present = whenM present (do { px_release Px_cond; px_release Px_mutex })"

definition os_queue_create :: "bool \<Rightarrow> u8 list option \<Rightarrow> nat \<Rightarrow> nat \<Rightarrow> (px, queue_state option) state" where
  "os_queue_create present storage item_size capacity = (
    if \<not> present \<or> queue_init storage item_size capacity = None then ret None
    else do {
      mutex \<leftarrow> px_request {#Px_mutex#};
      if \<not> mutex then ret None
      else do {
        not_empty \<leftarrow> cond_init_monotonic;
        if not_empty \<noteq> 0 then do { px_release Px_mutex; ret None }
        else do {
          not_full \<leftarrow> cond_init_monotonic;
          if not_full \<noteq> 0 then do { px_release Px_cond; px_release Px_mutex; ret None }
          else ret (queue_init storage item_size capacity)
        }
      }
    })"

definition os_queue_destroy :: "bool \<Rightarrow> (px, unit) state" where
  "os_queue_destroy present =
    whenM present (do { px_release Px_cond; px_release Px_cond; px_release Px_mutex })"

section \<open>Tasks\<close>

record task_state =
  task_done :: bool
  task_created :: bool

text \<open>\<open>stack_size\<close> is the one of the attributes, zero without attributes.\<close>

definition os_task_create :: "bool \<Rightarrow> nat \<Rightarrow> (px, task_state option) state" where
  "os_task_create present stack_size = (if \<not> present then ret None else do {
    heap \<leftarrow> px_request {#Px_heap#};
    if \<not> heap then ret None
    else do {
      mutex \<leftarrow> px_request {#Px_mutex#};
      if \<not> mutex then do { px_release Px_heap; ret None }
      else do {
        rc \<leftarrow> cond_init_monotonic;
        if rc \<noteq> 0 then do { px_release Px_mutex; px_release Px_heap; ret None }
        else do {
          attr \<leftarrow> px_request {#Px_attr#};
          if \<not> attr then do { px_release Px_cond; px_release Px_mutex; px_release Px_heap; ret None }
          else do {
            stack \<leftarrow> (if stack_size \<noteq> 0 then px_request {#} else ret True);
            if \<not> stack then do {
              px_release Px_attr;
              px_release Px_cond;
              px_release Px_mutex;
              px_release Px_heap;
              ret None
            }
            else do {
              created \<leftarrow> px_request {#Px_thread#};
              px_release Px_attr;
              if \<not> created then do {
                px_release Px_cond;
                px_release Px_mutex;
                px_release Px_heap;
                ret None
              }
              else ret (Some \<lparr>task_done = False, task_created = True\<rparr>)
            }
          }
        }
      }
    }
  })"

text \<open>What the thread does last: it says so under the mutex and wakes every joiner.\<close>

definition task_trampoline_end :: "task_state \<Rightarrow> task_state \<times> unit wake" where
  "task_trampoline_end state = (state\<lparr>task_done := True\<rparr>, Broadcast ())"

text \<open>The wait of a join: at each turn whether the task is done, the clock, and what the wait begun
  in that turn returned. \<open>None\<close>: still waiting.\<close>

fun task_join_wait :: "u32 \<Rightarrow> u64 \<Rightarrow> (bool \<times> u64 \<times> bool) list \<Rightarrow> int option" where
  "task_join_wait timeout_ms deadline_ms [] = None"
| "task_join_wait timeout_ms deadline_ms ((finished, now, waited) # turns) = (
    if finished then Some 0
    else if wait_condition timeout_ms deadline_ms now = Wait_refused then Some (- 1)
    else if waited then task_join_wait timeout_ms deadline_ms turns
    else Some (- 1))"

text \<open>The join after its wait: only a task whose thread has been joined is given back.\<close>

definition os_task_join_end :: "task_state option \<Rightarrow> int \<Rightarrow> (px, int \<times> task_state option) state" where
  "os_task_join_end state waited = (case state of
      None \<Rightarrow> ret (- 1, None)
    | Some task \<Rightarrow>
        if \<not> task_created task \<or> waited \<noteq> 0 then ret (- 1, Some task)
        else do {
          joined \<leftarrow> px_request {#};
          if \<not> joined then ret (- 1, Some task)
          else do {
            px_release Px_thread;
            px_release Px_cond;
            px_release Px_mutex;
            px_release Px_heap;
            ret (0, None)
          }
        })"

section \<open>Timers\<close>

record timer_state =
  tm_deadline_ms :: u64
  tm_period_ms :: u32
  tm_periodic :: bool
  tm_armed :: bool
  tm_stopping :: bool
  tm_created :: bool

definition timer_zero :: timer_state where
  "timer_zero = \<lparr>tm_deadline_ms = 0, tm_period_ms = 0, tm_periodic = False, tm_armed = False,
    tm_stopping = False, tm_created = False\<rparr>"

definition os_timer_create :: "bool \<Rightarrow> (px, timer_state option) state" where
  "os_timer_create present = (if \<not> present then ret None else do {
    mutex \<leftarrow> px_request {#Px_mutex#};
    if \<not> mutex then ret None
    else do {
      rc \<leftarrow> cond_init_monotonic;
      if rc \<noteq> 0 then do { px_release Px_mutex; ret None }
      else do {
        thread \<leftarrow> px_request {#Px_thread#};
        if \<not> thread then do { px_release Px_cond; px_release Px_mutex; ret None }
        else ret (Some (timer_zero\<lparr>tm_created := True\<rparr>))
      }
    }
  })"

text \<open>What the timer thread does after it looked at its state at time \<open>now\<close>.\<close>

datatype timer_action = Timer_exit | Timer_wait | Timer_wait_ms u32 | Timer_fire

definition timer_main :: "u64 \<Rightarrow> timer_state \<Rightarrow> timer_action \<times> timer_state" where
  "timer_main now state = (
    if tm_stopping state then (Timer_exit, state)
    else if \<not> tm_armed state then (Timer_wait, state)
    else if now < tm_deadline_ms state then (Timer_wait_ms (ucast (tm_deadline_ms state - now)), state)
    else if tm_periodic state
    then (Timer_fire, state\<lparr>tm_deadline_ms := now + ucast (tm_period_ms state)\<rparr>)
    else (Timer_fire, state\<lparr>tm_armed := False\<rparr>))"

definition os_timer_start :: "u32 \<Rightarrow> bool \<Rightarrow> u64 \<Rightarrow> timer_state \<Rightarrow> int \<times> timer_state" where
  "os_timer_start period_ms periodic now state = (
    if \<not> tm_created state \<or> period_ms = 0 then (- 1, state)
    else (0, state\<lparr>tm_period_ms := period_ms, tm_periodic := periodic,
      tm_deadline_ms := now + ucast period_ms, tm_armed := True\<rparr>))"

definition os_timer_stop :: "timer_state \<Rightarrow> int \<times> timer_state" where
  "os_timer_stop state = (
    if \<not> tm_created state then (- 1, state) else (0, state\<lparr>tm_armed := False\<rparr>))"

text \<open>Destruction tells the thread to stop; once it has exited its objects are given back.\<close>

definition os_timer_destroy_begin :: "timer_state \<Rightarrow> timer_state" where
  "os_timer_destroy_begin state = (
    if \<not> tm_created state then state else state\<lparr>tm_stopping := True\<rparr>)"

definition os_timer_destroy_end :: "timer_state \<Rightarrow> (px, timer_state) state" where
  "os_timer_destroy_end state = (if \<not> tm_created state then ret state else do {
    px_release Px_thread;
    px_release Px_cond;
    px_release Px_mutex;
    ret (state\<lparr>tm_created := False\<rparr>)
  })"

section \<open>Nothing is leaked on an error path\<close>

text \<open>\<open>holds m R\<close>: when the constructor \<open>m\<close> succeeds the program holds \<open>R\<close> more, and when it fails
  nothing more. \<open>gives_back m R\<close>: the destructor gives exactly \<open>R\<close> back.\<close>

definition holds :: "(px, 'a option) state \<Rightarrow> px_resource multiset \<Rightarrow> bool" where
  "holds m resources \<longleftrightarrow> (\<forall>s. wp m (\<lambda>result t.
    px_held t = px_held s + (if result = None then {#} else resources)) s)"

definition gives_back :: "(px, 'a) state \<Rightarrow> px_resource multiset \<Rightarrow> bool" where
  "gives_back m resources \<longleftrightarrow> (\<forall>s. wp m (\<lambda>_ t. px_held t = px_held s - resources) s)"

lemma wp_cond_init_monotonic:
  assumes "\<And>n. Q 0 (s\<lparr>px_requests := n, px_held := px_held s + {#Px_cond#}\<rparr>)"
    and "\<And>rc n. rc \<noteq> 0 \<Longrightarrow> Q rc (s\<lparr>px_requests := n\<rparr>)"
    and "\<And>rc n. rc \<noteq> 0 \<Longrightarrow> Q rc (s\<lparr>px_requests := n, px_held := px_held s\<rparr>)"
  shows "wp cond_init_monotonic Q s"
  unfolding cond_init_monotonic_def
  using assms by (auto simp: wp_simps intro!: wp_px_request)

lemmas px_wp = wp_px_request wp_cond_init_monotonic

lemma create_holds:
  "holds (os_mutex_create present) {#Px_mutex#}"
  "holds (os_semaphore_create present initial_count maximum_count) {#Px_mutex, Px_cond#}"
  "holds (os_event_create present) {#Px_mutex, Px_cond#}"
  "holds (os_queue_create present storage item_size capacity) {#Px_mutex, Px_cond, Px_cond#}"
  "holds (os_timer_create present) {#Px_mutex, Px_cond, Px_thread#}"
  "holds (os_task_create present stack_size) {#Px_heap, Px_mutex, Px_cond, Px_thread#}"
  unfolding holds_def os_mutex_create_def os_semaphore_create_def os_event_create_def
    os_queue_create_def os_timer_create_def os_task_create_def
  by (auto simp: wp_simps intro!: px_wp)

lemma destroy_gives_back:
  "gives_back (os_mutex_destroy True) {#Px_mutex#}"
  "gives_back (os_semaphore_destroy True) {#Px_mutex, Px_cond#}"
  "gives_back (os_event_destroy True) {#Px_mutex, Px_cond#}"
  "gives_back (os_queue_destroy True) {#Px_mutex, Px_cond, Px_cond#}"
  "tm_created timer \<Longrightarrow> gives_back (os_timer_destroy_end timer) {#Px_mutex, Px_cond, Px_thread#}"
  by (auto simp: gives_back_def wp_simps os_mutex_destroy_def os_semaphore_destroy_def
      os_event_destroy_def os_queue_destroy_def os_timer_destroy_end_def diff_add_mset_swap
      diff_diff_add_mset add_mset_commute)

lemma join_gives_back:
  "wp (os_task_join_end (Some task) waited) (\<lambda>(result, task') t.
    (result = 0 \<longrightarrow> waited = 0 \<and> task_created task \<and> task' = None \<and>
      px_held t = px_held s - {#Px_heap, Px_mutex, Px_cond, Px_thread#}) \<and>
    (result \<noteq> 0 \<longrightarrow> task' = Some task \<and> px_held t = px_held s)) s"
  by (auto simp: os_task_join_end_def wp_simps diff_diff_add_mset add_mset_commute intro!: px_wp)

text \<open>C22: No error path leaks. A constructor that fails, at whatever request, holds nothing more than
  before; one that succeeds holds exactly the mutex, condition variables, thread and memory of its
  object; the destructor, and a join that returns 0, give exactly these back, and a join that returns
  -1 keeps the task and everything it holds.\<close>

theorem posix_create_releases:
  "holds (os_mutex_create present) {#Px_mutex#} \<and>
   holds (os_semaphore_create present initial_count maximum_count) {#Px_mutex, Px_cond#} \<and>
   holds (os_event_create present) {#Px_mutex, Px_cond#} \<and>
   holds (os_queue_create present storage item_size capacity) {#Px_mutex, Px_cond, Px_cond#} \<and>
   holds (os_timer_create present) {#Px_mutex, Px_cond, Px_thread#} \<and>
   holds (os_task_create present stack_size) {#Px_heap, Px_mutex, Px_cond, Px_thread#} \<and>
   gives_back (os_mutex_destroy True) {#Px_mutex#} \<and>
   gives_back (os_semaphore_destroy True) {#Px_mutex, Px_cond#} \<and>
   gives_back (os_event_destroy True) {#Px_mutex, Px_cond#} \<and>
   gives_back (os_queue_destroy True) {#Px_mutex, Px_cond, Px_cond#} \<and>
   gives_back (os_timer_destroy_end (timer_zero\<lparr>tm_created := True\<rparr>)) {#Px_mutex, Px_cond, Px_thread#} \<and>
   wp (os_task_join_end (Some task) waited) (\<lambda>(result, task') t. px_held t = px_held s -
     (if result = 0 then {#Px_heap, Px_mutex, Px_cond, Px_thread#} else {#}) \<and>
     (task' = None \<longleftrightarrow> result = 0)) s"
  by (intro conjI create_holds destroy_gives_back wp_call [OF join_gives_back])
    (auto split: prod.splits)

section \<open>The timer fires when it should\<close>

text \<open>The timer with its clock and a log of what happened, newest first. The clock does not go back
  and stays clear of the end of its range.\<close>

datatype timer_event = Started u32 bool u64 | Stopped | Fired u64

record timer_world =
  tw_timer :: timer_state
  tw_now :: u64
  tw_log :: "timer_event list"

inductive timer_step :: "timer_world \<Rightarrow> timer_world \<Rightarrow> bool" where
  timer_step_clock: "tw_now w \<le> now \<Longrightarrow> now < 2 ^ 63 \<Longrightarrow> timer_step w (w\<lparr>tw_now := now\<rparr>)"
| timer_step_start: "os_timer_start period_ms periodic (tw_now w) (tw_timer w) = (result, timer) \<Longrightarrow>
    timer_step w (w\<lparr>tw_timer := timer,
      tw_log := (if result = 0 then Started period_ms periodic (tw_now w) # tw_log w else tw_log w)\<rparr>)"
| timer_step_stop: "os_timer_stop (tw_timer w) = (result, timer) \<Longrightarrow>
    timer_step w (w\<lparr>tw_timer := timer, tw_log := (if result = 0 then Stopped # tw_log w else tw_log w)\<rparr>)"
| timer_step_destroy: "timer_step w (w\<lparr>tw_timer := os_timer_destroy_begin (tw_timer w)\<rparr>)"
| timer_step_thread: "timer_main (tw_now w) (tw_timer w) = (action, timer) \<Longrightarrow>
    timer_step w (w\<lparr>tw_timer := timer,
      tw_log := (if action = Timer_fire then Fired (tw_now w) # tw_log w else tw_log w)\<rparr>)"

definition timer_start :: "timer_world \<Rightarrow> bool" where
  "timer_start w \<longleftrightarrow> tw_timer w = timer_zero\<lparr>tm_created := True\<rparr> \<and> tw_now w < 2 ^ 63 \<and> tw_log w = []"

text \<open>From the log alone: the period and mode of the last start, and the time from which the next
  callback may run, if one may.\<close>

fun log_mode :: "timer_event list \<Rightarrow> nat \<times> bool" where
  "log_mode [] = (0, False)"
| "log_mode (Started period_ms periodic now # log) = (unat period_ms, periodic)"
| "log_mode (_ # log) = log_mode log"

fun next_due :: "timer_event list \<Rightarrow> nat option" where
  "next_due [] = None"
| "next_due (Started period_ms periodic now # log) = Some (unat now + unat period_ms)"
| "next_due (Stopped # log) = None"
| "next_due (Fired now # log) =
    (if snd (log_mode log) then Some (unat now + fst (log_mode log)) else None)"

fun fires_on_time :: "timer_event list \<Rightarrow> bool" where
  "fires_on_time [] = True"
| "fires_on_time (Fired now # log) =
    (fires_on_time log \<and> (case next_due log of None \<Rightarrow> False | Some due \<Rightarrow> due \<le> unat now))"
| "fires_on_time (_ # log) = fires_on_time log"

definition timer_inv :: "timer_world \<Rightarrow> bool" where
  "timer_inv w \<longleftrightarrow> fires_on_time (tw_log w) \<and> tw_now w < 2 ^ 63 \<and>
    next_due (tw_log w) = (if tm_armed (tw_timer w) then Some (unat (tm_deadline_ms (tw_timer w))) else None) \<and>
    log_mode (tw_log w) = (unat (tm_period_ms (tw_timer w)), tm_periodic (tw_timer w))"

lemma unat_deadline:
  assumes "(now :: u64) < 2 ^ 63"
  shows "unat (now + ucast (period :: u32)) = unat now + unat period"
proof -
  have "unat now < 9223372036854775808" using assms by (simp add: word_less_nat_alt)
  then have "unat now + unat period < 18446744073709551616"
    using unat_u32_le [of period] by linarith
  then show ?thesis
    by (simp add: unat_word_ariths unat_ucast_u32_u64)
qed

interpretation timer: step_invariant timer_start timer_step timer_inv
proof
  fix w
  assume "timer_start w"
  then show "timer_inv w" by (simp add: timer_start_def timer_inv_def timer_zero_def)
next
  fix w w'
  assume "timer_step w w'" "timer_inv w"
  then show "timer_inv w'"
    by (induction rule: timer_step.induct)
      (auto simp: timer_inv_def timer_main_def os_timer_start_def os_timer_stop_def
        os_timer_destroy_begin_def unat_deadline word_less_nat_alt split: if_splits)
qed



end
