(* ===== verification/Rtos_Kernel.thy ===== *)
theory Rtos_Kernel
  imports Osal "HOL-Library.Multiset"
begin

text \<open>
  What the FreeRTOS and the RT-Thread OS layers (common/osal/src/freertos_osal.c, rtt_osal.c) have in
  common: the calls of a kernel whose code is not part of the repository, recorded with the kernel's
  answers, the resources a program holds after a sequence of calls, and the contract of an object
  that is created and destroyed.
\<close>

section \<open>Kernel calls\<close>

text \<open>\<open>k_answer s n\<close> is what the \<open>n\<close>-th call returns: its result and the value it stores through its
  out-parameter, if it has one. Handles and pointers are words, zero being NULL. The calls made are in
  \<open>k_trace\<close>, newest first.\<close>

record 'c kernel =
  k_answer :: "nat \<Rightarrow> u64 \<times> u64"
  k_trace :: "('c \<times> u64) list"

definition kcall_out :: "'c \<Rightarrow> ('c kernel, u64 \<times> u64) state" where
  "kcall_out c = do {
    s \<leftarrow> State_Monad.get;
    let answer = k_answer s (length (k_trace s));
    modify (\<lambda>s. s\<lparr>k_trace := (c, fst answer) # k_trace s\<rparr>);
    ret answer
  }"

definition kcall :: "'c \<Rightarrow> ('c kernel, u64) state" where
  "kcall c = do { answer \<leftarrow> kcall_out c; ret (fst answer) }"

definition knote :: "'c \<Rightarrow> ('c kernel, unit) state" where
  "knote c = do { kcall c; ret () }"

lemma wp_kcall_out:
  "(\<And>a out. Q (a, out) (s\<lparr>k_trace := (c, a) # k_trace s\<rparr>)) \<Longrightarrow> wp (kcall_out c) Q s"
  by (cases "k_answer s (length (k_trace s))") (simp add: kcall_out_def wp_simps Let_def)

lemma wp_kcall: "(\<And>a. Q a (s\<lparr>k_trace := (c, a) # k_trace s\<rparr>)) \<Longrightarrow> wp (kcall c) Q s"
  by (simp add: kcall_def wp_simps wp_kcall_out)

lemma wp_knote: "(\<And>a. Q () (s\<lparr>k_trace := (c, a) # k_trace s\<rparr>)) \<Longrightarrow> wp (knote c) Q s"
  by (simp add: knote_def wp_simps wp_kcall)

lemma wp_kcall_exact: "wp (kcall c) Q s =
    Q (fst (k_answer s (length (k_trace s))))
      (s\<lparr>k_trace := (c, fst (k_answer s (length (k_trace s)))) # k_trace s\<rparr>)"
  by (simp add: kcall_def kcall_out_def wp_simps Let_def)

lemma wp_knote_exact: "wp (knote c) Q s =
    Q () (s\<lparr>k_trace := (c, fst (k_answer s (length (k_trace s)))) # k_trace s\<rparr>)"
  by (simp add: knote_def wp_simps wp_kcall_exact)

lemmas wp_kernel_exact = wp_kcall_exact wp_knote_exact

lemmas wp_kernel = wp_kcall_out wp_kcall wp_knote

section \<open>Resources\<close>

datatype resource = Heap_block u64 | Kernel_object u64

text \<open>An effect says what a call with its answer gives back and what it takes.\<close>

type_synonym 'c effect = "'c \<times> u64 \<Rightarrow> resource multiset \<times> resource multiset"

primrec held :: "'c effect \<Rightarrow> ('c \<times> u64) list \<Rightarrow> resource multiset" where
  "held effect [] = {#}"
| "held effect (c # trace) = held effect trace - fst (effect c) + snd (effect c)"

definition takes :: "resource \<Rightarrow> resource multiset \<times> resource multiset" where
  "takes r = ({#}, {#r#})"

definition gives :: "resource \<Rightarrow> resource multiset \<times> resource multiset" where
  "gives r = ({#r#}, {#})"

definition neither :: "resource multiset \<times> resource multiset" where
  "neither = ({#}, {#})"

text \<open>A call that returns a handle takes the object unless it returns NULL.\<close>

definition takes_handle :: "(u64 \<Rightarrow> resource) \<Rightarrow> u64 \<Rightarrow> resource multiset \<times> resource multiset" where
  "takes_handle kind handle = (if handle = 0 then neither else takes (kind handle))"

lemmas effect_simps = takes_def gives_def neither_def takes_handle_def

section \<open>Objects\<close>

text \<open>The opaque storage of an object holds nothing (its first word is zero) or the object's state.
  \<open>create\<close> returns the state, or nothing for the status -1; \<open>destroy\<close> returns what the storage holds
  afterwards.\<close>

text \<open>What such an object owes its caller: a creation that fails holds nothing more
  than before, one that succeeds holds exactly what the object owns, and a destruction that returns
  gives exactly this back.\<close>

definition accounted ::
  "'c effect \<Rightarrow> ('c kernel, 'o option) state \<Rightarrow> ('o option \<Rightarrow> ('c kernel, 'o option) state) \<Rightarrow>
    ('o \<Rightarrow> resource multiset) \<Rightarrow> bool" where
  "accounted effect create destroy owns \<longleftrightarrow>
    (\<forall>s. wp create (\<lambda>object t. held effect (k_trace t) =
      held effect (k_trace s) + (case object of None \<Rightarrow> {#} | Some x \<Rightarrow> owns x)) s) \<and>
    (\<forall>s x. wp (destroy (Some x)) (\<lambda>object t. object = None \<longrightarrow>
      held effect (k_trace t) = held effect (k_trace s) - owns x) s)"

locale kernel_object =
  fixes effect :: "'c effect"
    and create :: "('c kernel, 'o option) state"
    and destroy :: "'o option \<Rightarrow> ('c kernel, 'o option) state"
    and owns :: "'o \<Rightarrow> resource multiset"
  assumes create_holds: "wp create (\<lambda>object t. held effect (k_trace t) =
      held effect (k_trace s) + (case object of None \<Rightarrow> {#} | Some x \<Rightarrow> owns x)) s"
    and destroy_releases: "wp (destroy (Some x)) (\<lambda>object t. object = None \<longrightarrow>
      held effect (k_trace t) = held effect (k_trace s) - owns x) s"
    and destroy_nothing: "wp (destroy None) (\<lambda>object t. object = None \<and> t = s) s"
begin

lemma create_destroy:
  "wp (do { object \<leftarrow> create; destroy object })
    (\<lambda>object t. object = None \<longrightarrow> held effect (k_trace t) = held effect (k_trace s)) s"
proof (unfold wp_bind, rule wp_call [OF create_holds])
  fix object :: "'o option" and t :: "'c kernel"
  assume "held effect (k_trace t) =
    held effect (k_trace s) + (case object of None \<Rightarrow> {#} | Some x \<Rightarrow> owns x)"
  then show "wp (destroy object)
      (\<lambda>object t. object = None \<longrightarrow> held effect (k_trace t) = held effect (k_trace s)) t"
    by (cases object)
      (auto intro: wp_call [OF destroy_nothing] wp_call [OF destroy_releases])
qed

lemma accounted: "accounted effect create destroy owns"
  by (simp add: accounted_def create_holds destroy_releases)

lemma failed_create: "wp create (\<lambda>object t. object = None \<longrightarrow>
    held effect (k_trace t) = held effect (k_trace s)) s"
  by (rule wp_call [OF create_holds]) auto

end

section \<open>Attributes of a task\<close>

text \<open>\<open>int32_t\<close> is kept by its bit pattern.\<close>

record task_attributes =
  attr_name :: "string option"
  attr_stack_size :: u64
  attr_priority :: u32

end
