(* ===== verification/Freertos_Osal.thy ===== *)
theory Freertos_Osal
  imports Rtos_Kernel
begin

text \<open>
  The FreeRTOS OS layer (common/osal/src/freertos_osal.c): its conversion of timeouts to ticks, its
  objects on top of the kernel's, tasks, timers and the barrier a timer's destruction waits for.
\<close>

section \<open>The port\<close>

text \<open>What the layer takes from the port's configuration; \<open>max_stack_depth\<close> is the largest value of
  \<open>configSTACK_DEPTH_TYPE\<close> and \<open>stack_word\<close> the size of \<open>StackType_t\<close>.\<close>

record ft_port =
  portMAX_DELAY :: u32
  configTICK_RATE_HZ :: u32
  portTICK_PERIOD_MS :: u32
  configMAX_PRIORITIES :: u32
  stack_word :: u64
  max_stack_depth :: u64
  esp_platform :: bool

definition FREERTOS_OSAL_DEFAULT_STACK_SIZE :: u64 where "FREERTOS_OSAL_DEFAULT_STACK_SIZE = 4096"
definition FREERTOS_OSAL_DEFAULT_PRIORITY :: u32 where "FREERTOS_OSAL_DEFAULT_PRIORITY = 5"

datatype ft_call =
    Ft_calloc | Ft_free u64
  | Ft_run u64 u64
  | X_semaphore_create_binary | X_semaphore_create_mutex | X_semaphore_create_counting u32 u32
  | V_semaphore_delete u64 | X_semaphore_take u64 u32 | X_semaphore_give u64
  | X_semaphore_give_from_isr u64
  | X_task_create string u64 u64 u32 | V_task_delete
  | X_event_group_create | V_event_group_delete u64
  | X_event_group_wait_bits u64 u32 bool bool u32
  | X_event_group_set_bits u64 u32 | X_event_group_set_bits_from_isr u64 u32
  | X_queue_create_static u64 u64 u64 | V_queue_delete u64
  | X_queue_send_to_back u64 u64 u32 | X_queue_send_to_back_from_isr u64 u64
  | X_queue_receive u64 u64 u32
  | X_timer_create u64 | V_timer_set_reload_mode u64 bool | X_timer_change_period u64 u32 u32
  | X_timer_stop u64 u32 | X_timer_delete u64 u32 | X_timer_pend_barrier u64 u32
  | X_task_get_tick_count | V_task_delay u32 | Task_yield | X_port_in_isr_context

definition pdTRUE :: u64 where "pdTRUE = 1"
definition pdPASS :: u64 where "pdPASS = 1"

definition ft_status :: "u64 \<Rightarrow> int" where
  "ft_status result = (if result = pdTRUE then 0 else - 1)"

section \<open>Timeouts\<close>

definition ft_timeout_ticks :: "ft_port \<Rightarrow> u32 \<Rightarrow> u32" where
  "ft_timeout_ticks port timeout_ms = (
    if timeout_ms = WLH_OSAL_WAIT_FOREVER then portMAX_DELAY port
    else if timeout_ms = WLH_OSAL_NO_WAIT then 0
    else let
      ticks = (ucast timeout_ms * ucast (configTICK_RATE_HZ port) + 999) div 1000 :: u64;
      ticks = (if ticks = 0 then 1 else ticks);
      ticks = (if ucast (portMAX_DELAY port) \<le> ticks then ucast (portMAX_DELAY port) - 1 else ticks)
    in ucast ticks)"

section \<open>Tasks\<close>

record ft_task =
  ft_task_self :: u64
  ft_task_done :: u64
  ft_task_entry :: u64
  ft_task_argument :: u64

definition ft_task_trampoline :: "ft_task \<Rightarrow> (ft_call kernel, unit) state" where
  "ft_task_trampoline state = do {
    knote (Ft_run (ft_task_entry state) (ft_task_argument state));
    knote (X_semaphore_give (ft_task_done state));
    knote V_task_delete
  }"

definition ft_stack_size :: "task_attributes option \<Rightarrow> u64" where
  "ft_stack_size attributes = (case attributes of
      None \<Rightarrow> FREERTOS_OSAL_DEFAULT_STACK_SIZE
    | Some a \<Rightarrow> if attr_stack_size a \<noteq> 0 then attr_stack_size a else FREERTOS_OSAL_DEFAULT_STACK_SIZE)"

definition ft_requested_depth :: "ft_port \<Rightarrow> u64 \<Rightarrow> u64" where
  "ft_requested_depth port stack_size = (
    if esp_platform port then stack_size
    else (stack_size + stack_word port - 1) div stack_word port)"

definition ft_task_admissible :: "ft_port \<Rightarrow> task_attributes option \<Rightarrow> bool" where
  "ft_task_admissible port attributes = (
    let requested_depth = ft_requested_depth port (ft_stack_size attributes) in
    \<not> (requested_depth = 0 \<or> max_stack_depth port < requested_depth \<or>
       (case attributes of None \<Rightarrow> False | Some a \<Rightarrow>
          attr_priority a <s 0 \<or> configMAX_PRIORITIES port \<le>s attr_priority a)))"

definition ft_task_create ::
  "ft_port \<Rightarrow> bool \<Rightarrow> task_attributes option \<Rightarrow> u64 \<Rightarrow> u64 \<Rightarrow> (ft_call kernel, ft_task option) state" where
  "ft_task_create port present attributes entry argument = (
    if \<not> present \<or> entry = 0 then ret None
    else do {
      state \<leftarrow> kcall Ft_calloc;
      if state = 0 then ret None
      else do {
        finished \<leftarrow> kcall X_semaphore_create_binary;
        if finished = 0 then do { knote (Ft_free state); ret None }
        else if \<not> ft_task_admissible port attributes then do {
          knote (V_semaphore_delete finished);
          knote (Ft_free state);
          ret None
        }
        else do {
          created \<leftarrow> kcall (X_task_create
            (case attributes of None \<Rightarrow> ''wlh''
             | Some a \<Rightarrow> case attr_name a of None \<Rightarrow> ''wlh'' | Some name \<Rightarrow> name)
            (ft_requested_depth port (ft_stack_size attributes)) state
            (case attributes of None \<Rightarrow> FREERTOS_OSAL_DEFAULT_PRIORITY | Some a \<Rightarrow> attr_priority a));
          if created \<noteq> pdPASS then do {
            knote (V_semaphore_delete finished);
            knote (Ft_free state);
            ret None
          }
          else ret (Some \<lparr>ft_task_self = state, ft_task_done = finished,
            ft_task_entry = entry, ft_task_argument = argument\<rparr>)
        }
      }
    })"

definition ft_task_join ::
  "ft_port \<Rightarrow> u32 \<Rightarrow> ft_task option \<Rightarrow> (ft_call kernel, int \<times> ft_task option) state" where
  "ft_task_join port timeout_ms task = (case task of
      None \<Rightarrow> ret (- 1, None)
    | Some state \<Rightarrow> do {
        taken \<leftarrow> kcall (X_semaphore_take (ft_task_done state) (ft_timeout_ticks port timeout_ms));
        if taken \<noteq> pdTRUE then ret (- 1, task)
        else do {
          knote (V_semaphore_delete (ft_task_done state));
          knote (Ft_free (ft_task_self state));
          ret (0, None)
        }
      })"

section \<open>Mutexes and semaphores\<close>

text \<open>Their state is the kernel's handle. \<open>present\<close>: the caller's pointer is not NULL.\<close>

definition ft_mutex_create :: "bool \<Rightarrow> (ft_call kernel, u64 option) state" where
  "ft_mutex_create present = (if \<not> present then ret None else do {
    handle \<leftarrow> kcall X_semaphore_create_mutex;
    ret (if handle = 0 then None else Some handle)
  })"

definition ft_mutex_destroy :: "u64 option \<Rightarrow> (ft_call kernel, u64 option) state" where
  "ft_mutex_destroy mutex = (case mutex of
      None \<Rightarrow> ret None
    | Some handle \<Rightarrow> do { knote (V_semaphore_delete handle); ret None })"

definition ft_mutex_lock :: "ft_port \<Rightarrow> u64 option \<Rightarrow> u32 \<Rightarrow> (ft_call kernel, int) state" where
  "ft_mutex_lock port mutex timeout_ms = (case mutex of
      None \<Rightarrow> ret (- 1)
    | Some handle \<Rightarrow> do {
        taken \<leftarrow> kcall (X_semaphore_take handle (ft_timeout_ticks port timeout_ms));
        ret (ft_status taken)
      })"

definition ft_mutex_unlock :: "u64 option \<Rightarrow> (ft_call kernel, unit) state" where
  "ft_mutex_unlock mutex = (case mutex of
      None \<Rightarrow> ret ()
    | Some handle \<Rightarrow> knote (X_semaphore_give handle))"

definition ft_semaphore_create :: "bool \<Rightarrow> u32 \<Rightarrow> u32 \<Rightarrow> (ft_call kernel, u64 option) state" where
  "ft_semaphore_create present initial_count maximum_count = (
    if \<not> present \<or> maximum_count = 0 then ret None
    else do {
      handle \<leftarrow> kcall (X_semaphore_create_counting maximum_count initial_count);
      ret (if handle = 0 then None else Some handle)
    })"

definition ft_semaphore_destroy :: "u64 option \<Rightarrow> (ft_call kernel, u64 option) state" where
  "ft_semaphore_destroy semaphore = (case semaphore of
      None \<Rightarrow> ret None
    | Some handle \<Rightarrow> do { knote (V_semaphore_delete handle); ret None })"

definition ft_semaphore_take :: "ft_port \<Rightarrow> u64 option \<Rightarrow> u32 \<Rightarrow> (ft_call kernel, int) state" where
  "ft_semaphore_take port semaphore timeout_ms = (case semaphore of
      None \<Rightarrow> ret (- 1)
    | Some handle \<Rightarrow> do {
        taken \<leftarrow> kcall (X_semaphore_take handle (ft_timeout_ticks port timeout_ms));
        ret (ft_status taken)
      })"

definition ft_semaphore_give :: "u64 option \<Rightarrow> (ft_call kernel, int) state" where
  "ft_semaphore_give semaphore = (case semaphore of
      None \<Rightarrow> ret (- 1)
    | Some handle \<Rightarrow> do { given \<leftarrow> kcall (X_semaphore_give handle); ret (ft_status given) })"

text \<open>The calls from an interrupt also return what they store through \<open>higher_priority_task_woken\<close>.\<close>

definition ft_semaphore_give_from_isr :: "u64 option \<Rightarrow> (ft_call kernel, int \<times> bool) state" where
  "ft_semaphore_give_from_isr semaphore = (case semaphore of
      None \<Rightarrow> ret (- 1, False)
    | Some handle \<Rightarrow> do {
        (given, woken) \<leftarrow> kcall_out (X_semaphore_give_from_isr handle);
        ret (ft_status given, woken = pdTRUE)
      })"

section \<open>Event groups\<close>

definition ft_event_create :: "bool \<Rightarrow> (ft_call kernel, u64 option) state" where
  "ft_event_create present = (if \<not> present then ret None else do {
    handle \<leftarrow> kcall X_event_group_create;
    ret (if handle = 0 then None else Some handle)
  })"

definition ft_event_destroy :: "u64 option \<Rightarrow> (ft_call kernel, u64 option) state" where
  "ft_event_destroy event = (case event of
      None \<Rightarrow> ret None
    | Some handle \<Rightarrow> do { knote (V_event_group_delete handle); ret None })"

definition ft_bits_ok :: "u32 \<Rightarrow> bool" where
  "ft_bits_ok bits = (\<not> (bits = 0 \<or> bits AND NOT WLH_OSAL_EVENT_BITS_MASK \<noteq> 0))"

text \<open>The second component of the result is what is stored through \<open>observed_bits\<close>.\<close>

definition ft_event_wait ::
  "ft_port \<Rightarrow> u64 option \<Rightarrow> u32 \<Rightarrow> bool \<Rightarrow> bool \<Rightarrow> u32 \<Rightarrow> (ft_call kernel, int \<times> u32 option) state" where
  "ft_event_wait port event bits wait_all clear_on_exit timeout_ms = (case event of
      None \<Rightarrow> ret (- 1, None)
    | Some handle \<Rightarrow> if \<not> ft_bits_ok bits then ret (- 1, None) else do {
        answer \<leftarrow> kcall (X_event_group_wait_bits handle bits clear_on_exit wait_all
          (ft_timeout_ticks port timeout_ms));
        let observed = (ucast answer :: u32);
        let satisfied = (if wait_all then observed AND bits = bits else observed AND bits \<noteq> 0);
        ret (if \<not> satisfied then (- 1, None) else (0, Some (observed AND bits)))
      })"

definition ft_event_set :: "u64 option \<Rightarrow> u32 \<Rightarrow> (ft_call kernel, int) state" where
  "ft_event_set event bits = (case event of
      None \<Rightarrow> ret (- 1)
    | Some handle \<Rightarrow> if \<not> ft_bits_ok bits then ret (- 1)
        else do { knote (X_event_group_set_bits handle bits); ret 0 })"

definition ft_event_set_from_isr :: "u64 option \<Rightarrow> u32 \<Rightarrow> (ft_call kernel, int \<times> bool) state" where
  "ft_event_set_from_isr event bits = (case event of
      None \<Rightarrow> ret (- 1, False)
    | Some handle \<Rightarrow> if \<not> ft_bits_ok bits then ret (- 1, False) else do {
        (posted, woken) \<leftarrow> kcall_out (X_event_group_set_bits_from_isr handle bits);
        ret (ft_status posted, woken = pdTRUE)
      })"

section \<open>Queues\<close>

record ft_queue =
  ft_queue_self :: u64
  ft_queue_handle :: u64

text \<open>The queue lives in the caller's storage and in a block of its own.\<close>

definition ft_queue_create :: "bool \<Rightarrow> u64 \<Rightarrow> u64 \<Rightarrow> u64 \<Rightarrow> (ft_call kernel, ft_queue option) state" where
  "ft_queue_create present storage item_size capacity = (
    if \<not> present \<or> storage = 0 \<or> item_size = 0 \<or> capacity = 0 then ret None
    else do {
      state \<leftarrow> kcall Ft_calloc;
      if state = 0 then ret None
      else do {
        handle \<leftarrow> kcall (X_queue_create_static capacity item_size storage);
        if handle = 0 then do { knote (Ft_free state); ret None }
        else ret (Some \<lparr>ft_queue_self = state, ft_queue_handle = handle\<rparr>)
      }
    })"

definition ft_queue_destroy :: "ft_queue option \<Rightarrow> (ft_call kernel, ft_queue option) state" where
  "ft_queue_destroy queue = (case queue of
      None \<Rightarrow> ret None
    | Some state \<Rightarrow> do {
        knote (V_queue_delete (ft_queue_handle state));
        knote (Ft_free (ft_queue_self state));
        ret None
      })"

definition ft_queue_send :: "ft_port \<Rightarrow> ft_queue option \<Rightarrow> u64 \<Rightarrow> u32 \<Rightarrow> (ft_call kernel, int) state" where
  "ft_queue_send port queue item timeout_ms = (case queue of
      None \<Rightarrow> ret (- 1)
    | Some state \<Rightarrow> do {
        sent \<leftarrow> kcall (X_queue_send_to_back (ft_queue_handle state) item (ft_timeout_ticks port timeout_ms));
        ret (ft_status sent)
      })"

definition ft_queue_send_from_isr :: "ft_queue option \<Rightarrow> u64 \<Rightarrow> (ft_call kernel, int \<times> bool) state" where
  "ft_queue_send_from_isr queue item = (case queue of
      None \<Rightarrow> ret (- 1, False)
    | Some state \<Rightarrow> do {
        (sent, woken) \<leftarrow> kcall_out (X_queue_send_to_back_from_isr (ft_queue_handle state) item);
        ret (ft_status sent, woken = pdTRUE)
      })"

definition ft_queue_receive :: "ft_port \<Rightarrow> ft_queue option \<Rightarrow> u64 \<Rightarrow> u32 \<Rightarrow> (ft_call kernel, int) state" where
  "ft_queue_receive port queue item timeout_ms = (case queue of
      None \<Rightarrow> ret (- 1)
    | Some state \<Rightarrow> do {
        received \<leftarrow> kcall (X_queue_receive (ft_queue_handle state) item (ft_timeout_ticks port timeout_ms));
        ret (ft_status received)
      })"

section \<open>Timers\<close>

record ft_timer =
  ft_timer_self :: u64
  ft_timer_handle :: u64
  ft_timer_barrier :: u64
  ft_timer_callback :: u64
  ft_timer_argument :: u64

definition ft_timer_trampoline :: "ft_timer \<Rightarrow> (ft_call kernel, unit) state" where
  "ft_timer_trampoline state = knote (Ft_run (ft_timer_callback state) (ft_timer_argument state))"

definition ft_timer_barrier_trampoline :: "ft_timer \<Rightarrow> (ft_call kernel, unit) state" where
  "ft_timer_barrier_trampoline state = knote (X_semaphore_give (ft_timer_barrier state))"

text \<open>The loop runs until the timer daemon's command queue takes the barrier; \<open>fuel\<close> bounds the
  attempts, and \<open>False\<close> says that they were used up.\<close>

fun ft_pend_barrier :: "nat \<Rightarrow> ft_port \<Rightarrow> ft_timer \<Rightarrow> (ft_call kernel, bool) state" where
  "ft_pend_barrier 0 port state = ret False"
| "ft_pend_barrier (Suc fuel) port state = do {
    pended \<leftarrow> kcall (X_timer_pend_barrier (ft_timer_self state) (portMAX_DELAY port));
    if pended = pdPASS then ret True
    else do { knote Task_yield; ft_pend_barrier fuel port state }
  }"

definition ft_wait_for_timer_daemon :: "nat \<Rightarrow> ft_port \<Rightarrow> ft_timer \<Rightarrow> (ft_call kernel, bool) state" where
  "ft_wait_for_timer_daemon fuel port state = do {
    pended \<leftarrow> ft_pend_barrier fuel port state;
    if \<not> pended then ret False
    else do { knote (X_semaphore_take (ft_timer_barrier state) (portMAX_DELAY port)); ret True }
  }"

definition ft_timer_create :: "bool \<Rightarrow> u64 \<Rightarrow> u64 \<Rightarrow> (ft_call kernel, ft_timer option) state" where
  "ft_timer_create present callback argument = (
    if \<not> present \<or> callback = 0 then ret None
    else do {
      state \<leftarrow> kcall Ft_calloc;
      if state = 0 then ret None
      else do {
        barrier \<leftarrow> kcall X_semaphore_create_binary;
        if barrier = 0 then do { knote (Ft_free state); ret None }
        else do {
          handle \<leftarrow> kcall (X_timer_create state);
          if handle = 0 then do {
            knote (V_semaphore_delete barrier);
            knote (Ft_free state);
            ret None
          }
          else ret (Some \<lparr>ft_timer_self = state, ft_timer_handle = handle, ft_timer_barrier = barrier,
            ft_timer_callback = callback, ft_timer_argument = argument\<rparr>)
        }
      }
    })"

text \<open>A destruction that does not come out of its waits leaves the timer as it is.\<close>

definition ft_timer_destroy ::
  "nat \<Rightarrow> ft_port \<Rightarrow> ft_timer option \<Rightarrow> (ft_call kernel, ft_timer option) state" where
  "ft_timer_destroy fuel port timer = (case timer of
      None \<Rightarrow> ret None
    | Some state \<Rightarrow> do {
        knote (X_timer_stop (ft_timer_handle state) (portMAX_DELAY port));
        stopped \<leftarrow> ft_wait_for_timer_daemon fuel port state;
        if \<not> stopped then ret timer
        else do {
          knote (X_timer_delete (ft_timer_handle state) (portMAX_DELAY port));
          deleted \<leftarrow> ft_wait_for_timer_daemon fuel port state;
          if \<not> deleted then ret timer
          else do {
            knote (V_semaphore_delete (ft_timer_barrier state));
            knote (Ft_free (ft_timer_self state));
            ret None
          }
        }
      })"

definition ft_timer_start :: "ft_port \<Rightarrow> ft_timer option \<Rightarrow> u32 \<Rightarrow> bool \<Rightarrow> (ft_call kernel, int) state" where
  "ft_timer_start port timer period_ms periodic = (case timer of
      None \<Rightarrow> ret (- 1)
    | Some state \<Rightarrow> if period_ms = 0 then ret (- 1) else do {
        knote (V_timer_set_reload_mode (ft_timer_handle state) periodic);
        changed \<leftarrow> kcall (X_timer_change_period (ft_timer_handle state)
          (ft_timeout_ticks port period_ms) (ft_timeout_ticks port 100));
        ret (ft_status changed)
      })"

definition ft_timer_stop :: "ft_port \<Rightarrow> ft_timer option \<Rightarrow> (ft_call kernel, int) state" where
  "ft_timer_stop port timer = (case timer of
      None \<Rightarrow> ret (- 1)
    | Some state \<Rightarrow> do {
        stopped \<leftarrow> kcall (X_timer_stop (ft_timer_handle state) (ft_timeout_ticks port 100));
        ret (ft_status stopped)
      })"

section \<open>Time\<close>

definition ft_monotonic_time_ms :: "ft_port \<Rightarrow> (ft_call kernel, u64) state" where
  "ft_monotonic_time_ms port = do {
    ticks \<leftarrow> kcall X_task_get_tick_count;
    ret (ucast (ucast ticks :: u32) * ucast (portTICK_PERIOD_MS port))
  }"

definition ft_sleep_ms :: "ft_port \<Rightarrow> u32 \<Rightarrow> (ft_call kernel, unit) state" where
  "ft_sleep_ms port duration_ms = knote (V_task_delay (ft_timeout_ticks port duration_ms))"

definition ft_yield :: "(ft_call kernel, unit) state" where
  "ft_yield = knote Task_yield"

definition ft_in_isr :: "(ft_call kernel, bool) state" where
  "ft_in_isr = do { context \<leftarrow> kcall X_port_in_isr_context; ret (context \<noteq> 0) }"

section \<open>The table of operations\<close>

text \<open>Which members of the table the layer fills in, in the order of the structure.\<close>

definition wlh_freertos_osal_ops :: "osal_op list" where
  "wlh_freertos_osal_ops =
    [Task_create, Task_join, Mutex_create, Mutex_destroy, Mutex_lock, Mutex_unlock,
     Semaphore_create, Semaphore_destroy, Semaphore_take, Semaphore_give, Semaphore_give_from_isr,
     Event_create, Event_destroy, Event_wait, Event_set, Event_set_from_isr,
     Queue_create, Queue_destroy, Queue_send, Queue_send_from_isr, Queue_receive,
     Timer_create, Timer_destroy, Timer_start, Timer_stop,
     Monotonic_time_ms, Sleep_ms, Yield, In_isr]"

end
