(* ===== verification/Rtt_Osal.thy ===== *)
theory Rtt_Osal
  imports Rtos_Kernel
begin

text \<open>
  The RT-Thread OS layer (common/osal/src/rtt_osal.c): its objects on top of the kernel's, the
  inverted task priorities, and the timers with the barrier their destruction waits for.
\<close>

section \<open>The port\<close>

text \<open>What the layer takes from RT-Thread: constants, and the conversion of milliseconds to ticks,
  which takes and returns an \<open>int32_t\<close> (kept by its bit pattern).\<close>

record rtt_port =
  rt_tick_from_millisecond :: "u32 \<Rightarrow> u32"
  RT_THREAD_PRIORITY_MAX :: u32
  RT_SEM_VALUE_MAX :: u32
  RT_TICK_PER_SECOND :: u32

definition RT_WAITING_FOREVER :: u32 where "RT_WAITING_FOREVER = - 1"
definition RTT_OSAL_DEFAULT_STACK_SIZE :: u64 where "RTT_OSAL_DEFAULT_STACK_SIZE = 4096"
definition RTT_OSAL_DEFAULT_PRIORITY :: u32 where "RTT_OSAL_DEFAULT_PRIORITY = 5"
definition RTT_OSAL_TIME_SLICE_TICKS :: u32 where "RTT_OSAL_TIME_SLICE_TICKS = 10"

datatype rtt_call =
    Rt_calloc | Rt_free u64
  | Rt_run u64 u64
  | Rt_sem_create u32 | Rt_sem_delete u64 | Rt_sem_set_limit u64 u32
  | Rt_sem_take u64 u32 | Rt_sem_release u64
  | Rt_mutex_create | Rt_mutex_delete u64 | Rt_mutex_take u64 u32 | Rt_mutex_release u64
  | Rt_event_create | Rt_event_delete u64 | Rt_event_recv u64 u32 bool bool u32 | Rt_event_send u64 u32
  | Rt_mq_create u64 u64 | Rt_mq_delete u64 | Rt_mq_send_wait u64 u64 u64 u32
  | Rt_mq_send u64 u64 u64 | Rt_mq_recv u64 u64 u64 u32
  | Rt_thread_create string u64 u32 u8 u32 | Rt_thread_startup u64 | Rt_thread_delete u64
  | Rt_timer_create u64 | Rt_timer_delete u64 | Rt_timer_start u64 | Rt_timer_stop u64
  | Rt_timer_set_time u64 u32 | Rt_timer_set_mode u64 bool
  | Rt_barrier_init | Rt_barrier_start | Rt_barrier_take | Rt_barrier_detach
  | Rt_tick_get | Rt_thread_mdelay u32 | Rt_thread_yield | Rt_interrupt_get_nest

definition RT_EOK :: u64 where "RT_EOK = 0"

definition rtt_status :: "u64 \<Rightarrow> int" where
  "rtt_status result = (if result = RT_EOK then 0 else - 1)"

section \<open>Timeouts\<close>

definition rtt_timeout_ticks :: "rtt_port \<Rightarrow> u32 \<Rightarrow> u32" where
  "rtt_timeout_ticks port timeout_ms = (
    if timeout_ms = WLH_OSAL_WAIT_FOREVER then RT_WAITING_FOREVER
    else if timeout_ms = WLH_OSAL_NO_WAIT then 0
    else rt_tick_from_millisecond port timeout_ms)"

section \<open>Tasks\<close>

record rtt_task =
  rtt_task_self :: u64
  rtt_task_done :: u64
  rtt_task_entry :: u64
  rtt_task_argument :: u64

definition rtt_task_trampoline :: "rtt_task \<Rightarrow> (rtt_call kernel, unit) state" where
  "rtt_task_trampoline state = do {
    knote (Rt_run (rtt_task_entry state) (rtt_task_argument state));
    knote (Rt_sem_release (rtt_task_done state))
  }"

definition rtt_osal_priority :: "task_attributes option \<Rightarrow> u32" where
  "rtt_osal_priority attributes = (case attributes of
      None \<Rightarrow> RTT_OSAL_DEFAULT_PRIORITY | Some a \<Rightarrow> attr_priority a)"

definition rtt_priority :: "rtt_port \<Rightarrow> task_attributes option \<Rightarrow> u8 option" where
  "rtt_priority port attributes = (
    let osal_priority = rtt_osal_priority attributes in
    if osal_priority <s 0 \<or> RT_THREAD_PRIORITY_MAX port \<le>s osal_priority then None
    else Some (ucast (RT_THREAD_PRIORITY_MAX port - 1 - osal_priority)))"

definition rtt_stack_size :: "task_attributes option \<Rightarrow> u32" where
  "rtt_stack_size attributes = (case attributes of
      None \<Rightarrow> ucast RTT_OSAL_DEFAULT_STACK_SIZE
    | Some a \<Rightarrow> if attr_stack_size a \<noteq> 0 then ucast (attr_stack_size a)
        else ucast RTT_OSAL_DEFAULT_STACK_SIZE)"

definition rtt_task_create ::
  "rtt_port \<Rightarrow> bool \<Rightarrow> task_attributes option \<Rightarrow> u64 \<Rightarrow> u64 \<Rightarrow> (rtt_call kernel, rtt_task option) state" where
  "rtt_task_create port present attributes entry argument = (
    if \<not> present \<or> entry = 0 then ret None
    else case rtt_priority port attributes of
      None \<Rightarrow> ret None
    | Some priority \<Rightarrow> do {
        state \<leftarrow> kcall Rt_calloc;
        if state = 0 then ret None
        else do {
          finished \<leftarrow> kcall (Rt_sem_create 0);
          if finished = 0 then do { knote (Rt_free state); ret None }
          else do {
            thread \<leftarrow> kcall (Rt_thread_create
              (case attributes of None \<Rightarrow> ''wlh''
               | Some a \<Rightarrow> case attr_name a of None \<Rightarrow> ''wlh'' | Some name \<Rightarrow> name)
              state (rtt_stack_size attributes) priority RTT_OSAL_TIME_SLICE_TICKS);
            if thread = 0 then do {
              knote (Rt_sem_delete finished);
              knote (Rt_free state);
              ret None
            }
            else do {
              started \<leftarrow> kcall (Rt_thread_startup thread);
              if started \<noteq> RT_EOK then do {
                knote (Rt_thread_delete thread);
                knote (Rt_sem_delete finished);
                knote (Rt_free state);
                ret None
              }
              else ret (Some \<lparr>rtt_task_self = state, rtt_task_done = finished,
                rtt_task_entry = entry, rtt_task_argument = argument\<rparr>)
            }
          }
        }
      })"

definition rtt_task_join ::
  "rtt_port \<Rightarrow> u32 \<Rightarrow> rtt_task option \<Rightarrow> (rtt_call kernel, int \<times> rtt_task option) state" where
  "rtt_task_join port timeout_ms task = (case task of
      None \<Rightarrow> ret (- 1, None)
    | Some state \<Rightarrow> do {
        taken \<leftarrow> kcall (Rt_sem_take (rtt_task_done state) (rtt_timeout_ticks port timeout_ms));
        if taken \<noteq> RT_EOK then ret (- 1, task)
        else do {
          knote (Rt_sem_delete (rtt_task_done state));
          knote (Rt_free (rtt_task_self state));
          ret (0, None)
        }
      })"

section \<open>Mutexes and semaphores\<close>

definition rtt_mutex_create :: "bool \<Rightarrow> (rtt_call kernel, u64 option) state" where
  "rtt_mutex_create present = (if \<not> present then ret None else do {
    handle \<leftarrow> kcall Rt_mutex_create;
    ret (if handle = 0 then None else Some handle)
  })"

definition rtt_mutex_destroy :: "u64 option \<Rightarrow> (rtt_call kernel, u64 option) state" where
  "rtt_mutex_destroy mutex = (case mutex of
      None \<Rightarrow> ret None
    | Some handle \<Rightarrow> do { knote (Rt_mutex_delete handle); ret None })"

definition rtt_mutex_lock :: "rtt_port \<Rightarrow> u64 option \<Rightarrow> u32 \<Rightarrow> (rtt_call kernel, int) state" where
  "rtt_mutex_lock port mutex timeout_ms = (case mutex of
      None \<Rightarrow> ret (- 1)
    | Some handle \<Rightarrow> do {
        taken \<leftarrow> kcall (Rt_mutex_take handle (rtt_timeout_ticks port timeout_ms));
        ret (rtt_status taken)
      })"

definition rtt_mutex_unlock :: "u64 option \<Rightarrow> (rtt_call kernel, unit) state" where
  "rtt_mutex_unlock mutex = (case mutex of
      None \<Rightarrow> ret ()
    | Some handle \<Rightarrow> knote (Rt_mutex_release handle))"

definition rtt_semaphore_create ::
  "rtt_port \<Rightarrow> bool \<Rightarrow> u32 \<Rightarrow> u32 \<Rightarrow> (rtt_call kernel, u64 option) state" where
  "rtt_semaphore_create port present initial_count maximum_count = (
    if \<not> present \<or> maximum_count = 0 \<or> RT_SEM_VALUE_MAX port < maximum_count \<or>
      maximum_count < initial_count then ret None
    else do {
      handle \<leftarrow> kcall (Rt_sem_create initial_count);
      if handle = 0 then ret None
      else do {
        limited \<leftarrow> kcall (Rt_sem_set_limit handle maximum_count);
        if limited \<noteq> RT_EOK then do { knote (Rt_sem_delete handle); ret None }
        else ret (Some handle)
      }
    })"

definition rtt_semaphore_destroy :: "u64 option \<Rightarrow> (rtt_call kernel, u64 option) state" where
  "rtt_semaphore_destroy semaphore = (case semaphore of
      None \<Rightarrow> ret None
    | Some handle \<Rightarrow> do { knote (Rt_sem_delete handle); ret None })"

definition rtt_semaphore_take :: "rtt_port \<Rightarrow> u64 option \<Rightarrow> u32 \<Rightarrow> (rtt_call kernel, int) state" where
  "rtt_semaphore_take port semaphore timeout_ms = (case semaphore of
      None \<Rightarrow> ret (- 1)
    | Some handle \<Rightarrow> do {
        taken \<leftarrow> kcall (Rt_sem_take handle (rtt_timeout_ticks port timeout_ms));
        ret (rtt_status taken)
      })"

definition rtt_semaphore_give :: "u64 option \<Rightarrow> (rtt_call kernel, int) state" where
  "rtt_semaphore_give semaphore = (case semaphore of
      None \<Rightarrow> ret (- 1)
    | Some handle \<Rightarrow> do { released \<leftarrow> kcall (Rt_sem_release handle); ret (rtt_status released) })"

text \<open>RT-Thread schedules on interrupt exit: the calls from an interrupt report no woken task.\<close>

definition rtt_semaphore_give_from_isr :: "u64 option \<Rightarrow> (rtt_call kernel, int \<times> bool) state" where
  "rtt_semaphore_give_from_isr semaphore = do { result \<leftarrow> rtt_semaphore_give semaphore; ret (result, False) }"

section \<open>Events\<close>

definition rtt_event_create :: "bool \<Rightarrow> (rtt_call kernel, u64 option) state" where
  "rtt_event_create present = (if \<not> present then ret None else do {
    handle \<leftarrow> kcall Rt_event_create;
    ret (if handle = 0 then None else Some handle)
  })"

definition rtt_event_destroy :: "u64 option \<Rightarrow> (rtt_call kernel, u64 option) state" where
  "rtt_event_destroy event = (case event of
      None \<Rightarrow> ret None
    | Some handle \<Rightarrow> do { knote (Rt_event_delete handle); ret None })"

definition rtt_bits_ok :: "u32 \<Rightarrow> bool" where
  "rtt_bits_ok bits = (\<not> (bits = 0 \<or> bits AND NOT WLH_OSAL_EVENT_BITS_MASK \<noteq> 0))"

definition rtt_event_wait ::
  "rtt_port \<Rightarrow> u64 option \<Rightarrow> u32 \<Rightarrow> bool \<Rightarrow> bool \<Rightarrow> u32 \<Rightarrow> (rtt_call kernel, int \<times> u32 option) state" where
  "rtt_event_wait port event bits wait_all clear_on_exit timeout_ms = (case event of
      None \<Rightarrow> ret (- 1, None)
    | Some handle \<Rightarrow> if \<not> rtt_bits_ok bits then ret (- 1, None) else do {
        (result, recved) \<leftarrow> kcall_out (Rt_event_recv handle bits wait_all clear_on_exit
          (rtt_timeout_ticks port timeout_ms));
        ret (if result \<noteq> RT_EOK then (- 1, None) else (0, Some (ucast recved)))
      })"

definition rtt_event_set :: "u64 option \<Rightarrow> u32 \<Rightarrow> (rtt_call kernel, int) state" where
  "rtt_event_set event bits = (case event of
      None \<Rightarrow> ret (- 1)
    | Some handle \<Rightarrow> if \<not> rtt_bits_ok bits then ret (- 1)
        else do { sent \<leftarrow> kcall (Rt_event_send handle bits); ret (rtt_status sent) })"

definition rtt_event_set_from_isr :: "u64 option \<Rightarrow> u32 \<Rightarrow> (rtt_call kernel, int \<times> bool) state" where
  "rtt_event_set_from_isr event bits = do { result \<leftarrow> rtt_event_set event bits; ret (result, False) }"

section \<open>Queues\<close>

record rtt_queue =
  rtt_queue_self :: u64
  rtt_queue_handle :: u64
  rtt_queue_item_size :: u64

text \<open>The caller's storage is ignored: the message pool is the kernel's.\<close>

definition rtt_queue_create :: "bool \<Rightarrow> u64 \<Rightarrow> u64 \<Rightarrow> (rtt_call kernel, rtt_queue option) state" where
  "rtt_queue_create present item_size capacity = (
    if \<not> present \<or> item_size = 0 \<or> capacity = 0 then ret None
    else do {
      state \<leftarrow> kcall Rt_calloc;
      if state = 0 then ret None
      else do {
        handle \<leftarrow> kcall (Rt_mq_create item_size capacity);
        if handle = 0 then do { knote (Rt_free state); ret None }
        else ret (Some \<lparr>rtt_queue_self = state, rtt_queue_handle = handle,
          rtt_queue_item_size = item_size\<rparr>)
      }
    })"

definition rtt_queue_destroy :: "rtt_queue option \<Rightarrow> (rtt_call kernel, rtt_queue option) state" where
  "rtt_queue_destroy queue = (case queue of
      None \<Rightarrow> ret None
    | Some state \<Rightarrow> do {
        knote (Rt_mq_delete (rtt_queue_handle state));
        knote (Rt_free (rtt_queue_self state));
        ret None
      })"

definition rtt_queue_send :: "rtt_port \<Rightarrow> rtt_queue option \<Rightarrow> u64 \<Rightarrow> u32 \<Rightarrow> (rtt_call kernel, int) state" where
  "rtt_queue_send port queue item timeout_ms = (case queue of
      None \<Rightarrow> ret (- 1)
    | Some state \<Rightarrow> do {
        sent \<leftarrow> kcall (Rt_mq_send_wait (rtt_queue_handle state) item (rtt_queue_item_size state)
          (rtt_timeout_ticks port timeout_ms));
        ret (rtt_status sent)
      })"

definition rtt_queue_send_from_isr :: "rtt_queue option \<Rightarrow> u64 \<Rightarrow> (rtt_call kernel, int \<times> bool) state" where
  "rtt_queue_send_from_isr queue item = (case queue of
      None \<Rightarrow> ret (- 1, False)
    | Some state \<Rightarrow> do {
        sent \<leftarrow> kcall (Rt_mq_send (rtt_queue_handle state) item (rtt_queue_item_size state));
        ret (rtt_status sent, False)
      })"

text \<open>A receive returns the size of the message, or a negative error.\<close>

definition rtt_queue_receive :: "rtt_port \<Rightarrow> rtt_queue option \<Rightarrow> u64 \<Rightarrow> u32 \<Rightarrow> (rtt_call kernel, int) state" where
  "rtt_queue_receive port queue item timeout_ms = (case queue of
      None \<Rightarrow> ret (- 1)
    | Some state \<Rightarrow> do {
        received \<leftarrow> kcall (Rt_mq_recv (rtt_queue_handle state) item (rtt_queue_item_size state)
          (rtt_timeout_ticks port timeout_ms));
        ret (if 0 \<le>s received then 0 else - 1)
      })"

section \<open>Timers\<close>

record rtt_timer =
  rtt_timer_self :: u64
  rtt_timer_handle :: u64
  rtt_timer_callback :: u64
  rtt_timer_argument :: u64

definition rtt_timer_trampoline :: "rtt_timer \<Rightarrow> (rtt_call kernel, unit) state" where
  "rtt_timer_trampoline state = knote (Rt_run (rtt_timer_callback state) (rtt_timer_argument state))"

text \<open>The barrier is a semaphore and a one-tick timer on the caller's stack.\<close>

definition rtt_wait_for_timer_thread :: "(rtt_call kernel, unit) state" where
  "rtt_wait_for_timer_thread = do {
    knote Rt_barrier_init;
    started \<leftarrow> kcall Rt_barrier_start;
    whenM (started = RT_EOK) (knote Rt_barrier_take);
    knote Rt_barrier_detach
  }"

definition rtt_timer_create :: "bool \<Rightarrow> u64 \<Rightarrow> u64 \<Rightarrow> (rtt_call kernel, rtt_timer option) state" where
  "rtt_timer_create present callback argument = (
    if \<not> present \<or> callback = 0 then ret None
    else do {
      state \<leftarrow> kcall Rt_calloc;
      if state = 0 then ret None
      else do {
        handle \<leftarrow> kcall (Rt_timer_create state);
        if handle = 0 then do { knote (Rt_free state); ret None }
        else ret (Some \<lparr>rtt_timer_self = state, rtt_timer_handle = handle,
          rtt_timer_callback = callback, rtt_timer_argument = argument\<rparr>)
      }
    })"

definition rtt_timer_destroy :: "rtt_timer option \<Rightarrow> (rtt_call kernel, rtt_timer option) state" where
  "rtt_timer_destroy timer = (case timer of
      None \<Rightarrow> ret None
    | Some state \<Rightarrow> do {
        knote (Rt_timer_stop (rtt_timer_handle state));
        rtt_wait_for_timer_thread;
        knote (Rt_timer_delete (rtt_timer_handle state));
        knote (Rt_free (rtt_timer_self state));
        ret None
      })"

definition rtt_timer_start :: "rtt_port \<Rightarrow> rtt_timer option \<Rightarrow> u32 \<Rightarrow> bool \<Rightarrow> (rtt_call kernel, int) state" where
  "rtt_timer_start port timer period_ms periodic = (case timer of
      None \<Rightarrow> ret (- 1)
    | Some state \<Rightarrow> if period_ms = 0 \<or> 0x80000000 \<le> period_ms then ret (- 1) else do {
        let ticks = rtt_timeout_ticks port period_ms;
        let ticks = (if ticks = 0 then 1 else ticks);
        knote (Rt_timer_stop (rtt_timer_handle state));
        timed \<leftarrow> kcall (Rt_timer_set_time (rtt_timer_handle state) ticks);
        if timed \<noteq> RT_EOK then ret (- 1)
        else do {
          set_mode \<leftarrow> kcall (Rt_timer_set_mode (rtt_timer_handle state) periodic);
          if set_mode \<noteq> RT_EOK then ret (- 1)
          else do {
            started \<leftarrow> kcall (Rt_timer_start (rtt_timer_handle state));
            ret (rtt_status started)
          }
        }
      })"

definition rtt_timer_stop :: "rtt_timer option \<Rightarrow> (rtt_call kernel, int) state" where
  "rtt_timer_stop timer = (case timer of
      None \<Rightarrow> ret (- 1)
    | Some state \<Rightarrow> do {
        stopped \<leftarrow> kcall (Rt_timer_stop (rtt_timer_handle state));
        ret (rtt_status stopped)
      })"

section \<open>Time\<close>

definition rtt_monotonic_time_ms :: "rtt_port \<Rightarrow> (rtt_call kernel, u64) state" where
  "rtt_monotonic_time_ms port = do {
    ticks \<leftarrow> kcall Rt_tick_get;
    ret (ucast (ucast ticks :: u32) * 1000 div ucast (RT_TICK_PER_SECOND port))
  }"

definition rtt_sleep_ms :: "u32 \<Rightarrow> (rtt_call kernel, unit) state" where
  "rtt_sleep_ms duration_ms = knote (Rt_thread_mdelay duration_ms)"

definition rtt_yield :: "(rtt_call kernel, unit) state" where
  "rtt_yield = knote Rt_thread_yield"

definition rtt_in_isr :: "(rtt_call kernel, bool) state" where
  "rtt_in_isr = do { nest \<leftarrow> kcall Rt_interrupt_get_nest; ret (nest \<noteq> 0) }"

section \<open>The table of operations\<close>

text \<open>Which members of the table the layer fills in, in the order of the structure.\<close>

definition wlh_rtt_osal_ops :: "osal_op list" where
  "wlh_rtt_osal_ops =
    [Task_create, Task_join, Mutex_create, Mutex_destroy, Mutex_lock, Mutex_unlock,
     Semaphore_create, Semaphore_destroy, Semaphore_take, Semaphore_give, Semaphore_give_from_isr,
     Event_create, Event_destroy, Event_wait, Event_set, Event_set_from_isr,
     Queue_create, Queue_destroy, Queue_send, Queue_send_from_isr, Queue_receive,
     Timer_create, Timer_destroy, Timer_start, Timer_stop,
     Monotonic_time_ms, Sleep_ms, Yield, In_isr]"

end
