(* ===== verification/Rtos_Lifecycle.thy ===== *)
theory Rtos_Lifecycle
  imports Freertos_Osal Rtt_Osal
begin

text \<open>
  Properties of the FreeRTOS and the RT-Thread OS layers: what their objects hold of the kernel and
  the heap, the conversion of timeouts, and how the destruction of a FreeRTOS timer waits for the
  timer daemon.
\<close>

section \<open>What the calls take and give back\<close>

fun ft_effect :: "ft_call effect" where
  "ft_effect (Ft_calloc, p) = takes_handle Heap_block p"
| "ft_effect (Ft_free p, _) = gives (Heap_block p)"
| "ft_effect (X_semaphore_create_binary, h) = takes_handle Kernel_object h"
| "ft_effect (X_semaphore_create_mutex, h) = takes_handle Kernel_object h"
| "ft_effect (X_semaphore_create_counting _ _, h) = takes_handle Kernel_object h"
| "ft_effect (V_semaphore_delete h, _) = gives (Kernel_object h)"
| "ft_effect (X_event_group_create, h) = takes_handle Kernel_object h"
| "ft_effect (V_event_group_delete h, _) = gives (Kernel_object h)"
| "ft_effect (X_queue_create_static _ _ _, h) = takes_handle Kernel_object h"
| "ft_effect (V_queue_delete h, _) = gives (Kernel_object h)"
| "ft_effect (X_timer_create _, h) = takes_handle Kernel_object h"
| "ft_effect (X_timer_delete h _, _) = gives (Kernel_object h)"
| "ft_effect _ = neither"

text \<open>A thread that was started gives itself back when it ends.\<close>

fun rtt_effect :: "rtt_call effect" where
  "rtt_effect (Rt_calloc, p) = takes_handle Heap_block p"
| "rtt_effect (Rt_free p, _) = gives (Heap_block p)"
| "rtt_effect (Rt_sem_create _, h) = takes_handle Kernel_object h"
| "rtt_effect (Rt_sem_delete h, _) = gives (Kernel_object h)"
| "rtt_effect (Rt_mutex_create, h) = takes_handle Kernel_object h"
| "rtt_effect (Rt_mutex_delete h, _) = gives (Kernel_object h)"
| "rtt_effect (Rt_event_create, h) = takes_handle Kernel_object h"
| "rtt_effect (Rt_event_delete h, _) = gives (Kernel_object h)"
| "rtt_effect (Rt_mq_create _ _, h) = takes_handle Kernel_object h"
| "rtt_effect (Rt_mq_delete h, _) = gives (Kernel_object h)"
| "rtt_effect (Rt_thread_create _ _ _ _ _, h) = takes_handle Kernel_object h"
| "rtt_effect (Rt_thread_startup h, result) = (if result = RT_EOK then gives (Kernel_object h) else neither)"
| "rtt_effect (Rt_thread_delete h, _) = gives (Kernel_object h)"
| "rtt_effect (Rt_timer_create _, h) = takes_handle Kernel_object h"
| "rtt_effect (Rt_timer_delete h, _) = gives (Kernel_object h)"
| "rtt_effect _ = neither"

definition handle_owns :: "u64 \<Rightarrow> resource multiset" where
  "handle_owns handle = {#Kernel_object handle#}"

definition ft_task_owns :: "ft_task \<Rightarrow> resource multiset" where
  "ft_task_owns state = {#Heap_block (ft_task_self state), Kernel_object (ft_task_done state)#}"

definition ft_queue_owns :: "ft_queue \<Rightarrow> resource multiset" where
  "ft_queue_owns state = {#Heap_block (ft_queue_self state), Kernel_object (ft_queue_handle state)#}"

definition ft_timer_owns :: "ft_timer \<Rightarrow> resource multiset" where
  "ft_timer_owns state = {#Heap_block (ft_timer_self state), Kernel_object (ft_timer_handle state),
    Kernel_object (ft_timer_barrier state)#}"

definition rtt_task_owns :: "rtt_task \<Rightarrow> resource multiset" where
  "rtt_task_owns state = {#Heap_block (rtt_task_self state), Kernel_object (rtt_task_done state)#}"

definition rtt_queue_owns :: "rtt_queue \<Rightarrow> resource multiset" where
  "rtt_queue_owns state = {#Heap_block (rtt_queue_self state), Kernel_object (rtt_queue_handle state)#}"

definition rtt_timer_owns :: "rtt_timer \<Rightarrow> resource multiset" where
  "rtt_timer_owns state = {#Heap_block (rtt_timer_self state), Kernel_object (rtt_timer_handle state)#}"

lemmas owns_simps = handle_owns_def ft_task_owns_def ft_queue_owns_def ft_timer_owns_def
  rtt_task_owns_def rtt_queue_owns_def rtt_timer_owns_def

section \<open>FreeRTOS\<close>

interpretation ft_mutex: kernel_object ft_effect "ft_mutex_create present" ft_mutex_destroy handle_owns
  for present
  by unfold_locales
    (auto simp: ft_mutex_create_def ft_mutex_destroy_def wp_simps effect_simps owns_simps
      intro!: wp_kernel)

interpretation ft_semaphore: kernel_object ft_effect
  "ft_semaphore_create present initial_count maximum_count" ft_semaphore_destroy handle_owns
  for present initial_count maximum_count
  by unfold_locales
    (auto simp: ft_semaphore_create_def ft_semaphore_destroy_def wp_simps effect_simps owns_simps
      intro!: wp_kernel)

interpretation ft_event: kernel_object ft_effect "ft_event_create present" ft_event_destroy handle_owns
  for present
  by unfold_locales
    (auto simp: ft_event_create_def ft_event_destroy_def wp_simps effect_simps owns_simps
      intro!: wp_kernel)

interpretation ft_queue: kernel_object ft_effect
  "ft_queue_create present storage item_size capacity" ft_queue_destroy ft_queue_owns
  for present storage item_size capacity
  by unfold_locales
    (auto simp: ft_queue_create_def ft_queue_destroy_def wp_simps effect_simps owns_simps
      intro!: wp_kernel)

interpretation ft_task: kernel_object ft_effect "ft_task_create port present attributes entry argument"
  "\<lambda>task. do { (_, task) \<leftarrow> ft_task_join port timeout_ms task; ret task }" ft_task_owns
  for port present attributes entry argument timeout_ms
  by unfold_locales
    (auto simp: ft_task_create_def ft_task_join_def wp_simps effect_simps owns_simps
      intro!: wp_kernel)

lemma wp_ft_wait_for_timer_daemon:
  assumes "\<And>r t. held ft_effect (k_trace t) = held ft_effect (k_trace s) \<Longrightarrow> Q r t"
  shows "wp (ft_wait_for_timer_daemon fuel port state) Q s"
proof -
  have "wp (ft_pend_barrier fuel port state)
      (\<lambda>_ t. held ft_effect (k_trace t) = held ft_effect (k_trace s)) s"
  proof (induction fuel arbitrary: s)
    case (Suc fuel)
    show ?case
      by (auto simp: wp_simps effect_simps intro!: wp_kernel wp_call [OF Suc.IH])
  qed (simp add: wp_simps)
  then show ?thesis
    unfolding ft_wait_for_timer_daemon_def wp_simps
    by (rule wp_call) (auto simp: wp_simps effect_simps intro!: wp_kernel assms)
qed

interpretation ft_timer: kernel_object ft_effect "ft_timer_create present callback argument"
  "ft_timer_destroy fuel port" ft_timer_owns
  for present callback argument fuel port
  by unfold_locales
    (auto simp: ft_timer_create_def ft_timer_destroy_def wp_simps effect_simps owns_simps
      diff_diff_add_mset add_mset_commute intro!: wp_kernel wp_ft_wait_for_timer_daemon)

section \<open>RT-Thread\<close>

interpretation rtt_mutex: kernel_object rtt_effect "rtt_mutex_create present" rtt_mutex_destroy handle_owns
  for present
  by unfold_locales
    (auto simp: rtt_mutex_create_def rtt_mutex_destroy_def wp_simps effect_simps owns_simps
      intro!: wp_kernel)

interpretation rtt_semaphore: kernel_object rtt_effect
  "rtt_semaphore_create port present initial_count maximum_count" rtt_semaphore_destroy handle_owns
  for port present initial_count maximum_count
  by unfold_locales
    (auto simp: rtt_semaphore_create_def rtt_semaphore_destroy_def wp_simps effect_simps owns_simps
      intro!: wp_kernel)

interpretation rtt_event: kernel_object rtt_effect "rtt_event_create present" rtt_event_destroy handle_owns
  for present
  by unfold_locales
    (auto simp: rtt_event_create_def rtt_event_destroy_def wp_simps effect_simps owns_simps
      intro!: wp_kernel)

interpretation rtt_queue: kernel_object rtt_effect "rtt_queue_create present item_size capacity"
  rtt_queue_destroy rtt_queue_owns
  for present item_size capacity
  by unfold_locales
    (auto simp: rtt_queue_create_def rtt_queue_destroy_def wp_simps effect_simps owns_simps
      intro!: wp_kernel)

interpretation rtt_task: kernel_object rtt_effect "rtt_task_create port present attributes entry argument"
  "\<lambda>task. do { (_, task) \<leftarrow> rtt_task_join port timeout_ms task; ret task }" rtt_task_owns
  for port present attributes entry argument timeout_ms
  by unfold_locales
    (auto simp: rtt_task_create_def rtt_task_join_def wp_simps effect_simps owns_simps
      split: option.split intro!: wp_kernel)

interpretation rtt_timer: kernel_object rtt_effect "rtt_timer_create present callback argument"
  rtt_timer_destroy rtt_timer_owns
  for present callback argument
  by unfold_locales
    (auto simp: rtt_timer_create_def rtt_timer_destroy_def rtt_wait_for_timer_thread_def wp_simps
      effect_simps owns_simps diff_diff_add_mset add_mset_commute intro!: wp_kernel)


section \<open>Timeouts of the FreeRTOS layer\<close>

lemma div_ceiling:
  "(x + 999) div 1000 * 1000 < x + 1000" "x \<le> (x + 999) div 1000 * (1000::nat)"
  using div_mult_mod_eq [of "x + 999" 1000] mod_less_divisor [of 1000 "x + 999"] by linarith+

lemma unat_tick_product:
  "unat ((ucast (ms :: u32) * ucast (rate :: u32) + 999) div 1000 :: u64) =
    (unat ms * unat rate + 999) div 1000"
proof -
  have "unat ms * unat rate \<le> 4294967295 * 4294967295"
    by (rule mult_mono) (simp_all add: unat_u32_le)
  then have "unat (ucast ms * ucast rate + 999 :: u64) = unat ms * unat rate + 999"
    by (simp add: unat_word_ariths unat_ucast_u32_u64)
  then show ?thesis
    by (simp add: unat_div)
qed

lemma ft_timeout_ticks_value:
  assumes "1 < portMAX_DELAY port" and "timeout_ms \<noteq> WLH_OSAL_WAIT_FOREVER" and "timeout_ms \<noteq> 0"
    and "0 < exact"
    and "unat ((ucast timeout_ms * ucast (configTICK_RATE_HZ port) + 999) div 1000 :: u64) = exact"
  shows "unat (ft_timeout_ticks port timeout_ms) =
    (if unat (portMAX_DELAY port) \<le> exact then unat (portMAX_DELAY port) - 1 else exact)"
proof -
  define ticks :: u64 where
    "ticks = (ucast timeout_ms * ucast (configTICK_RATE_HZ port) + 999) div 1000"
  have exact: "unat ticks = exact" and nonzero: "ticks \<noteq> 0"
    using assms(4,5) unfolding ticks_def [symmetric] by auto
  have "1 \<le> (ucast (portMAX_DELAY port) :: u64)"
    using assms(1) by (simp add: word_le_nat_alt word_less_nat_alt unat_ucast_u32_u64)
  then have one_less: "unat (ucast (portMAX_DELAY port) - 1 :: u64) = unat (portMAX_DELAY port) - 1"
    by (simp add: unat_sub unat_ucast_u32_u64)
  have narrow: "unat (ucast w :: u32) = unat w" if "unat w < 4294967296" for w :: u64
    using that by (simp add: unsigned_ucast_eq take_bit_nat_eq_self)
  have "ft_timeout_ticks port timeout_ms =
      ucast (if ucast (portMAX_DELAY port) \<le> ticks then ucast (portMAX_DELAY port) - 1 else ticks)"
    using assms(2,3) nonzero
    by (simp add: ft_timeout_ticks_def ticks_def [symmetric] Let_def WLH_OSAL_NO_WAIT_def)
  moreover have "unat (ucast (ucast (portMAX_DELAY port) - 1 :: u64) :: u32) = unat (portMAX_DELAY port) - 1"
    unfolding one_less [symmetric] by (rule narrow) (use one_less in \<open>simp add: less_imp_diff_less\<close>)
  moreover have "unat (ucast ticks :: u32) = exact" if "\<not> unat (portMAX_DELAY port) \<le> exact"
    unfolding exact [symmetric]
    by (rule narrow) (use that exact unat_u32_less [of "portMAX_DELAY port"] in linarith)
  ultimately show ?thesis
    using exact by (simp add: word_le_nat_alt unat_ucast_u32_u64)
qed

text \<open>C26: Waiting neither too short nor for ever. On a FreeRTOS port a finite, non-zero timeout becomes
  at least one tick and never the tick count that means for ever; unless it is longer than the longest
  finite wait, in which case it becomes that one, it is rounded up: the ticks last at least as long as
  asked and less than one tick longer. Only \<open>WLH_OSAL_WAIT_FOREVER\<close> waits for ever and only
  \<open>WLH_OSAL_NO_WAIT\<close> not at all.\<close>

theorem freertos_timeout_ticks_correct:
  assumes "0 < configTICK_RATE_HZ port" and "1 < portMAX_DELAY port"
  shows "ft_timeout_ticks port WLH_OSAL_WAIT_FOREVER = portMAX_DELAY port \<and>
    ft_timeout_ticks port WLH_OSAL_NO_WAIT = 0 \<and>
    (timeout_ms \<noteq> WLH_OSAL_WAIT_FOREVER \<longrightarrow> timeout_ms \<noteq> WLH_OSAL_NO_WAIT \<longrightarrow>
      (let ticks = unat (ft_timeout_ticks port timeout_ms);
           asked = unat timeout_ms * unat (configTICK_RATE_HZ port)
       in 0 < ticks \<and> ticks < unat (portMAX_DELAY port) \<and>
          (asked \<le> ticks * 1000 \<and> ticks * 1000 < asked + 1000 \<or>
           ticks = unat (portMAX_DELAY port) - 1 \<and> ticks * 1000 < asked)))"
proof -
  define exact where "exact = (unat timeout_ms * unat (configTICK_RATE_HZ port) + 999) div 1000"
  have product: "0 < unat timeout_ms * unat (configTICK_RATE_HZ port)" if "timeout_ms \<noteq> 0"
    using that assms(1) by (simp add: unat_gt_0 word_greater_zero_iff)
  have pos: "0 < exact" if "timeout_ms \<noteq> 0"
    using product [OF that] unfolding exact_def by (simp add: div_greater_zero_iff)
  have ticks: "unat (ft_timeout_ticks port timeout_ms) =
      (if unat (portMAX_DELAY port) \<le> exact then unat (portMAX_DELAY port) - 1 else exact)"
    if "timeout_ms \<noteq> WLH_OSAL_WAIT_FOREVER" "timeout_ms \<noteq> 0"
    using assms(2) that pos [OF that(2)] unat_tick_product [of timeout_ms "configTICK_RATE_HZ port"]
    unfolding exact_def [symmetric]
    by (rule ft_timeout_ticks_value)
  have max: "1 < unat (portMAX_DELAY port)"
    using assms(2) by (simp add: word_less_nat_alt)
  show ?thesis
    using ticks pos max div_ceiling [of "unat timeout_ms * unat (configTICK_RATE_HZ port)"]
    by (auto simp: ft_timeout_ticks_def WLH_OSAL_NO_WAIT_def WLH_OSAL_WAIT_FOREVER_def Let_def
        exact_def [symmetric])
qed

theorem freertos_timeout_ticks_correct_witness:
  "unat (ft_timeout_ticks \<lparr>portMAX_DELAY = - 1, configTICK_RATE_HZ = 100, portTICK_PERIOD_MS = 10,
      configMAX_PRIORITIES = 25, stack_word = 4, max_stack_depth = 65535, esp_platform = False\<rparr> 11) = 2"
    (is "unat (ft_timeout_ticks ?port 11) = 2")
proof -
  have "(11 :: u32) \<noteq> WLH_OSAL_WAIT_FOREVER" "(11 :: u32) \<noteq> WLH_OSAL_NO_WAIT"
    "0 < configTICK_RATE_HZ ?port" "1 < portMAX_DELAY ?port"
    by code_simp+
  from freertos_timeout_ticks_correct [OF this(3,4), of 11] this(1,2) show ?thesis
    by (simp add: Let_def) linarith
qed

section \<open>Destroying a FreeRTOS timer\<close>

text \<open>The calls of a barrier the daemon has passed, newest first: the daemon's queue refused some
  attempts, took the last one, and the semaphore the daemon gives was taken.\<close>

definition ft_barrier_passed :: "ft_port \<Rightarrow> ft_timer \<Rightarrow> (ft_call \<times> u64) list \<Rightarrow> bool" where
  "ft_barrier_passed port state calls \<longleftrightarrow> (\<exists>retries taken attempts.
    calls = (X_semaphore_take (ft_timer_barrier state) (portMAX_DELAY port), taken) #
      (X_timer_pend_barrier (ft_timer_self state) (portMAX_DELAY port), pdPASS) # attempts \<and>
    map fst attempts = concat (replicate retries
      [Task_yield, X_timer_pend_barrier (ft_timer_self state) (portMAX_DELAY port)]))"

lemma concat_replicate_snoc: "concat (replicate n xs) @ xs = xs @ concat (replicate n xs)"
  by (induction n) simp_all

lemma ft_pend_barrier_calls:
  "wp (ft_pend_barrier fuel port state) (\<lambda>ok t. ok \<longrightarrow> (\<exists>retries attempts. k_trace t =
      (X_timer_pend_barrier (ft_timer_self state) (portMAX_DELAY port), pdPASS) # attempts @ k_trace s \<and>
      map fst attempts = concat (replicate retries
        [Task_yield, X_timer_pend_barrier (ft_timer_self state) (portMAX_DELAY port)]))) s"
proof (induction fuel arbitrary: s)
  case (Suc fuel)
  let ?pend = "X_timer_pend_barrier (ft_timer_self state) (portMAX_DELAY port)"
  let ?a = "fst (k_answer s (length (k_trace s)))"
  show ?case
  proof (cases "?a = pdPASS")
    case True
    then show ?thesis
      by (auto simp: wp_simps wp_kernel_exact intro!: exI [of _ "0::nat"])
  next
    case False
    obtain b where next_state: "wp (ft_pend_barrier (Suc fuel) port state) Q s =
        wp (ft_pend_barrier fuel port state) Q
          (s\<lparr>k_trace := (Task_yield, b) # (?pend, ?a) # k_trace s\<rparr>)" for Q
      using False by (simp add: wp_simps wp_kernel_exact)
    show ?thesis
      unfolding next_state
    proof (rule wp_call [OF Suc.IH], intro impI, elim impE exE conjE)
      fix ok t retries attempts
      assume "k_trace t = (?pend, pdPASS) # attempts @
          k_trace (s\<lparr>k_trace := (Task_yield, b) # (?pend, ?a) # k_trace s\<rparr>)"
        and "map fst attempts = concat (replicate retries [Task_yield, ?pend])"
      then show "\<exists>retries attempts. k_trace t = (?pend, pdPASS) # attempts @ k_trace s \<and>
          map fst attempts = concat (replicate retries [Task_yield, ?pend])"
        by (intro exI [of _ "Suc retries"] exI [of _ "attempts @ [(Task_yield, b), (?pend, ?a)]"])
          (simp add: concat_replicate_snoc)
    qed
  qed
qed (simp add: wp_simps)

lemma ft_wait_for_timer_daemon_calls:
  "wp (ft_wait_for_timer_daemon fuel port state) (\<lambda>ok t. ok \<longrightarrow>
    (\<exists>calls. k_trace t = calls @ k_trace s \<and> ft_barrier_passed port state calls)) s"
  unfolding ft_wait_for_timer_daemon_def wp_simps
  by (rule wp_call [OF ft_pend_barrier_calls])
    (fastforce simp: wp_simps wp_kernel_exact ft_barrier_passed_def)

lemma ft_pend_barrier_returns:
  "fst (k_answer s (length (k_trace s) + 2 * k)) = pdPASS \<Longrightarrow> k < fuel \<Longrightarrow>
    wp (ft_pend_barrier fuel port state) (\<lambda>ok t. ok \<and> k_answer t = k_answer s \<and>
      length (k_trace t) \<le> length (k_trace s) + 2 * k + 1) s"
proof (induction fuel arbitrary: s k)
  case (Suc fuel)
  show ?case
  proof (cases "fst (k_answer s (length (k_trace s))) = pdPASS")
    case False
    then obtain j where j: "k = Suc j"
      using Suc.prems(1) by (cases k) auto
    have "fst (k_answer s (Suc (Suc (length (k_trace s) + 2 * j)))) = pdPASS" "j < fuel"
      using Suc.prems j by simp_all
    with False j show ?thesis
      by (simp add: wp_simps wp_kernel_exact) (rule wp_call [OF Suc.IH [of _ j]], auto)
  qed (simp add: wp_simps wp_kernel_exact)
qed simp

lemma ft_wait_for_timer_daemon_returns:
  "fst (k_answer s (length (k_trace s) + 2 * k)) = pdPASS \<Longrightarrow> k < fuel \<Longrightarrow>
    wp (ft_wait_for_timer_daemon fuel port state) (\<lambda>ok t. ok \<and> k_answer t = k_answer s \<and>
      length (k_trace t) \<le> length (k_trace s) + 2 * k + 2) s"
  unfolding ft_wait_for_timer_daemon_def wp_simps
  by (rule wp_call [OF ft_pend_barrier_returns]) (auto simp: wp_simps wp_kernel_exact)

lemma uniform_attempts:
  fixes P :: "nat \<Rightarrow> bool"
  assumes "\<And>n. \<exists>k. P (n + 2 * k)"
  shows "\<exists>K. \<forall>n \<le> N. \<exists>k \<le> K. P (n + 2 * k)"
proof (induction N)
  case 0
  from assms [of 0] show ?case by auto
next
  case (Suc N)
  then obtain K k where "\<forall>n \<le> N. \<exists>k \<le> K. P (n + 2 * k)" "P (Suc N + 2 * k)"
    using assms [of "Suc N"] by blast
  then have "\<forall>n \<le> Suc N. \<exists>j \<le> max K k. P (n + 2 * j)"
    by (metis le_SucE max.coboundedI1 max.cobounded2)
  then show ?case by blast
qed

lemma ft_timer_destroy_returns:
  assumes "\<And>n. \<exists>k. fst (k_answer s (n + 2 * k)) = pdPASS"
  shows "\<exists>fuel. wp (ft_timer_destroy fuel port (Some state)) (\<lambda>timer _. timer = None) s"
proof -
  let ?n = "Suc (length (k_trace s))"
  obtain k where k: "fst (k_answer s (?n + 2 * k)) = pdPASS"
    using assms by blast
  obtain K where K: "\<forall>n \<le> ?n + 2 * k + 3. \<exists>j \<le> K. fst (k_answer s (n + 2 * j)) = pdPASS"
    using uniform_attempts [where P = "\<lambda>n. fst (k_answer s n) = pdPASS", OF assms] by blast
  have "wp (ft_timer_destroy (Suc (max k K)) port (Some state)) (\<lambda>timer _. timer = None) s"
    unfolding ft_timer_destroy_def option.case wp_simps wp_kernel_exact
  proof (rule wp_call [OF ft_wait_for_timer_daemon_returns [where k = k]], goal_cases)
    case (3 ok t)
    then have "Suc (length (k_trace t)) \<le> ?n + 2 * k + 3" and answers: "k_answer t = k_answer s"
      by simp_all
    with K obtain j where j: "j \<le> K" "fst (k_answer t (Suc (length (k_trace t)) + 2 * j)) = pdPASS"
      unfolding answers by blast
    show ?case
      using 3 j by (auto simp: wp_simps wp_kernel_exact
          intro!: wp_call [OF ft_wait_for_timer_daemon_returns [where k = j]])
  qed (use k in simp_all)
  then show ?thesis by blast
qed

lemma ft_timer_destroy_calls:
  "wp (ft_timer_destroy fuel port (Some state)) (\<lambda>timer t. timer = None \<longrightarrow>
      (\<exists>first second stopped deleted a b. k_trace t =
        (Ft_free (ft_timer_self state), a) # (V_semaphore_delete (ft_timer_barrier state), b) #
        second @ (X_timer_delete (ft_timer_handle state) (portMAX_DELAY port), deleted) #
        first @ (X_timer_stop (ft_timer_handle state) (portMAX_DELAY port), stopped) # k_trace s \<and>
        ft_barrier_passed port state first \<and> ft_barrier_passed port state second)) s"
    (is "wp _ ?post s")
proof -
  let ?wait = "ft_wait_for_timer_daemon fuel port state"
  let ?delete = "\<lambda>stopped. if \<not> stopped then ret (Some state)
    else do {
      knote (X_timer_delete (ft_timer_handle state) (portMAX_DELAY port));
      deleted \<leftarrow> ?wait;
      if \<not> deleted then ret (Some state)
      else do {
        knote (V_semaphore_delete (ft_timer_barrier state));
        knote (Ft_free (ft_timer_self state));
        ret None
      }
    }"
  have delete: "wp (?delete ok) ?post t"
    if before: "ok \<longrightarrow> (\<exists>first stopped. k_trace t = first @
        (X_timer_stop (ft_timer_handle state) (portMAX_DELAY port), stopped) # k_trace s \<and>
        ft_barrier_passed port state first)" for ok t
  proof (cases ok)
    case True
    with before obtain first stopped where first: "k_trace t = first @
        (X_timer_stop (ft_timer_handle state) (portMAX_DELAY port), stopped) # k_trace s"
      "ft_barrier_passed port state first" by blast
    obtain r u where u: "run_state ?wait
        (t\<lparr>k_trace := (X_timer_delete (ft_timer_handle state) (portMAX_DELAY port),
          fst (k_answer t (length (k_trace t)))) # k_trace t\<rparr>) = (r, u)"
      by fastforce
    have "r \<longrightarrow> (\<exists>second. k_trace u = second @ (X_timer_delete (ft_timer_handle state)
        (portMAX_DELAY port), fst (k_answer t (length (k_trace t)))) # k_trace t \<and>
        ft_barrier_passed port state second)"
      using wp_run [OF u ft_wait_for_timer_daemon_calls] by simp
    with first True u show ?thesis
      by (cases r) (auto simp: wp_def kcall_def kcall_out_def knote_def State_Monad.update_def Let_def)
  qed (simp add: wp_simps)
  have "ft_timer_destroy fuel port (Some state) =
      do { knote (X_timer_stop (ft_timer_handle state) (portMAX_DELAY port)); stopped \<leftarrow> ?wait; ?delete stopped }"
    by (simp add: ft_timer_destroy_def)
  then show ?thesis
    unfolding wp_bind wp_knote_exact
    by (simp only: wp_bind wp_knote_exact)
      (rule wp_call [OF ft_wait_for_timer_daemon_calls], rule delete, auto)
qed

text \<open>C25: A timer is freed only when its callback cannot run any more. Whenever the destruction of a
  FreeRTOS timer returns, its calls were, in this order: stop the timer, pass a barrier of the timer
  daemon (so that a callback that was running has ended), delete the timer, pass a second barrier (so
  that the daemon has executed the deletion), and only then delete the barrier's semaphore and free
  the state the callback uses. And it returns whenever the daemon's queue does not refuse for ever.\<close>

theorem freertos_timer_destroy_waits:
  "wp (ft_timer_destroy fuel port (Some state)) (\<lambda>timer t. timer = None \<longrightarrow>
      (\<exists>first second stopped deleted a b. k_trace t =
        (Ft_free (ft_timer_self state), a) # (V_semaphore_delete (ft_timer_barrier state), b) #
        second @ (X_timer_delete (ft_timer_handle state) (portMAX_DELAY port), deleted) #
        first @ (X_timer_stop (ft_timer_handle state) (portMAX_DELAY port), stopped) # k_trace s \<and>
        ft_barrier_passed port state first \<and> ft_barrier_passed port state second)) s \<and>
   ((\<forall>n. \<exists>k. fst (k_answer s (n + 2 * k)) = pdPASS) \<longrightarrow>
     (\<exists>fuel. fst (run_state (ft_timer_destroy fuel port (Some state)) s) = None))"
proof (intro conjI impI)
  show "wp (ft_timer_destroy fuel port (Some state)) (\<lambda>timer t. timer = None \<longrightarrow>
      (\<exists>first second stopped deleted a b. k_trace t =
        (Ft_free (ft_timer_self state), a) # (V_semaphore_delete (ft_timer_barrier state), b) #
        second @ (X_timer_delete (ft_timer_handle state) (portMAX_DELAY port), deleted) #
        first @ (X_timer_stop (ft_timer_handle state) (portMAX_DELAY port), stopped) # k_trace s \<and>
        ft_barrier_passed port state first \<and> ft_barrier_passed port state second)) s"
    by (rule ft_timer_destroy_calls)
next
  assume "\<forall>n. \<exists>k. fst (k_answer s (n + 2 * k)) = pdPASS"
  then obtain fuel where "wp (ft_timer_destroy fuel port (Some state)) (\<lambda>timer _. timer = None) s"
    using ft_timer_destroy_returns [of s port state] by auto
  then show "\<exists>fuel. fst (run_state (ft_timer_destroy fuel port (Some state)) s) = None"
    by (auto simp: wp_def split: prod.splits intro!: exI [of _ fuel])
qed

theorem freertos_timer_destroy_waits_witness:
  "\<exists>fuel. fst (run_state (ft_timer_destroy fuel \<lparr>portMAX_DELAY = - 1, configTICK_RATE_HZ = 100,
      portTICK_PERIOD_MS = 10, configMAX_PRIORITIES = 25, stack_word = 4, max_stack_depth = 65535,
      esp_platform = False\<rparr> (Some \<lparr>ft_timer_self = 8, ft_timer_handle = 16, ft_timer_barrier = 24,
      ft_timer_callback = 32, ft_timer_argument = 0\<rparr>))
    \<lparr>k_answer = (\<lambda>n. (if n mod 4 = 1 then 0 else 1, 0)), k_trace = []\<rparr>) = None"
    (is "\<exists>fuel. fst (run_state (ft_timer_destroy fuel ?port (Some ?state)) ?s) = None")
proof -
  have "\<exists>k. fst (k_answer ?s (n + 2 * k)) = pdPASS" for n
  proof (cases "n mod 4 = 1")
    case True
    then have "(n + 2 * 1) mod 4 \<noteq> 1" by presburger
    then show ?thesis by (intro exI [of _ 1]) (simp add: pdPASS_def)
  qed (auto simp: pdPASS_def intro: exI [of _ 0])
  then show ?thesis
    using freertos_timer_destroy_waits [of _ ?port ?state ?s] by simp
qed

section \<open>The tables of operations\<close>

lemma rtos_ops_valid:
  "wlh_osal_ops_valid (Some (demo_osal\<lparr>osal_present := (\<lambda>op. op \<in> set wlh_freertos_osal_ops)\<rparr>))"
  "wlh_osal_ops_valid (Some (demo_osal\<lparr>osal_present := (\<lambda>op. op \<in> set wlh_rtt_osal_ops)\<rparr>))"
  by (simp_all add: wlh_osal_ops_valid_def wlh_freertos_osal_ops_def wlh_rtt_osal_ops_def)

end
