(* ===== verification/Host_Sending.thy ===== *)
theory Host_Sending
  imports Host_Slots
begin

text \<open>
  Properties of what the host core sends: the exact effect of sending one payload, the sequence
  numbers and the form of the frames in every reachable run, and the messages built on it.
\<close>

section \<open>One payload\<close>

text \<open>C4: Sending one payload (\<open>send_payload_frame_units\<close>), on every branch. An oversized payload
  and a count of zero units are refused without any effect. Without enough credit nothing is
  submitted and nothing but the state changes, to \<open>CONGESTED\<close>. Otherwise the frame of the payload
  with the channel's sequence number and the session is submitted, unless no buffer is available;
  if the transport takes it, the sequence number goes up by one and exactly the units are taken
  from the credit, which was large enough; if it refuses, the buffer is freed and neither changes.\<close>

theorem send_payload_frame_units_correct:
  "case run_state (send_payload_frame_units ch p rsv u) s of (r, t) \<Rightarrow>
    (if send_oversize s p u then r = WLH_HOST_INVALID_ARGUMENT \<and> t = s
     else if \<not> rsv \<and> h_tx_credit s ch < u then
       r = WLH_HOST_NO_CREDIT \<and> h_state t = STATE_CONGESTED \<and> reporting s t
     else
       (r = WLH_HOST_NO_MEMORY \<and> t = after_no_memory s (24 + length p)) \<or>
       (r = WLH_HOST_TRANSPORT_ERROR \<and> t = after_refused s (out_frame s ch p)) \<or>
       (r = WLH_HOST_OK \<and> t = after_sent s ch (out_frame s ch p) rsv u \<and>
         (rsv \<or> u \<le> h_tx_credit s ch)))"
proof -
  have "wp (send_payload_frame_units ch p rsv u) (\<lambda>r t.
    (if send_oversize s p u then r = WLH_HOST_INVALID_ARGUMENT \<and> t = s
     else if \<not> rsv \<and> h_tx_credit s ch < u then
       r = WLH_HOST_NO_CREDIT \<and> h_state t = STATE_CONGESTED \<and> reporting s t
     else
       (r = WLH_HOST_NO_MEMORY \<and> t = after_no_memory s (24 + length p)) \<or>
       (r = WLH_HOST_TRANSPORT_ERROR \<and> t = after_refused s (out_frame s ch p)) \<or>
       (r = WLH_HOST_OK \<and> t = after_sent s ch (out_frame s ch p) rsv u \<and>
         (rsv \<or> u \<le> h_tx_credit s ch)))) s"
    by (rule send_units_wp) (auto intro!: set_state_wp)
  then show ?thesis
    by (simp add: wp_def)
qed

section \<open>Sequence numbers in a run\<close>

text \<open>The sequence numbers of the frames the transport accepted on a channel, oldest first, and the
  part of the run since the transport was last told to stop.\<close>

definition sent_numbers :: "u8 \<Rightarrow> effect list \<Rightarrow> u32 list" where
  "sent_numbers ch tr = map (fh_sequence \<circ> parse_header)
    (filter (\<lambda>f. fh_channel (parse_header f) = ch) (concat (map accepted_frame (rev tr))))"

fun is_stop :: "effect \<Rightarrow> bool" where
  "is_stop (EStop _) = True"
| "is_stop _ = False"

definition since_stop :: "effect list \<Rightarrow> effect list" where
  "since_stop tr = takeWhile (\<lambda>e. \<not> is_stop e) tr"

definition counts_from :: "u32 \<Rightarrow> nat \<Rightarrow> u32 list" where
  "counts_from start n = map (\<lambda>i. start + of_nat i) [0..<n]"

lemma counts_from_Suc: "counts_from start (Suc n) = counts_from start n @ [start + of_nat n]"
  by (simp add: counts_from_def)

lemma sent_numbers_simps [simp]:
  "sent_numbers ch [] = []"
  "sent_numbers ch (ESubmit f True # tr) = sent_numbers ch tr @
    (if fh_channel (parse_header f) = ch then [fh_sequence (parse_header f)] else [])"
  "sent_numbers ch (ESubmit f False # tr) = sent_numbers ch tr"
  "\<not> is_submit e \<Longrightarrow> sent_numbers ch (e # tr) = sent_numbers ch tr"
  by (simp_all add: sent_numbers_def) (cases e; simp)

lemma since_stop_simps [simp]:
  "since_stop [] = []"
  "since_stop (e # tr) = (if is_stop e then [] else e # since_stop tr)"
  by (simp_all add: since_stop_def)

lemma numbered_counts:
  assumes "numbered tr q"
  shows "\<exists>start n. sent_numbers ch (since_stop tr) = counts_from start n \<and> q ch = start + of_nat n \<and>
    (since_stop tr = tr \<longrightarrow> start = 0)"
  using assms
proof (induction rule: numbered.induct)
  case num_start
  then show ?case
    by (intro exI [of _ 0]) (simp add: counts_from_def)
next
  case (num_accepted tr q f c)
  from num_accepted.IH obtain start n
    where ih: "sent_numbers ch (since_stop tr) = counts_from start n" "q ch = start + of_nat n"
      "since_stop tr = tr \<longrightarrow> start = 0"
    by blast
  show ?case
  proof (cases "c = ch")
    case True
    with ih num_accepted.hyps show ?thesis
      by (intro exI [of _ start] exI [of _ "Suc n"]) (simp add: counts_from_Suc ac_simps)
  next
    case False
    with ih num_accepted.hyps show ?thesis
      by (intro exI [of _ start] exI [of _ n]) simp
  qed
next
  case (num_refused tr q f)
  then show ?case by simp
next
  case (num_call tr q e)
  show ?case
  proof (cases "is_stop e")
    case True
    then show ?thesis
      by (intro exI [of _ "q ch"] exI [of _ 0]) (simp add: counts_from_def)
  next
    case False
    with num_call show ?thesis by simp
  qed
next
  case (num_restart tr q ok)
  then show ?case
    by (intro exI [of _ 0]) (simp add: counts_from_def)
qed

definition run_numbered :: "system \<Rightarrow> bool" where
  "run_numbered sys = numbered (trace (sys_host sys)) (h_tx_sequence (sys_host sys))"

interpretation number_books: step_invariant host_initial host_step run_numbered
proof
  show "run_numbered sys" if "host_initial sys" for sys
  proof -
    from that obtain h cfg s0 where init: "wlh_host_init h (Some cfg) = (WLH_HOST_OK, s0)"
      and R: "numbering s0 (sys_host sys)"
      by (rule num.host_initial_R)
    from init have "trace s0 = []" "h_tx_sequence s0 = (\<lambda>_. 0)"
      by (auto simp: wlh_host_init_def zero_host_def Let_def split: if_splits)
    with R show ?thesis
      by (simp add: numbering_def run_numbered_def num_start)
  qed
  show "run_numbered sys'" if "host_step sys sys'" "run_numbered sys" for sys sys'
    using num.host_step_R [OF that(1)] that(2) by (simp add: numbering_def run_numbered_def)
qed



section \<open>The frames of a run\<close>

definition run_framed :: "system \<Rightarrow> bool" where
  "run_framed sys \<longleftrightarrow> all_framed (sys_host sys) \<and>
    unat (cfg_max_frame_size (h_config (sys_host sys))) \<le> WLH_FRAME_MAX_SIZE"

interpretation frame_books: step_invariant host_initial host_step run_framed
proof
  show "run_framed sys" if "host_initial sys" for sys
  proof -
    from that obtain h cfg s0 where init: "wlh_host_init h (Some cfg) = (WLH_HOST_OK, s0)"
      and R: "framing s0 (sys_host sys)"
      by (rule fr.host_initial_R)
    from init have "trace s0 = []"
        "unat (cfg_max_frame_size (h_config s0)) \<le> WLH_FRAME_MAX_SIZE"
      by (auto simp: wlh_host_init_def zero_host_def Let_def split: if_splits)
    with R show ?thesis
      by (auto simp: framing_def run_framed_def all_framed_def submitted_def)
  qed
  show "run_framed sys'" if "host_step sys sys'" "run_framed sys" for sys sys'
    using fr.host_step_R [OF that(1)] that(2) by (simp add: framing_def run_framed_def)
qed

definition submitted_frames :: "effect list \<Rightarrow> u8 list list" where
  "submitted_frames tr = concat (map (\<lambda>e. case e of ESubmit f _ \<Rightarrow> [f] | _ \<Rightarrow> []) (rev tr))"

lemma set_submitted_frames: "set (submitted_frames tr) = submitted tr"
  by (force simp: submitted_frames_def submitted_def split: effect.splits)

text \<open>C9: Every frame the host core hands to the transport is well formed: the frame decoder, run
  with the configured frame size, accepts each of them and yields its header and its payload.\<close>

theorem submitted_frames_decode:
  assumes "reachable_system sys"
  defines "limit \<equiv> unat (cfg_max_frame_size (h_config (sys_host sys)))"
  shows "map (frame_decode_buf limit) (submitted_frames (trace (sys_host sys))) =
    map (\<lambda>f. (WLH_WIRE_OK, parse_header f, drop 24 f)) (submitted_frames (trace (sys_host sys)))"
  using frame_books.reachable_I [OF assms(1) [unfolded reachable_system_def]]
  by (auto simp: run_framed_def all_framed_def set_submitted_frames [symmetric] frame_decode_buf_ok
      limit_def)

theorem submitted_frames_decode_witness:
  "map (frame_decode_buf (unat (cfg_max_frame_size (h_config (sys_host demo_system)))))
      (submitted_frames (trace (sys_host demo_system))) =
    map (\<lambda>f. (WLH_WIRE_OK, parse_header f, drop 24 f))
      (submitted_frames (trace (sys_host demo_system)))"
  by (rule submitted_frames_decode [OF demo_reachable])

end
