(* ===== verification/Host_Shape.thy ===== *)
theory Host_Shape
  imports Host_Sending
begin

text \<open>
  The shape of the host core's state: the configurations \<open>wlh_host_init\<close> accepts, and that every
  reachable state is well-typed - its configuration is one of these, never changes, and the queue stays
  within the storage the configuration gives it.
\<close>

definition host_config_ok :: "host_config \<Rightarrow> bool" where
  "host_config_ok c \<longleftrightarrow> cfg_transport_start c \<noteq> None \<and> cfg_transport_stop c \<noteq> None \<and>
    cfg_submit_tx c \<noteq> None \<and> cfg_alloc c \<noteq> None \<and> cfg_free c \<noteq> None \<and> cfg_post c \<noteq> None \<and>
    wlh_osal_ops_valid (Some (cfg_osal c)) \<and>
    unat (cfg_max_frame_size c) \<in> {WLH_FRAME_HEADER_SIZE .. WLH_FRAME_MAX_SIZE} \<and>
    cfg_max_pending_rpc c \<noteq> 0 \<and> unat (cfg_max_pending_rpc c) \<le> WLH_HOST_MAX_PENDING \<and>
    unat (cfg_core_queue_depth c) \<le> WLH_HOST_MAX_QUEUE_DEPTH"

text \<open>Initialisation accepts these configurations and only these, and fills in the three defaults.\<close>

definition with_default :: "'a :: zero \<Rightarrow> 'a \<Rightarrow> 'a" where
  "with_default d x = (if x = 0 then d else x)"

definition host_effective :: "host_config \<Rightarrow> host_config" where
  "host_effective c = c\<lparr>cfg_core_queue_depth := with_default 16 (cfg_core_queue_depth c),
    cfg_ethernet_tx_depth := with_default (with_default 16 (cfg_core_queue_depth c)) (cfg_ethernet_tx_depth c),
    cfg_stop_timeout_ms := with_default 3000 (cfg_stop_timeout_ms c)\<rparr>"

lemma host_init_accepts:
  "wlh_host_init h (Some c) = (WLH_HOST_OK, s0) \<longleftrightarrow> host_config_ok c \<and>
    s0 = (zero_host (host_effective c) (h_pb h))\<lparr>h_next_request_id := 1\<rparr>"
  by (auto simp: wlh_host_init_def host_config_ok_def host_effective_def with_default_def Let_def
      WLH_HOST_MAX_QUEUE_DEPTH_def not_less split: if_splits)

lemma host_effective_ok: "host_config_ok c \<Longrightarrow> host_config_ok (host_effective c) \<and>
    cfg_core_queue_depth (host_effective c) \<noteq> 0 \<and> cfg_ethernet_tx_depth (host_effective c) \<noteq> 0 \<and>
    cfg_stop_timeout_ms (host_effective c) \<noteq> 0"
  by (auto simp: host_config_ok_def host_effective_def with_default_def WLH_HOST_MAX_QUEUE_DEPTH_def)

section \<open>Well-typed states\<close>

definition shape_kept :: "host \<Rightarrow> host \<Rightarrow> bool" where
  "shape_kept s t \<longleftrightarrow> h_config t = h_config s \<and>
    (length (h_core_queue s) \<le> unat (cfg_core_queue_depth (h_config s)) \<longrightarrow>
      length (h_core_queue t) \<le> unat (cfg_core_queue_depth (h_config t)))"

interpretation shape: core_relation shape_kept
proof
  show "state_io_rel shape_kept (send_payload_frame_units ch p rsv u)" for ch p rsv u
  proof -
    have "wp (send_payload_frame_units ch p rsv u) (\<lambda>_ t. shape_kept s t) s" for s
      by (rule sending.rel_wp [OF sends_frame_units]) (simp add: shape_kept_def sending_keeps)
    then show ?thesis by (simp add: state_io_rel_def wp_snd split_beta)
  qed
qed (auto simp: shape_kept_def)

definition host_well_typed :: "host \<Rightarrow> bool" where
  "host_well_typed s \<longleftrightarrow> host_config_ok (h_config s) \<and> cfg_core_queue_depth (h_config s) \<noteq> 0 \<and>
    cfg_ethernet_tx_depth (h_config s) \<noteq> 0 \<and> cfg_stop_timeout_ms (h_config s) \<noteq> 0 \<and>
    length (h_core_queue s) \<le> unat (cfg_core_queue_depth (h_config s))"

lemma shape_kept_well_typed: "shape_kept s t \<Longrightarrow> host_well_typed s \<Longrightarrow> host_well_typed t"
  by (auto simp: shape_kept_def host_well_typed_def)

interpretation well_typed: step_invariant host_initial host_step "\<lambda>sys. host_well_typed (sys_host sys)"
proof
  show "host_well_typed (sys_host sys)" if "host_initial sys" for sys
  proof -
    from that obtain h cfg s0 where init: "wlh_host_init h (Some cfg) = (WLH_HOST_OK, s0)"
      and R: "shape_kept s0 (sys_host sys)"
      by (rule shape.host_initial_R)
    from init have "host_well_typed s0"
      using host_effective_ok [of cfg]
      by (simp add: host_init_accepts host_well_typed_def zero_host_def)
    with R show ?thesis by (rule shape_kept_well_typed)
  qed
qed (blast intro: shape_kept_well_typed shape.host_step_R)

text \<open>C19: The host's state stays well-typed. \<open>wlh_host_init\<close> accepts exactly the configurations with all
  mandatory operations, a frame size and a number of pending requests within the limits and a queue depth
  of at most 64, and replaces the three zero defaults; in every reachable state the configuration
  is such a one, no default is left, and the queue holds at most \<open>core_queue_depth\<close> jobs, for
  which its storage was allocated.\<close>

theorem host_state_well_typed:
  assumes "reachable_system sys"
  shows "((\<exists>s0. wlh_host_init h (Some c) = (WLH_HOST_OK, s0)) \<longleftrightarrow> host_config_ok c) \<and>
    host_well_typed (sys_host sys) \<and>
    length (waiting_jobs (sys_host sys)) \<le> Suc (unat (cfg_core_queue_depth (h_config (sys_host sys))))"
proof -
  have "host_well_typed (sys_host sys)"
    using well_typed.reachable_I assms by (simp add: reachable_system_def)
  moreover from this have
    "length (waiting_jobs (sys_host sys)) \<le> Suc (unat (cfg_core_queue_depth (h_config (sys_host sys))))"
    by (auto simp: host_well_typed_def waiting_jobs_def split: option.split)
  ultimately show ?thesis by (simp add: host_init_accepts)
qed

theorem host_state_well_typed_witness:
  "host_well_typed (sys_host demo_system) \<and> host_config_ok (h_config (sys_host demo_system))"
  using host_state_well_typed [OF demo_reachable] by (simp add: host_well_typed_def)

end
