(* ===== verification/Host_Aggregation.thy ===== *)
theory Host_Aggregation
  imports Host_Slots
begin

text \<open>
  Properties of the Ethernet aggregation: which jobs are merged into one frame, in which order,
  and what it costs in credit.
\<close>

definition same_channel :: "u8 \<Rightarrow> host_job \<Rightarrow> bool" where
  "same_channel ch job = (case job of JOB_ETHERNET_TX data \<Rightarrow> dj_channel data = ch | _ \<Rightarrow> False)"

definition job_data :: "host_job \<Rightarrow> u8 list" where
  "job_data job = (case job of JOB_ETHERNET_TX data \<Rightarrow> dj_data data | _ \<Rightarrow> [])"

text \<open>The transport takes no frame, and what sending depends on stays.\<close>

definition quiet :: "host \<Rightarrow> host \<Rightarrow> bool" where
  "quiet s t \<longleftrightarrow> h_config t = h_config s \<and> h_tx_credit t = h_tx_credit s \<and>
    h_tx_sequence t = h_tx_sequence s \<and> h_session_id t = h_session_id s \<and>
    (\<exists>es. concat (map accepted_frame es) = [] \<and> trace t = es @ trace s)"

lemma quiet_refl [simp, intro]: "quiet s s"
  by (simp add: quiet_def exI [of _ "[]"])

lemma quiet_trans: "quiet s t \<Longrightarrow> quiet t u \<Longrightarrow> quiet s u"
  unfolding quiet_def by (metis append.assoc append_Nil concat_append map_append)

lemma quiet_fields [simp]:
  "quiet s (t\<lparr>h_core_queue := q\<rparr>) = quiet s t"
  "quiet s (t\<lparr>h_deferred_job := d\<rparr>) = quiet s t"
  "quiet s (t\<lparr>h_ethernet_tx_queued := n\<rparr>) = quiet s t"
  "quiet s (t\<lparr>h_ethernet_tx_slots := k\<rparr>) = quiet s t"
  by (simp_all add: quiet_def)

lemma quiet_call [simp]:
  "accepted_frame e = [] \<Longrightarrow> quiet s (t\<lparr>trace := tr\<rparr>) \<Longrightarrow> quiet s (t\<lparr>trace := e # tr\<rparr>)"
  "trace t = tr \<Longrightarrow> quiet s (t\<lparr>trace := tr\<rparr>) = quiet s t"
  by (auto simp: quiet_def intro: exI [of _ "e # es" for es])

lemma quiet_dequeued: "quiet s t \<Longrightarrow> quiet s (t\<lparr>h_ethernet_tx_queued := q, trace := EFree # trace t\<rparr>)"
  by simp

definition merged ::
  "nat \<Rightarrow> nat \<Rightarrow> data_job \<Rightarrow> u32 \<Rightarrow> host \<Rightarrow> data_job \<Rightarrow> u32 \<Rightarrow> host \<Rightarrow> nat \<Rightarrow> bool" where
  "merged cap limit data units s data' units' t k \<longleftrightarrow>
    k \<le> length (waiting_jobs s) \<and> waiting_jobs t = drop k (waiting_jobs s) \<and>
    list_all (same_channel (dj_channel data)) (take k (waiting_jobs s)) \<and>
    quiet s t \<and> dj_channel data' = dj_channel data \<and>
    dj_data data' = dj_data data @ concat (map job_data (take k (waiting_jobs s))) \<and>
    units' = units + of_nat k \<and> (k = 0 \<or> length (dj_data data') \<le> cap \<and> unat units + k \<le> limit)"

lemma merged_none:
  "waiting_jobs t = waiting_jobs s \<Longrightarrow> quiet s t \<Longrightarrow> merged cap limit data units s data units t 0"
  by (simp add: merged_def)

lemma merged_step:
  assumes s: "waiting_jobs s = JOB_ETHERNET_TX c # waiting_jobs t" and ch: "dj_channel c = dj_channel data"
    and quiet: "quiet s t"
    and fits: "length (dj_data data) + length (dj_data c) \<le> cap" and lim: "unat units < limit" "limit \<le> 255"
    and d: "dj_channel d = dj_channel data" "dj_data d = dj_data data @ dj_data c"
    and m: "merged cap limit d (units + 1) t data' units' u k"
  shows "merged cap limit data units s data' units' u (Suc k)"
proof -
  have "unat (units + 1) = unat units + 1"
    using lim by (simp add: unat_word_ariths)
  then show ?thesis
    using m s ch d lim fits
    by (auto simp: merged_def same_channel_def job_data_def intro: quiet_trans [OF quiet])
qed

lemma give_wp:
  "quiet r s \<Longrightarrow> (\<And>t. quiet r t \<Longrightarrow> waiting_jobs t = waiting_jobs s \<Longrightarrow> Q () t) \<Longrightarrow>
    wp semaphore_give Q s"
  by (simp add: semaphore_give_def wp_simps waiting_jobs_def)

lemma waiting_jobs_frame [simp]:
  "waiting_jobs (s\<lparr>h_ethernet_tx_queued := q\<rparr>) = waiting_jobs s"
  "waiting_jobs (s\<lparr>trace := tr\<rparr>) = waiting_jobs s"
  by (simp_all add: waiting_jobs_def)

lemma aggregate_loop_merges:
  assumes "fuel + unat units \<ge> limit" and "limit = unat (cfg_ethernet_tx_aggregation_limit (h_config s))"
  shows "wp (aggregate_loop fuel cap data units)
    (\<lambda>(data', units') t. \<exists>k. merged cap limit data units s data' units' t k) s"
  using assms
proof (induction fuel arbitrary: data units s)
  case 0
  then show ?case
    by (auto simp: wp_simps intro: merged_none)
next
  case (Suc fuel)
  have limit: "limit \<le> 255"
    using Suc.prems(2) unat_u8_less [of "cfg_ethernet_tx_aggregation_limit (h_config s)"] by linarith
  show ?case
  proof (cases "h_core_queue s")
    case Nil
    then show ?thesis
      by (auto simp: queue_receive_def wp_simps intro: merged_none)
  next
    case (Cons job jobs)
    have stay: "merged cap limit data units s data units
        (s\<lparr>h_core_queue := jobs, h_deferred_job := Some job\<rparr>) 0" if "h_deferred_job s = None"
      using that by (intro merged_none) (simp_all add: waiting_jobs_def Cons)
    show ?thesis
    proof (cases "is_ethernet_job job")
      case False
      then show ?thesis
        using stay by (cases job) (auto simp: queue_receive_def wp_simps Cons intro: merged_none)
    next
      case True
      then obtain c where job: "job = JOB_ETHERNET_TX c" by (cases job) auto
      have grow: "wp (grow_job cap data) (\<lambda>grown t. job # waiting_jobs t = waiting_jobs s \<and> quiet s t \<and>
          h_deferred_job t = None \<and>
          (case grown of None \<Rightarrow> True | Some d \<Rightarrow> dj_channel d = dj_channel data \<and> dj_data d = dj_data data))
        (s\<lparr>h_core_queue := jobs\<rparr>)" if "h_deferred_job s = None"
        using that by (auto simp: grow_job_def wp_simps waiting_jobs_def Cons intro!: wp_buf_alloc)
      have first: "h_deferred_job s = None \<Longrightarrow>
          job # waiting_jobs (s\<lparr>h_core_queue := jobs\<rparr>) = waiting_jobs s"
        by (simp add: waiting_jobs_def Cons)
      have late: "\<exists>k. merged cap limit data units s data units (t\<lparr>h_deferred_job := Some job\<rparr>) k"
        if "job # waiting_jobs t = waiting_jobs s" "h_deferred_job t = None" "quiet s t" for t
        by (rule exI [of _ 0], rule merged_none)
          (use that in \<open>simp_all add: waiting_jobs_def split: option.splits\<close>)
      have merge: "wp (aggregate_loop fuel cap (d\<lparr>dj_data := dj_data data @ dj_data c\<rparr>) (units + 1))
          (\<lambda>(data', units') u. \<exists>k. merged cap limit data units s data' units' u k) t"
        if "h_deferred_job s = None" "job # waiting_jobs t = waiting_jobs s" "quiet s t"
          "dj_channel d = dj_channel data" "dj_data d = dj_data data" "dj_channel c = dj_channel data"
          "\<not> (cap < length (dj_data data) \<or> cap - length (dj_data data) < length (dj_data c))"
          "unat units < limit" for t d
      proof -
        have more: "fuel + unat (units + 1) \<ge> limit"
          using Suc.prems(1) that(8) limit by (simp add: unat_word_ariths)
        have fits: "length (dj_data data) + length (dj_data c) \<le> cap"
          using that(7) by linarith
        have s: "waiting_jobs s = JOB_ETHERNET_TX c # waiting_jobs t"
          using that(2) by (simp add: job)
        have cfg: "limit = unat (cfg_ethernet_tx_aggregation_limit (h_config t))"
          using that(3) Suc.prems(2) by (simp add: quiet_def)
        show ?thesis
          by (rule wp_call [OF Suc.IH [OF more cfg]], clarsimp)
            (use merged_step [OF s that(6,3) fits that(8) limit, where d = "d\<lparr>dj_data := dj_data data @ dj_data c\<rparr>"]
              that(4,5) in fastforce)
      qed
      have less: "units < ucast (cfg_ethernet_tx_aggregation_limit (h_config s)) \<Longrightarrow> unat units < limit"
        using Suc.prems(2) by (simp add: word_less_nat_alt unsigned_ucast_eq take_bit_eq_mod)
      show ?thesis
        using less first [unfolded job]
        by (auto simp: queue_receive_def wp_simps Cons job Let_def split: option.split
            intro!: wp_call [OF grow] give_wp wp_call [OF merge]
              late [unfolded job] quiet_dequeued intro: merged_none)
    qed
  qed
qed

text \<open>Every waiting Ethernet job holds one record.\<close>

definition one_record :: "u8 list \<Rightarrow> bool" where
  "one_record bs \<longleftrightarrow> (\<exists>ty fl p. length p \<le> 4294967295 \<and> bs = record_bytes (ty, fl, p))"

lemma parse_one_record:
  assumes "one_record bs"
  obtains r where "\<And>rest. parse_records (bs @ rest) =
    (case parse_records rest of (rs, result) \<Rightarrow> (r # rs, result))"
  using assms parse_records_Cons [of "[]"]
  by (auto simp: one_record_def record_bytes_def ext_record_valid_def)

lemma parse_record_list:
  "list_all one_record bss \<Longrightarrow>
    \<exists>rs. parse_records (concat bss) = (rs, WLH_WIRE_END) \<and> length rs = length bss"
proof (induction bss)
  case (Cons bs bss)
  then obtain rs where "parse_records (concat bss) = (rs, WLH_WIRE_END)" "length rs = length bss"
    by auto
  moreover obtain r where "\<And>rest. parse_records (bs @ rest) =
      (case parse_records rest of (rs, result) \<Rightarrow> (r # rs, result))"
    using Cons.prems parse_one_record [of bs] by auto
  ultimately show ?case by simp
qed simp

text \<open>C30: Aggregation (\<open>aggregate_ethernet_jobs\<close>) is FIFO and loses nothing. The jobs merged into the
  frame are a prefix of the jobs that wait, all of them Ethernet jobs of the same channel; the
  frame's data are their data in that order behind the first job's, and the jobs left are the rest
  in the same order, whether the loop ended at the limit, an empty queue, another kind of job, a
  record that does not fit or a failed allocation. The units charged are one per job, never more
  than the configured limit, and a merged frame fits the frame size.\<close>

theorem aggregate_ethernet_jobs_fifo:
  "case run_state (aggregate_ethernet_jobs data) s of ((data', units), t) \<Rightarrow>
    \<exists>k. merged (unat (cfg_max_frame_size (h_config s)) - WLH_FRAME_HEADER_SIZE)
      (unat (cfg_ethernet_tx_aggregation_limit (h_config s))) data 1 s data' units t k"
proof -
  have "wp (aggregate_ethernet_jobs data) (\<lambda>(data', units) t.
    \<exists>k. merged (unat (cfg_max_frame_size (h_config s)) - WLH_FRAME_HEADER_SIZE)
      (unat (cfg_ethernet_tx_aggregation_limit (h_config s))) data 1 s data' units t k) s"
    by (simp add: aggregate_ethernet_jobs_def wp_simps Let_def aggregate_loop_merges)
  then show ?thesis
    by (simp add: wp_def split_beta)
qed

text \<open>The credit charged for an Ethernet frame is what the receiver gives back for it. When the
  first job and the jobs that wait hold one record each, the aggregated payload is a sequence of
  records, as many as the units taken from the credit.\<close>

theorem aggregated_units_are_records:
  assumes "one_record (dj_data data)" and "list_all (one_record \<circ> job_data) (waiting_jobs s)"
  shows "case run_state (aggregate_ethernet_jobs data) s of ((data', units), t) \<Rightarrow>
    (case parse_records (dj_data data') of (records, result) \<Rightarrow>
      result = WLH_WIRE_END \<and> length records = unat units)"
proof -
  obtain data' units t where run: "run_state (aggregate_ethernet_jobs data) s = ((data', units), t)"
    by (cases "run_state (aggregate_ethernet_jobs data) s") auto
  let ?limit = "unat (cfg_ethernet_tx_aggregation_limit (h_config s))"
  obtain k where m: "merged (unat (cfg_max_frame_size (h_config s)) - WLH_FRAME_HEADER_SIZE) ?limit
      data 1 s data' units t k"
    using aggregate_loop_merges [of ?limit ?limit 1 s
        "unat (cfg_max_frame_size (h_config s)) - WLH_FRAME_HEADER_SIZE" data] run
    by (auto simp: aggregate_ethernet_jobs_def Let_def wp_def)
  have "k = 0 \<or> Suc k \<le> ?limit"
    using m by (auto simp: merged_def)
  then have "k \<le> 255"
    using unat_u8_less [of "cfg_ethernet_tx_aggregation_limit (h_config s)"] by linarith
  then have units: "unat units = Suc k"
    using m by (simp add: merged_def unat_word_ariths unsigned_of_nat take_bit_eq_mod)
  have "list_all one_record (dj_data data # map job_data (take k (waiting_jobs s)))"
    using assms by (auto simp: list_all_iff dest: in_set_takeD)
  then obtain rs where "parse_records (dj_data data') = (rs, WLH_WIRE_END)"
      "length rs = length (dj_data data # map job_data (take k (waiting_jobs s)))"
    using parse_record_list m by (fastforce simp: merged_def)
  then show ?thesis
    using m units run by (simp add: merged_def)
qed

definition demo_job :: data_job where
  "demo_job = \<lparr>dj_channel = WLH_CHANNEL_ETHERNET_STA, dj_capacity = 9,
    dj_data = record_bytes (1, 0, [7])\<rparr>"

theorem aggregated_units_are_records_witness:
  "case run_state (aggregate_ethernet_jobs demo_job) ((zero_host demo_cfg demo_pb)\<lparr>h_core_queue :=
      [JOB_ETHERNET_TX demo_job]\<rparr>) of ((data', units), t) \<Rightarrow>
    (case parse_records (dj_data data') of (records, result) \<Rightarrow>
      result = WLH_WIRE_END \<and> length records = unat units)"
proof (rule aggregated_units_are_records)
  show one: "one_record (dj_data demo_job)"
    unfolding one_record_def demo_job_def
    by (rule exI [of _ 1], rule exI [of _ 0], rule exI [of _ "[7]"]) simp
  show "list_all (one_record \<circ> job_data) (waiting_jobs ((zero_host demo_cfg demo_pb)\<lparr>h_core_queue :=
      [JOB_ETHERNET_TX demo_job]\<rparr>))"
    using one by (simp add: waiting_jobs_def zero_host_def job_data_def)
qed

end
