(* ===== verification/Host_Stop.thy ===== *)
theory Host_Stop
  imports Host_Shape Host_Aggregation
begin

text \<open>
  Stopping the host: the stop job that \<open>wlh_host_stop\<close> queues is reached by the worker after as many
  turns as jobs wait before it, whatever else is queued, received or deferred meanwhile.
\<close>

section \<open>Jobs are only appended\<close>

definition appends :: "host \<Rightarrow> host \<Rightarrow> bool" where
  "appends s t \<longleftrightarrow> (\<exists>added. waiting_jobs t = waiting_jobs s @ added)"

lemma appends_same: "waiting_jobs t = waiting_jobs s \<Longrightarrow> appends s t"
  by (simp add: appends_def)

lemma waiting_cong:
  "h_core_queue t = h_core_queue s \<Longrightarrow> h_deferred_job t = h_deferred_job s \<Longrightarrow> waiting_jobs t = waiting_jobs s"
  by (simp add: waiting_jobs_def)

lemma appends_queue: "appends s (s\<lparr>h_core_queue := h_core_queue s @ [job]\<rparr>)"
  by (simp add: appends_def waiting_jobs_def)

lemma queue_send_appends: "state_io_rel appends (queue_send job)"
  by (auto simp: state_io_rel_def queue_send_def appends_queue appends_same
      State_Monad.update_def split: prod.splits)

lemma send_appends: "state_io_rel appends (send_payload_frame_units ch p rsv u)"
proof -
  have "wp (send_payload_frame_units ch p rsv u) (\<lambda>_ t. appends s t) s" for s
    by (rule sending.rel_wp [OF sends_frame_units])
      (intro appends_same waiting_cong, simp_all add: sending_keeps)
  then show ?thesis by (simp add: state_io_rel_def wp_snd split_beta)
qed

interpretation appending: core_ops appends
proof
  show "appends s u" if "appends s t" "appends t u" for s t u
    using that by (auto simp: appends_def)
qed (auto intro!: appends_same waiting_cong send_appends queue_send_appends)

lemma semaphore_appends: "state_io_rel appends semaphore_give" "state_io_rel appends semaphore_take"
  unfolding semaphore_give_def semaphore_take_def
  by (intro appending.rel_rules appending.rel_update; simp add: appends_same waiting_jobs_def)+

lemma tx_complete_appends: "state_io_rel appends (tx_complete frame status)"
  unfolding tx_complete_def
  by (intro appending.prims appending.transport_lost_rel semaphore_appends)

lemma call_appends: "host_call m c \<Longrightarrow> state_io_rel appends m"
proof (erule appending.host_call_rel)
  show "state_io_rel appends (ethernet_send ch frame)" for ch frame
    unfolding ethernet_send_def enqueue_job_def
    by (intro appending.prims semaphore_appends queue_send_appends; simp)
qed

section \<open>The place of the stop job\<close>

definition jobs_before_stop :: "host \<Rightarrow> nat" where
  "jobs_before_stop s = length (takeWhile (\<lambda>job. job \<noteq> JOB_STOP) (waiting_jobs s))"

abbreviation stop_waits :: "host \<Rightarrow> bool" where
  "stop_waits s \<equiv> JOB_STOP \<in> set (waiting_jobs s)"

definition told_to_stop :: "host \<Rightarrow> host \<Rightarrow> bool" where
  "told_to_stop s t \<longleftrightarrow> (\<exists>es ok. trace t = es @ trace s \<and> EStop ok \<in> set es)"

lemma appends_stop:
  assumes "appends s t" "stop_waits s"
  shows "stop_waits t \<and> jobs_before_stop t = jobs_before_stop s"
  using assms by (auto simp: appends_def jobs_before_stop_def takeWhile_append1)

text \<open>Taking \<open>k\<close> jobs from before the stop job brings it \<open>k\<close> places forward.\<close>

lemma consumed_stop:
  assumes "waiting_jobs t = drop k (waiting_jobs s) @ added" "stop_waits s"
    and "JOB_STOP \<notin> set (take k (waiting_jobs s))"
  shows "stop_waits t \<and> jobs_before_stop t + k = jobs_before_stop s"
proof -
  let ?P = "\<lambda>job. job \<noteq> JOB_STOP"
  have split: "waiting_jobs s = take k (waiting_jobs s) @ drop k (waiting_jobs s)" by simp
  have rest: "JOB_STOP \<in> set (drop k (waiting_jobs s))"
    using assms(2,3) by (subst (asm) split) (auto simp del: append_take_drop_id)
  have k: "k \<le> length (waiting_jobs s)" using rest by (cases "k \<le> length (waiting_jobs s)") auto
  have "takeWhile ?P (waiting_jobs s) = take k (waiting_jobs s) @ takeWhile ?P (drop k (waiting_jobs s))"
    using assms(3) by (subst split, subst takeWhile_append2) auto
  then show ?thesis
    using rest k assms(1) by (simp add: jobs_before_stop_def takeWhile_append1)
qed

section \<open>One turn of the worker\<close>

lemma told_via: "extends s t \<Longrightarrow> told_to_stop t u \<Longrightarrow> told_to_stop s u"
  unfolding told_to_stop_def extends_def by (metis append_assoc Un_iff set_append)

lemma told_extends: "told_to_stop s t \<Longrightarrow> extends t u \<Longrightarrow> told_to_stop s u"
  unfolding told_to_stop_def extends_def by (metis append_assoc Un_iff set_append)

lemma stop_job_tells: "wp (run_job JOB_STOP) (\<lambda>_ t. told_to_stop s t) s"
proof -
  have finish: "wp finish_shutdown (\<lambda>_ u. told_to_stop s u) t" if "told_to_stop s t" for t
    by (rule ext.rel_wp [OF ext.lifecycle_rel(4)]) (rule told_extends [OF that])
  have told: "told_to_stop s (u\<lparr>trace := EStop ok # trace u\<rparr>)" if "extends s u" for u ok
    using that by (auto simp: told_to_stop_def extends_def)
  show ?thesis
    unfolding run_job_def host_job.case
    by (auto simp: wp_simps intro!: ext.rel_wp [OF ext.set_state_rel] ext.rel_wp [OF ext.cancel_rel]
        wp_transport_stop finish told elim!: ext.R_trans)
qed

text \<open>What a turn does to the waiting jobs when the first of them is not the stop job.\<close>

definition consumes :: "host_job list \<Rightarrow> host \<Rightarrow> bool" where
  "consumes jobs t \<longleftrightarrow> (\<exists>k added. waiting_jobs t = drop k jobs @ added \<and> JOB_STOP \<notin> set (take k jobs))"

lemma consumes_appends: "consumes jobs s \<Longrightarrow> appends s t \<Longrightarrow> consumes jobs t"
  unfolding consumes_def appends_def by (metis append_assoc)

lemma appends_consumes: "appends s t \<Longrightarrow> consumes (waiting_jobs s) t"
  by (auto simp: consumes_def appends_def intro: exI [of _ 0])

lemma merged_consumes: "merged cap limit data units s data' units' t k \<Longrightarrow> consumes (waiting_jobs s) t"
  unfolding consumes_def
  by (rule exI [of _ k], rule exI [of _ "[]"])
    (auto simp: merged_def list_all_iff same_channel_def)

lemma aggregate_consumes:
  "wp (aggregate_ethernet_jobs data) (\<lambda>_ t. consumes (waiting_jobs s) t) s"
  unfolding aggregate_ethernet_jobs_def Let_def wp_bind wp_get
  by (rule wp_call [OF aggregate_loop_merges]) (auto intro: merged_consumes)

lemma run_job_consumes:
  assumes "job \<noteq> JOB_STOP"
  shows "wp (run_job job) (\<lambda>_ t. consumes (waiting_jobs s) t) s"
proof (cases "plain_job job")
  case True
  show ?thesis
    by (rule appending.rel_wp [OF appending.run_plain_job_rel [OF True] appends_consumes])
next
  case False
  then obtain data where "(\<exists>send. job = JOB_ETHERNET_TX data) \<or> job = JOB_BLUETOOTH_TX data \<or> job = JOB_OTA_TX data"
    by (cases job) auto
  moreover have "wp (run_job (JOB_ETHERNET_TX data)) (\<lambda>_ t. consumes (waiting_jobs s) t) s"
  proof -
    have rest: "state_io_rel appends (do {
        modify (\<lambda>s. s\<lparr>h_ethernet_tx_queued := (h_ethernet_tx_queued s)(i := f s)\<rparr>);
        result \<leftarrow> send_payload_frame_units ch p rsv u;
        whenM (result \<noteq> WLH_HOST_OK) semaphore_give;
        buf_free
      })" for i f ch p rsv u
      by (intro appending.prims send_appends semaphore_appends; simp)
    show ?thesis
      unfolding run_job_def host_job.case ethernet_tx_job_def Let_def
      by (subst wp_bind, rule wp_call [OF aggregate_consumes])
        (auto simp: wp_prod intro!: appending.rel_wp [OF rest] elim: consumes_appends)
  qed
  moreover have "wp (run_job job) (\<lambda>_ t. consumes (waiting_jobs s) t) s"
    if "job = JOB_BLUETOOTH_TX data \<or> job = JOB_OTA_TX data"
  proof -
    have "state_io_rel appends (run_job job)"
      using that unfolding run_job_def send_payload_frame_def
      by (auto intro!: appending.prims send_appends)
    then show ?thesis by (rule appending.rel_wp) (rule appends_consumes)
  qed
  ultimately show ?thesis by auto
qed

text \<open>A turn runs the stop job when it is the first one, and otherwise brings it at least one place
  forward.\<close>

definition stop_nearer :: "host \<Rightarrow> host \<Rightarrow> bool" where
  "stop_nearer s t \<longleftrightarrow> told_to_stop s t \<or> stop_waits t \<and> jobs_before_stop t < jobs_before_stop s"

lemma take_job_wp:
  assumes "waiting_jobs s = job # jobs"
    and "\<And>t. waiting_jobs t = jobs \<Longrightarrow> extends s t \<Longrightarrow> Q (Some job) t"
  shows "wp take_job Q s"
  using assms
  by (cases "h_core_queue s")
    (auto simp: take_job_def queue_receive_def wp_simps waiting_jobs_def extends_def split: option.splits)

lemma taken_job_nearer:
  assumes "stop_waits s"
  shows "wp (State_Monad.bind take_job (\<lambda>job. State_Monad.bind
    (case job of None \<Rightarrow> ret () | Some job \<Rightarrow> run_job job) (\<lambda>_. ret wait))) (\<lambda>_ t. stop_nearer s t) s"
proof -
  obtain job jobs where first: "waiting_jobs s = job # jobs"
    using assms by (cases "waiting_jobs s") auto
  have "wp (run_job job) (\<lambda>_ u. stop_nearer s u) t" if t: "waiting_jobs t = jobs" "extends s t" for t
  proof (cases "job = JOB_STOP")
    case True
    then show ?thesis
      using wp_call [OF stop_job_tells [of t]] told_via [OF t(2)] by (simp add: stop_nearer_def)
  next
    case False
    then have t_waits: "stop_waits t" and before: "jobs_before_stop s = Suc (jobs_before_stop t)"
      using assms first t(1) by (auto simp: jobs_before_stop_def)
    show ?thesis
    proof (rule wp_call [OF run_job_consumes [OF False]])
      fix a u
      assume "consumes (waiting_jobs t) u"
      then obtain k added where "waiting_jobs u = drop k (waiting_jobs t) @ added"
        "JOB_STOP \<notin> set (take k (waiting_jobs t))"
        by (auto simp: consumes_def)
      from consumed_stop [OF this(1) t_waits this(2)] before show "stop_nearer s u"
        by (auto simp: stop_nearer_def)
    qed
  qed
  then show ?thesis
    by (auto simp: wp_simps intro!: take_job_wp [OF first])
qed

lemma rel_conj: "state_io_rel R m \<Longrightarrow> state_io_rel S m \<Longrightarrow> state_io_rel (\<lambda>s t. R s t \<and> S s t) m"
  by (auto simp: state_io_rel_def)

lemma stop_nearer_from:
  assumes "stop_waits s" "appends s t" "extends s t" "stop_nearer t u"
  shows "stop_nearer s u"
  using assms(4) told_via [OF assms(3)] appends_stop [OF assms(2,1)] by (auto simp: stop_nearer_def)

lemma worker_turn_nearer:
  assumes "stop_waits s"
  shows "wp worker_turn (\<lambda>_ t. stop_nearer s t) s"
proof -
  have before: "wp m (\<lambda>_ t. appends s t \<and> extends s t) t"
    if "state_io_rel appends m" "state_io_rel extends m" "appends s t" "extends s t" for m :: "(host, 'a) state" and t
    using rel_conj [OF that(1,2)] appending.R_trans [OF that(3)] ext.R_trans [OF that(4)]
    by (auto simp: state_io_rel_def wp_snd wp_conj split_beta)
  have rest: "wp (State_Monad.bind take_job (\<lambda>job. State_Monad.bind
      (case job of None \<Rightarrow> ret () | Some job \<Rightarrow> run_job job) (\<lambda>_. ret wait))) (\<lambda>_ u. stop_nearer s u) t"
    if "appends s t" "extends s t" for t wait
  proof (rule wp_call [OF taken_job_nearer])
    show "stop_waits t" using appends_stop [OF that(1) assms] ..
  qed (rule stop_nearer_from [OF assms that])
  have start: "appends s s" "extends s s" by (simp_all add: appending.R_refl ext.R_refl)
  show ?thesis
    unfolding worker_turn_def
    by (subst wp_bind, rule wp_call [OF before [OF appending.deadlines_rel ext.deadlines_rel start]],
        subst wp_bind, rule wp_call [OF before [OF appending.flush_rel ext.flush_rel]], simp, simp,
        subst wp_bind, rule wp_call [OF before [OF appending.next_wait_rel ext.next_wait_rel]], simp, simp,
        rule rest; simp)
qed

section \<open>Every step\<close>

text \<open>The stop job is not pushed back, by no step.\<close>

definition stop_kept :: "host \<Rightarrow> host \<Rightarrow> bool" where
  "stop_kept s t \<longleftrightarrow> told_to_stop s t \<or> stop_waits t \<and> jobs_before_stop t \<le> jobs_before_stop s"

lemma appends_kept:
  "state_io_rel appends m \<Longrightarrow> stop_waits (sys_host sys) \<Longrightarrow> stop_kept (sys_host sys) (sys_host (run_core m sys))"
  using appends_stop [of "sys_host sys" "sys_host (run_core m sys)"]
  by (auto simp: state_io_rel_def run_core_host stop_kept_def split: prod.splits)

lemma turn_nearer:
  "stop_waits (sys_host sys) \<Longrightarrow> stop_nearer (sys_host sys) (sys_host (run_core worker_turn sys))"
  using worker_turn_nearer by (simp add: run_core_host wp_snd)

lemma step_kept:
  assumes "host_step sys sys'" "stop_waits (sys_host sys)"
  shows "stop_kept (sys_host sys) (sys_host sys')"
  using assms
proof (induction rule: host_step.induct)
  case (step_call m c sys)
  then show ?case using appends_kept [OF call_appends [OF step_call(1)], of sys] by simp
next
  case (step_worker_turn sys)
  then show ?case using turn_nearer [of sys] by (auto simp: stop_nearer_def stop_kept_def)
next
  case (step_tx_complete i sys status)
  then show ?case
    using appends_kept [OF tx_complete_appends, of "sys\<lparr>sys_frames := take i (sys_frames sys) @
      drop (Suc i) (sys_frames sys)\<rparr>"] by simp
next
  case (step_task sys t ts)
  then show ?case using appends_kept [OF appending.run_task_rel, of "sys\<lparr>sys_tasks := ts\<rparr>"] by simp
qed (auto intro!: appends_kept appending.worker_start_rel appending.worker_exit_rel
    appending.stop_request_rel appending.lifecycle_rel appending.transport_lost_rel)

section \<open>The stop job is served\<close>

text \<open>\<open>host_run n sys sys'\<close>: a run from \<open>sys\<close> to \<open>sys'\<close> with at least \<open>n\<close> turns of the worker
  among its steps.\<close>

inductive host_run :: "nat \<Rightarrow> system \<Rightarrow> system \<Rightarrow> bool" where
  run_start: "host_run 0 sys sys"
| run_turn: "host_run n sys sys' \<Longrightarrow> sys_worker sys' = Worker_running \<Longrightarrow>
    \<not> h_worker_stopping (sys_host sys') \<Longrightarrow> host_run (Suc n) sys (run_core worker_turn sys')"
| run_step: "host_run n sys sys' \<Longrightarrow> host_step sys' sys'' \<Longrightarrow> host_run n sys sys''"

lemma host_step_extends: "host_step sys sys' \<Longrightarrow> extends (sys_host sys) (sys_host sys')"
  by (rule ext.host_step_R)

lemma host_run_stop:
  assumes "host_run n sys sys'" "stop_waits (sys_host sys)"
  shows "extends (sys_host sys) (sys_host sys') \<and>
    (told_to_stop (sys_host sys) (sys_host sys') \<or>
     stop_waits (sys_host sys') \<and> jobs_before_stop (sys_host sys') + n \<le> jobs_before_stop (sys_host sys))"
  using assms
proof (induction rule: host_run.induct)
  case (run_start sys)
  then show ?case by (simp add: ext.R_refl)
next
  case (run_turn n sys sys')
  have "host_step sys' (run_core worker_turn sys')"
    using run_turn.hyps(2,3) by (rule step_worker_turn)
  note ext = host_step_extends [OF this]
  from run_turn.IH [OF run_turn.prems] ext show ?case
    using turn_nearer [of sys'] told_extends [OF _ ext] told_via [of "sys_host sys" "sys_host sys'"]
    by (auto simp: stop_nearer_def elim: ext.R_trans)
next
  case (run_step n sys sys' sys'')
  note ext = host_step_extends [OF run_step.hyps(2)]
  from run_step.IH [OF run_step.prems] ext show ?case
    using step_kept [OF run_step.hyps(2)] told_extends [OF _ ext] told_via [of "sys_host sys" "sys_host sys'"]
    by (auto simp: stop_kept_def elim: ext.R_trans)
qed

text \<open>C7: A stop is served. Once the job of \<open>wlh_host_stop\<close> waits behind \<open>k\<close> jobs, the transport has been
  told to stop after at most \<open>k + 1\<close> further turns of the worker, whatever the application, the
  transport and the executor do in between and however many jobs they add.\<close>

theorem host_stop_served:
  assumes "JOB_STOP \<in> set (waiting_jobs (sys_host sys))" and "host_run n sys sys'"
    and "jobs_before_stop (sys_host sys) < n"
  shows "\<exists>es ok. trace (sys_host sys') = es @ trace (sys_host sys) \<and> EStop ok \<in> set es"
  using host_run_stop [OF assms(2,1)] assms(3) by (auto simp: told_to_stop_def)

definition demo_stopping :: system where
  "demo_stopping = \<lparr>sys_host = (zero_host demo_cfg demo_pb)\<lparr>h_core_queue := [JOB_STOP]\<rparr>,
    sys_frames = [], sys_tasks = [], sys_worker = Worker_running, sys_accepted = []\<rparr>"

theorem host_stop_served_witness:
  "\<exists>es ok. trace (sys_host (run_core worker_turn demo_stopping)) = es @ trace (sys_host demo_stopping) \<and>
    EStop ok \<in> set es"
proof (rule host_stop_served)
  show "JOB_STOP \<in> set (waiting_jobs (sys_host demo_stopping))"
    by (simp add: demo_stopping_def waiting_jobs_def zero_host_def)
  show "host_run 1 demo_stopping (run_core worker_turn demo_stopping)"
    using run_turn [OF run_start [of demo_stopping]] by (simp add: demo_stopping_def zero_host_def)
  show "jobs_before_stop (sys_host demo_stopping) < 1"
    by (simp add: demo_stopping_def jobs_before_stop_def waiting_jobs_def zero_host_def)
qed

end
