(* ===== verification/Handshake.thy ===== *)
theory Handshake
  imports Coproc_Session Host_System
begin

text \<open>
  The two cores together at the start of a session: the frame with which the coprocessor answers a
  Hello, delivered to a host that negotiates, leaves both ends with the same session and the same
  credits.
\<close>

section \<open>The host receives the response\<close>

text \<open>What the host keeps of the response.\<close>

definition host_accepted :: "hello_response \<Rightarrow> host \<Rightarrow> bool" where
  "host_accepted hello t \<longleftrightarrow> h_state t = STATE_READY \<and> h_session_id t = hr_session_id hello \<and>
    h_tx_credit t = hello_credits hello \<and>
    h_bluetooth_supported t = fst (hello_bluetooth (h_config t) hello) \<and>
    h_ota_supported t = fst (hello_ota (h_config t) hello) \<and>
    h_ethernet_rx_pending_credit t = (\<lambda>_. 0)"

definition others_kept :: "host \<Rightarrow> host \<Rightarrow> bool" where
  "others_kept s t \<longleftrightarrow> h_config t = h_config s \<and> h_pb t = h_pb s \<and> h_core_queue t = h_core_queue s \<and>
    h_deferred_job t = h_deferred_job s \<and> h_pending t = h_pending s \<and> h_tx_sequence t = h_tx_sequence s \<and>
    h_ethernet_tx_slots t = h_ethernet_tx_slots s \<and> h_ethernet_tx_queued t = h_ethernet_tx_queued s \<and>
    h_worker_started t = h_worker_started s \<and> h_worker_stopping t = h_worker_stopping s"

text \<open>The message is lost only when the allocator refuses a buffer.\<close>

definition hello_outcome :: "hello_response \<Rightarrow> host \<Rightarrow> host_result \<Rightarrow> host \<Rightarrow> bool" where
  "hello_outcome hello s r t \<longleftrightarrow>
    r = WLH_HOST_NO_MEMORY \<and> (\<exists>n. \<not> the (cfg_alloc (h_config s)) n) \<or>
    r = WLH_HOST_OK \<and> host_accepted hello t \<and> others_kept s t"

lemma others_kept_refl [simp]: "others_kept s s"
  by (simp add: others_kept_def)

lemma wp_buf_alloc_answer:
  "(\<And>ok. ok = the (cfg_alloc (h_config s)) (length (trace s)) \<Longrightarrow> Q ok (s\<lparr>trace := EAlloc n ok # trace s\<rparr>)) \<Longrightarrow>
    wp (buf_alloc n) Q s"
  by (simp add: buf_alloc_def wp_simps Let_def)

lemma host_accepted_set_state:
  assumes "others_kept u s" "h_ethernet_rx_pending_credit s = (\<lambda>_. 0)"
    "h_session_id s = hr_session_id hello" "h_tx_credit s = hello_credits hello"
    "h_bluetooth_supported s = fst (hello_bluetooth (h_config s) hello)"
    "h_ota_supported s = fst (hello_ota (h_config s) hello)"
  shows "wp (set_state STATE_READY) (\<lambda>_ t. host_accepted hello t \<and> others_kept u t) s"
  using assms(1)
  by (auto simp: set_state_def dispatch_event_def wp_simps host_accepted_def others_kept_def assms(2-) Let_def
      intro!: wp_env)

lemma host_hello_response:
  assumes "pb_dec_hello_response (h_pb s) bytes = Some hello" and "hello_acceptable hello"
  shows "wp (handle_hello_response bytes) (hello_outcome hello s) s"
  unfolding handle_hello_response_def
  by (auto simp: wp_simps Let_def assms reset_ethernet_rx_credits_def hello_outcome_def others_kept_def
      intro!: wp_buf_alloc_answer wp_now_ms wp_call [OF host_accepted_set_state [where hello = hello and u = s]]) blast

lemma length_hello_answer: "length (hello_answer request q bytes) = 40 + length bytes"
  by (simp add: hello_answer_def frame_bytes_def header_bytes_def Let_def rpc_bytes_def envelope_bytes_def)

lemma host_hello_frame:
  assumes "h_state s = STATE_NEGOTIATING" and "h_session_id s = 0"
    and "pb_dec_hello_response (h_pb s) bytes = Some hello" and "hello_acceptable hello"
    and "re_request_id request \<noteq> 0"
    and "length (hello_answer request q bytes) \<le> unat (cfg_max_frame_size (h_config s))"
    and "unat (cfg_max_frame_size (h_config s)) \<le> 65559"
    and "length bytes \<le> WLH_HOST_PROTOBUF_LIMIT"
  shows "wp (process_frame (hello_answer request q bytes)) (hello_outcome hello s) s"
proof -
  let ?h = "(wlh_frame_header_init WLH_CHANNEL_LINK_CONTROL)\<lparr>fh_session_id := 0, fh_sequence := q\<rparr>"
  let ?e = "coproc_envelope WLH_SERVICE_LINK WLH_LINK_METHOD_HELLO (re_request_id request)
    WLH_RPC_KIND_RESPONSE WLH_STATUS_DOMAIN_NONE WLH_STATUS_OK"
  have header: "header_valid ?h"
    by (simp add: header_valid_def wlh_frame_header_init_def wire_consts)
  have decoded: "frame_decode_buf (unat (cfg_max_frame_size (h_config s))) (hello_answer request q bytes) =
      (WLH_WIRE_OK, parse_header (hello_answer request q bytes), rpc_bytes ?e bytes)"
    using frame_decode_bytes [OF header] assms(6,7) unfolding length_hello_answer hello_answer_def
    by (simp add: rpc_bytes_def envelope_bytes_def)
  have fields: "fh_channel (parse_header (hello_answer request q bytes)) = WLH_CHANNEL_LINK_CONTROL"
    by (simp add: hello_answer_def parse_frame_bytes wlh_frame_header_init_def)
  have envelope: "envelope_valid ?e"
    using assms(5) by (simp add: envelope_valid_def coproc_envelope_def empty_envelope_def id_consts wire_consts)
  have rpc: "rpc_decode_buf WLH_HOST_PROTOBUF_LIMIT (rpc_bytes ?e bytes) =
      (WLH_WIRE_OK, ?e\<lparr>re_payload_size := of_nat (length bytes)\<rparr>, bytes)"
    by (rule rpc_decode_bytes [OF envelope assms(8)]) (simp add: WLH_HOST_PROTOBUF_LIMIT_def)
  have control: "wp (process_control_frame WLH_CHANNEL_LINK_CONTROL (rpc_bytes ?e bytes))
      (hello_outcome hello s) u"
    if "h_state u = STATE_NEGOTIATING" "others_kept s u" for u
  proof -
    have outcome: "hello_outcome hello u r t \<Longrightarrow> hello_outcome hello s r t" for r t
      using that(2) by (auto simp: hello_outcome_def others_kept_def)
    have pb: "h_pb u = h_pb s"
      using that(2) by (simp add: others_kept_def)
    have other: "WLH_CHANNEL_LINK_CONTROL \<noteq> WLH_CHANNEL_CONTROL_RPC" by (simp add: id_consts)
    have message: "re_kind (?e\<lparr>re_payload_size := n\<rparr>) = WLH_RPC_KIND_RESPONSE"
        "re_service_id (?e\<lparr>re_payload_size := n\<rparr>) = WLH_SERVICE_LINK"
        "re_method_id (?e\<lparr>re_payload_size := n\<rparr>) = WLH_LINK_METHOD_HELLO"
        "re_status_code (?e\<lparr>re_payload_size := n\<rparr>) = WLH_STATUS_OK" for n
      by (simp_all add: coproc_envelope_def)
    have "wp (process_rpc_message (?e\<lparr>re_payload_size := n\<rparr>) bytes)
        (hello_outcome hello s) u" for n
      using wp_call [OF host_hello_response [where s = u and bytes = bytes and hello = hello] outcome] pb that(1) assms(3,4)
      by (simp only: process_rpc_message_def wp_simps Let_def message simp_thms if_True if_False)
    with other show ?thesis
      by (simp only: process_control_frame_def wp_simps Let_def rpc prod.case simp_thms if_False if_True)
  qed
  define p where "p = rpc_bytes ?e bytes"
  have control0: "wp (process_control_frame 0 p) (hello_outcome hello s) u"
    if "h_state u = STATE_NEGOTIATING" "others_kept s u" for u
    using control [OF that] by (simp only: p_def WLH_CHANNEL_LINK_CONTROL_def)
  show ?thesis
    unfolding process_frame_def
    using assms(1,2)
    by (auto simp: wp_simps Let_def decoded [folded p_def] fields note_frame_def is_ethernet_channel_def
        id_consts others_kept_def intro!: control0 wp_now_ms)
qed

section \<open>What both ends agree on\<close>

text \<open>The host reads the credits of the response as the coprocessor sets its own; channels the response
  does not offer get none.\<close>

lemma hello_credits_own: "hello_credits (hello_response_of offer session) = hello_own_credit offer (\<lambda>_. 0)"
  by (rule ext)
    (auto simp: hello_credits_def hello_response_of_def hello_credits_offered_def hello_own_credit_def
      credit_of_def Let_def id_consts)

definition session_channels :: "coproc \<Rightarrow> u8 list" where
  "session_channels c = [0, 1, 2, 3] @
    (if bluetooth_backend_present c then [WLH_CHANNEL_BLUETOOTH_HCI] else []) @
    (if ota_backend_present c then [WLH_CHANNEL_OTA_STREAM] else []) @
    (if eth_backend_present c then [WLH_CHANNEL_ETHERNET_ETH] else [])"

definition sessions_agree :: "coproc \<Rightarrow> host \<Rightarrow> bool" where
  "sessions_agree c h \<longleftrightarrow>
    c_state c = WLH_COPROC_STATE_READY \<and> h_state h = STATE_READY \<and>
    h_session_id h = c_session_id c \<and> c_session_id c \<noteq> 0 \<and>
    (\<forall>ch. h_tx_credit h ch = c_tx_credit c ch \<or> h_tx_credit h ch = 0) \<and>
    list_all (\<lambda>ch. h_tx_credit h ch = c_tx_credit c ch) (session_channels c) \<and>
    (h_bluetooth_supported h \<longrightarrow> bluetooth_backend_present c) \<and>
    (h_ota_supported h \<longrightarrow> ota_backend_present c)"

lemma offered_credits:
  assumes "\<forall>credit \<in> set (hello_credits_offered offer).
      c_tx_credit t (ucast (ic_channel_id credit)) = ic_units credit"
  shows "hello_own_credit offer (\<lambda>_. 0) ch = c_tx_credit t ch \<or> hello_own_credit offer (\<lambda>_. 0) ch = 0"
    and "c_config t = c_config offer \<Longrightarrow>
      list_all (\<lambda>ch. hello_own_credit offer (\<lambda>_. 0) ch = c_tx_credit t ch) (session_channels t)"
  using assms unfolding list_all_iff [symmetric]
  by (auto simp: hello_credits_offered_def hello_own_credit_def session_channels_def credit_of_def
      bluetooth_backend_present_def ota_backend_present_def eth_backend_present_def Let_def id_consts
      split: if_splits)

lemma offered_support:
  "fst (hello_bluetooth cfg (hello_response_of offer session)) \<Longrightarrow> bluetooth_backend_present offer"
  "fst (hello_ota cfg (hello_response_of offer session)) \<Longrightarrow> ota_backend_present offer"
  by (auto simp: hello_bluetooth_def hello_ota_def hello_response_of_def hello_services_offered_def
      service_v1_def Let_def id_consts split: if_splits prod.splits)

lemma agreement:
  assumes "session_started c request c'" and "c_config offer = c_config c"
    and "\<forall>credit \<in> set (hello_credits_offered offer).
      c_tx_credit c' (ucast (ic_channel_id credit)) = ic_units credit"
    and "host_accepted (hello_response_of offer (c_session_id c')) h"
  shows "sessions_agree c' h"
proof -
  have config: "c_config c' = c_config offer" and started: "c_state c' = WLH_COPROC_STATE_READY" "c_session_id c' \<noteq> 0"
    using assms(1,2) by (simp_all add: session_started_def)
  have "bluetooth_backend_present c' = bluetooth_backend_present offer"
    "ota_backend_present c' = ota_backend_present offer"
    by (simp_all add: bluetooth_backend_present_def ota_backend_present_def config)
  moreover have "hr_session_id (hello_response_of offer (c_session_id c')) = c_session_id c'"
    by (simp add: hello_response_of_def)
  ultimately show ?thesis
    using assms(4) started offered_credits(1) [OF assms(3)] offered_credits(2) [OF assms(3) config]
      offered_support [of _ offer "c_session_id c'"]
    unfolding sessions_agree_def host_accepted_def hello_credits_own by simp
qed


text \<open>A coprocessor and a host to try it on: the protobuf library knows one message, whose encoding is
  empty.\<close>

definition demo_request_msg :: hello_request_msg where
  "demo_request_msg = \<lparr>hqm_protocol_majors = [1], hqm_channel_ids = [], hqm_max_frame_size = 4096\<rparr>"

definition demo_response :: hello_response where
  "demo_response = hello_response_of demo_core 1"

definition demo_peer :: coproc where
  "demo_peer = demo_core\<lparr>c_pb := demo_cpb\<lparr>cpb_dec_hello_request := (\<lambda>_. Some demo_request_msg),
    cpb_encoded_size := (\<lambda>m. if m = CMsg_HelloResponse demo_response then Some 0 else None)\<rparr>\<rparr>"

definition demo_negotiating :: host where
  "demo_negotiating = (zero_host demo_cfg (demo_pb\<lparr>pb_dec_hello_response := (\<lambda>_. Some demo_response)\<rparr>))
    \<lparr>h_state := STATE_NEGOTIATING\<rparr>"

definition demo_hello :: rpc_envelope where
  "demo_hello = empty_envelope\<lparr>re_service_id := WLH_SERVICE_LINK, re_method_id := WLH_LINK_METHOD_HELLO,
    re_request_id := 1, re_kind := WLH_RPC_KIND_REQUEST\<rparr>"

lemma demo_answered:
  "fst (run_state (handle_hello_request (wlh_frame_header_init 0) demo_hello []) demo_peer) = WLH_COPROC_OK"
proof -
  have "wp (handle_hello_request (wlh_frame_header_init 0) demo_hello []) (\<lambda>r _. r = WLH_COPROC_OK) demo_peer"
    by (simp add: handle_hello_request_def send_hello_response_def coproc_send_rpc_message_def
        encode_message_def coproc_send_rpc_def coproc_send_payload_def coproc_send_payload_units_def
        coproc_alloc_def coproc_submit_tx_def coproc_free_def coproc_emit_def coproc_diag_def
        coproc_set_state_def select_session_def ota_reset_def backend_def wp_simps Let_def
        frame_encode_buf_eq rpc_encode_buf_eq header_valid_def envelope_valid_def
        wlh_frame_header_init_def demo_peer_def demo_core_def demo_ccfg_def demo_request_msg_def
        demo_hello_def empty_envelope_def demo_response_def hello_response_of_def
        hello_services_offered_def hello_channels_offered_def hello_credits_offered_def
        bluetooth_backend_present_def ota_backend_present_def eth_backend_present_def
        reset_session_state_def reset_ethernet_rx_completions_def zero_coproc_def id_consts wire_consts
        hello_version_def)
  then show ?thesis by (simp add: wp_def split: prod.splits)
qed


end
