(* ===== verification/Ethernet_Flow.thy ===== *)
theory Ethernet_Flow
  imports Host_Stop Handshake
begin

text \<open>
  The two cores together on the Ethernet data path: the packets the application gives to the host,
  the frame they travel in, the credit it costs, and what the coprocessor makes of the frame.
\<close>

section \<open>The host sends\<close>

lemma not_submit_accepted: "\<not> is_submit e \<Longrightarrow> accepted_frame e = []"
  by (cases e) auto

lemma reporting_quiet: "reporting s t \<Longrightarrow> quiet s t \<and> waiting_jobs t = waiting_jobs s"
proof -
  have "concat (map accepted_frame es) = []" if "no_submit es" for es
    using that not_submit_accepted by (induction es) auto
  then show "reporting s t \<Longrightarrow> quiet s t \<and> waiting_jobs t = waiting_jobs s"
    by (auto simp: reporting_def quiet_def waiting_jobs_def)
qed

text \<open>The state \<open>t\<close> after the transport took one frame with \<open>payload\<close>, for \<open>units\<close> of credit.\<close>

definition sends_frame :: "u8 \<Rightarrow> u8 list \<Rightarrow> u32 \<Rightarrow> host \<Rightarrow> host \<Rightarrow> bool" where
  "sends_frame ch payload units s t \<longleftrightarrow>
    (\<exists>m. quiet s m \<and> \<not> send_oversize m payload units \<and> units \<le> h_tx_credit m ch \<and>
      quiet (after_sent m ch (out_frame m ch payload) False units) t)"

lemma send_effect:
  "wp (send_payload_frame_units ch p False u) (\<lambda>_ t. waiting_jobs t = waiting_jobs s \<and>
    (quiet s t \<or> sends_frame ch p u s t)) s"
proof (rule send_units_wp)
  show "wp (set_state STATE_CONGESTED) (\<lambda>_ t. waiting_jobs t = waiting_jobs s \<and>
      (quiet s t \<or> sends_frame ch p u s t)) s"
    by (rule set_state_wp) (simp add: reporting_quiet)
  assume "\<not> send_oversize s p u" "False \<or> u \<le> h_tx_credit s ch"
  then show "waiting_jobs (after_sent s ch (out_frame s ch p) False u) = waiting_jobs s \<and>
      (quiet s (after_sent s ch (out_frame s ch p) False u) \<or>
        sends_frame ch p u s (after_sent s ch (out_frame s ch p) False u))"
    by (auto simp: sends_frame_def waiting_jobs_def after_sent_def)
qed (auto simp: quiet_def waiting_jobs_def after_no_memory_def after_refused_def)

lemma sends_frame_quiet:
  "quiet s m \<Longrightarrow> sends_frame ch p u m n \<Longrightarrow> quiet n t \<Longrightarrow> sends_frame ch p u s t"
  unfolding sends_frame_def by (meson quiet_trans)

lemma give_free_quiet:
  "wp (whenM b semaphore_give) (\<lambda>_ u. wp buf_free (\<lambda>_ t. quiet s t \<and> waiting_jobs t = waiting_jobs s) u) s"
  by (auto simp: wp_simps waiting_jobs_def whenM_def semaphore_give_def)

lemma ethernet_tx_effect:
  "wp (ethernet_tx_job data) (\<lambda>_ t. \<exists>data' units m k.
    merged (unat (cfg_max_frame_size (h_config s)) - WLH_FRAME_HEADER_SIZE)
      (unat (cfg_ethernet_tx_aggregation_limit (h_config s))) data 1 s data' units m k \<and>
    waiting_jobs t = waiting_jobs m \<and>
    (quiet s t \<or> sends_frame (dj_channel data) (dj_data data') units s t)) s"
proof -
  let ?cap = "unat (cfg_max_frame_size (h_config s)) - WLH_FRAME_HEADER_SIZE"
  let ?limit = "unat (cfg_ethernet_tx_aggregation_limit (h_config s))"
  have "wp (aggregate_ethernet_jobs data)
      (\<lambda>(data', units) m. \<exists>k. merged ?cap ?limit data 1 s data' units m k) s"
    by (simp add: aggregate_ethernet_jobs_def wp_simps Let_def aggregate_loop_merges)
  moreover have "wp (do {
      modify (\<lambda>s. s\<lparr>h_ethernet_tx_queued := (h_ethernet_tx_queued s)(i := decrement (h_ethernet_tx_queued s i))\<rparr>);
      result \<leftarrow> send_payload_frame_units (dj_channel data') (dj_data data') False units;
      whenM (result \<noteq> WLH_HOST_OK) semaphore_give;
      buf_free
    }) (\<lambda>_ t. waiting_jobs t = waiting_jobs m \<and>
      (quiet s t \<or> sends_frame (dj_channel data) (dj_data data') units s t)) m"
    if m: "merged ?cap ?limit data 1 s data' units m k" for data' units m k i
  proof -
    have sm: "quiet s m" "dj_channel data' = dj_channel data"
      using m by (simp_all add: merged_def)
    have start: "quiet s (m\<lparr>h_ethernet_tx_queued := q\<rparr>)" for q
      using sm(1) by simp
    have rest: "wp (whenM b semaphore_give) (\<lambda>_ u. wp buf_free (\<lambda>_ t. waiting_jobs t = waiting_jobs m \<and>
        (quiet s t \<or> sends_frame (dj_channel data) (dj_data data') units s t)) u) u"
      if "waiting_jobs u = waiting_jobs m" "quiet s u \<or> sends_frame (dj_channel data) (dj_data data') units s u" for b u
      by (rule wp_call [OF give_free_quiet], erule wp_call)
        (use that in \<open>auto intro: quiet_trans sends_frame_quiet [OF quiet_refl]\<close>)
    show ?thesis
      unfolding sm(2) wp_bind wp_update
      by (rule wp_call [OF send_effect], rule rest)
        (auto dest: quiet_trans [OF start] sends_frame_quiet [OF start _ quiet_refl])
  qed
  ultimately show ?thesis
    unfolding ethernet_tx_job_def Let_def
    by (subst wp_bind) (erule wp_call, fastforce simp: wp_prod elim: wp_call)
qed

section \<open>The coprocessor receives\<close>

text \<open>What the run so far handed to the Ethernet backend, oldest first, with its answers.\<close>

fun delivery :: "coproc_effect \<Rightarrow> (u8 list \<times> ethernet_rx_result) list" where
  "delivery (CEthernetRx session ch packet result) = [(packet, result)]"
| "delivery _ = []"

definition deliveries :: "coproc_effect list \<Rightarrow> (u8 list \<times> ethernet_rx_result) list" where
  "deliveries es = concat (map delivery (rev es))"

lemma deliveries_simps [simp]:
  "deliveries [] = []"
  "deliveries (e # es) = deliveries es @ delivery e"
  "deliveries (es @ es') = deliveries es' @ deliveries es"
  by (simp_all add: deliveries_def)

definition held_back :: "(u8 list \<times> ethernet_rx_result) list \<Rightarrow> nat" where
  "held_back ds = length (filter (\<lambda>(_, result). result = ETHERNET_RX_PENDING) ds)"

lemma held_back_simps [simp]:
  "held_back [] = 0"
  "held_back (ds @ ds') = held_back ds + held_back ds'"
  "held_back [(p, result)] = (if result = ETHERNET_RX_PENDING then 1 else 0)"
  by (simp_all add: held_back_def)

text \<open>The packets reach the backend in order, and each costs its credit unit once: either it is among
  the units to return now, or the backend holds it back.\<close>

definition packets_received :: "u8 \<Rightarrow> u8 list list \<Rightarrow> u32 \<Rightarrow> coproc \<Rightarrow> u32 \<Rightarrow> coproc \<Rightarrow> bool" where
  "packets_received ch packets units s units' t \<longleftrightarrow> c_config t = c_config s \<and>
    (\<exists>es. c_trace t = es @ c_trace s \<and>
      map fst (deliveries es) = (if ethernet_receiver (c_config s) ch = None then [] else packets) \<and>
      units' + of_nat (held_back (deliveries es)) = units + of_nat (length packets) \<and>
      held_back (deliveries es) \<le> length packets)"

lemma packets_received_Cons:
  assumes "c_config m = c_config s" and "c_trace m = es @ c_trace s"
    and "map fst (deliveries es) = (if ethernet_receiver (c_config s) ch = None then [] else [p])"
    and "v + of_nat (held_back (deliveries es)) = units + 1" and "held_back (deliveries es) \<le> 1"
    and "packets_received ch ps v m units' t"
  shows "packets_received ch (p # ps) units s units' t"
proof -
  from assms(6) obtain fs where fs: "c_trace t = fs @ c_trace m" "c_config t = c_config m"
      "map fst (deliveries fs) = (if ethernet_receiver (c_config m) ch = None then [] else ps)"
      "units' + of_nat (held_back (deliveries fs)) = v + of_nat (length ps)"
      "held_back (deliveries fs) \<le> length ps"
    by (auto simp: packets_received_def)
  have "units' + of_nat (held_back (deliveries (fs @ es))) = units + of_nat (length (p # ps))"
  proof -
    have "units' + of_nat (held_back (deliveries (fs @ es))) =
        (units' + of_nat (held_back (deliveries fs))) + of_nat (held_back (deliveries es))"
      by (simp add: ac_simps)
    also have "\<dots> = (v + of_nat (held_back (deliveries es))) + of_nat (length ps)"
      unfolding fs(4) by (simp add: ac_simps)
    finally show ?thesis
      unfolding assms(4) by (simp add: ac_simps)
  qed
  with assms fs show ?thesis
    unfolding packets_received_def by (intro conjI exI [of _ "fs @ es"]) auto
qed

lemma ethernet_receive_packets:
  "wp (ethernet_receive ch units (map (\<lambda>p. (1, 0, p)) packets))
    (\<lambda>units' t. packets_received ch packets units s units' t) s"
proof (induction packets arbitrary: units s)
  case Nil
  then show ?case
    by (simp add: wp_simps packets_received_def exI [of _ "[]"])
next
  case (Cons p ps)
  show ?case
  proof (cases "ethernet_receiver (c_config s) ch")
    case None
    then show ?thesis
      by (simp add: wp_simps)
        (rule wp_call [OF Cons], rule packets_received_Cons [where es = "[]"], simp_all)
  next
    case (Some receive)
    have next_packet: "wp (ethernet_receive ch v (map (\<lambda>p. (1, 0, p)) ps)) (packets_received ch (p # ps) units s) m"
      if "c_config m = c_config s" "c_trace m = CEthernetRx (c_session_id s) ch p result # c_trace s"
        "v = (if result = ETHERNET_RX_PENDING then units else units + 1)" for m v result
      by (rule wp_call [OF Cons],
          rule packets_received_Cons [where es = "[CEthernetRx (c_session_id s) ch p result]"])
        (use that Some in auto)
    from Some show ?thesis
      by (auto simp: wp_simps Let_def intro!: next_packet)
  qed
qed

text \<open>What the coprocessor makes of a frame: the packets are received, the units for those that were
  not held back are returned at once, and processing the frame succeeds.\<close>

definition frame_delivers :: "coproc \<Rightarrow> u8 list \<Rightarrow> u8 \<Rightarrow> u8 list list \<Rightarrow> bool" where
  "frame_delivers c f ch packets \<longleftrightarrow> (\<exists>header payload m units n.
    frame_decode_buf (unat (ccfg_max_frame_size (c_config c))) f = (WLH_WIRE_OK, header, payload) \<and>
    fh_channel header = ch \<and> run_state (coproc_note_frame header) c = ((), m) \<and>
    packets_received ch packets 0 m units n \<and>
    run_state (coproc_process_frame f) c =
      (WLH_COPROC_OK, snd (run_state (coproc_send_credit_update ch units) n)))"

lemma parse_packets:
  assumes "list_all (\<lambda>p. length p \<le> 1600) packets"
  shows "parse_records (concat (map (\<lambda>p. record_bytes (1, 0, p)) packets)) =
    (map (\<lambda>p. (1, 0, p)) packets, WLH_WIRE_END)"
proof -
  have "length p \<le> 4294967295" if "p \<in> set packets" for p
    using assms that by (force simp: list_all_iff)
  then show ?thesis
    using parse_records_encoded [of "map (\<lambda>p. ([], 1, 0, p)) packets" "[]"]
    by (simp add: record_bytes_def ext_record_valid_def comp_def)
qed

lemma process_packets_frame:
  assumes decoded: "frame_decode_buf (unat (ccfg_max_frame_size (c_config c))) f =
      (WLH_WIRE_OK, header, concat (map (\<lambda>p. record_bytes (1, 0, p)) packets))"
    and "fh_channel header = ch" and "is_ethernet_channel ch"
    and "packets \<noteq> []" and "list_all (\<lambda>p. length p \<le> 1600) packets"
  shows "frame_delivers c f ch packets"
proof -
  let ?payload = "concat (map (\<lambda>p. record_bytes (1, 0, p)) packets)"
  obtain m where m: "run_state (coproc_note_frame header) c = ((), m)"
    by (cases "run_state (coproc_note_frame header) c") auto
  obtain units n where n: "run_state (ethernet_receive ch 0 (map (\<lambda>p. (1, 0, p)) packets)) m = (units, n)"
    by fastforce
  have received: "packets_received ch packets 0 m units n"
    using ethernet_receive_packets [of ch 0 packets m] n by (simp add: wp_def)
  have payload: "run_state (coproc_process_ethernet_frame ch ?payload) m =
      (WLH_COPROC_OK, snd (run_state (coproc_send_credit_update ch units) n))"
  proof -
    have "?payload \<noteq> []"
      using assms(4) by (cases packets) (auto simp: record_bytes_def ext_record_bytes_def)
    then show ?thesis
      by (simp add: coproc_process_ethernet_frame_def raw_records_parse parse_packets [OF assms(5)] n
          split_beta)
  qed
  have frame: "run_state (coproc_process_frame f) c = run_state (coproc_process_ethernet_frame ch ?payload) m"
    using assms(2,3) m
    by (auto simp: coproc_process_frame_def decoded Let_def is_ethernet_channel_def coproc_ethernet_channel_def
        id_consts)
  show ?thesis
    unfolding frame_delivers_def
    by (intro exI conjI, rule decoded, rule assms(2), rule m, rule received, rule frame [unfolded payload])
qed

section \<open>From the application to the backend\<close>

definition frames_sent :: "host \<Rightarrow> host \<Rightarrow> u8 list list" where
  "frames_sent s t = concat (map accepted_frame (rev (new_calls s t)))"

lemma quiet_frames: "quiet s t \<Longrightarrow> frames_sent s t = []"
  by (auto simp: quiet_def frames_sent_def new_calls_def)

lemma sends_frame_frames:
  assumes "sends_frame ch p u s t"
  obtains m where "quiet s m" "\<not> send_oversize m p u" "frames_sent s t = [out_frame m ch p]"
    "u \<le> h_tx_credit s ch" "h_tx_credit t = (h_tx_credit s)(ch := h_tx_credit s ch - u)"
proof -
  obtain m where m: "quiet s m" "\<not> send_oversize m p u" "u \<le> h_tx_credit m ch"
      "quiet (after_sent m ch (out_frame m ch p) False u) t"
    using assms by (auto simp: sends_frame_def)
  have none: "concat (map accepted_frame (rev es)) = []" if "concat (map accepted_frame es) = []" for es
    using that by simp
  have "frames_sent s t = [out_frame m ch p]"
    using m(1,4) by (auto simp: quiet_def frames_sent_def new_calls_def after_sent_def none simp del: concat_eq_Nil_conv)
  with m show ?thesis
    by (intro that [of m]) (auto simp: quiet_def after_sent_def)
qed

text \<open>A turn of the worker up to the job it takes.\<close>

definition turn_job :: "(host, host_job option) state" where
  "turn_job = do {
    _ \<leftarrow> process_deadlines;
    _ \<leftarrow> flush_ethernet_rx_credits;
    _ \<leftarrow> next_wait_ms;
    take_job
  }"

lemma turn_job_ok:
  assumes "reachable_system sys" and "run_state turn_job (sys_host sys) = (Some (JOB_ETHERNET_TX data), s)"
  shows "ethernet_job_ok data" and "list_all job_ok (waiting_jobs s)"
proof -
  from slot_books.reachable_I [OF assms(1) [unfolded reachable_system_def]]
  obtain c where inv: "slot_inv c 0 (sys_host sys)"
    by (auto simp: slots_settled_def)
  have "wp turn_job (\<lambda>job t. case job of None \<Rightarrow> slot_inv c 0 t
      | Some job \<Rightarrow> slot_inv c (in_hand job) t \<and> job_ok job) (sys_host sys)"
    using inv
    by (auto simp: turn_job_def wp_simps split: option.splits
        intro!: slots_wp [OF slots.deadlines_rel] slots_wp [OF slots.flush_rel]
          slots_wp [OF slots.next_wait_rel] wp_call [OF take_job_slots [where u = 0]])
  then show "ethernet_job_ok data" and "list_all job_ok (waiting_jobs s)"
    using assms(2) by (auto simp: wp_def slot_inv_def)
qed

lemma merged_packets:
  assumes "merged cap limit data 1 s data' units t k" and "limit \<le> 255"
    and "ethernet_job_ok data" and "list_all job_ok (waiting_jobs s)"
  obtains jobs where "waiting_jobs s = map JOB_ETHERNET_TX jobs @ waiting_jobs t"
    and "dj_data data' = concat (map (\<lambda>p. record_bytes (1, 0, p)) (map ethernet_packet (data # jobs)))"
    and "list_all ethernet_job_ok (data # jobs)" and "unat units = length (data # jobs)"
proof -
  note m = assms(1) [unfolded merged_def]
  define jobs where "jobs = map (\<lambda>job. case job of JOB_ETHERNET_TX d \<Rightarrow> d) (take k (waiting_jobs s))"
  have "job = JOB_ETHERNET_TX (case job of JOB_ETHERNET_TX d \<Rightarrow> d)"
    if "job \<in> set (take k (waiting_jobs s))" for job
    using m that by (auto simp: list_all_iff same_channel_def split: host_job.splits)
  then have taken: "take k (waiting_jobs s) = map JOB_ETHERNET_TX jobs"
    unfolding jobs_def by (simp add: map_idI)
  have all: "list_all ethernet_job_ok jobs"
    using assms(4) by (subst (asm) append_take_drop_id [of k, symmetric]) (simp add: taken list.pred_map comp_def del: append_take_drop_id)
  have single: "dj_data d = record_bytes (1, 0, ethernet_packet d)" if "ethernet_job_ok d" for d
    using that by (simp add: ethernet_job_ok_def)
  have "concat (map dj_data jobs) = concat (map (\<lambda>d. record_bytes (1, 0, ethernet_packet d)) jobs)"
    using all single by (intro arg_cong [of _ _ concat] map_cong) (auto simp: list_all_iff)
  then have "dj_data data' = concat (map (\<lambda>p. record_bytes (1, 0, p)) (map ethernet_packet (data # jobs)))"
    using m taken single [OF assms(3)] by (simp add: job_data_def comp_def)
  moreover have "k = length jobs" "k \<le> 254"
    using m taken assms(2) by (auto dest: arg_cong [of _ _ length])
  ultimately show ?thesis
    using m all assms(3) taken append_take_drop_id [of k "waiting_jobs s"]
    by (intro that [of jobs]) (auto simp: unat_word_ariths unsigned_of_nat take_bit_eq_mod)
qed

lemma packets_frame:
  assumes "sends_frame ch (concat (map (\<lambda>p. record_bytes (1, 0, p)) packets)) (of_nat (length packets)) s t"
    and "is_ethernet_channel ch" and "packets \<noteq> []" and "list_all (\<lambda>p. length p \<le> 1600) packets"
    and "unat (of_nat (length packets) :: u32) = length packets"
  shows "\<exists>f. frames_sent s t = [f] \<and> length packets \<le> unat (h_tx_credit s ch) \<and>
    h_tx_credit t = (h_tx_credit s)(ch := h_tx_credit s ch - of_nat (length packets)) \<and>
    (\<forall>c. length f \<le> unat (ccfg_max_frame_size (c_config c)) \<longrightarrow>
      unat (ccfg_max_frame_size (c_config c)) \<le> WLH_FRAME_MAX_SIZE \<longrightarrow> frame_delivers c f ch packets)"
proof -
  let ?payload = "concat (map (\<lambda>p. record_bytes (1, 0, p)) packets)"
  obtain n where n: "frames_sent s t = [out_frame n ch ?payload]" "of_nat (length packets) \<le> h_tx_credit s ch"
      "h_tx_credit t = (h_tx_credit s)(ch := h_tx_credit s ch - of_nat (length packets))"
    using assms(1) by (rule sends_frame_frames)
  have "frame_delivers c (out_frame n ch ?payload) ch packets"
    if "length (out_frame n ch ?payload) \<le> unat (ccfg_max_frame_size (c_config c))"
      "unat (ccfg_max_frame_size (c_config c)) \<le> WLH_FRAME_MAX_SIZE" for c
  proof (rule process_packets_frame [OF _ out_frame_header(1) assms(2-4)])
    show "frame_decode_buf (unat (ccfg_max_frame_size (c_config c))) (out_frame n ch ?payload) =
        (WLH_WIRE_OK, parse_header (out_frame n ch ?payload), ?payload)"
      using that unfolding out_frame_def by (subst frame_decode_bytes) (simp_all add: wire_consts)
  qed
  then show ?thesis
    using n assms(5) by (auto simp: word_le_nat_alt)
qed

lemma ethernet_tx_packets:
  assumes "ethernet_job_ok data" and "list_all job_ok (waiting_jobs s)"
    and "run_state (ethernet_tx_job data) s = (x, t)"
  obtains jobs where "waiting_jobs s = map JOB_ETHERNET_TX jobs @ waiting_jobs t"
    and "list_all ethernet_job_ok (data # jobs)" and "unat (of_nat (length (data # jobs)) :: u32) = length (data # jobs)"
    and "quiet s t \<or> sends_frame (dj_channel data) (concat (map (\<lambda>p. record_bytes (1, 0, p))
      (map ethernet_packet (data # jobs)))) (of_nat (length (data # jobs))) s t"
proof -
  let ?limit = "unat (cfg_ethernet_tx_aggregation_limit (h_config s))"
  from ethernet_tx_effect [of data s] assms(3) obtain data' units m k
    where m: "merged (unat (cfg_max_frame_size (h_config s)) - WLH_FRAME_HEADER_SIZE) ?limit data 1 s
        data' units m k" "waiting_jobs t = waiting_jobs m"
      and sent: "quiet s t \<or> sends_frame (dj_channel data) (dj_data data') units s t"
    by (auto simp: wp_def)
  have "?limit \<le> 255"
    using unat_u8_less [of "cfg_ethernet_tx_aggregation_limit (h_config s)"] by linarith
  then obtain jobs where jobs: "waiting_jobs s = map JOB_ETHERNET_TX jobs @ waiting_jobs t"
      "dj_data data' = concat (map (\<lambda>p. record_bytes (1, 0, p)) (map ethernet_packet (data # jobs)))"
      "list_all ethernet_job_ok (data # jobs)" "unat units = length (data # jobs)"
    using merged_packets [OF m(1) _ assms(1,2)] m(2) by metis
  have "units = of_nat (unat units)"
    by (simp add: of_nat_unat)
  then have units: "units = of_nat (length (data # jobs))"
    by (simp only: jobs(4))
  show ?thesis
    by (rule that [OF jobs(1,3)]) (use sent jobs(2,4) units in \<open>simp_all only:\<close>)
qed


section \<open>A concrete run\<close>

text \<open>A host that has negotiated with \<open>demo_peer\<close> and has two packets of the application waiting:
  initialised and started, the worker started, the transport started, the Hello sent and its answer
  received, each by a step of the system.\<close>

definition flow_pb :: pb_codec where
  "flow_pb = demo_pb\<lparr>pb_dec_hello_response := (\<lambda>_. Some demo_response)\<rparr>"

definition flow_boot :: system where
  "flow_boot = \<lparr>sys_host = (zero_host demo_cfg flow_pb)\<lparr>h_next_request_id := 1\<rparr>,
    sys_frames = [], sys_tasks = [], sys_worker = Worker_new, sys_accepted = []\<rparr>"

definition flow_answer :: data_job where
  "flow_answer = \<lparr>dj_channel = 0, dj_capacity = 40, dj_data = hello_answer demo_hello 0 []\<rparr>"

definition flow_started :: system where
  "flow_started = run_core (transport_start_complete 0)
    ((run_core worker_start (run_core wlh_host_start flow_boot))\<lparr>sys_worker := Worker_running\<rparr>)"

definition flow_answered :: system where
  "flow_answered = run_core (wlh_host_on_frame (dj_data flow_answer)) (run_core worker_turn flow_started)"

definition flow_system :: system where
  "flow_system = run_core (wlh_host_ethernet_sta_send (Some [8, 9]))
    (run_core (wlh_host_ethernet_sta_send (Some [7])) (run_core worker_turn flow_answered))"

definition flow_job :: "u8 list \<Rightarrow> data_job" where
  "flow_job p = \<lparr>dj_channel = WLH_CHANNEL_ETHERNET_STA, dj_capacity = 8 + length p,
    dj_data = record_bytes (1, 0, p)\<rparr>"

definition at_rest :: "host_state \<Rightarrow> host_job list \<Rightarrow> host \<Rightarrow> bool" where
  "at_rest st jobs s \<longleftrightarrow> h_config s = demo_cfg \<and> h_pb s = flow_pb \<and> h_worker_started s \<and>
    \<not> h_worker_stopping s \<and> h_core_queue s = jobs \<and> h_deferred_job s = None \<and>
    h_pending s = (\<lambda>_. zero_pending) \<and> h_ethernet_rx_pending_credit s = (\<lambda>_. 0) \<and>
    h_ethernet_tx_slots s + length (filter is_ethernet_job jobs) = 4 \<and>
    h_ethernet_tx_queued s = (\<lambda>_. 0)(0 := of_nat (length (filter is_ethernet_job jobs))) \<and> h_state s = st"

lemma rest_set_state:
  "at_rest st jobs s \<Longrightarrow> h_session_id s = 0 \<Longrightarrow> (\<And>t. at_rest st' jobs t \<Longrightarrow> h_session_id t = 0 \<Longrightarrow>
      h_next_request_id t = h_next_request_id s \<Longrightarrow> Q () t) \<Longrightarrow>
    wp (set_state st') Q s"
  by (rule set_state_wp) (auto simp: reporting_def at_rest_def)

lemma for_each_skip: "(\<And>i. i \<in> set is \<Longrightarrow> run_state (f i) s = ((), s)) \<Longrightarrow> run_state (for_each is f) s = ((), s)"
  by (induction "is") (auto simp: State_Monad.return_def)

lemma rest_turn:
  assumes "at_rest st (job # jobs) s"
  shows "wp turn_job (\<lambda>taken t. taken = Some job \<and> (is_ethernet_job job \<or> at_rest st jobs t) \<and>
    h_next_request_id t = h_next_request_id s \<and> h_session_id t = h_session_id s) s"
proof -
  have skip: "run_state (expire_pending now i) t = ((), t)" if "h_pending t = (\<lambda>_. zero_pending)" for now i t
    using that by (simp add: expire_pending_def gets_def zero_pending_def)
  have skips: "wp (for_each [0..<WLH_HOST_MAX_PENDING] (expire_pending now)) Q t = Q () t"
    if "h_pending t = (\<lambda>_. zero_pending)" for now Q t
    using for_each_skip [of "[0..<WLH_HOST_MAX_PENDING]" "expire_pending now" t] skip [OF that] by (simp add: wp_def)
  have timeout: "cfg_heartbeat_timeout_ms demo_cfg = 0"
    by (simp add: demo_cfg_def demo_config_def)
  show ?thesis
    using assms
    by (auto simp: turn_job_def process_deadlines_def flush_ethernet_rx_credits_def ethernet_channels_def
        next_wait_ms_def take_job_def queue_receive_def wp_simps Let_def skips timeout at_rest_def
        intro!: wp_now_ms)
qed

lemma wp_bind_all: "wp (State_Monad.bind m f) Q = wp m (\<lambda>a. wp (f a) Q)"
  by (rule ext) (simp add: wp_simps)

lemma worker_turn_wp:
  "wp turn_job (\<lambda>job. wp (case job of None \<Rightarrow> ret () | Some job \<Rightarrow> run_job job) (\<lambda>_. Q)) s \<Longrightarrow>
    wp worker_turn (\<lambda>_. Q) s"
  by (simp add: worker_turn_def turn_job_def wp_bind_all wp_return_all)

lemma rest_send:
  assumes "at_rest st jobs s" "h_session_id s = 0" "length p \<le> 100"
  shows "wp (send_payload_frame_units ch p True 1)
    (\<lambda>r t. r = WLH_HOST_OK \<and> at_rest st jobs t \<and> h_session_id t = 0) s"
proof -
  have "frame_encode_buf (24 + length p) ((wlh_frame_header_init ch)\<lparr>fh_session_id := 0, fh_sequence := q\<rparr>) p =
      (WLH_WIRE_OK, frame_bytes ((wlh_frame_header_init ch)\<lparr>fh_session_id := 0, fh_sequence := q\<rparr>) p)" for q ch
    using assms(3) by (simp add: frame_encode_buf_eq header_valid_def wlh_frame_header_init_def wire_consts)
  then show ?thesis
    using assms
    by (simp add: send_payload_frame_units_def wp_simps Let_def buf_alloc_def submit_tx_def at_rest_def
        demo_answers WLH_FRAME_HEADER_SIZE_def)
qed

lemma rest_hello:
  assumes "at_rest STATE_NEGOTIATING jobs s" "h_session_id s = 0" "rid \<noteq> 0"
  shows "wp (send_rpc_message (empty_envelope\<lparr>re_service_id := WLH_SERVICE_LINK,
      re_method_id := WLH_LINK_METHOD_HELLO, re_request_id := rid, re_kind := WLH_RPC_KIND_REQUEST\<rparr>) msg True)
    (\<lambda>r t. r = WLH_HOST_OK \<and> at_rest STATE_NEGOTIATING jobs t \<and> h_session_id t = 0) s"
proof -
  let ?e = "empty_envelope\<lparr>re_service_id := WLH_SERVICE_LINK, re_method_id := WLH_LINK_METHOD_HELLO,
    re_request_id := rid, re_kind := WLH_RPC_KIND_REQUEST\<rparr>"
  have encoded: "rpc_encode_buf (16 + 0) ?e [] = (WLH_WIRE_OK, rpc_bytes ?e [])"
    using assms(3) by (simp add: rpc_encode_buf_eq envelope_valid_def empty_envelope_def id_consts wire_consts)
  have short: "length (rpc_bytes ?e []) \<le> 100"
    by (simp add: rpc_bytes_def envelope_bytes_def)
  have traced: "at_rest st jobs (t\<lparr>trace := e # tr\<rparr>) = at_rest st jobs t" for st jobs t e tr
    by (simp add: at_rest_def)
  show ?thesis
    using assms(1,2)
    by (auto simp: send_rpc_message_def send_rpc_def send_payload_frame_def wp_simps Let_def encoded [simplified]
        buf_alloc_def at_rest_def [of _ _ s] demo_answers flow_pb_def demo_pb_def WLH_RPC_ENVELOPE_SIZE_def
        WLH_HOST_PROTOBUF_LIMIT_def traced assms intro!: wp_call [OF rest_send [OF _ _ short]])
qed

lemma rest_started_job:
  assumes "at_rest st jobs s" "h_session_id s = 0" "h_next_request_id s = 1" "st \<noteq> STATE_STOPPING"
  shows "wp (run_job JOB_TRANSPORT_STARTED) (\<lambda>_ t. at_rest STATE_NEGOTIATING jobs t \<and> h_session_id t = 0) s"
proof -
  have traced: "at_rest st jobs (t\<lparr>trace := tr\<rparr>) = at_rest st jobs t"
    "at_rest st jobs (t\<lparr>h_started_ms := n\<rparr>) = at_rest st jobs t"
    "at_rest st jobs (t\<lparr>h_next_request_id := rid\<rparr>) = at_rest st jobs t" for st jobs t tr n rid
    by (simp_all add: at_rest_def)
  have facts: "h_state t = st" "cfg_alloc (h_config t) = Some (\<lambda>_. True)" if "at_rest st jobs t" for st t
    using that by (simp_all add: at_rest_def demo_answers)
  have hello: "wp send_hello (\<lambda>r t. r = WLH_HOST_OK \<and> at_rest STATE_NEGOTIATING jobs t \<and> h_session_id t = 0) t"
    if "at_rest st jobs t" "h_session_id t = 0" "h_next_request_id t = 1" for st t
    using that facts [OF that(1)]
    by (simp add: send_hello_def next_request_id_def buf_alloc_def wp_simps Let_def)
      (rule rest_set_state, auto simp: traced wp_bind_all wp_return_all wp_simps intro!: wp_call [OF rest_hello])
  show ?thesis
    using assms facts [OF assms(1)]
    by (simp add: run_job_def transport_started_job_def wp_simps wp_bind_all)
      (rule wp_now_ms, simp add: wp_simps, rule rest_set_state,
        auto simp: traced wp_bind_all wp_simps intro!: wp_call [OF hello])
qed

lemma rest_on_frame:
  assumes "at_rest st [] s" "length f = 40"
  shows "wp (wlh_host_on_frame f) (\<lambda>_ t. at_rest st [JOB_RX_FRAME \<lparr>dj_channel = 0, dj_capacity = 40, dj_data = f\<rparr>] t \<and>
    h_session_id t = h_session_id s) s"
  using assms
  by (simp add: wlh_host_on_frame_def buf_alloc_def enqueue_job_def queue_send_def wp_simps Let_def at_rest_def
      demo_answers wire_consts)

lemma rest_start_complete:
  assumes "at_rest st [] s"
  shows "wp (transport_start_complete 0) (\<lambda>_ t. at_rest st [JOB_TRANSPORT_STARTED] t \<and>
    h_session_id t = h_session_id s \<and> h_next_request_id t = h_next_request_id s) s"
  using assms
  by (simp add: transport_start_complete_def enqueue_job_def queue_send_def wp_simps at_rest_def demo_answers)

lemma rest_answer_job:
  assumes "at_rest STATE_NEGOTIATING jobs s" "h_session_id s = 0"
  shows "wp (run_job (JOB_RX_FRAME flow_answer))
    (\<lambda>_ t. at_rest STATE_READY jobs t \<and> h_tx_credit t = hello_credits demo_response) s"
proof -
  have answer: "length (hello_answer demo_hello 0 []) = 40" "hello_acceptable demo_response"
    by (simp_all add: length_hello_answer hello_acceptable_def demo_response_def hello_response_of_def demo_core_def
        demo_ccfg_def zero_coproc_def wire_consts)
  have "wp (process_frame (hello_answer demo_hello 0 [])) (hello_outcome demo_response s) s"
    by (rule host_hello_frame)
      (use assms answer in \<open>simp_all add: at_rest_def flow_pb_def demo_answers demo_hello_def\<close>)
  then show ?thesis
    unfolding run_job_def flow_answer_def
    by (simp add: wp_bind_all) (erule wp_call, use assms(1) in \<open>auto simp: wp_simps hello_outcome_def at_rest_def
      demo_answers host_accepted_def others_kept_def\<close>)
qed

lemma rest_ethernet_send:
  assumes "at_rest STATE_READY jobs s" "h_tx_credit s = hello_credits demo_response"
    and "length jobs \<le> 2" "list_all is_ethernet_job jobs" "p \<noteq> []" "length p \<le> 1600"
  shows "wp (wlh_host_ethernet_sta_send (Some p)) (\<lambda>_ t. at_rest STATE_READY (jobs @ [JOB_ETHERNET_TX (flow_job p)]) t \<and>
    h_tx_credit t = hello_credits demo_response) s"
proof -
  have filter: "filter is_ethernet_job jobs = jobs"
    using assms(4) by (simp add: list_all_iff)
  have count: "length jobs = 0 \<or> length jobs = 1 \<or> length jobs = 2"
    using assms(3) by linarith
  have credit: "\<not> hello_credits demo_response WLH_CHANNEL_ETHERNET_STA \<le> of_nat (length jobs)"
    using count by (auto simp: demo_response_def hello_credits_own hello_own_credit_def demo_core_def demo_ccfg_def
        zero_coproc_def id_consts word_le_nat_alt)
  have index: "ethernet_channel_index WLH_CHANNEL_ETHERNET_STA = 0"
    by (simp add: ethernet_channel_index_def id_consts)
  show ?thesis
    using assms credit index
    by (simp add: wlh_host_ethernet_sta_send_def ethernet_send_def semaphore_take_def buf_alloc_def enqueue_job_def
        queue_send_def record_encode_buf_eq mutex_lock_timeout_def wp_simps Let_def at_rest_def demo_answers demo_osal_def
        flow_job_def filter add.commute [of _ "1 :: u32"])
qed

lemma rest_start:
  "wp wlh_host_start (\<lambda>r t. r = WLH_HOST_OK \<and> at_rest STATE_UNINITIALIZED [] t \<and> h_session_id t = 0 \<and>
    h_next_request_id t = 1) (sys_host flow_boot)"
  by (simp add: flow_boot_def zero_host_def wlh_host_start_def osal_call_def wp_simps Let_def at_rest_def
      demo_answers demo_osal_def fun_eq_iff)

lemma rest_worker_start:
  assumes "at_rest STATE_UNINITIALIZED [] s" "h_session_id s = 0"
  shows "wp worker_start (\<lambda>_ t. at_rest STATE_TRANSPORT_STARTING [] t \<and> h_session_id t = 0 \<and>
    h_next_request_id t = h_next_request_id s) s"
  unfolding worker_start_def request_transport_start_def wp_bind
  by (rule rest_set_state [OF assms])
    (simp add: transport_start_def wp_simps at_rest_def demo_cfg_def demo_config_def Let_def)

text \<open>Each step of the run, from the state the one before leaves.\<close>

lemma run_core_wp: "wp m (\<lambda>_. P) (sys_host sys) \<Longrightarrow> P (sys_host (run_core m sys))"
  by (simp add: run_core_host wp_snd)

lemma rest_worker_turn:
  assumes "at_rest st (job # jobs) s" and "\<not> is_ethernet_job job"
    and "\<And>t. at_rest st jobs t \<Longrightarrow> h_session_id t = h_session_id s \<Longrightarrow> h_next_request_id t = h_next_request_id s \<Longrightarrow>
      wp (run_job job) (\<lambda>_. Q) t"
  shows "wp worker_turn (\<lambda>_. Q) s"
  by (rule worker_turn_wp, rule wp_call [OF rest_turn [OF assms(1)]]) (use assms(2,3) in auto)

lemma flow_rest:
  "at_rest STATE_TRANSPORT_STARTING [JOB_TRANSPORT_STARTED] (sys_host flow_started)"
  "at_rest STATE_NEGOTIATING [] (sys_host (run_core worker_turn flow_started))"
  "at_rest STATE_NEGOTIATING [JOB_RX_FRAME flow_answer] (sys_host flow_answered)"
  "at_rest STATE_READY [] (sys_host (run_core worker_turn flow_answered))"
  "at_rest STATE_READY [JOB_ETHERNET_TX (flow_job [7]), JOB_ETHERNET_TX (flow_job [8, 9])] (sys_host flow_system)"
proof -
  have "at_rest STATE_UNINITIALIZED [] (sys_host (run_core wlh_host_start flow_boot)) \<and>
      h_session_id (sys_host (run_core wlh_host_start flow_boot)) = 0 \<and>
      h_next_request_id (sys_host (run_core wlh_host_start flow_boot)) = 1"
    by (rule run_core_wp) (rule wp_call [OF rest_start], simp)
  then have "wp worker_start (\<lambda>_ t. at_rest STATE_TRANSPORT_STARTING [] t \<and> h_session_id t = 0 \<and> h_next_request_id t = 1)
      (sys_host (run_core wlh_host_start flow_boot))"
    by (intro wp_call [OF rest_worker_start]) auto
  note start = run_core_wp [OF this]
  have s1: "at_rest STATE_TRANSPORT_STARTING [JOB_TRANSPORT_STARTED] (sys_host flow_started) \<and>
      h_session_id (sys_host flow_started) = 0 \<and> h_next_request_id (sys_host flow_started) = 1"
    unfolding flow_started_def by (rule run_core_wp, rule wp_call [OF rest_start_complete]) (use start in auto)
  then show "at_rest STATE_TRANSPORT_STARTING [JOB_TRANSPORT_STARTED] (sys_host flow_started)" by simp
  have s2: "at_rest STATE_NEGOTIATING [] (sys_host (run_core worker_turn flow_started)) \<and>
      h_session_id (sys_host (run_core worker_turn flow_started)) = 0"
    by (rule run_core_wp, rule rest_worker_turn [OF conjunct1 [OF s1]], simp, rule rest_started_job)
      (use s1 in auto)
  then show "at_rest STATE_NEGOTIATING [] (sys_host (run_core worker_turn flow_started))" by simp
  have s3: "at_rest STATE_NEGOTIATING [JOB_RX_FRAME flow_answer] (sys_host flow_answered) \<and>
      h_session_id (sys_host flow_answered) = 0"
    unfolding flow_answered_def
    by (rule run_core_wp, rule wp_call [OF rest_on_frame [OF conjunct1 [OF s2]]])
      (use s2 in \<open>auto simp: flow_answer_def length_hello_answer\<close>)
  then show "at_rest STATE_NEGOTIATING [JOB_RX_FRAME flow_answer] (sys_host flow_answered)" by simp
  have s4: "at_rest STATE_READY [] (sys_host (run_core worker_turn flow_answered)) \<and>
      h_tx_credit (sys_host (run_core worker_turn flow_answered)) = hello_credits demo_response"
    by (rule run_core_wp, rule rest_worker_turn [OF conjunct1 [OF s3]], simp, rule rest_answer_job)
      (use s3 in auto)
  then show "at_rest STATE_READY [] (sys_host (run_core worker_turn flow_answered))" by simp
  have s5: "at_rest STATE_READY [JOB_ETHERNET_TX (flow_job [7])] (sys_host (run_core (wlh_host_ethernet_sta_send (Some [7]))
        (run_core worker_turn flow_answered))) \<and>
      h_tx_credit (sys_host (run_core (wlh_host_ethernet_sta_send (Some [7]))
        (run_core worker_turn flow_answered))) = hello_credits demo_response"
    by (rule run_core_wp, rule wp_call [OF rest_ethernet_send]) (use s4 in auto)
  have "at_rest STATE_READY [JOB_ETHERNET_TX (flow_job [7]), JOB_ETHERNET_TX (flow_job [8, 9])] (sys_host flow_system) \<and>
      h_tx_credit (sys_host flow_system) = hello_credits demo_response"
    unfolding flow_system_def
    by (rule run_core_wp, rule wp_call [OF rest_ethernet_send [OF conjunct1 [OF s5] conjunct2 [OF s5]]]) auto
  then show "at_rest STATE_READY [JOB_ETHERNET_TX (flow_job [7]), JOB_ETHERNET_TX (flow_job [8, 9])]
      (sys_host flow_system)" by simp
qed

lemma flow_reachable: "reachable_system flow_system"
proof -
  have init: "wlh_host_init (zero_host demo_config flow_pb) (Some demo_config) =
      (WLH_HOST_OK, (zero_host demo_cfg flow_pb)\<lparr>h_next_request_id := 1\<rparr>)"
    by (simp add: wlh_host_init_def demo_cfg_def demo_config_def demo_osal_def wlh_osal_ops_valid_def wire_consts
        WLH_HOST_MAX_PENDING_def WLH_HOST_MAX_QUEUE_DEPTH_def zero_host_def)
  have "wp wlh_host_start (\<lambda>r _. r = WLH_HOST_OK) (sys_host flow_boot)"
    by (rule wp_call [OF rest_start]) simp
  then have "host_initial (run_core wlh_host_start flow_boot)"
    by (intro host_initial.intros [OF init]) (simp_all add: flow_boot_def core_result_def wp_fst)
  then have r0: "reachable_system (run_core wlh_host_start flow_boot)"
    unfolding reachable_system_def by (rule reach_init)
  have more: "reachable_system sys \<Longrightarrow> host_step sys sys' \<Longrightarrow> reachable_system sys'" for sys sys'
    unfolding reachable_system_def by (rule reach_step)
  have turn: "reachable_system sys \<Longrightarrow> sys_worker sys = Worker_running \<Longrightarrow> at_rest st jobs (sys_host sys) \<Longrightarrow>
      reachable_system (run_core worker_turn sys)" for sys st jobs
    by (rule more, assumption, rule step_worker_turn) (simp_all add: at_rest_def)
  have call: "reachable_system sys \<Longrightarrow> host_call m None \<Longrightarrow> reachable_system (run_core m sys)" for sys m
    using more [OF _ step_call [of m None sys]] by (simp add: run_core_def Let_def)
  have worker: "sys_worker flow_started = Worker_running" "sys_worker flow_answered = Worker_running"
    by (simp_all add: flow_started_def flow_answered_def)
  have "reachable_system flow_started"
    unfolding flow_started_def
    by (rule more [OF more [OF r0 step_worker_start] step_start_complete]) (simp add: flow_boot_def)
  then have "reachable_system flow_answered"
    unfolding flow_answered_def by (intro call host_call.intros turn [OF _ worker(1) flow_rest(1)])
  then show ?thesis
    unfolding flow_system_def by (intro call host_call.intros turn [OF _ worker(2) flow_rest(3)])
qed


end
