(* ===== verification/Spec2Isabelle.thy ===== *)
theory Spec2Isabelle
  imports Host_Requests Coproc_Kv_Spec Posix_Lifecycle Rtos_Lifecycle Ethernet_Flow
begin

text \<open>
  Verification development for the WL-hosted core, the C99 implementation of a protocol by which a
  host processor uses the radios, the storage and the peripherals of a coprocessor over one
  frame transport. The theories model the code under protocol, host-core, coproc-core and common/osal;
  the paths below are relative to src.

  \<^bold>\<open>The program.\<close> Two state machines face each other. The host core (host-core/src, API in
  include/wlh/host.h) turns calls of an application into frames and frames into callbacks; the coprocessor
  core (coproc-core/src, include/wlh/coproc.h) turns frames into calls of backends and their answers into
  frames. Both run one worker task that takes jobs from a queue; calls of other tasks only
  append jobs, or touch a few fields under the state mutex. The host opens a session with a Hello; its answer
  carries a session number and a credit per channel, each data frame costs credit, and the receiver returns
  it. Both use the codecs of protocol/src (frame, RPC envelope, raw record) and the OS layer of
  common/osal, of which there are three implementations.

  \<^bold>\<open>Vocabulary\<close> (Prelude, Core_Monad, Memory). Machine integers are words of their width; a pointer is an
  address or None; C functions on memory take and return it. Stateful code is written in the state monad,
  read through weakest preconditions (wp). Two locales carry all invariants: state_rel (a
  preorder that every operation keeps) with its extensions core_relation, core_ops (host) and
  coproc_base, ota_free, bluetooth_free, coproc_core (coprocessor), and step_invariant (what holds at the start and
  is kept by every step holds of the reachable states). Errors are result datatypes with the
  constructors of the C enumerations.

  \<^bold>\<open>The environment.\<close> A function pointer of a configuration is a field that gives its answer as a function
  of the position of the call in the run, and every call leaves an entry in the trace of the state
  (newest first). Theorems hold for all such fields, so the environment is arbitrary: allocations may
  fail, transports refuse, clocks jump. The generated protobuf code is a record of functions (pb_codec, coproc_pb)
  for the messages each core encodes and decodes; where a property needs that decoding inverts encoding,
  this is its hypothesis. The backend's deferred completion is a call of another task, not a re-entry.

  \<^bold>\<open>Codecs.\<close> Endian, Checksum, Frame_Codec, Rpc_Codec (protocol/src/wire.c), Raw_Record
  (protocol/src/raw_record.c), Ids (include/wlh/protocol/ids.h), Buffers (the calls with buffers of
  their own). Proved: every branch of each encoder; a decoder succeeds exactly on encodings of valid
  headers within the negotiated size; round trips; the checksum loops against their definitions;
  a changed byte is noticed; outputs depend on the given span only; the record iterator against sequences of
  records. The iterator's loop is a recursive function whose measure is the rest of the payload.

  \<^bold>\<open>Host core.\<close> Messages and Host_Types (data and configuration of host.h and host_internal.h, environment);
  Host_Dispatch (host.c: events, completions); Host_Wire (host_wire.c); Host_Link (host_link.c);
  Host_Rpc (host_rpc.c); Host_Streams (receive side of host_bluetooth.c, host_ota.c);
  Host_Frame (host_frame.c); Host_Worker (host.c: worker, aggregation, start, stop); Host_Clients
  (host_ethernet.c, host_bluetooth.c, host_ota.c, host_wifi.c and the other service clients). One turn of
  the worker loop is worker_turn; the whole program is the step relation host_step of Host_System: calls of
  the application, turns of the worker, completions of the transport, tasks of the executor. Proved in
  Host_Logic, Host_Scope, Host_Ledger, Host_Trace, Host_System: no buffer is lost or freed twice and every
  accepted request is completed once, both instances of one double-entry ledger. Host_Slots: the
  admission slots are conserved and waiting Ethernet jobs are single records. Host_Sending:
  sending on every branch, sequence numbers without gap, frames that decode. Host_Shape: which configurations are
  accepted, and what stays well-formed. Host_Requests: the pending table, deadlines, the worker's wait.
  Host_Aggregation: which jobs share a frame. Host_Stop: a stop is served after as many turns as jobs wait
  before it.

  \<^bold>\<open>Coprocessor core.\<close> Coproc_Types, Coproc_Messages, Coproc_State (coproc.h, coproc_internal.h); Coproc_Wire
  (coproc_wire.c); Coproc_Ethernet (coproc_ethernet.c and the credit part of coproc_frame.c); Coproc_Ota,
  Coproc_Bluetooth, Coproc_Wifi, Coproc_Kv, Coproc_Services (the services); Coproc_Link (coproc_link.c);
  Coproc_Frame (coproc_rpc.c, coproc_frame.c); Coproc_Worker (coproc.c). The step relation is in
  Coproc_System. Proved in Coproc_Logic, Coproc_Relations, Coproc_Ledger, Coproc_System: no buffer
  is lost. Coproc_Ota_Spec: the firmware service refines an abstract update machine, whose image is a contiguous
  prefix of the announced size. Coproc_Sending, Coproc_Session: sending on every branch and the
  answer to a Hello. Coproc_Utf8, Coproc_Kv_Spec: the string check against the encoding's
  definition, and what the store is asked.

  \<^bold>\<open>Both together.\<close> Handshake: the answer to a Hello, delivered to a negotiating host, leaves both ends in the
  same session with the same credits. Ethernet_Flow: in every reachable state of the host, packets given
  to it reach the coprocessor's backend whole and in order, and the credit spent is what is returned or
  held back. The transport in between is only that the frame arrives.

  \<^bold>\<open>OS layer.\<close> Osal (osal.h). POSIX (posix_osal.c): Posix_Monitor is the discipline its objects follow - lock within
  the timeout, test, sleep, act, wake - as a locale over the object's test and action, with any number of
  threads interleaved call by call; the region between taking the mutex and giving it back is one step.
  Posix_Objects instantiates it for semaphores, events and queues (FIFO refinement, no lost wakeup),
  Posix_Calls bounds a single call in time, Posix_Lifecycle models creation, destruction, tasks and the timer
  thread. FreeRTOS and RT-Thread (freertos_osal.c, rtt_osal.c): the kernel's answers are inputs,
  kernel_object in Rtos_Kernel is the contract of an object that is created and destroyed;
  Freertos_Osal and Rtt_Osal are the code, Rtos_Lifecycle its properties.

  \<^bold>\<open>Bounds and fuel.\<close> The host's aggregation loop has as fuel the configured limit (its counter rises by one in each
  turn and the loop stops at the limit), the coprocessor's the length of the queue (each turn takes a
  job). The retry loop of a FreeRTOS timer's barrier takes fuel, and the property is about the runs that
  return: the code itself retries for ever while the timer queue is full. A waiting loop of
  the POSIX layer is a sequence of steps; that a timed call returns by its deadline is a theorem. All other
  loops are structural or have a measure.

  \<^bold>\<open>Assumptions of the model.\<close> A region under a mutex is atomic, and so is a worker turn: between
  two turns any calls of other tasks may happen, within one none; the calls a turn makes to the
  environment do not call back into the core before they return. A blocking queue operation with
  infinite timeout is a step that is taken only when it can be. Memory is modelled for the codecs; above them
  a buffer is its list of bytes, and its ownership is counted in the trace.

  \<^bold>\<open>Not modelled.\<close> The log back ends under common/log are output only, and log calls are left out. The protobuf
  schema, its generated code and nanopb are inputs. Tests, the simulator transport and the build files are not
  the program. Of the POSIX layer the branch for Apple's missing monotonic condition clock, sleep,
  yield and the table of function pointers; of the RTOS layers the wrappers that only pass a call on from an
  interrupt. The kernels and pthreads are inputs.
\<close>

end
